(* ===== verification/Prelude.thy ===== *)
theory Prelude
  imports Main "HOL-Library.Char_ord" "HOL-Library.List_Lexorder"
begin

text \<open>
  Shared vocabulary of the development: the errors the operator can return, the outcome of
  a Go function that returns \<open>(T, error)\<close> or panics, sequencing of such functions,
  pointers as options, and the generic list lemmas the component theories use.
\<close>

section \<open>Errors and outcomes\<close>

text \<open>
  The error values of the source.  The first four are the API server's (only the first one
  satisfies \<open>k8serrors.IsNotFound\<close>); the others are built by the operator itself or by
  the standard library functions it calls.
\<close>

datatype error =
    NotFound
  | AlreadyExists
  | Conflict
  | ApiError string
  | InterfaceNotFound string
  | ParseCIDRError string
  | MissingGateway string
  | NoN6Interfaces
  | IndexOutOfRange nat
  | TemplateError
  | JsonError
  | OwnerReferenceError

definition IsNotFound :: "error \<Rightarrow> bool" where
  "IsNotFound err \<longleftrightarrow> err = NotFound"

text \<open>The run-time panics the source can raise.\<close>

datatype panic = NilDereference | NilMapWrite

text \<open>
  A Go function with result type \<open>(T, error)\<close>: it returns a value and a nil error, it
  returns an error (the value is then the zero value and no caller reads it), or it panics.
\<close>

datatype 'a go = Ret 'a | Err error | Panic panic

text \<open>
  \<open>x, err := f(); if err != nil { return ..., err }\<close> followed by the rest: errors and
  panics of the first part end the function.
\<close>

fun bind_go :: "'a go \<Rightarrow> ('a \<Rightarrow> 'b go) \<Rightarrow> 'b go" where
  "bind_go (Ret x) f = f x"
| "bind_go (Err e) f = Err e"
| "bind_go (Panic p) f = Panic p"

text \<open>Reading through a pointer: a nil pointer panics.\<close>

fun deref :: "'a option \<Rightarrow> 'a go" where
  "deref None = Panic NilDereference"
| "deref (Some x) = Ret x"

text \<open>A call whose result may be an error value but never a panic (the client's calls).\<close>

fun of_sum :: "error + 'a \<Rightarrow> 'a go" where
  "of_sum (Inl e) = Err e"
| "of_sum (Inr x) = Ret x"

named_theorems go_inv \<open>inversions of successful, failed and panicking Go calls\<close>

lemma bind_go_eq_Ret [go_inv]: "bind_go m f = Ret y \<longleftrightarrow> (\<exists>x. m = Ret x \<and> f x = Ret y)"
  by (cases m) auto

lemma bind_go_eq_Err [go_inv]:
  "bind_go m f = Err e \<longleftrightarrow> m = Err e \<or> (\<exists>x. m = Ret x \<and> f x = Err e)"
  by (cases m) auto

lemma bind_go_eq_Panic [go_inv]:
  "bind_go m f = Panic p \<longleftrightarrow> m = Panic p \<or> (\<exists>x. m = Ret x \<and> f x = Panic p)"
  by (cases m) auto

lemma deref_eq_Ret [go_inv]: "deref p = Ret x \<longleftrightarrow> p = Some x"
  by (cases p) auto

lemma deref_neq_Err [go_inv]: "deref p = Err e \<longleftrightarrow> False"
  by (cases p) auto

lemma deref_eq_Panic [go_inv]: "deref p = Panic k \<longleftrightarrow> p = None \<and> k = NilDereference"
  by (cases p) auto

lemma bind_go_Ret_right [simp]: "bind_go m Ret = m"
  by (cases m) auto

lemma bind_go_assoc: "bind_go (bind_go m f) g = bind_go m (\<lambda>x. bind_go (f x) g)"
  by (cases m) auto

section \<open>Loops that stop at the first error\<close>

text \<open>A \<open>for\<close> loop that calls a fallible body on each element and collects the results.\<close>

fun map_go :: "('a \<Rightarrow> 'b go) \<Rightarrow> 'a list \<Rightarrow> 'b list go" where
  "map_go f [] = Ret []"
| "map_go f (x # xs) = bind_go (f x) (\<lambda>y. bind_go (map_go f xs) (\<lambda>ys. Ret (y # ys)))"

lemma map_go_eq_Ret: "map_go f xs = Ret ys \<longleftrightarrow> list_all2 (\<lambda>x y. f x = Ret y) xs ys"
proof (induction xs arbitrary: ys)
  case Nil
  then show ?case by auto
next
  case (Cons x xs)
  then show ?case by (cases ys) (auto simp: go_inv)
qed

lemma map_go_Ret [simp]: "(\<And>x. x \<in> set xs \<Longrightarrow> f x = Ret (g x)) \<Longrightarrow> map_go f xs = Ret (map g xs)"
  by (induction xs) auto

lemma map_go_cong [fundef_cong]:
  "xs = ys \<Longrightarrow> (\<And>x. x \<in> set ys \<Longrightarrow> f x = g x) \<Longrightarrow> map_go f xs = map_go g ys"
proof (induction xs arbitrary: ys)
  case Nil
  then show ?case by auto
next
  case (Cons x xs)
  then show ?case by auto
qed

lemma map_go_Ret_iff: "(\<exists>ys. map_go f xs = Ret ys) \<longleftrightarrow> (\<forall>x\<in>set xs. \<exists>y. f x = Ret y)"
  by (induction xs) (auto simp: go_inv)

lemma map_go_Err: "map_go f xs = Err e \<Longrightarrow> \<exists>x\<in>set xs. f x = Err e"
  by (induction xs) (auto simp: go_inv)

lemma map_go_Panic: "map_go f xs = Panic p \<Longrightarrow> \<exists>x\<in>set xs. f x = Panic p"
  by (induction xs) (auto simp: go_inv)

section \<open>Lists\<close>

lemma sort_perm_unique:
  assumes "distinct xs" and "distinct ys" and "set xs = set ys"
  shows "sort xs = sort (ys :: 'a::linorder list)"
  using assms by (simp add: sorted_distinct_set_unique)

end
