(* ===== verification/GoStrings.thy ===== *)
theory GoStrings
  imports Prelude
begin

text \<open>
  The parts of Go's \<open>strings\<close>, \<open>strconv\<close>, \<open>unicode/utf8\<close> and \<open>sort\<close> the operator uses.
  A Go string is its bytes: a \<open>char list\<close>, one \<open>char\<close> per byte.
\<close>

section \<open>Lines, joining and cutting\<close>

definition nl :: char where
  "nl = CHR 10"

definition dquote :: char where
  "dquote = CHR 34"

definition backslash :: char where
  "backslash = CHR 92"

lemmas char_consts = nl_def dquote_def backslash_def

text \<open>A raw string literal of several lines: each line followed by a newline.\<close>

definition lines :: "string list \<Rightarrow> string" where
  "lines ls = concat (map (\<lambda>l. l @ [nl]) ls)"

text \<open>\<open>strings.Join\<close>.\<close>

fun Join :: "string list \<Rightarrow> string \<Rightarrow> string" where
  "Join [] sep = []"
| "Join [x] sep = x"
| "Join (x # y # ys) sep = x @ sep @ Join (y # ys) sep"

lemma Join_Cons: "Join (x # xs) sep = x @ concat (map (\<lambda>y. sep @ y) xs)"
  by (induction xs arbitrary: x) auto

text \<open>\<open>strings.Cut\<close> at a one-byte separator: \<open>None\<close> when it is not found.\<close>

fun Cut :: "string \<Rightarrow> char \<Rightarrow> (string \<times> string) option" where
  "Cut [] sep = None"
| "Cut (c # cs) sep =
     (if c = sep then Some ([], cs)
      else (case Cut cs sep of None \<Rightarrow> None | Some (a, b) \<Rightarrow> Some (c # a, b)))"

lemma Cut_append [simp]: "sep \<notin> set a \<Longrightarrow> Cut (a @ sep # b) sep = Some (a, b)"
  by (induction a) auto

lemma Cut_Some: "Cut s sep = Some (a, b) \<Longrightarrow> s = a @ sep # b \<and> sep \<notin> set a"
  by (induction s arbitrary: a b) (auto split: if_splits option.splits)

section \<open>Decimal and hexadecimal digits\<close>

definition digit :: "nat \<Rightarrow> char" where
  "digit n = char_of (48 + n)"

definition is_digit :: "char \<Rightarrow> bool" where
  "is_digit c \<longleftrightarrow> 48 \<le> (of_char c :: nat) \<and> (of_char c :: nat) \<le> 57"

definition digit_val :: "char \<Rightarrow> nat" where
  "digit_val c = of_char c - 48"

text \<open>Decimal formatting of an unsigned value (\<open>strconv.Itoa\<close>, \<open>AppendUint\<close>).\<close>

fun itoa :: "nat \<Rightarrow> string" where
  "itoa n = (if n < 10 then [digit n] else itoa (n div 10) @ [digit (n mod 10)])"

declare itoa.simps [simp del]

lemma of_char_digit: "n < 10 \<Longrightarrow> (of_char (digit n) :: nat) = 48 + n"
  by (simp add: digit_def)

lemma is_digit_digit [simp]: "n < 10 \<Longrightarrow> is_digit (digit n)"
  by (simp add: is_digit_def of_char_digit)

lemma digit_val_digit [simp]: "n < 10 \<Longrightarrow> digit_val (digit n) = n"
  by (simp add: digit_val_def of_char_digit)

lemma digit_digit_val [simp]: "is_digit c \<Longrightarrow> digit (digit_val c) = c"
  by (simp add: is_digit_def digit_val_def digit_def)

lemma digit_val_less [simp]: "is_digit c \<Longrightarrow> digit_val c < 10"
  unfolding is_digit_def digit_val_def by arith

lemma is_digit_not_sep:
  "is_digit c \<Longrightarrow> c \<noteq> CHR ''.'' \<and> c \<noteq> CHR '':'' \<and> c \<noteq> CHR ''/'' \<and> c \<noteq> CHR ''%''"
  by (auto simp: is_digit_def)

lemma itoa_digits: "c \<in> set (itoa n) \<Longrightarrow> is_digit c"
proof (induction n rule: itoa.induct)
  case (1 n)
  show ?case
  proof (cases "n < 10")
    case True
    with "1.prems" show ?thesis by (simp add: itoa.simps [of n])
  next
    case False
    with "1.prems" consider "c \<in> set (itoa (n div 10))" | "c = digit (n mod 10)"
      by (auto simp: itoa.simps [of n])
    then show ?thesis using "1.IH" False by cases auto
  qed
qed

lemma itoa_not_Nil [simp]: "itoa n \<noteq> []"
  by (subst itoa.simps) simp

lemma itoa_snoc: "0 < n \<Longrightarrow> d < 10 \<Longrightarrow> itoa (10 * n + d) = itoa n @ [digit d]"
  by (subst itoa.simps) simp

lemma itoa_digit: "d < 10 \<Longrightarrow> itoa d = [digit d]"
  by (subst itoa.simps) simp

definition hexdigit :: "nat \<Rightarrow> char" where
  "hexdigit n = (if n < 10 then char_of (48 + n) else char_of (87 + n))"

definition is_hex :: "char \<Rightarrow> bool" where
  "is_hex c \<longleftrightarrow> (let p = (of_char c :: nat) in
     48 \<le> p \<and> p \<le> 57 \<or> 97 \<le> p \<and> p \<le> 102 \<or> 65 \<le> p \<and> p \<le> 70)"

definition hex_val :: "char \<Rightarrow> nat" where
  "hex_val c = (let p = of_char c in
     if p \<le> 57 then p - 48 else if 97 \<le> p then p - 87 else p - 55)"

text \<open>The lower-case hexadecimal digits of a value below \<open>16 ^ k\<close>, \<open>k\<close> of them.\<close>

fun hex_digits :: "nat \<Rightarrow> nat \<Rightarrow> string" where
  "hex_digits 0 n = []"
| "hex_digits (Suc k) n = hex_digits k (n div 16) @ [hexdigit (n mod 16)]"

section \<open>UTF-8\<close>

definition RuneError :: nat where
  "RuneError = 65533"

definition is_cont :: "nat \<Rightarrow> nat \<Rightarrow> char list \<Rightarrow> nat \<Rightarrow> bool" where
  "is_cont lo hi s i \<longleftrightarrow> i < length s \<and> lo \<le> (of_char (s ! i) :: nat) \<and> (of_char (s ! i) :: nat) \<le> hi"

text \<open>
  \<open>utf8.DecodeRuneInString\<close>: the first rune and its width; \<open>(RuneError, 1)\<close> where the
  bytes are not valid UTF-8.  The ranges of the second byte exclude overlong forms,
  surrogates and values above 10FFFF.
\<close>

definition decodeRune :: "string \<Rightarrow> nat \<times> nat" where
  "decodeRune s =
     (if s = [] then (RuneError, 0)
      else let b = (\<lambda>i. of_char (s ! i) :: nat); p = b 0; cont = is_cont 128 191 s in
        if p < 128 then (p, 1)
        else if 194 \<le> p \<and> p \<le> 223 \<and> cont 1 then ((p mod 32) * 64 + b 1 mod 64, 2)
        else if 224 \<le> p \<and> p \<le> 239
          \<and> is_cont (if p = 224 then 160 else 128) (if p = 237 then 159 else 191) s 1 \<and> cont 2
          then ((p mod 16) * 4096 + (b 1 mod 64) * 64 + b 2 mod 64, 3)
        else if 240 \<le> p \<and> p \<le> 244
          \<and> is_cont (if p = 240 then 144 else 128) (if p = 244 then 143 else 191) s 1 \<and> cont 2 \<and> cont 3
          then ((p mod 8) * 262144 + (b 1 mod 64) * 4096 + (b 2 mod 64) * 64 + b 3 mod 64, 4)
        else (RuneError, 1))"

definition ValidRune :: "nat \<Rightarrow> bool" where
  "ValidRune r \<longleftrightarrow> r < 55296 \<or> 57343 < r \<and> r \<le> 1114111"

text \<open>\<open>utf8.AppendRune\<close>: invalid runes are written as \<open>RuneError\<close>.\<close>

definition encodeRune :: "nat \<Rightarrow> string" where
  "encodeRune r0 = (let r = (if ValidRune r0 then r0 else RuneError) in
     if r < 128 then [char_of r]
     else if r < 2048 then [char_of (192 + r div 64), char_of (128 + r mod 64)]
     else if r < 65536 then
       [char_of (224 + r div 4096), char_of (128 + r div 64 mod 64), char_of (128 + r mod 64)]
     else [char_of (240 + r div 262144), char_of (128 + r div 4096 mod 64),
           char_of (128 + r div 64 mod 64), char_of (128 + r mod 64)])"

section \<open>Quoting\<close>

text \<open>
  \<open>strconv.IsPrint\<close>.  Up to FF it is written out in the library's code; above, it is a
  generated Unicode table, which is the parameter \<open>uprint\<close>.
\<close>

definition IsPrint :: "(nat \<Rightarrow> bool) \<Rightarrow> nat \<Rightarrow> bool" where
  "IsPrint uprint r =
     (if r \<le> 255 then 32 \<le> r \<and> r < 127 \<or> 161 \<le> r \<and> r \<noteq> 173 else uprint r)"

definition escapedRune :: "(nat \<Rightarrow> bool) \<Rightarrow> nat \<Rightarrow> string" where
  "escapedRune uprint r =
     (if r = 34 \<or> r = 92 then [backslash, char_of r]
      else if IsPrint uprint r then encodeRune r
      else if r = 7 then backslash # ''a''
      else if r = 8 then backslash # ''b''
      else if r = 12 then backslash # ''f''
      else if r = 10 then backslash # ''n''
      else if r = 13 then backslash # ''r''
      else if r = 9 then backslash # ''t''
      else if r = 11 then backslash # ''v''
      else if r < 32 \<or> r = 127 then backslash # ''x'' @ hex_digits 2 r
      else if \<not> ValidRune r then backslash # ''u'' @ hex_digits 4 RuneError
      else if r < 65536 then backslash # ''u'' @ hex_digits 4 r
      else backslash # ''U'' @ hex_digits 8 r)"

text \<open>The loop of \<open>strconv.appendQuotedWith\<close>, and the verb \<open>%q\<close> of a string.\<close>

fun quoteBody :: "(nat \<Rightarrow> bool) \<Rightarrow> string \<Rightarrow> string" where
  "quoteBody uprint [] = []"
| "quoteBody uprint (c # cs) =
     (if (of_char c :: nat) < 128 then escapedRune uprint (of_char c) @ quoteBody uprint cs
      else (case decodeRune (c # cs) of (r, w) \<Rightarrow>
        if w = 1 \<and> r = RuneError
        then backslash # ''x'' @ hex_digits 2 (of_char c) @ quoteBody uprint cs
        else escapedRune uprint r @ quoteBody uprint (drop (w - 1) cs)))"

definition Quote :: "(nat \<Rightarrow> bool) \<Rightarrow> string \<Rightarrow> string" where
  "Quote uprint s = [dquote] @ quoteBody uprint s @ [dquote]"

text \<open>Text that \<open>%q\<close> and JSON treat alike: printable ASCII.\<close>

definition printable :: "string \<Rightarrow> bool" where
  "printable s \<longleftrightarrow> (\<forall>c \<in> set s. 32 \<le> (of_char c :: nat) \<and> (of_char c :: nat) < 127)"

lemma printable_simps [simp]:
  "printable []"
  "printable (c # s) \<longleftrightarrow> 32 \<le> (of_char c :: nat) \<and> (of_char c :: nat) < 127 \<and> printable s"
  "printable (s @ t) \<longleftrightarrow> printable s \<and> printable t"
  by (auto simp: printable_def)

definition escape_ascii :: "char \<Rightarrow> string" where
  "escape_ascii c = (if c = dquote \<or> c = backslash then [backslash, c] else [c])"

lemma of_char_eq_34: "(of_char c :: nat) = 34 \<longleftrightarrow> c = dquote"
  using of_char_eq_iff [where ?'a = nat, of c dquote] by (simp add: dquote_def)

lemma of_char_eq_92: "(of_char c :: nat) = 92 \<longleftrightarrow> c = backslash"
  using of_char_eq_iff [where ?'a = nat, of c backslash] by (simp add: backslash_def)

lemma escapedRune_printable:
  assumes "32 \<le> (of_char c :: nat)" "(of_char c :: nat) < 127"
  shows "escapedRune uprint (of_char c) = escape_ascii c"
  using assms by (simp add: escapedRune_def escape_ascii_def of_char_eq_34 of_char_eq_92
      IsPrint_def encodeRune_def ValidRune_def)

text \<open>On printable ASCII, \<open>%q\<close> only puts a backslash before a quote or a backslash.\<close>

lemma quoteBody_printable: "printable s \<Longrightarrow> quoteBody uprint s = concat (map escape_ascii s)"
  by (induction s) (auto simp: escapedRune_printable)

lemma Quote_plain:
  assumes "printable s" "dquote \<notin> set s" "backslash \<notin> set s"
  shows "Quote uprint s = [dquote] @ s @ [dquote]"
proof -
  have "concat (map escape_ascii s) = s"
    using assms by (induction s) (auto simp: escape_ascii_def)
  with assms(1) show ?thesis by (simp add: Quote_def quoteBody_printable)
qed

end
