(* ===== verification/ApiTypes.thy ===== *)
theory ApiTypes
  imports GoStrings "HOL-Library.Word"
begin

text \<open>
  The data of the operator: the Nephio and Kubernetes API objects it reads and writes, with
  the fields the source uses and the API's field names (prefixed where two types share a
  name).  A pointer is an \<open>option\<close>, a nil slice the empty list, a Go map a partial
  function, a map that may be nil an \<open>option\<close> of one.  \<open>DeepCopy\<close> is the identity on
  these values.
\<close>

section \<open>Metadata\<close>

type_synonym Time = nat

text \<open>\<open>types.NamespacedName\<close>: namespace and name.\<close>

type_synonym NamespacedName = "string \<times> string"

type_synonym StringMap = "string \<rightharpoonup> string"

record OwnerReference =
  owner_Kind :: string
  owner_Name :: string

record ObjectMeta =
  Name :: string
  Namespace :: string
  ResourceVersion :: string
  Generation :: "64 word"
  DeletionTimestamp :: "Time option"
  OwnerReferences :: "OwnerReference list"
  Annotations :: "StringMap option"
  Labels :: "StringMap option"

text \<open>The zero value, from which composite literals set some fields.\<close>

definition zeroMeta :: ObjectMeta where
  "zeroMeta = \<lparr>Name = '''', Namespace = '''', ResourceVersion = '''', Generation = 0,
     DeletionTimestamp = None, OwnerReferences = [], Annotations = None, Labels = None\<rparr>"

text \<open>\<open>client.ObjectKeyFromObject\<close>.\<close>

definition keyOf :: "ObjectMeta \<Rightarrow> NamespacedName" where
  "keyOf m = (Namespace m, Name m)"

text \<open>Reading a Go map that may be nil: the empty string where there is no entry.\<close>

definition mapGet :: "StringMap option \<Rightarrow> string \<Rightarrow> string" where
  "mapGet m k = (case m of None \<Rightarrow> '''' | Some f \<Rightarrow> (case f k of None \<Rightarrow> '''' | Some v \<Rightarrow> v))"

section \<open>NFDeployment\<close>

text \<open>
  A \<open>resource.Quantity\<close> is represented by the text it is parsed from; what number that
  text denotes is a parameter of the model (\<open>quantityValue\<close> below).
\<close>

datatype Quantity = MustParse string

record IPv4Config =
  Address :: string
  Gateway :: "string option"

record InterfaceConfig =
  ifc_Name :: string
  IPv4 :: "IPv4Config option"

record Pool =
  Prefix :: string

record DataNetwork =
  dn_Name :: "string option"
  dn_Pool :: "Pool list"

record NetworkInstance =
  ni_Name :: string
  ni_Interfaces :: "string list"
  DataNetworks :: "DataNetwork list"

record CapacitySpec =
  MaxUplinkThroughput :: Quantity
  MaxDownlinkThroughput :: Quantity
  MaxSessions :: int
  MaxSubscribers :: int
  MaxNFConnections :: int

record ObjectReference =
  ref_Name :: "string option"

record NFDeploymentSpec =
  Provider :: string
  Capacity :: "CapacitySpec option"
  Interfaces :: "InterfaceConfig list"
  NetworkInstances :: "NetworkInstance list"
  ParametersRefs :: "ObjectReference list"

record Condition =
  cond_Type :: string
  cond_Status :: string
  Reason :: string
  Message :: string
  LastTransitionTime :: Time

record NFDeploymentStatus =
  ObservedGeneration :: "32 word"
  Conditions :: "Condition list"

record NFDeployment =
  nf_Meta :: ObjectMeta
  nf_Spec :: NFDeploymentSpec
  nf_Status :: NFDeploymentStatus

text \<open>
  The condition types and condition statuses of the two APIs, with their documented values.
\<close>

definition Reconciling :: string where "Reconciling = ''Reconciling''"
definition Available :: string where "Available = ''Available''"
definition Stalled :: string where "Stalled = ''Stalled''"
definition DeploymentAvailable :: string where "DeploymentAvailable = ''Available''"
definition DeploymentProgressing :: string where "DeploymentProgressing = ''Progressing''"
definition DeploymentReplicaFailure :: string where "DeploymentReplicaFailure = ''ReplicaFailure''"
definition ConditionTrue :: string where "ConditionTrue = ''True''"
definition ConditionFalse :: string where "ConditionFalse = ''False''"

lemmas condition_types = Reconciling_def Available_def Stalled_def DeploymentAvailable_def
  DeploymentProgressing_def DeploymentReplicaFailure_def

section \<open>Config\<close>

record GroupVersionKind =
  Group :: string
  Version :: string
  Kind :: string

text \<open>A decoded object behind \<open>runtime.Object\<close>: its kind, and its content as the marshaller sees it.\<close>

record RuntimeObject =
  objectGVK :: GroupVersionKind
  objectContent :: string

record RawExtension =
  Raw :: string
  Object :: "RuntimeObject option"

record Config =
  cfg_Meta :: ObjectMeta
  cfg_Config :: RawExtension

section \<open>ConfigMap and Service\<close>

record ConfigMap =
  cm_APIVersion :: string
  cm_Kind :: string
  cm_Meta :: ObjectMeta
  Data :: StringMap

record ServicePort =
  sp_Name :: string
  sp_Protocol :: string
  sp_Port :: int
  sp_TargetPort :: int

record Service =
  svc_Meta :: ObjectMeta
  svc_Selector :: StringMap
  svc_Ports :: "ServicePort list"
  svc_Type :: string

section \<open>Deployment\<close>

record ContainerPort =
  port_Name :: string
  port_Protocol :: string
  port_ContainerPort :: int

record VolumeMount =
  MountPath :: string
  vm_Name :: string

type_synonym ResourceList = "string \<rightharpoonup> Quantity"

record ResourceRequirements =
  Limits :: ResourceList
  Requests :: ResourceList

record Container =
  c_Name :: string
  Image :: string
  ImagePullPolicy :: string
  CapabilitiesAdd :: "string list"
  c_Ports :: "ContainerPort list"
  Command :: "string list"
  Args :: "string list"
  VolumeMounts :: "VolumeMount list"
  Resources :: ResourceRequirements

record KeyToPath =
  ktp_Key :: string
  ktp_Path :: string
  ktp_Mode :: "int option"

text \<open>A projected volume whose sources are ConfigMap projections (name and items).\<close>

record ConfigMapProjection =
  proj_Name :: string
  Items :: "KeyToPath list"

record Volume =
  vol_Name :: string
  ProjectedSources :: "ConfigMapProjection list"

record PodSpec =
  Containers :: "Container list"
  DNSPolicy :: string
  RestartPolicy :: string
  Volumes :: "Volume list"

record PodTemplateSpec =
  pod_Meta :: ObjectMeta
  pod_Spec :: PodSpec

record DeploymentSpec =
  Replicas :: int
  MatchLabels :: StringMap
  Template :: PodTemplateSpec

record DeploymentCondition =
  dc_Type :: string

record Deployment =
  dep_Meta :: ObjectMeta
  dep_Spec :: DeploymentSpec
  dep_Conditions :: "DeploymentCondition list"

text \<open>\<open>deployment.Spec.Template.Annotations\<close>, read and written.\<close>

definition templateAnnotations :: "Deployment \<Rightarrow> StringMap option" where
  "templateAnnotations d = Annotations (pod_Meta (Template (dep_Spec d)))"

text \<open>Assigning to an entry of the map: a nil map panics.\<close>

definition setTemplateAnnotation :: "string \<Rightarrow> string \<Rightarrow> Deployment \<Rightarrow> Deployment go" where
  "setTemplateAnnotation k v d =
     (case templateAnnotations d of
        None \<Rightarrow> Panic NilMapWrite
      | Some m \<Rightarrow>
          (let spec = dep_Spec d; t = Template spec in
           Ret (d\<lparr>dep_Spec := spec\<lparr>Template := t\<lparr>pod_Meta :=
             (pod_Meta t)\<lparr>Annotations := Some (m(k \<mapsto> v))\<rparr>\<rparr>\<rparr>\<rparr>)))"

lemma setTemplateAnnotation_Ret:
  assumes "setTemplateAnnotation k v d = Ret d'"
  shows "dep_Meta d' = dep_Meta d" and "dep_Conditions d' = dep_Conditions d"
    and "Replicas (dep_Spec d') = Replicas (dep_Spec d)"
    and "pod_Spec (Template (dep_Spec d')) = pod_Spec (Template (dep_Spec d))"
    and "\<exists>m. templateAnnotations d = Some m \<and> templateAnnotations d' = Some (m(k \<mapsto> v))"
  using assms
  by (auto simp: setTemplateAnnotation_def templateAnnotations_def Let_def split: option.splits)

section \<open>Results of a reconcile\<close>

text \<open>\<open>reconcile.Result\<close>; durations are nanoseconds, as in Go.\<close>

record Result =
  Requeue :: bool
  RequeueAfter :: int

definition emptyResult :: Result where
  "emptyResult = \<lparr>Requeue = False, RequeueAfter = 0\<rparr>"

definition Second :: int where
  "Second = 1000000000"

section \<open>Library parameters\<close>

text \<open>
  The pure library functions the source calls and whose code is not in the repository: the
  Unicode table behind \<open>%q\<close>, the value of a quantity, the JSON codecs of API objects, the
  kind of an NFDeployment and \<open>ctrl.SetControllerReference\<close> (on the controlled object's
  metadata).
\<close>

record lib =
  uprint :: "nat \<Rightarrow> bool"
  quantityValue :: "Quantity \<Rightarrow> int"
  marshalObject :: "RuntimeObject \<Rightarrow> error + string"
  unmarshalNFDeployment :: "string \<Rightarrow> error + NFDeployment"
  NFDeploymentGVK :: GroupVersionKind
  SetControllerReference :: "NFDeployment \<Rightarrow> ObjectMeta \<Rightarrow> error + ObjectMeta"

section \<open>Constants of the operator\<close>

definition ConfigMapVersionAnnotation :: string where
  "ConfigMapVersionAnnotation = ''workload.nephio.org/configMapVersion''"

definition AMFImage :: string where
  "AMFImage = ''docker.io/nephio/free5gc-amf:4.1.0''"

definition SMFImage :: string where
  "SMFImage = ''docker.io/nephio/free5gc-smf:4.1.0''"

definition UPFImage :: string where
  "UPFImage = ''docker.io/nephio/free5gc-upf:4.1.0''"

definition NetworksAnnotation :: string where
  "NetworksAnnotation = ''k8s.v1.cni.cncf.io/networks''"

lemma annotation_keys_differ [simp]:
  "ConfigMapVersionAnnotation \<noteq> NetworksAnnotation" "NetworksAnnotation \<noteq> ConfigMapVersionAnnotation"
  by (simp_all add: ConfigMapVersionAnnotation_def NetworksAnnotation_def)

end
