(* ===== verification/Client.thy ===== *)
theory Client
  imports ApiTypes
begin

text \<open>
  The Kubernetes client the reconcilers call.  Its code is not in the repository: the model
  takes it as a record of operations on an arbitrary world \<open>'w\<close>.  Every call returns a
  result or an error and the world after it, so a world may also change for reasons of its
  own between two calls.  \<open>logged\<close> wraps a client so that its world also carries the list
  of calls made, in order.
\<close>

section \<open>The operations\<close>

text \<open>
  \<open>client.Get\<close> for each kind the source reads, \<open>client.Create\<close> (which writes the server's
  version of the object back, hence its result), \<open>client.Update\<close>, \<open>Status().Update\<close>, and
  the clock behind \<open>metav1.Now\<close>.
\<close>

record 'w client =
  GetNFDeployment :: "NamespacedName \<Rightarrow> 'w \<Rightarrow> (error + NFDeployment) \<times> 'w"
  GetConfigMap :: "NamespacedName \<Rightarrow> 'w \<Rightarrow> (error + ConfigMap) \<times> 'w"
  GetService :: "NamespacedName \<Rightarrow> 'w \<Rightarrow> (error + Service) \<times> 'w"
  GetDeployment :: "NamespacedName \<Rightarrow> 'w \<Rightarrow> (error + Deployment) \<times> 'w"
  GetConfig :: "NamespacedName \<Rightarrow> 'w \<Rightarrow> (error + Config) \<times> 'w"
  GetNAD :: "NamespacedName \<Rightarrow> 'w \<Rightarrow> (error + unit) \<times> 'w"
  CreateConfigMap :: "ConfigMap \<Rightarrow> 'w \<Rightarrow> (error + ConfigMap) \<times> 'w"
  CreateService :: "Service \<Rightarrow> 'w \<Rightarrow> (error + Service) \<times> 'w"
  CreateDeployment :: "Deployment \<Rightarrow> 'w \<Rightarrow> (error + Deployment) \<times> 'w"
  UpdateDeployment :: "Deployment \<Rightarrow> 'w \<Rightarrow> (error + Deployment) \<times> 'w"
  UpdateStatus :: "NFDeployment \<Rightarrow> 'w \<Rightarrow> (error + NFDeployment) \<times> 'w"
  Now :: "'w \<Rightarrow> Time"

section \<open>Recording the calls\<close>

datatype call =
    DidGetNFDeployment NamespacedName
  | DidGetConfigMap NamespacedName
  | DidGetService NamespacedName
  | DidGetDeployment NamespacedName
  | DidGetConfig NamespacedName bool
  | DidGetNAD NamespacedName bool
  | DidCreateConfigMap ConfigMap bool
  | DidCreateService Service bool
  | DidCreateDeployment Deployment bool
  | DidUpdateDeployment Deployment bool
  | DidUpdateStatus NFDeployment bool

fun succeeded :: "error + 'a \<Rightarrow> bool" where
  "succeeded (Inl e) = False"
| "succeeded (Inr x) = True"

definition record_call ::
  "('a \<Rightarrow> call) \<Rightarrow> ('w \<Rightarrow> 'a \<times> 'w) \<Rightarrow> 'w \<times> call list \<Rightarrow> 'a \<times> ('w \<times> call list)" where
  "record_call ev f s = (case f (fst s) of (r, w) \<Rightarrow> (r, (w, snd s @ [ev r])))"

definition logged :: "'w client \<Rightarrow> ('w \<times> call list) client" where
  "logged c = \<lparr>
     GetNFDeployment = (\<lambda>k. record_call (\<lambda>r. DidGetNFDeployment k) (GetNFDeployment c k)),
     GetConfigMap = (\<lambda>k. record_call (\<lambda>r. DidGetConfigMap k) (GetConfigMap c k)),
     GetService = (\<lambda>k. record_call (\<lambda>r. DidGetService k) (GetService c k)),
     GetDeployment = (\<lambda>k. record_call (\<lambda>r. DidGetDeployment k) (GetDeployment c k)),
     GetConfig = (\<lambda>k. record_call (\<lambda>r. DidGetConfig k (succeeded r)) (GetConfig c k)),
     GetNAD = (\<lambda>k. record_call (\<lambda>r. DidGetNAD k (succeeded r)) (GetNAD c k)),
     CreateConfigMap = (\<lambda>x. record_call (\<lambda>r. DidCreateConfigMap x (succeeded r)) (CreateConfigMap c x)),
     CreateService = (\<lambda>x. record_call (\<lambda>r. DidCreateService x (succeeded r)) (CreateService c x)),
     CreateDeployment = (\<lambda>x. record_call (\<lambda>r. DidCreateDeployment x (succeeded r)) (CreateDeployment c x)),
     UpdateDeployment = (\<lambda>x. record_call (\<lambda>r. DidUpdateDeployment x (succeeded r)) (UpdateDeployment c x)),
     UpdateStatus = (\<lambda>x. record_call (\<lambda>r. DidUpdateStatus x (succeeded r)) (UpdateStatus c x)),
     Now = (\<lambda>s. Now c (fst s))\<rparr>"

lemma succeeded_iff: "succeeded r \<longleftrightarrow> (\<exists>x. r = Inr x)"
  by (cases r) auto

lemma record_call_eq:
  "record_call ev f (w, tr) = (r, s') \<longleftrightarrow> (\<exists>w'. f w = (r, w') \<and> s' = (w', tr @ [ev r]))"
  by (cases "f w") (auto simp: record_call_def)

lemma logged_sel [simp]:
  "GetNFDeployment (logged c) k = record_call (\<lambda>r. DidGetNFDeployment k) (GetNFDeployment c k)"
  "GetConfigMap (logged c) k = record_call (\<lambda>r. DidGetConfigMap k) (GetConfigMap c k)"
  "GetService (logged c) k = record_call (\<lambda>r. DidGetService k) (GetService c k)"
  "GetDeployment (logged c) k = record_call (\<lambda>r. DidGetDeployment k) (GetDeployment c k)"
  "GetConfig (logged c) k = record_call (\<lambda>r. DidGetConfig k (succeeded r)) (GetConfig c k)"
  "GetNAD (logged c) k = record_call (\<lambda>r. DidGetNAD k (succeeded r)) (GetNAD c k)"
  "CreateConfigMap (logged c) cm = record_call (\<lambda>r. DidCreateConfigMap cm (succeeded r)) (CreateConfigMap c cm)"
  "CreateService (logged c) svc = record_call (\<lambda>r. DidCreateService svc (succeeded r)) (CreateService c svc)"
  "CreateDeployment (logged c) d = record_call (\<lambda>r. DidCreateDeployment d (succeeded r)) (CreateDeployment c d)"
  "UpdateDeployment (logged c) d = record_call (\<lambda>r. DidUpdateDeployment d (succeeded r)) (UpdateDeployment c d)"
  "UpdateStatus (logged c) nf = record_call (\<lambda>r. DidUpdateStatus nf (succeeded r)) (UpdateStatus c nf)"
  "Now (logged c) s = Now c (fst s)"
  by (simp_all add: logged_def)

text \<open>The writes among the calls.\<close>

fun is_write :: "call \<Rightarrow> bool" where
  "is_write (DidCreateConfigMap x b) = True"
| "is_write (DidCreateService x b) = True"
| "is_write (DidCreateDeployment x b) = True"
| "is_write (DidUpdateDeployment x b) = True"
| "is_write (DidUpdateStatus x b) = True"
| "is_write _ = False"

end
