(* ===== verification/StatusSync.thy ===== *)
theory StatusSync
  imports Client
begin

text \<open>
  What the three \<open>createNfDeploymentStatus\<close> functions promise, as a locale: they append at
  most one condition, whose type is given by an abstract step on the history of condition
  types.  The consequences for repeated synchronisation are proved here once and hold for
  each network function by interpretation in its own theory.
\<close>

section \<open>Shared parts of the three functions\<close>

text \<open>
  \<open>gen := deployment.Generation; if gen > math.MaxInt32 { gen = math.MaxInt32 }\<close> and the
  conversion \<open>int32(gen)\<close>, which truncates.
\<close>

definition observedGeneration :: "64 word \<Rightarrow> 32 word" where
  "observedGeneration g =
     (let gen = (if sint g > 2147483647 then 2147483647 else g) in ucast gen)"

definition mkCondition :: "string \<Rightarrow> string \<Rightarrow> string \<Rightarrow> string \<Rightarrow> Time \<Rightarrow> Condition" where
  "mkCondition ty status reason message now = \<lparr>cond_Type = ty, cond_Status = status,
     Reason = reason, Message = message, LastTransitionTime = now\<rparr>"

lemma mkCondition_sel [simp]:
  "cond_Type (mkCondition ty st re msg now) = ty"
  "cond_Status (mkCondition ty st re msg now) = st"
  "LastTransitionTime (mkCondition ty st re msg now) = now"
  by (simp_all add: mkCondition_def)

text \<open>
  \<open>syncStatus\<close> of a reconciler, over its \<open>createNfDeploymentStatus\<close>: the status is written
  only when that function asks for it.
\<close>

type_synonym createStatus = "Time \<Rightarrow> Deployment \<Rightarrow> NFDeployment \<Rightarrow> NFDeploymentStatus \<times> bool"

definition syncStatusWith ::
  "createStatus \<Rightarrow> 'w client \<Rightarrow> Deployment \<Rightarrow> NFDeployment \<Rightarrow> 'w \<Rightarrow> error option \<times> 'w" where
  "syncStatusWith create c deployment nf w =
     (case create (Now c w) deployment nf of (status, update) \<Rightarrow>
        if update then
          (case UpdateStatus c (nf\<lparr>nf_Status := status\<rparr>) w of
             (Inl err, w') \<Rightarrow> (Some err, w')
           | (Inr _, w') \<Rightarrow> (None, w'))
        else (None, w))"

section \<open>The abstract step\<close>

text \<open>The types of the conditions of an NFDeployment, and of a deployment's first condition.\<close>

definition history :: "NFDeployment \<Rightarrow> string list" where
  "history nf = map cond_Type (Conditions (nf_Status nf))"

definition observed :: "Deployment \<Rightarrow> string option" where
  "observed d = (case dep_Conditions d of [] \<Rightarrow> None | c # _ \<Rightarrow> Some (dc_Type c))"

definition phaseOf :: "string \<Rightarrow> string option" where
  "phaseOf t =
     (if t = DeploymentAvailable then Some Available
      else if t = DeploymentProgressing then Some Reconciling
      else if t = DeploymentReplicaFailure then Some Stalled
      else None)"

definition samePhase :: "string \<Rightarrow> string \<Rightarrow> bool" where
  "samePhase t last_ty \<longleftrightarrow> t = DeploymentProgressing \<and> last_ty = Reconciling \<or> t = last_ty"

fun nextHistory :: "string list \<Rightarrow> string option \<Rightarrow> string list \<times> bool" where
  "nextHistory [] obs = ([Reconciling], True)"
| "nextHistory (t # ts) None = (t # ts, False)"
| "nextHistory (t # ts) (Some o') =
     (if samePhase o' (last (t # ts)) then (t # ts, False)
      else (case phaseOf o' of
          Some p \<Rightarrow> (t # ts @ [p], True)
        | None \<Rightarrow> (t # ts, True)))"

text \<open>Only the operator's three condition types.\<close>

definition operatorTypes :: "string list \<Rightarrow> bool" where
  "operatorTypes ts \<longleftrightarrow> set ts \<subseteq> {Reconciling, Available, Stalled}"

lemma phaseOf_eqs [simp]:
  "phaseOf Available = Some Available"
  "phaseOf DeploymentProgressing = Some Reconciling"
  "phaseOf DeploymentReplicaFailure = Some Stalled"
  by (simp_all add: phaseOf_def condition_types)

lemma phaseOf_operator: "phaseOf t = Some p \<Longrightarrow> p \<in> {Reconciling, Available, Stalled}"
  by (auto simp: phaseOf_def split: if_splits)

lemma nextHistory_operatorTypes:
  "operatorTypes ts \<Longrightarrow> nextHistory ts obs = (ts', u) \<Longrightarrow> operatorTypes ts'"
  by (induction ts obs rule: nextHistory.induct)
    (auto simp: operatorTypes_def split: if_splits option.splits dest: phaseOf_operator)

lemma nextHistory_prefix: "nextHistory ts obs = (ts', u) \<Longrightarrow> \<exists>us. ts' = ts @ us \<and> length us \<le> 1"
  by (induction ts obs rule: nextHistory.induct) (auto split: if_splits option.splits)

lemma nextHistory_not_Nil: "nextHistory ts obs = (ts', u) \<Longrightarrow> ts' \<noteq> []"
  by (induction ts obs rule: nextHistory.induct) (auto split: if_splits option.splits)

text \<open>The types that the two APIs share or keep apart.\<close>

lemma condition_types_eqs [simp]:
  "DeploymentAvailable = Available"
  "Available \<noteq> Reconciling" "Reconciling \<noteq> Available" "Stalled \<noteq> Reconciling" "Reconciling \<noteq> Stalled"
  "Available \<noteq> Stalled" "Stalled \<noteq> Available"
  "DeploymentProgressing \<noteq> Reconciling" "DeploymentProgressing \<noteq> Available"
  "Available \<noteq> DeploymentProgressing" "DeploymentProgressing \<noteq> Stalled"
  "DeploymentReplicaFailure \<noteq> Reconciling" "DeploymentReplicaFailure \<noteq> Available"
  "DeploymentReplicaFailure \<noteq> Stalled" "DeploymentReplicaFailure \<noteq> DeploymentProgressing"
  "Available \<noteq> DeploymentReplicaFailure" "DeploymentProgressing \<noteq> DeploymentReplicaFailure"
  by (simp_all add: condition_types)

lemma samePhase_operator:
  assumes "samePhase t l" "phaseOf t = Some p" "l \<in> {Reconciling, Available, Stalled}"
  shows "l = p"
  using assms by (auto simp: samePhase_def phaseOf_def condition_types split: if_splits)

text \<open>After a step on a non-empty history the last type is the phase of what was observed.\<close>

lemma nextHistory_last:
  assumes "operatorTypes ts" "ts \<noteq> []" "phaseOf t = Some p" "nextHistory ts (Some t) = (ts', u)"
  shows "last ts' = p"
proof -
  have "last ts \<in> {Reconciling, Available, Stalled}"
    using assms(1,2) last_in_set [of ts] unfolding operatorTypes_def by blast
  with assms(2-4) samePhase_operator [of t "last ts" p] show ?thesis
    by (cases ts) (auto split: if_splits)
qed

lemma nextHistory_idem:
  assumes "ts \<noteq> []" "obs = None \<or> obs = Some Available \<or> obs = Some DeploymentProgressing"
  shows "\<not> snd (nextHistory (fst (nextHistory ts obs)) obs)"
proof -
  obtain u us where ts: "ts = u # us"
    using assms(1) by (cases ts) auto
  show ?thesis
  proof (cases obs)
    case None
    then show ?thesis by (simp add: ts)
  next
    case (Some t)
    then obtain p where "phaseOf t = Some p" and "samePhase t p"
      using assms(2) by (auto simp: samePhase_def)
    then show ?thesis by (auto simp: ts Some)
  qed
qed

section \<open>The contract\<close>

text \<open>The three conditions a network function reports, with the name it gives itself in messages.\<close>

definition vocabulary :: "string \<Rightarrow> Time \<Rightarrow> Condition set" where
  "vocabulary what now =
     {mkCondition Reconciling ConditionFalse ''MinimumReplicasNotAvailable'' (what @ '' pod(s) is(are) starting.'') now,
      mkCondition Available ConditionTrue ''MinimumReplicasAvailable'' (what @ '' pods are available.'') now,
      mkCondition Stalled ConditionFalse ''MinimumReplicasNotAvailable'' (what @ '' pod(s) is(are) failing.'') now}"

locale status_creator =
  fixes create :: createStatus and what :: string
  assumes refines: "create now d nf = (st, update) \<Longrightarrow>
      (map cond_Type (Conditions st), update) = nextHistory (history nf) (observed d)"
    and extends: "create now d nf = (st, update) \<Longrightarrow>
      \<exists>cs. Conditions st = Conditions (nf_Status nf) @ cs \<and> set cs \<subseteq> vocabulary what now"
    and generation: "create now d nf = (st, update) \<Longrightarrow>
      ObservedGeneration st = observedGeneration (Generation (dep_Meta d))"

text \<open>
  One synchronisation whose write succeeds, and a sequence of them against the deployments
  seen at successive times.
\<close>

definition syncOnce :: "createStatus \<Rightarrow> NFDeployment \<Rightarrow> Time \<times> Deployment \<Rightarrow> NFDeployment" where
  "syncOnce create nf td = (case create (fst td) (snd td) nf of (status, update) \<Rightarrow>
     if update then nf\<lparr>nf_Status := status\<rparr> else nf)"

fun syncRun :: "createStatus \<Rightarrow> NFDeployment \<Rightarrow> (Time \<times> Deployment) list \<Rightarrow> NFDeployment" where
  "syncRun create nf [] = nf"
| "syncRun create nf (td # tds) = syncRun create (syncOnce create nf td) tds"

definition updates :: "createStatus \<Rightarrow> NFDeployment \<Rightarrow> Time \<times> Deployment \<Rightarrow> bool" where
  "updates create nf td = snd (create (fst td) (snd td) nf)"

context status_creator
begin

lemma history_syncOnce: "history (syncOnce create nf td) = fst (nextHistory (history nf) (observed (snd td)))"
proof (cases "create (fst td) (snd td) nf")
  case (Pair st u)
  from refines [OF Pair] have r: "nextHistory (history nf) (observed (snd td)) = (map cond_Type (Conditions st), u)"
    by simp
  show ?thesis
  proof (cases u)
    case True
    with Pair r show ?thesis by (simp add: syncOnce_def history_def)
  next
    case False
    with r have "map cond_Type (Conditions st) = history nf"
      by (cases "(history nf, observed (snd td))" rule: nextHistory.cases) (auto split: if_splits option.splits)
    with Pair r False show ?thesis by (simp add: syncOnce_def)
  qed
qed

lemma updates_eq: "updates create nf td = snd (nextHistory (history nf) (observed (snd td)))"
  by (metis refines updates_def prod.collapse snd_conv)

lemma syncOnce_extends: "\<exists>cs. Conditions (nf_Status (syncOnce create nf td)) = Conditions (nf_Status nf) @ cs
    \<and> set cs \<subseteq> vocabulary what (fst td)"
  using extends [of "fst td" "snd td" nf]
  by (cases "create (fst td) (snd td) nf") (auto simp: syncOnce_def)

text \<open>
  The condition list is append-only, and every appended condition is one of the three, stamped
  with the time of one of the synchronisations.
\<close>

lemma syncRun_extends: "\<exists>cs. Conditions (nf_Status (syncRun create nf tds)) = Conditions (nf_Status nf) @ cs
    \<and> set cs \<subseteq> (\<Union>td\<in>set tds. vocabulary what (fst td)) \<and> length cs \<le> length tds"
proof (induction tds arbitrary: nf)
  case Nil
  then show ?case by simp
next
  case (Cons td tds)
  have len: "length (history (syncOnce create nf td)) \<le> Suc (length (history nf))"
    unfolding history_syncOnce using nextHistory_prefix [of "history nf" "observed (snd td)"]
    by (cases "nextHistory (history nf) (observed (snd td))") auto
  obtain cs where cs: "Conditions (nf_Status (syncOnce create nf td)) = Conditions (nf_Status nf) @ cs"
      "set cs \<subseteq> vocabulary what (fst td)"
    using syncOnce_extends by blast
  obtain cs' where cs': "Conditions (nf_Status (syncRun create nf (td # tds))) = Conditions (nf_Status nf) @ cs @ cs'"
      "set cs' \<subseteq> (\<Union>td\<in>set tds. vocabulary what (fst td))" "length cs' \<le> length tds"
    using Cons.IH [of "syncOnce create nf td"] cs(1) by auto
  from len cs(1) have "length cs \<le> 1"
    by (simp add: history_def)
  with cs cs' show ?case
    by (intro exI [of _ "cs @ cs'"]) auto
qed

lemma syncOnce_operatorTypes: "operatorTypes (history nf) \<Longrightarrow> operatorTypes (history (syncOnce create nf td))"
  unfolding history_syncOnce by (metis nextHistory_operatorTypes prod.collapse)

lemma syncRun_operatorTypes: "operatorTypes (history nf) \<Longrightarrow> operatorTypes (history (syncRun create nf tds))"
  by (induction tds arbitrary: nf) (auto simp: syncOnce_operatorTypes)

lemma syncOnce_not_Nil: "history (syncOnce create nf td) \<noteq> []"
  unfolding history_syncOnce by (metis nextHistory_not_Nil prod.collapse)

lemma syncRun_last:
  assumes "operatorTypes (history nf)" "history nf \<noteq> []"
    and "observed (snd td) = Some t" "phaseOf t = Some p"
  shows "last (history (syncRun create nf (tds @ [td]))) = p"
  using assms(1,2)
proof (induction tds arbitrary: nf)
  case Nil
  then show ?case
    using nextHistory_last [OF Nil.prems assms(4)] assms(3)
    by (simp add: history_syncOnce prod_eq_iff)
next
  case (Cons td' tds)
  then show ?case by (simp add: syncOnce_operatorTypes syncOnce_not_Nil)
qed

text \<open>
  A second synchronisation against the same state writes nothing, unless that state is a
  replica failure or a type the switch does not know.
\<close>

lemma sync_stable:
  assumes "history nf \<noteq> []"
    and "observed (snd td) = None \<or> observed (snd td) = Some DeploymentAvailable
      \<or> observed (snd td) = Some DeploymentProgressing"
    and "snd td' = snd td"
  shows "\<not> updates create (syncOnce create nf td) td'"
  using assms nextHistory_idem [of "history nf" "observed (snd td)"]
  by (simp add: updates_eq history_syncOnce)

lemma replica_failure_updates:
  assumes "observed (snd td) = Some DeploymentReplicaFailure" "operatorTypes (history nf)" "history nf \<noteq> []"
  shows "updates create nf td" "history (syncOnce create nf td) = history nf @ [Stalled]"
proof -
  have "last (history nf) \<in> {Reconciling, Available, Stalled}"
    using assms(2,3) last_in_set [of "history nf"] unfolding operatorTypes_def by blast
  then have "\<not> samePhase DeploymentReplicaFailure (last (history nf))"
    by (auto simp: samePhase_def)
  then show "updates create nf td" "history (syncOnce create nf td) = history nf @ [Stalled]"
    using assms(1,3) by (cases "history nf"; simp add: updates_eq history_syncOnce)+
qed

lemma replica_failure_grows:
  assumes "\<forall>td \<in> set tds. observed (snd td) = Some DeploymentReplicaFailure"
    and "operatorTypes (history nf)" "history nf \<noteq> []"
  shows "history (syncRun create nf tds) = history nf @ replicate (length tds) Stalled"
  using assms
proof (induction tds arbitrary: nf)
  case Nil
  then show ?case by simp
next
  case (Cons td tds)
  then have "history (syncOnce create nf td) = history nf @ [Stalled]"
    by (simp add: replica_failure_updates)
  with Cons show ?case
    using syncOnce_operatorTypes [of nf td] by (simp add: replicate_app_Cons_same)
qed

end

section \<open>The observed generation\<close>

lemma sint_observedGeneration:
  assumes "0 \<le> sint g"
  shows "sint (observedGeneration g) = min (sint g) 2147483647"
proof (cases "sint g > 2147483647")
  case True
  then show ?thesis by (simp add: observedGeneration_def)
next
  case False
  have "uint g = sint g"
    using assms take_bit_int_eq_self [of "uint g" 64] uint_bounded [of g]
    by (cases "bit (uint g) 63") (simp_all add: sint_uint signed_take_bit_eq_take_bit_minus)
  moreover from this False assms have "signed_take_bit 31 (uint g) = uint g"
    by (intro signed_take_bit_int_eq_self) auto
  moreover have "sint (ucast g :: 32 word) = signed_take_bit 31 (uint g)"
    by (simp add: sint_uint unsigned_ucast_eq signed_take_bit_take_bit)
  ultimately show ?thesis
    using False by (simp add: observedGeneration_def)
qed

section \<open>Examples\<close>

text \<open>An NFDeployment whose first condition was written, and a deployment with a condition.\<close>

definition startedNF :: "string \<Rightarrow> NFDeployment" where
  "startedNF name = \<lparr>nf_Meta = zeroMeta\<lparr>Name := name, Namespace := ''ns''\<rparr>,
     nf_Spec = \<lparr>Provider = [], Capacity = None, Interfaces = [], NetworkInstances = [], ParametersRefs = []\<rparr>,
     nf_Status = \<lparr>ObservedGeneration = 1,
       Conditions = [mkCondition Reconciling ConditionFalse ''MinimumReplicasNotAvailable'' [] 0]\<rparr>\<rparr>"

definition seenDeployment :: "string \<Rightarrow> Deployment" where
  "seenDeployment t = \<lparr>dep_Meta = zeroMeta,
     dep_Spec = \<lparr>Replicas = 1, MatchLabels = Map.empty, Template = \<lparr>pod_Meta = zeroMeta,
       pod_Spec = \<lparr>Containers = [], DNSPolicy = [], RestartPolicy = [], Volumes = []\<rparr>\<rparr>\<rparr>,
     dep_Conditions = [\<lparr>dc_Type = t\<rparr>]\<rparr>"

lemma examples_sel [simp]:
  "history (startedNF name) = [Reconciling]" "observed (seenDeployment t) = Some t"
  by (simp_all add: startedNF_def seenDeployment_def history_def observed_def)

end
