(* ===== verification/ApiServer.thy ===== *)
theory ApiServer
  imports Client
begin

text \<open>
  The API server's side of the client, as a locale: what each call does to the objects the
  server holds, when no one else writes between two calls and the server accepts what it
  documents to accept.  \<open>viewOf\<close> is the abstraction: the objects a client can look up.  The
  theorems about convergence hold for every client with these laws; \<open>ApiStore\<close> has one.
\<close>

record cluster =
  nfsOf :: "NamespacedName \<rightharpoonup> NFDeployment"
  cmsOf :: "NamespacedName \<rightharpoonup> ConfigMap"
  svcsOf :: "NamespacedName \<rightharpoonup> Service"
  depsOf :: "NamespacedName \<rightharpoonup> Deployment"
  cfgsOf :: "NamespacedName \<rightharpoonup> Config"
  nadsOf :: "NamespacedName \<Rightarrow> bool"

definition answer :: "(error + 'a) \<times> 'w \<Rightarrow> 'a option" where
  "answer r = (case fst r of Inl e \<Rightarrow> None | Inr x \<Rightarrow> Some x)"

definition viewOf :: "'w client \<Rightarrow> 'w \<Rightarrow> cluster" where
  "viewOf c w = \<lparr>
     nfsOf = (\<lambda>k. answer (GetNFDeployment c k w)),
     cmsOf = (\<lambda>k. answer (GetConfigMap c k w)),
     svcsOf = (\<lambda>k. answer (GetService c k w)),
     depsOf = (\<lambda>k. answer (GetDeployment c k w)),
     cfgsOf = (\<lambda>k. answer (GetConfig c k w)),
     nadsOf = (\<lambda>k. answer (GetNAD c k w) \<noteq> None)\<rparr>"

text \<open>
  The server's copy of an object: a resource version of its own, and for a Deployment a
  generation of its own; the status of a new Deployment is empty, and an update leaves the
  stored status and deletion mark alone.
\<close>

definition versioned :: "string \<Rightarrow> ObjectMeta \<Rightarrow> ObjectMeta" where
  "versioned v m = m\<lparr>ResourceVersion := v\<rparr>"

definition createdDeployment :: "string \<Rightarrow> 64 word \<Rightarrow> Deployment \<Rightarrow> Deployment" where
  "createdDeployment v g d =
     d\<lparr>dep_Meta := (dep_Meta d)\<lparr>ResourceVersion := v, Generation := g\<rparr>, dep_Conditions := []\<rparr>"

definition updatedDeployment :: "string \<Rightarrow> 64 word \<Rightarrow> Deployment \<Rightarrow> Deployment \<Rightarrow> Deployment" where
  "updatedDeployment v g old d =
     d\<lparr>dep_Meta := (dep_Meta d)\<lparr>ResourceVersion := v, Generation := g,
         DeletionTimestamp := DeletionTimestamp (dep_Meta old)\<rparr>,
       dep_Conditions := dep_Conditions old\<rparr>"

lemma versioned_sel [simp]:
  "ResourceVersion (versioned v m) = v" "Name (versioned v m) = Name m" "Namespace (versioned v m) = Namespace m"
  "OwnerReferences (versioned v m) = OwnerReferences m" "keyOf (versioned v m) = keyOf m"
  by (simp_all add: versioned_def keyOf_def)

lemma createdDeployment_sel [simp]:
  "dep_Spec (createdDeployment v g d) = dep_Spec d" "dep_Conditions (createdDeployment v g d) = []"
  "OwnerReferences (dep_Meta (createdDeployment v g d)) = OwnerReferences (dep_Meta d)"
  "templateAnnotations (createdDeployment v g d) = templateAnnotations d"
  "keyOf (dep_Meta (createdDeployment v g d)) = keyOf (dep_Meta d)"
  "DeletionTimestamp (dep_Meta (createdDeployment v g d)) = DeletionTimestamp (dep_Meta d)"
  by (simp_all add: createdDeployment_def templateAnnotations_def keyOf_def)

lemma updatedDeployment_sel [simp]:
  "dep_Spec (updatedDeployment v g old d) = dep_Spec d"
  "dep_Conditions (updatedDeployment v g old d) = dep_Conditions old"
  "OwnerReferences (dep_Meta (updatedDeployment v g old d)) = OwnerReferences (dep_Meta d)"
  "templateAnnotations (updatedDeployment v g old d) = templateAnnotations d"
  "keyOf (dep_Meta (updatedDeployment v g old d)) = keyOf (dep_Meta d)"
  "DeletionTimestamp (dep_Meta (updatedDeployment v g old d)) = DeletionTimestamp (dep_Meta old)"
  by (simp_all add: updatedDeployment_def templateAnnotations_def keyOf_def)

text \<open>An update must carry the stored version, or none at all.\<close>

definition mayReplace :: "ObjectMeta \<Rightarrow> ObjectMeta \<Rightarrow> bool" where
  "mayReplace new old \<longleftrightarrow> ResourceVersion new = '''' \<or> ResourceVersion new = ResourceVersion old"

locale api_server =
  fixes c :: "'w client"
  assumes reads_leave:
      "snd (GetNFDeployment c k w) = w" "snd (GetConfigMap c k w) = w" "snd (GetService c k w) = w"
      "snd (GetDeployment c k w) = w" "snd (GetConfig c k w) = w" "snd (GetNAD c k w) = w"
    and create_config_map: "cmsOf (viewOf c w) (keyOf (cm_Meta cm)) = None \<Longrightarrow>
      \<exists>v w'. v \<noteq> '''' \<and> CreateConfigMap c cm w = (Inr (cm\<lparr>cm_Meta := versioned v (cm_Meta cm)\<rparr>), w')
        \<and> viewOf c w' = (viewOf c w)\<lparr>cmsOf := (cmsOf (viewOf c w))
            (keyOf (cm_Meta cm) \<mapsto> cm\<lparr>cm_Meta := versioned v (cm_Meta cm)\<rparr>)\<rparr>"
    and create_service: "svcsOf (viewOf c w) (keyOf (svc_Meta s)) = None \<Longrightarrow>
      \<exists>v w'. CreateService c s w = (Inr (s\<lparr>svc_Meta := versioned v (svc_Meta s)\<rparr>), w')
        \<and> viewOf c w' = (viewOf c w)\<lparr>svcsOf := (svcsOf (viewOf c w))
            (keyOf (svc_Meta s) \<mapsto> s\<lparr>svc_Meta := versioned v (svc_Meta s)\<rparr>)\<rparr>"
    and create_deployment: "depsOf (viewOf c w) (keyOf (dep_Meta d)) = None \<Longrightarrow>
      \<exists>v g w'. CreateDeployment c d w = (Inr (createdDeployment v g d), w')
        \<and> viewOf c w' = (viewOf c w)\<lparr>depsOf := (depsOf (viewOf c w))
            (keyOf (dep_Meta d) \<mapsto> createdDeployment v g d)\<rparr>"
    and update_deployment: "depsOf (viewOf c w) (keyOf (dep_Meta d)) = Some old \<Longrightarrow>
      mayReplace (dep_Meta d) (dep_Meta old) \<Longrightarrow>
      \<exists>v g w'. UpdateDeployment c d w = (Inr (updatedDeployment v g old d), w')
        \<and> viewOf c w' = (viewOf c w)\<lparr>depsOf := (depsOf (viewOf c w))
            (keyOf (dep_Meta d) \<mapsto> updatedDeployment v g old d)\<rparr>"
    and update_status: "nfsOf (viewOf c w) (keyOf (nf_Meta nf)) = Some oldnf \<Longrightarrow>
      mayReplace (nf_Meta nf) (nf_Meta oldnf) \<Longrightarrow>
      \<exists>v w'. let nf' = oldnf\<lparr>nf_Meta := versioned v (nf_Meta oldnf), nf_Status := nf_Status nf\<rparr> in
        UpdateStatus c nf w = (Inr nf', w')
        \<and> viewOf c w' = (viewOf c w)\<lparr>nfsOf := (nfsOf (viewOf c w))(keyOf (nf_Meta nf) \<mapsto> nf')\<rparr>"
begin

lemma reads:
  "nfsOf (viewOf c w) k = Some nf \<Longrightarrow> GetNFDeployment c k w = (Inr nf, w)"
  "cmsOf (viewOf c w) k = Some cm \<Longrightarrow> GetConfigMap c k w = (Inr cm, w)"
  "svcsOf (viewOf c w) k = Some s \<Longrightarrow> GetService c k w = (Inr s, w)"
  "depsOf (viewOf c w) k = Some d \<Longrightarrow> GetDeployment c k w = (Inr d, w)"
  "cfgsOf (viewOf c w) k = Some cfg \<Longrightarrow> GetConfig c k w = (Inr cfg, w)"
  "nadsOf (viewOf c w) k \<Longrightarrow> GetNAD c k w = (Inr (), w)"
  using reads_leave [of k w]
  by (auto simp: viewOf_def answer_def prod_eq_iff split: sum.splits)

lemma misses:
  "cmsOf (viewOf c w) k = None \<Longrightarrow> \<exists>e. GetConfigMap c k w = (Inl e, w)"
  "svcsOf (viewOf c w) k = None \<Longrightarrow> \<exists>e. GetService c k w = (Inl e, w)"
  "depsOf (viewOf c w) k = None \<Longrightarrow> \<exists>e. GetDeployment c k w = (Inl e, w)"
  "cfgsOf (viewOf c w) k = None \<Longrightarrow> \<exists>e. GetConfig c k w = (Inl e, w)"
  using reads_leave [of k w]
  by (auto simp: viewOf_def answer_def prod_eq_iff split: sum.splits)

end

end
