(* ===== verification/ApiStore.thy ===== *)
theory ApiStore
  imports ApiServer
begin

text \<open>
  Concrete instances of the model's parameters, from the documented behaviour of the API
  server and of the libraries: an object store with optimistic concurrency, and one
  instance of the library functions.  The reconcilers are not defined over them; they serve
  the interpretations of the client contracts and the witnesses.
\<close>

section \<open>The object store\<close>

record store =
  nfs :: "NamespacedName \<rightharpoonup> NFDeployment"
  cms :: "NamespacedName \<rightharpoonup> ConfigMap"
  svcs :: "NamespacedName \<rightharpoonup> Service"
  deps :: "NamespacedName \<rightharpoonup> Deployment"
  cfgs :: "NamespacedName \<rightharpoonup> Config"
  nads :: "NamespacedName \<Rightarrow> bool"
  revision :: nat
  clock :: Time

definition emptyStore :: store where
  "emptyStore = \<lparr>nfs = Map.empty, cms = Map.empty, svcs = Map.empty, deps = Map.empty,
     cfgs = Map.empty, nads = (\<lambda>_. False), revision = 0, clock = 0\<rparr>"

definition found :: "'a option \<Rightarrow> store \<Rightarrow> (error + 'a) \<times> store" where
  "found x s = (case x of None \<Rightarrow> (Inl NotFound, s) | Some y \<Rightarrow> (Inr y, s))"

text \<open>The next resource version: a decimal numeral, never the empty string.\<close>

definition nextVersion :: "store \<Rightarrow> string" where
  "nextVersion s = itoa (Suc (revision s))"

definition storeCreateConfigMap :: "ConfigMap \<Rightarrow> store \<Rightarrow> (error + ConfigMap) \<times> store" where
  "storeCreateConfigMap cm s =
     (let k = keyOf (cm_Meta cm); cm' = cm\<lparr>cm_Meta := (cm_Meta cm)\<lparr>ResourceVersion := nextVersion s\<rparr>\<rparr> in
      if cms s k \<noteq> None then (Inl AlreadyExists, s)
      else (Inr cm', s\<lparr>cms := (cms s)(k \<mapsto> cm'), revision := Suc (revision s)\<rparr>))"

definition storeCreateService :: "Service \<Rightarrow> store \<Rightarrow> (error + Service) \<times> store" where
  "storeCreateService svc s =
     (let k = keyOf (svc_Meta svc); svc' = svc\<lparr>svc_Meta := (svc_Meta svc)\<lparr>ResourceVersion := nextVersion s\<rparr>\<rparr> in
      if svcs s k \<noteq> None then (Inl AlreadyExists, s)
      else (Inr svc', s\<lparr>svcs := (svcs s)(k \<mapsto> svc'), revision := Suc (revision s)\<rparr>))"

definition storeCreateDeployment :: "Deployment \<Rightarrow> store \<Rightarrow> (error + Deployment) \<times> store" where
  "storeCreateDeployment d s =
     (let k = keyOf (dep_Meta d);
          d' = d\<lparr>dep_Meta := (dep_Meta d)\<lparr>ResourceVersion := nextVersion s, Generation := 1\<rparr>,
                 dep_Conditions := []\<rparr> in
      if deps s k \<noteq> None then (Inl AlreadyExists, s)
      else (Inr d', s\<lparr>deps := (deps s)(k \<mapsto> d'), revision := Suc (revision s)\<rparr>))"

text \<open>
  An update must carry the stored resource version or none at all; it does not touch the
  status, which is a subresource, nor the deletion mark.
\<close>

definition storeUpdateDeployment :: "Deployment \<Rightarrow> store \<Rightarrow> (error + Deployment) \<times> store" where
  "storeUpdateDeployment d s =
     (let k = keyOf (dep_Meta d) in
      case deps s k of
        None \<Rightarrow> (Inl NotFound, s)
      | Some old \<Rightarrow>
          if \<not> mayReplace (dep_Meta d) (dep_Meta old) then (Inl Conflict, s)
          else let d' = d\<lparr>dep_Meta := (dep_Meta d)\<lparr>ResourceVersion := nextVersion s,
                   Generation := Generation (dep_Meta old) + 1,
                   DeletionTimestamp := DeletionTimestamp (dep_Meta old)\<rparr>,
                 dep_Conditions := dep_Conditions old\<rparr> in
               (Inr d', s\<lparr>deps := (deps s)(k \<mapsto> d'), revision := Suc (revision s)\<rparr>))"

definition storeUpdateStatus :: "NFDeployment \<Rightarrow> store \<Rightarrow> (error + NFDeployment) \<times> store" where
  "storeUpdateStatus nf s =
     (let k = keyOf (nf_Meta nf) in
      case nfs s k of
        None \<Rightarrow> (Inl NotFound, s)
      | Some old \<Rightarrow>
          if \<not> mayReplace (nf_Meta nf) (nf_Meta old) then (Inl Conflict, s)
          else let nf' = old\<lparr>nf_Meta := (nf_Meta old)\<lparr>ResourceVersion := nextVersion s\<rparr>,
                 nf_Status := nf_Status nf\<rparr> in
               (Inr nf', s\<lparr>nfs := (nfs s)(k \<mapsto> nf'), revision := Suc (revision s)\<rparr>))"

definition storeClient :: "store client" where
  "storeClient = \<lparr>
     GetNFDeployment = (\<lambda>k s. found (nfs s k) s),
     GetConfigMap = (\<lambda>k s. found (cms s k) s),
     GetService = (\<lambda>k s. found (svcs s k) s),
     GetDeployment = (\<lambda>k s. found (deps s k) s),
     GetConfig = (\<lambda>k s. found (cfgs s k) s),
     GetNAD = (\<lambda>k s. found (if nads s k then Some () else None) s),
     CreateConfigMap = storeCreateConfigMap,
     CreateService = storeCreateService,
     CreateDeployment = storeCreateDeployment,
     UpdateDeployment = storeUpdateDeployment,
     UpdateStatus = storeUpdateStatus,
     Now = clock\<rparr>"

lemma storeClient_sel [simp]:
  "GetNFDeployment storeClient k s = found (nfs s k) s"
  "GetConfigMap storeClient k s = found (cms s k) s"
  "GetService storeClient k s = found (svcs s k) s"
  "GetDeployment storeClient k s = found (deps s k) s"
  "GetConfig storeClient k s = found (cfgs s k) s"
  "GetNAD storeClient k s = found (if nads s k then Some () else None) s"
  "CreateConfigMap storeClient = storeCreateConfigMap"
  "CreateService storeClient = storeCreateService"
  "CreateDeployment storeClient = storeCreateDeployment"
  "UpdateDeployment storeClient = storeUpdateDeployment"
  "UpdateStatus storeClient = storeUpdateStatus"
  "Now storeClient = clock"
  by (simp_all add: storeClient_def)

lemma found_simps [simp]:
  "found None s = (Inl NotFound, s)" "found (Some x) s = (Inr x, s)"
  by (simp_all add: found_def)

lemma nextVersion_nonempty [simp]: "nextVersion s \<noteq> ''''" "nextVersion s \<noteq> []"
  by (simp_all add: nextVersion_def)

text \<open>The store is an API server in the sense of the contract.\<close>

lemma viewOf_store [simp]:
  "viewOf storeClient s = \<lparr>nfsOf = nfs s, cmsOf = cms s, svcsOf = svcs s, depsOf = deps s, cfgsOf = cfgs s,
     nadsOf = nads s\<rparr>"
  by (auto simp: viewOf_def answer_def found_def fun_eq_iff split: option.splits)

interpretation store: api_server storeClient
proof
  fix k w cm sv d old nf
  show "snd (GetNFDeployment storeClient k w) = w" "snd (GetConfigMap storeClient k w) = w"
    "snd (GetService storeClient k w) = w" "snd (GetDeployment storeClient k w) = w"
    "snd (GetConfig storeClient k w) = w" "snd (GetNAD storeClient k w) = w"
    by (simp_all add: found_def split: option.split)
  show "cmsOf (viewOf storeClient w) (keyOf (cm_Meta cm)) = None \<Longrightarrow>
      \<exists>v w'. v \<noteq> '''' \<and> CreateConfigMap storeClient cm w = (Inr (cm\<lparr>cm_Meta := versioned v (cm_Meta cm)\<rparr>), w')
        \<and> viewOf storeClient w' = (viewOf storeClient w)\<lparr>cmsOf := (cmsOf (viewOf storeClient w))
            (keyOf (cm_Meta cm) \<mapsto> cm\<lparr>cm_Meta := versioned v (cm_Meta cm)\<rparr>)\<rparr>"
    by (intro exI [of _ "nextVersion w"]) (simp add: storeCreateConfigMap_def Let_def versioned_def)
  show "svcsOf (viewOf storeClient w) (keyOf (svc_Meta sv)) = None \<Longrightarrow>
      \<exists>v w'. CreateService storeClient sv w = (Inr (sv\<lparr>svc_Meta := versioned v (svc_Meta sv)\<rparr>), w')
        \<and> viewOf storeClient w' = (viewOf storeClient w)\<lparr>svcsOf := (svcsOf (viewOf storeClient w))
            (keyOf (svc_Meta sv) \<mapsto> sv\<lparr>svc_Meta := versioned v (svc_Meta sv)\<rparr>)\<rparr>"
    by (intro exI [of _ "nextVersion w"]) (simp add: storeCreateService_def Let_def versioned_def)
  show "depsOf (viewOf storeClient w) (keyOf (dep_Meta d)) = None \<Longrightarrow>
      \<exists>v g w'. CreateDeployment storeClient d w = (Inr (createdDeployment v g d), w')
        \<and> viewOf storeClient w' = (viewOf storeClient w)\<lparr>depsOf := (depsOf (viewOf storeClient w))
            (keyOf (dep_Meta d) \<mapsto> createdDeployment v g d)\<rparr>"
    by (intro exI [of _ "nextVersion w"] exI [of _ 1])
      (simp add: storeCreateDeployment_def Let_def createdDeployment_def)
  show "depsOf (viewOf storeClient w) (keyOf (dep_Meta d)) = Some old \<Longrightarrow>
      mayReplace (dep_Meta d) (dep_Meta old) \<Longrightarrow>
      \<exists>v g w'. UpdateDeployment storeClient d w = (Inr (updatedDeployment v g old d), w')
        \<and> viewOf storeClient w' = (viewOf storeClient w)\<lparr>depsOf := (depsOf (viewOf storeClient w))
            (keyOf (dep_Meta d) \<mapsto> updatedDeployment v g old d)\<rparr>"
    by (intro exI [of _ "nextVersion w"] exI [of _ "Generation (dep_Meta old) + 1"])
      (simp add: storeUpdateDeployment_def Let_def updatedDeployment_def mayReplace_def)
  show "nfsOf (viewOf storeClient w) (keyOf (nf_Meta nf)) = Some old' \<Longrightarrow>
      mayReplace (nf_Meta nf) (nf_Meta old') \<Longrightarrow>
      \<exists>v w'. let nf' = old'\<lparr>nf_Meta := versioned v (nf_Meta old'), nf_Status := nf_Status nf\<rparr> in
        UpdateStatus storeClient nf w = (Inr nf', w')
        \<and> viewOf storeClient w' = (viewOf storeClient w)\<lparr>nfsOf := (nfsOf (viewOf storeClient w))(keyOf (nf_Meta nf) \<mapsto> nf')\<rparr>"
    for old'
    by (intro exI [of _ "nextVersion w"]) (simp add: storeUpdateStatus_def Let_def versioned_def mayReplace_def)
qed

section \<open>An instance of the library functions\<close>

text \<open>Quantities: a decimal integer and a suffix; \<open>Value\<close> rounds up.\<close>

definition exampleQuantity :: "Quantity \<Rightarrow> int" where
  "exampleQuantity q = (case q of MustParse s \<Rightarrow>
     let n = int (foldl (\<lambda>a c. 10 * a + digit_val c) 0 (takeWhile is_digit s));
         suffix = dropWhile is_digit s in
     if suffix = ''m'' then (n + 999) div 1000
     else if suffix = ''k'' then n * 1000
     else if suffix = ''M'' then n * 1000000
     else if suffix = ''G'' then n * 1000000000
     else if suffix = ''Ki'' then n * 1024
     else if suffix = ''Mi'' then n * 1048576
     else if suffix = ''Gi'' then n * 1073741824
     else n)"

definition exampleOwner :: "NFDeployment \<Rightarrow> OwnerReference" where
  "exampleOwner nf = \<lparr>owner_Kind = ''NFDeployment'', owner_Name = Name (nf_Meta nf)\<rparr>"

definition exampleGVK :: GroupVersionKind where
  "exampleGVK = \<lparr>Group = ''workload.nephio.org'', Version = ''v1alpha1'', Kind = ''NFDeployment''\<rparr>"

text \<open>
  The codecs of this instance read one NFDeployment back from its name; a controller
  reference is refused when another controller already owns the object.
\<close>

definition exampleLib :: "NFDeployment \<Rightarrow> lib" where
  "exampleLib upf = \<lparr>
     uprint = (\<lambda>r. True),
     quantityValue = exampleQuantity,
     marshalObject = (\<lambda>x. Inr (objectContent x)),
     unmarshalNFDeployment = (\<lambda>s. if s = Name (nf_Meta upf) then Inr upf else Inl JsonError),
     NFDeploymentGVK = exampleGVK,
     SetControllerReference = (\<lambda>owner m.
       if OwnerReferences m = [] then Inr (m\<lparr>OwnerReferences := [exampleOwner owner]\<rparr>)
       else Inl OwnerReferenceError)\<rparr>"

lemma exampleLib_sel [simp]:
  "uprint (exampleLib upf) = (\<lambda>r. True)"
  "quantityValue (exampleLib upf) = exampleQuantity"
  "NFDeploymentGVK (exampleLib upf) = exampleGVK"
  by (simp_all add: exampleLib_def)

lemma exampleQuantity_values:
  "exampleQuantity (MustParse ''5G'') = 5000000000"
  "exampleQuantity (MustParse ''1G'') = 1000000000"
  "exampleQuantity (MustParse ''6G'') = 6000000000"
  by (simp_all add: exampleQuantity_def is_digit_def digit_val_def)

text \<open>A small NFDeployment for the witnesses.\<close>

definition exampleNF :: "string \<Rightarrow> InterfaceConfig list \<Rightarrow> NetworkInstance list \<Rightarrow> NFDeployment" where
  "exampleNF provider ifcs nets = \<lparr>
     nf_Meta = zeroMeta\<lparr>Name := ''nf'', Namespace := ''ns''\<rparr>,
     nf_Spec = \<lparr>Provider = provider,
       Capacity = Some \<lparr>MaxUplinkThroughput = MustParse ''1G'', MaxDownlinkThroughput = MustParse ''5G'',
         MaxSessions = 1000, MaxSubscribers = 1000, MaxNFConnections = 2000\<rparr>,
       Interfaces = ifcs, NetworkInstances = nets, ParametersRefs = []\<rparr>,
     nf_Status = \<lparr>ObservedGeneration = 0, Conditions = []\<rparr>\<rparr>"

lemma exampleNF_sel [simp]:
  "Interfaces (nf_Spec (exampleNF p is ns)) = is" "NetworkInstances (nf_Spec (exampleNF p is ns)) = ns"
  "Provider (nf_Spec (exampleNF p is ns)) = p" "ParametersRefs (nf_Spec (exampleNF p is ns)) = []"
  "Name (nf_Meta (exampleNF p is ns)) = ''nf''" "Namespace (nf_Meta (exampleNF p is ns)) = ''ns''"
  by (simp_all add: exampleNF_def)

end
