(* ===== verification/GoNet.thy ===== *)
theory GoNet
  imports GoStrings "HOL-Library.Word"
begin

text \<open>
  Go's \<open>net.ParseCIDR\<close> and \<open>IP.String\<close> (with the parts of \<open>net/netip\<close> they call),
  for IPv4 and IPv6 addresses.  An address is its bytes.  Proved here: IPv4 parsing accepts
  exactly the canonical dotted form, so that parsing and printing are inverse.
\<close>

section \<open>IPv4 text\<close>

type_synonym bytes = "8 word list"

text \<open>
  The loop of \<open>netip.parseIPv4Fields\<close>: the value and the number of digits of the current
  octet, the number of finished octets, whether the previous byte is a dot (or there is
  none), the finished octets.
\<close>

fun parseIPv4Loop :: "nat \<Rightarrow> nat \<Rightarrow> nat \<Rightarrow> bool \<Rightarrow> bytes \<Rightarrow> string \<Rightarrow> bytes option" where
  "parseIPv4Loop val pos digLen prevDot fs [] =
     (if pos < 3 then None else Some (fs @ [word_of_nat val]))"
| "parseIPv4Loop val pos digLen prevDot fs (c # cs) =
     (if is_digit c then
        (if digLen = 1 \<and> val = 0 then None
         else let val' = val * 10 + digit_val c in
           if 255 < val' then None else parseIPv4Loop val' pos (Suc digLen) False fs cs)
      else if c = CHR ''.'' then
        (if prevDot \<or> cs = [] then None
         else if pos = 3 then None
         else parseIPv4Loop 0 (Suc pos) 0 True (fs @ [word_of_nat val]) cs)
      else None)"

definition parseIPv4Fields :: "string \<Rightarrow> bytes option" where
  "parseIPv4Fields s = parseIPv4Loop 0 0 0 True [] s"

text \<open>\<open>Addr.string4\<close>.\<close>

definition string4 :: "bytes \<Rightarrow> string" where
  "string4 fs = Join (map (\<lambda>b. itoa (unat b)) fs) ''.''"

section \<open>IPv6 text\<close>

fun hexval :: "nat \<Rightarrow> string \<Rightarrow> nat" where
  "hexval acc [] = acc"
| "hexval acc (c # cs) = hexval (acc * 16 + hex_val c) cs"

text \<open>
  The loop of \<open>netip.parseIPv6\<close> over the address without its zone: the bytes so far, the
  position of the ellipsis, the rest of the text.
\<close>

function parseIPv6Loop :: "bytes \<Rightarrow> nat option \<Rightarrow> string \<Rightarrow> (bytes \<times> nat option \<times> string) option" where
  "parseIPv6Loop ip ellipsis s =
     (if 16 \<le> length ip then Some (ip, ellipsis, s)
      else let h = takeWhile is_hex s; off = length h; acc = hexval 0 h in
        if 4 < off \<or> off = 0 then None
        else if off < length s \<and> s ! off = CHR ''.'' then
          (if ellipsis = None \<and> length ip \<noteq> 12 then None
           else if 16 < length ip + 4 then None
           else (case parseIPv4Fields s of
               None \<Rightarrow> None
             | Some fs \<Rightarrow> Some (ip @ fs, ellipsis, [])))
        else let ip' = ip @ [word_of_nat (acc div 256), word_of_nat acc] in
          (case drop off s of
             [] \<Rightarrow> Some (ip', ellipsis, [])
           | [c] \<Rightarrow> None
           | c # d # t \<Rightarrow>
               (if c \<noteq> CHR '':'' then None
                else if d = CHR '':'' then
                  (if ellipsis \<noteq> None then None
                   else if t = [] then Some (ip', Some (length ip'), [])
                   else parseIPv6Loop ip' (Some (length ip')) t)
                else parseIPv6Loop ip' ellipsis (d # t))))"
  by pat_completeness auto
termination
  by (relation "measure (\<lambda>(ip, _, _). 16 - length ip)") (auto simp: Let_def)

declare parseIPv6Loop.simps [simp del]

text \<open>\<open>netip.parseIPv6\<close>: the sixteen bytes and the zone.\<close>

definition expandEllipsis :: "bytes \<times> nat option \<times> string \<Rightarrow> bytes option" where
  "expandEllipsis = (\<lambda>(ip, ellipsis, s).
     if s \<noteq> [] then None
     else if length ip < 16 then
       map_option (\<lambda>e. take e ip @ replicate (16 - length ip) 0 @ drop e ip) ellipsis
     else if ellipsis = None then Some ip else None)"

definition parseIPv6 :: "string \<Rightarrow> (bytes \<times> string) option" where
  "parseIPv6 input =
     (let (s, zone, ok) = (case Cut input (CHR ''%'') of
              None \<Rightarrow> (input, [], True)
            | Some (a, z) \<Rightarrow> (a, z, z \<noteq> [])) in
      if \<not> ok then None
      else if s = ''::'' then Some (replicate 16 0, zone)
      else map_option (\<lambda>ip. (ip, zone)) (Option.bind
        (if take 2 s = ''::'' then parseIPv6Loop [] (Some 0) (drop 2 s) else parseIPv6Loop [] None s)
        expandEllipsis))"

text \<open>\<open>netip.ParseAddr\<close> looks for the first byte that tells the families apart.\<close>

datatype Addr = Addr4 bytes | Addr6 bytes string

definition ParseAddr :: "string \<Rightarrow> Addr option" where
  "ParseAddr s =
     (case filter (\<lambda>c. c = CHR ''.'' \<or> c = CHR '':'' \<or> c = CHR ''%'') s of
        [] \<Rightarrow> None
      | c # _ \<Rightarrow>
          if c = CHR ''.'' then map_option Addr4 (parseIPv4Fields s)
          else if c = CHR '':'' then map_option (\<lambda>(ip, z). Addr6 ip z) (parseIPv6 s)
          else None)"

section \<open>ParseCIDR and String\<close>

text \<open>\<open>net.dtoi\<close>: the number and how many bytes it took; \<open>None\<close> when it is not ok.\<close>

fun dtoiLoop :: "nat \<Rightarrow> nat \<Rightarrow> string \<Rightarrow> (nat \<times> nat) option" where
  "dtoiLoop n i [] = Some (n, i)"
| "dtoiLoop n i (c # cs) =
     (if is_digit c then
        (let n' = n * 10 + digit_val c in if 16777215 \<le> n' then None else dtoiLoop n' (Suc i) cs)
      else Some (n, i))"

definition dtoi :: "string \<Rightarrow> (nat \<times> nat) option" where
  "dtoi s = (case dtoiLoop 0 0 s of
      None \<Rightarrow> None
    | Some (n, i) \<Rightarrow> if i = 0 then None else Some (n, i))"

fun As16 :: "Addr \<Rightarrow> bytes" where
  "As16 (Addr4 b) = replicate 10 0 @ [255, 255] @ b"
| "As16 (Addr6 b z) = b"

fun BitLen :: "Addr \<Rightarrow> nat" where
  "BitLen (Addr4 b) = 32"
| "BitLen (Addr6 b z) = 128"

fun Zone :: "Addr \<Rightarrow> string" where
  "Zone (Addr4 b) = []"
| "Zone (Addr6 b z) = z"

text \<open>
  \<open>net.ParseCIDR\<close>; of its results the operator uses the address and the error, so the
  network (the address under the mask) is left out.
\<close>

definition ParseCIDR :: "string \<Rightarrow> bytes go" where
  "ParseCIDR s =
     (case Cut s (CHR ''/'') of
        None \<Rightarrow> Err (ParseCIDRError s)
      | Some (addr, bits) \<Rightarrow>
          (case ParseAddr addr of
             None \<Rightarrow> Err (ParseCIDRError s)
           | Some a \<Rightarrow>
               if Zone a \<noteq> [] then Err (ParseCIDRError s)
               else (case dtoi bits of
                   None \<Rightarrow> Err (ParseCIDRError s)
                 | Some (n, i) \<Rightarrow>
                     if i \<noteq> length bits \<or> BitLen a < n then Err (ParseCIDRError s)
                     else Ret (As16 a))))"

definition To4 :: "bytes \<Rightarrow> bytes option" where
  "To4 ip = (if length ip = 4 then Some ip
     else if length ip = 16 \<and> take 12 ip = replicate 10 0 @ [255, 255] then Some (drop 12 ip)
     else None)"

fun words16 :: "bytes \<Rightarrow> nat list" where
  "words16 (a # b # r) = (256 * unat a + unat b) # words16 r"
| "words16 _ = []"

fun hexnum :: "nat \<Rightarrow> string" where
  "hexnum n = (if n < 16 then [hexdigit n] else hexnum (n div 16) @ [hexdigit (n mod 16)])"

text \<open>The longest run of at least two zero groups, the first one of that length.\<close>

definition zeroRun :: "nat list \<Rightarrow> nat \<times> nat" where
  "zeroRun ws = fold (\<lambda>i (zs, ze).
     let j = i + length (takeWhile (\<lambda>w. w = 0) (drop i ws)) in
     if 2 \<le> j - i \<and> ze - zs < j - i then (i, j) else (zs, ze)) [0..<length ws] (255, 255)"

definition string6 :: "bytes \<Rightarrow> string" where
  "string6 ip = (let ws = words16 ip; (zs, ze) = zeroRun ws in
     if zs = 255 then Join (map hexnum ws) '':''
     else Join (map hexnum (take zs ws)) '':'' @ ''::'' @ Join (map hexnum (drop ze ws)) '':'')"

text \<open>\<open>IP.String\<close>, for the addresses \<open>ParseCIDR\<close> returns.\<close>

definition IPString :: "bytes \<Rightarrow> string" where
  "IPString ip = (case To4 ip of Some b \<Rightarrow> string4 b | None \<Rightarrow> string6 ip)"

section \<open>IPv4: printing then parsing\<close>

lemma parseIPv4Loop_itoa:
  "n \<le> 255 \<Longrightarrow> parseIPv4Loop 0 pos 0 pd fs (itoa n @ r) =
     parseIPv4Loop n pos (length (itoa n)) False fs r"
proof (induction n arbitrary: r rule: itoa.induct)
  case (1 n)
  show ?case
  proof (cases "n < 10")
    case True
    then show ?thesis by (simp add: itoa_digit Let_def)
  next
    case False
    then have n: "itoa n = itoa (n div 10) @ [digit (n mod 10)]" by (simp add: itoa.simps [of n])
    from False "1.prems" have "n div 10 \<noteq> 0" "n div 10 \<le> 255"
      "n div 10 * 10 + n mod 10 = n" by simp_all
    with "1.IH" [OF False] "1.prems" show ?thesis by (simp add: n Let_def)
  qed
qed

lemma parseIPv4Fields_string4:
  "length fs = 4 \<Longrightarrow> parseIPv4Fields (string4 fs) = Some fs"
proof -
  assume "length fs = 4"
  then obtain a b c d where fs: "fs = [a, b, c, d]"
    by (auto simp: numeral_eq_Suc length_Suc_conv)
  have le: "unat (x :: 8 word) \<le> 255" for x
    using unsigned_less [where ?'a = nat, of x] by simp
  have dot: "\<not> is_digit (CHR ''.'')" by (simp add: is_digit_def)
  show ?thesis
    using parseIPv4Loop_itoa [where r = "[]", OF le]
    by (simp add: fs parseIPv4Fields_def string4_def parseIPv4Loop_itoa [OF le] dot)
qed

section \<open>IPv4: parsing accepts only the printed form\<close>

lemma itoa_len_pos: "2 \<le> length (itoa n) \<Longrightarrow> 0 < n"
  by (cases n) (auto simp: itoa_digit)

lemma unat_word_of_octet: "n \<le> 255 \<Longrightarrow> unat (word_of_nat n :: 8 word) = n"
  by (simp add: unsigned_of_nat take_bit_nat_def)

lemma itoa_more:
  assumes "is_digit c" and nz: "\<not> (length cur = 1 \<and> val = 0)"
    and "cur = [] \<Longrightarrow> val = 0" "cur \<noteq> [] \<Longrightarrow> cur = itoa val"
  shows "cur @ [c] = itoa (val * 10 + digit_val c)"
proof (cases "cur = []")
  case True
  with assms show ?thesis by (simp add: itoa_digit)
next
  case False
  with nz assms(4) have "0 < val"
    using itoa_len_pos [of val] by (cases "length cur") (auto simp: Suc_le_eq)
  with False assms(1,4) show ?thesis
    using itoa_snoc [of val "digit_val c"] by (simp add: mult.commute)
qed

lemma string4_octet: "gs \<noteq> [] \<Longrightarrow> n \<le> 255 \<Longrightarrow> string4 (word_of_nat n # gs) = itoa n @ ''.'' @ string4 gs"
  by (cases gs) (auto simp: string4_def unat_word_of_octet)

text \<open>The invariant of the loop: \<open>cur\<close> is the text of the octet being read.\<close>

lemma parseIPv4Loop_canonical:
  assumes "parseIPv4Loop val pos digLen pd fs s = Some r"
    and "pd = (digLen = 0)" and "val \<le> 255" and "length cur = digLen"
    and "digLen = 0 \<Longrightarrow> val = 0" and "digLen \<noteq> 0 \<Longrightarrow> cur = itoa val"
    and "pos \<le> 3" and "pd \<Longrightarrow> s \<noteq> [] \<or> pos < 3"
  shows "\<exists>gs. r = fs @ gs \<and> length gs = 4 - pos \<and> cur @ s = string4 gs"
  using assms
proof (induction val pos digLen pd fs s arbitrary: cur rule: parseIPv4Loop.induct)
  case (1 val pos digLen pd fs)
  then have "pos = 3" "r = fs @ [word_of_nat val]" "cur = itoa val"
    by (auto split: if_splits)
  then show ?case
    using "1.prems"(3) by (intro exI [of _ "[word_of_nat val]"])
      (simp add: string4_def unat_word_of_octet)
next
  case (2 val pos digLen pd fs c cs)
  consider (digit) "is_digit c" | (dot) "\<not> is_digit c" "c = CHR ''.''"
    using "2.prems"(1) by (auto split: if_splits)
  then show ?case
  proof cases
    case digit
    let ?val = "val * 10 + digit_val c"
    have run: "parseIPv4Loop ?val pos (Suc digLen) False fs cs = Some r"
      and le: "?val \<le> 255" and nz: "\<not> (digLen = 1 \<and> val = 0)"
      using "2.prems"(1) digit by (auto simp: Let_def split: if_splits)
    have cur: "cur @ [c] = itoa ?val"
      using digit nz "2.prems"(4-6) by (intro itoa_more) auto
    have len: "length (itoa ?val) = Suc digLen"
      using arg_cong [OF cur, of length] "2.prems"(4) by simp
    have eq: "cur @ c # cs = itoa ?val @ cs"
      unfolding cur [symmetric] by simp
    show ?thesis
      unfolding eq using "2.IH"(1) [OF digit nz refl _ run, of "itoa ?val"] le len "2.prems"(7)
      by simp
  next
    case dot
    have run: "parseIPv4Loop 0 (Suc pos) 0 True (fs @ [word_of_nat val]) cs = Some r"
      and nd: "\<not> (pd \<or> cs = [])" and pos: "pos \<noteq> 3"
      using "2.prems"(1) dot by (auto split: if_splits)
    obtain gs where gs: "r = (fs @ [word_of_nat val]) @ gs" "length gs = 4 - Suc pos"
        "[] @ cs = string4 gs"
      using "2.IH"(2) [OF dot(1,2) nd pos run, of "[]"] nd pos "2.prems"(7) by auto
    have cur: "cur = itoa val" using nd "2.prems"(2,6) by simp
    have "gs \<noteq> []" using gs(2) pos "2.prems"(7) by auto
    with string4_octet [of gs val] gs cur dot pos "2.prems"(3,7) show ?thesis
      by (intro exI [of _ "word_of_nat val # gs"]) auto
  qed
qed

lemma parseIPv4Fields_canonical:
  assumes "parseIPv4Fields s = Some fs"
  shows "length fs = 4 \<and> string4 fs = s"
  using parseIPv4Loop_canonical [OF assms [unfolded parseIPv4Fields_def], of "[]"] by simp

section \<open>CIDR text\<close>

lemma dtoiLoop_itoa:
  "n < 16777215 \<Longrightarrow> dtoiLoop 0 0 (itoa n @ r) = dtoiLoop n (length (itoa n)) r"
proof (induction n arbitrary: r rule: itoa.induct)
  case (1 n)
  show ?case
  proof (cases "n < 10")
    case True
    then show ?thesis by (simp add: itoa_digit)
  next
    case False
    then have n: "itoa n = itoa (n div 10) @ [digit (n mod 10)]" by (simp add: itoa.simps [of n])
    from False "1.prems" have "n div 10 < 16777215" "n div 10 * 10 + n mod 10 = n" by simp_all
    with "1.IH" [OF False] "1.prems" show ?thesis by (simp add: n Let_def)
  qed
qed

lemma dtoi_itoa [simp]: "n < 16777215 \<Longrightarrow> dtoi (itoa n) = Some (n, length (itoa n))"
  using dtoiLoop_itoa [of n "[]"] by (simp add: dtoi_def)

lemma string4_chars: "c \<in> set (string4 fs) \<Longrightarrow> is_digit c \<or> c = CHR ''.''"
proof (induction fs)
  case Nil
  then show ?case by (simp add: string4_def)
next
  case (Cons b fs)
  then show ?case
    by (cases fs) (auto simp: string4_def dest: itoa_digits)
qed

lemma string4_filter:
  assumes "length fs = 4"
  shows "\<exists>r. filter (\<lambda>c. c = CHR ''.'' \<or> c = CHR '':'' \<or> c = CHR ''%'') (string4 fs) = CHR ''.'' # r"
proof -
  obtain a b c d where fs: "fs = [a, b, c, d]"
    using assms by (auto simp: numeral_eq_Suc length_Suc_conv)
  have "filter (\<lambda>c. c = CHR ''.'' \<or> c = CHR '':'' \<or> c = CHR ''%'') (itoa n) = []" for n
    using itoa_digits [of _ n] is_digit_not_sep by (auto simp: filter_empty_conv)
  then show ?thesis by (simp add: fs string4_def)
qed

lemma ParseAddr_string4: "length fs = 4 \<Longrightarrow> ParseAddr (string4 fs) = Some (Addr4 fs)"
  using string4_filter [of fs] parseIPv4Fields_string4 [of fs] by (auto simp: ParseAddr_def)

lemma To4_As16 [simp]: "length fs = 4 \<Longrightarrow> To4 (As16 (Addr4 fs)) = Some fs"
  by (simp add: To4_def)

text \<open>Every IPv4 address with a prefix length parses, and prints back as it was written.\<close>

lemma ParseCIDR_string4:
  assumes "length fs = 4" "n \<le> 32"
  shows "ParseCIDR (string4 fs @ ''/'' @ itoa n) = Ret (As16 (Addr4 fs))"
proof -
  have "CHR ''/'' \<notin> set (string4 fs)"
    using string4_chars is_digit_not_sep by fastforce
  then have "Cut (string4 fs @ CHR ''/'' # itoa n) (CHR ''/'') = Some (string4 fs, itoa n)"
    by (rule Cut_append)
  with assms show ?thesis by (simp add: ParseCIDR_def ParseAddr_string4)
qed

lemma IPString_Addr4: "length fs = 4 \<Longrightarrow> IPString (As16 (Addr4 fs)) = string4 fs"
  using To4_As16 [of fs] by (simp only: IPString_def option.case)

lemma ParseAddr_no_colon:
  assumes "ParseAddr s = Some a" and "CHR '':'' \<notin> set s"
  shows "\<exists>fs. a = Addr4 fs \<and> parseIPv4Fields s = Some fs"
proof (cases "filter (\<lambda>c. c = CHR ''.'' \<or> c = CHR '':'' \<or> c = CHR ''%'') s")
  case Nil
  with assms(1) show ?thesis by (simp add: ParseAddr_def)
next
  case (Cons c r)
  then have "c \<in> set s"
    by (metis filter_is_subset list.set_intros(1) subset_iff)
  with assms(2) have "c \<noteq> CHR '':''" by auto
  with assms(1) Cons show ?thesis by (auto simp: ParseAddr_def split: if_splits)
qed

text \<open>
  What \<open>ParseCIDR\<close> accepts when the text holds no colon: canonical IPv4 text, a slash and
  a prefix length of at most 32.
\<close>

lemma ParseCIDR_canonical:
  assumes "ParseCIDR s = Ret ip" and "CHR '':'' \<notin> set s"
  shows "\<exists>bits. s = IPString ip @ ''/'' @ bits \<and> (\<exists>n \<le> 32. dtoi bits = Some (n, length bits))"
proof -
  from assms(1) obtain addr bits a n where cut: "Cut s (CHR ''/'') = Some (addr, bits)"
    and a: "ParseAddr addr = Some a" and n: "dtoi bits = Some (n, length bits)" "n \<le> BitLen a"
    and ip: "ip = As16 a"
    by (auto simp: ParseCIDR_def split: option.splits prod.splits if_splits)
  from cut have s: "s = addr @ CHR ''/'' # bits" by (simp add: Cut_Some)
  with assms(2) have "CHR '':'' \<notin> set addr" by simp
  with a have "\<exists>fs. a = Addr4 fs \<and> parseIPv4Fields addr = Some fs"
    by (rule ParseAddr_no_colon)
  then obtain fs where fs: "a = Addr4 fs" "length fs = 4" "string4 fs = addr"
    using parseIPv4Fields_canonical by blast
  have "IPString ip = addr"
    unfolding ip fs(1) IPString_Addr4 [OF fs(2)] by (rule fs(3))
  with n s fs show ?thesis by (intro exI [of _ bits]) auto
qed

end
