(* ===== verification/InterfaceConfigs.thy ===== *)
theory InterfaceConfigs
  imports ApiTypes GoNet
begin

text \<open>
  \<open>controllers/interface_configs.go\<close>: selecting the interfaces of an NFDeployment by name
  and reading the address of the first one.
\<close>

section \<open>Definitions\<close>

fun GetInterfaceConfigs :: "InterfaceConfig list \<Rightarrow> string \<Rightarrow> InterfaceConfig list" where
  "GetInterfaceConfigs [] interfaceName = []"
| "GetInterfaceConfigs (interfaceConfig # rest) interfaceName =
     (if ifc_Name interfaceConfig = interfaceName
      then interfaceConfig # GetInterfaceConfigs rest interfaceName
      else GetInterfaceConfigs rest interfaceName)"

fun GetFirstInterfaceConfig :: "InterfaceConfig list \<Rightarrow> string \<Rightarrow> InterfaceConfig go" where
  "GetFirstInterfaceConfig [] interfaceName = Err (InterfaceNotFound interfaceName)"
| "GetFirstInterfaceConfig (interfaceConfig # rest) interfaceName =
     (if ifc_Name interfaceConfig = interfaceName then Ret interfaceConfig
      else GetFirstInterfaceConfig rest interfaceName)"

definition GetFirstInterfaceConfigIPv4 :: "InterfaceConfig list \<Rightarrow> string \<Rightarrow> string go" where
  "GetFirstInterfaceConfigIPv4 interfaceConfigs interfaceName =
     bind_go (GetFirstInterfaceConfig interfaceConfigs interfaceName) (\<lambda>interfaceConfig.
     bind_go (deref (IPv4 interfaceConfig)) (\<lambda>ipv4.
     bind_go (ParseCIDR (Address ipv4)) (\<lambda>ip.
     Ret (IPString ip))))"

section \<open>Lemmas\<close>

lemma GetInterfaceConfigs_filter:
  "GetInterfaceConfigs cs n = filter (\<lambda>c. ifc_Name c = n) cs"
  by (induction cs) auto

lemma GetInterfaceConfigs_set [simp]:
  "set (GetInterfaceConfigs cs n) = {c \<in> set cs. ifc_Name c = n}"
  by (auto simp: GetInterfaceConfigs_filter)

lemma GetFirstInterfaceConfig_conv:
  "GetFirstInterfaceConfig cs n =
     (case GetInterfaceConfigs cs n of [] \<Rightarrow> Err (InterfaceNotFound n) | c # _ \<Rightarrow> Ret c)"
  by (induction cs) auto

lemma GetFirstInterfaceConfig_Ret:
  "GetFirstInterfaceConfig cs n = Ret c \<Longrightarrow> c \<in> set cs \<and> ifc_Name c = n"
  by (induction cs) (auto split: if_splits)

lemma GetFirstInterfaceConfig_not_Panic [simp]: "GetFirstInterfaceConfig cs n \<noteq> Panic p"
  by (induction cs) auto

lemma ParseCIDR_not_Panic [simp]: "ParseCIDR s \<noteq> Panic p"
  by (auto simp: ParseCIDR_def split: option.splits prod.splits)

text \<open>Two addresses evaluated once, for the witnesses.\<close>

lemma example_ipv4_text: "''10.10.12.10/24'' = string4 [10, 10, 12, 10] @ ''/'' @ itoa 24"
  "string4 [10, 10, 12, 10] = ''10.10.12.10''"
  by code_simp+

lemma ParseCIDR_example: "ParseCIDR ''10.10.12.10/24'' = Ret (As16 (Addr4 [10, 10, 12, 10]))"
  unfolding example_ipv4_text(1) by (rule ParseCIDR_string4) simp_all

lemma IPString_example: "IPString (As16 (Addr4 [10, 10, 12, 10])) = ''10.10.12.10''"
  unfolding example_ipv4_text(2) [symmetric] by (rule IPString_Addr4) simp

lemma ParseCIDR_IPv6_example:
  "ParseCIDR ''2001:db8::1/64'' = Ret [32, 1, 13, 184, 0, 0, 0, 0, 0, 0, 0, 0, 0, 0, 0, 1]"
  by (simp add: ParseCIDR_def ParseAddr_def parseIPv6_def parseIPv6Loop.simps is_hex_def hex_val_def
      dtoi_def is_digit_def digit_val_def expandEllipsis_def Let_def)
    (simp add: numeral_eq_Suc)

lemma IPString_IPv6_example:
  "IPString [32, 1, 13, 184, 0, 0, 0, 0, 0, 0, 0, 0, 0, 0, 0, 1] = ''2001:db8::1''"
  by (simp add: IPString_def To4_def string6_def zeroRun_def Let_def upt_rec hexdigit_def
      char_of_eq_iff)

section \<open>Properties\<close>

text \<open>
  C37: the address lookup returns the address text of the first interface with the name,
  without its prefix length, whenever that address is IPv4 (holds no colon): the result is
  the part before the slash, letter for letter.
\<close>

theorem first_interface_ipv4_text:
  assumes "GetFirstInterfaceConfigIPv4 cs n = Ret ip"
    and "\<forall>c \<in> set cs. \<forall>v. IPv4 c = Some v \<longrightarrow> CHR '':'' \<notin> set (Address v)"
  shows "\<exists>c v bits. GetFirstInterfaceConfig cs n = Ret c \<and> IPv4 c = Some v
           \<and> Address v = ip @ ''/'' @ bits"
proof -
  from assms(1) obtain c v ip' where c: "GetFirstInterfaceConfig cs n = Ret c"
    and v: "IPv4 c = Some v" and p: "ParseCIDR (Address v) = Ret ip'" and ip: "ip = IPString ip'"
    by (auto simp: GetFirstInterfaceConfigIPv4_def go_inv)
  with assms(2) have "CHR '':'' \<notin> set (Address v)"
    by (auto dest: GetFirstInterfaceConfig_Ret)
  with ParseCIDR_canonical [OF p] c v ip show ?thesis by blast
qed

theorem first_interface_ipv4_text_witness:
  "\<exists>c v bits. GetFirstInterfaceConfig [\<lparr>ifc_Name = ''n4'', IPv4 = Some \<lparr>Address = ''10.10.12.10/24'',
       Gateway = Some ''10.10.12.1''\<rparr>\<rparr>] ''n4'' = Ret c
     \<and> IPv4 c = Some v \<and> Address v = ''10.10.12.10'' @ ''/'' @ bits"
proof (rule first_interface_ipv4_text)
  show "GetFirstInterfaceConfigIPv4 [\<lparr>ifc_Name = ''n4'', IPv4 = Some \<lparr>Address = ''10.10.12.10/24'',
      Gateway = Some ''10.10.12.1''\<rparr>\<rparr>] ''n4'' = Ret ''10.10.12.10''"
    by (simp add: GetFirstInterfaceConfigIPv4_def ParseCIDR_example IPString_example del: As16.simps)
qed simp

text \<open>
  An interface with a well-formed IPv4 address always yields that address: four octets
  and a prefix length of at most 32, in any position of the list behind interfaces of other
  names.
\<close>

theorem first_interface_ipv4_complete:
  assumes "ifc_Name c = n" and "IPv4 c = Some v" and "\<forall>d \<in> set before. ifc_Name d \<noteq> n"
    and "Address v = string4 [o1, o2, o3, o4] @ ''/'' @ itoa bits" and "bits \<le> 32"
  shows "GetFirstInterfaceConfigIPv4 (before @ c # after) n = Ret (string4 [o1, o2, o3, o4])"
proof -
  from assms(1,3) have "GetFirstInterfaceConfig (before @ c # after) n = Ret c"
    by (induction before) auto
  with assms(2,4,5) show ?thesis
    using ParseCIDR_string4 [of "[o1, o2, o3, o4]" bits] IPString_Addr4 [of "[o1, o2, o3, o4]"]
    by (simp add: GetFirstInterfaceConfigIPv4_def del: As16.simps)
qed

theorem first_interface_ipv4_complete_witness:
  "GetFirstInterfaceConfigIPv4 ([\<lparr>ifc_Name = ''n6'', IPv4 = None\<rparr>]
     @ \<lparr>ifc_Name = ''n4'', IPv4 = Some \<lparr>Address = ''10.10.12.10/24'', Gateway = None\<rparr>\<rparr> # []) ''n4''
   = Ret (string4 [10, 10, 12, 10])"
proof (rule first_interface_ipv4_complete)
  show "Address \<lparr>Address = ''10.10.12.10/24'', Gateway = None\<rparr>
     = string4 [10, 10, 12, 10] @ ''/'' @ itoa 24"
    by code_simp
qed simp_all


text \<open>
  Despite its name, the lookup passes an IPv6 address through: nothing checks the family.
\<close>

lemma first_interface_ipv4_accepts_ipv6:
  "GetFirstInterfaceConfigIPv4 [\<lparr>ifc_Name = ''n4'',
     IPv4 = Some \<lparr>Address = ''2001:db8::1/64'', Gateway = None\<rparr>\<rparr>] ''n4'' = Ret ''2001:db8::1''"
  by (simp add: GetFirstInterfaceConfigIPv4_def ParseCIDR_IPv6_example IPString_IPv6_example)

end
