(* ===== verification/GoJson.thy ===== *)
theory GoJson
  imports GoStrings
begin

text \<open>
  The syntax half of Go's \<open>encoding/json.Unmarshal\<close>: the text is scanned into tokens, and
  the tokens are read by the scanner's state machine with its stack of open arrays and
  objects.  Go checks the whole text before it decodes anything, so a syntax error anywhere
  makes the call fail.  Strings are decoded as Go decodes them (escapes, surrogate pairs,
  replacement of invalid UTF-8).
\<close>

section \<open>Tokens\<close>

datatype token =
    TLBrace | TRBrace | TLBrack | TRBrack | TColon | TComma
  | TStr string | TNum string | TTrue | TFalse | TNull

definition is_space :: "char \<Rightarrow> bool" where
  "is_space c \<longleftrightarrow> c = CHR '' '' \<or> c = CHR 9 \<or> c = CHR 13 \<or> c = CHR 10"

text \<open>\<open>getu4\<close>: the value of a leading escape of four hexadecimal digits.\<close>

definition getu4 :: "string \<Rightarrow> nat option" where
  "getu4 s = (case s of
       a # b # h1 # h2 # h3 # h4 # r \<Rightarrow>
         if a = backslash \<and> b = CHR ''u'' \<and> is_hex h1 \<and> is_hex h2 \<and> is_hex h3 \<and> is_hex h4
         then Some (hex_val h1 * 4096 + hex_val h2 * 256 + hex_val h3 * 16 + hex_val h4)
         else None
     | _ \<Rightarrow> None)"

definition surrogatePair :: "nat \<Rightarrow> nat option \<Rightarrow> nat option" where
  "surrogatePair r1 m = (case m of
       None \<Rightarrow> None
     | Some r2 \<Rightarrow>
         if 55296 \<le> r1 \<and> r1 < 56320 \<and> 56320 \<le> r2 \<and> r2 < 57344
         then Some ((r1 - 55296) * 1024 + (r2 - 56320) + 65536) else None)"

definition simpleEscape :: "char \<Rightarrow> char option" where
  "simpleEscape c =
     (if c = dquote \<or> c = backslash \<or> c = CHR ''/'' then Some c
      else if c = CHR ''b'' then Some (CHR 8)
      else if c = CHR ''f'' then Some (CHR 12)
      else if c = CHR ''n'' then Some (CHR 10)
      else if c = CHR ''r'' then Some (CHR 13)
      else if c = CHR ''t'' then Some (CHR 9)
      else None)"

text \<open>A string after its opening quote: its decoded value and the rest of the text.\<close>

fun lexString :: "string \<Rightarrow> (string \<times> string) option" where
  "lexString [] = None"
| "lexString (c # cs) =
     (if c = dquote then Some ([], cs)
      else if c = backslash then
        (case cs of
           [] \<Rightarrow> None
         | d # ds \<Rightarrow>
             (case simpleEscape d of
                Some e \<Rightarrow> map_option (\<lambda>(x, r). (e # x, r)) (lexString ds)
              | None \<Rightarrow>
                  (case getu4 (c # cs) of
                     None \<Rightarrow> None
                   | Some r1 \<Rightarrow>
                       if 55296 \<le> r1 \<and> r1 < 57344 then
                         (case surrogatePair r1 (getu4 (drop 5 cs)) of
                            Some r \<Rightarrow> map_option (\<lambda>(x, t). (encodeRune r @ x, t)) (lexString (drop 11 cs))
                          | None \<Rightarrow> map_option (\<lambda>(x, t). (encodeRune RuneError @ x, t)) (lexString (drop 5 cs)))
                       else map_option (\<lambda>(x, t). (encodeRune r1 @ x, t)) (lexString (drop 5 cs)))))
      else if (of_char c :: nat) < 32 then None
      else if (of_char c :: nat) < 128 then map_option (\<lambda>(x, r). (c # x, r)) (lexString cs)
      else (case decodeRune (c # cs) of (r, w) \<Rightarrow>
        map_option (\<lambda>(x, t). (encodeRune r @ x, t)) (lexString (drop (w - 1) cs))))"

lemma lexString_shorter: "lexString s = Some (x, r) \<Longrightarrow> length r < length s"
proof (induction s arbitrary: x rule: lexString.induct)
  case 1
  then show ?case by simp
next
  case (2 c cs)
  then show ?case
    by (auto split: if_splits list.splits option.splits prod.splits) (fastforce)+
qed

definition lexDigits :: "string \<Rightarrow> (string \<times> string) option" where
  "lexDigits s = (if takeWhile is_digit s = [] then None
     else Some (takeWhile is_digit s, dropWhile is_digit s))"

definition lexInt :: "string \<Rightarrow> (string \<times> string) option" where
  "lexInt s = (case s of
       [] \<Rightarrow> None
     | c # cs \<Rightarrow> if c = CHR ''0'' then Some ([c], cs) else lexDigits s)"

definition lexFrac :: "string \<Rightarrow> (string \<times> string) option" where
  "lexFrac s = (case s of
       [] \<Rightarrow> Some ([], [])
     | c # cs \<Rightarrow> if c = CHR ''.'' then map_option (\<lambda>(x, r). (c # x, r)) (lexDigits cs) else Some ([], s))"

definition lexExp :: "string \<Rightarrow> (string \<times> string) option" where
  "lexExp s = (case s of
       [] \<Rightarrow> Some ([], [])
     | c # cs \<Rightarrow>
         if c = CHR ''e'' \<or> c = CHR ''E'' then
           (case cs of
              d # ds \<Rightarrow>
                if d = CHR ''+'' \<or> d = CHR ''-'' then map_option (\<lambda>(x, r). (c # d # x, r)) (lexDigits ds)
                else map_option (\<lambda>(x, r). (c # x, r)) (lexDigits cs)
            | [] \<Rightarrow> None)
         else Some ([], s))"

text \<open>A number from its first byte.\<close>

definition lexNumber :: "string \<Rightarrow> (string \<times> string) option" where
  "lexNumber s =
     (let (sign, s1) = (case s of c # cs \<Rightarrow> if c = CHR ''-'' then ([c], cs) else ([], s) | [] \<Rightarrow> ([], s)) in
      Option.bind (lexInt s1) (\<lambda>(i, s2).
      Option.bind (lexFrac s2) (\<lambda>(f, s3).
      Option.bind (lexExp s3) (\<lambda>(e, s4). Some (sign @ i @ f @ e, s4)))))"

lemma length_dropWhile_less: "takeWhile P s \<noteq> [] \<Longrightarrow> length (dropWhile P s) < length s"
  by (cases s) (auto simp: less_Suc_eq_le length_dropWhile_le split: if_splits)

lemma lexDigits_shorter: "lexDigits s = Some (x, r) \<Longrightarrow> length r < length s"
  by (auto simp: lexDigits_def length_dropWhile_less split: if_splits)

lemma lexInt_shorter: "lexInt s = Some (x, r) \<Longrightarrow> length r < length s"
  by (auto simp: lexInt_def split: list.splits if_splits dest!: lexDigits_shorter)

lemma lexFrac_le: "lexFrac s = Some (x, r) \<Longrightarrow> length r \<le> length s"
  by (auto simp: lexFrac_def split: list.splits if_splits dest!: lexDigits_shorter)

lemma lexExp_le: "lexExp s = Some (x, r) \<Longrightarrow> length r \<le> length s"
  by (auto simp: lexExp_def split: list.splits if_splits dest!: lexDigits_shorter)

lemma lexNumber_shorter:
  assumes "lexNumber s = Some (x, r)"
  shows "length r < length s"
proof -
  define s1 where "s1 = snd (case s of c # cs \<Rightarrow> if c = CHR ''-'' then ([c], cs) else ([], s) | [] \<Rightarrow> ([], s))"
  have le: "length s1 \<le> length s" by (auto simp: s1_def split: list.splits)
  from assms obtain i s2 f s3 e where "lexInt s1 = Some (i, s2)" "lexFrac s2 = Some (f, s3)"
    "lexExp s3 = Some (e, r)"
    by (auto simp: lexNumber_def s1_def bind_eq_Some_conv split: prod.splits)
  then show ?thesis using le lexInt_shorter lexFrac_le lexExp_le by fastforce
qed

text \<open>The tokens of a text.\<close>

function lexJson :: "string \<Rightarrow> token list option" where
  "lexJson [] = Some []"
| "lexJson (c # cs) =
     (if is_space c then lexJson cs
      else if c = CHR ''{'' then map_option ((#) TLBrace) (lexJson cs)
      else if c = CHR ''}'' then map_option ((#) TRBrace) (lexJson cs)
      else if c = CHR ''['' then map_option ((#) TLBrack) (lexJson cs)
      else if c = CHR '']'' then map_option ((#) TRBrack) (lexJson cs)
      else if c = CHR '':'' then map_option ((#) TColon) (lexJson cs)
      else if c = CHR '','' then map_option ((#) TComma) (lexJson cs)
      else if c = CHR ''t'' then
        (if take 3 cs = ''rue'' then map_option ((#) TTrue) (lexJson (drop 3 cs)) else None)
      else if c = CHR ''f'' then
        (if take 4 cs = ''alse'' then map_option ((#) TFalse) (lexJson (drop 4 cs)) else None)
      else if c = CHR ''n'' then
        (if take 3 cs = ''ull'' then map_option ((#) TNull) (lexJson (drop 3 cs)) else None)
      else if c = dquote then
        (case lexString cs of
           None \<Rightarrow> None
         | Some (x, r) \<Rightarrow> map_option ((#) (TStr x)) (lexJson r))
      else
        (case lexNumber (c # cs) of
           None \<Rightarrow> None
         | Some (x, r) \<Rightarrow> map_option ((#) (TNum x)) (lexJson r)))"
  by pat_completeness auto
termination
  by (relation "measure length") (auto dest: lexString_shorter lexNumber_shorter)

section \<open>The scanner's state machine\<close>

datatype json =
    JNull | JBool bool | JNumber string | JString string
  | JArray "json list" | JObject "(string \<times> json) list"

text \<open>
  The states of the scanner, named as in Go; a frame is an open array with its elements or
  an open object with its members and the current key (most recent first).
\<close>

datatype mode =
    BeginValue | BeginValueOrEmpty | BeginString | BeginStringOrEmpty | AfterKey | EndValue json

datatype frame = InArray "json list" | InObject "(string \<times> json) list" string

definition maxNestingDepth :: nat where
  "maxNestingDepth = 10000"

definition pushFrame :: "frame \<Rightarrow> mode \<Rightarrow> frame list \<Rightarrow> (mode \<times> frame list) option" where
  "pushFrame f m st = (if length st < maxNestingDepth then Some (m, f # st) else None)"

definition beginValue :: "frame list \<Rightarrow> token \<Rightarrow> (mode \<times> frame list) option" where
  "beginValue st t = (case t of
       TLBrace \<Rightarrow> pushFrame (InObject [] []) BeginStringOrEmpty st
     | TLBrack \<Rightarrow> pushFrame (InArray []) BeginValueOrEmpty st
     | TStr s \<Rightarrow> Some (EndValue (JString s), st)
     | TNum n \<Rightarrow> Some (EndValue (JNumber n), st)
     | TTrue \<Rightarrow> Some (EndValue (JBool True), st)
     | TFalse \<Rightarrow> Some (EndValue (JBool False), st)
     | TNull \<Rightarrow> Some (EndValue JNull, st)
     | _ \<Rightarrow> None)"

definition beginString :: "frame list \<Rightarrow> token \<Rightarrow> (mode \<times> frame list) option" where
  "beginString st t = (case (st, t) of
       (InObject ms k # st', TStr s) \<Rightarrow> Some (AfterKey, InObject ms s # st')
     | _ \<Rightarrow> None)"

definition endValue :: "json \<Rightarrow> frame list \<Rightarrow> token \<Rightarrow> (mode \<times> frame list) option" where
  "endValue v st t = (case st of
       [] \<Rightarrow> None
     | InArray vs # st' \<Rightarrow>
         (case t of
            TComma \<Rightarrow> Some (BeginValue, InArray (v # vs) # st')
          | TRBrack \<Rightarrow> Some (EndValue (JArray (rev (v # vs))), st')
          | _ \<Rightarrow> None)
     | InObject ms k # st' \<Rightarrow>
         (case t of
            TComma \<Rightarrow> Some (BeginString, InObject ((k, v) # ms) k # st')
          | TRBrace \<Rightarrow> Some (EndValue (JObject (rev ((k, v) # ms))), st')
          | _ \<Rightarrow> None))"

definition stepToken :: "mode \<Rightarrow> frame list \<Rightarrow> token \<Rightarrow> (mode \<times> frame list) option" where
  "stepToken m st t = (case m of
       BeginValue \<Rightarrow> beginValue st t
     | BeginValueOrEmpty \<Rightarrow>
         if t = TRBrack then Some (EndValue (JArray []), tl st) else beginValue st t
     | BeginString \<Rightarrow> beginString st t
     | BeginStringOrEmpty \<Rightarrow>
         if t = TRBrace then Some (EndValue (JObject []), tl st) else beginString st t
     | AfterKey \<Rightarrow> if t = TColon then Some (BeginValue, st) else None
     | EndValue v \<Rightarrow> endValue v st t)"

fun runTokens :: "mode \<Rightarrow> frame list \<Rightarrow> token list \<Rightarrow> json option" where
  "runTokens m st [] = (case (m, st) of (EndValue v, []) \<Rightarrow> Some v | _ \<Rightarrow> None)"
| "runTokens m st (t # ts) = (case stepToken m st t of
       None \<Rightarrow> None
     | Some (m', st') \<Rightarrow> runTokens m' st' ts)"

definition parseJson :: "string \<Rightarrow> json option" where
  "parseJson s = Option.bind (lexJson s) (runTokens BeginValue [])"

lemmas stepToken_defs = stepToken_def beginValue_def beginString_def endValue_def pushFrame_def

section \<open>Quoted printable text reads back\<close>

lemma of_char_printable:
  assumes "32 \<le> (of_char c :: nat)" "(of_char c :: nat) < 127"
  shows "lexString (escape_ascii c @ r) = map_option (\<lambda>(x, t). (c # x, t)) (lexString r)"
  using assms by (auto simp: escape_ascii_def simpleEscape_def dquote_def backslash_def)

lemma lexString_printable:
  "printable s \<Longrightarrow> lexString (concat (map escape_ascii s) @ dquote # r) = Some (s, r)"
  by (induction s) (auto simp: of_char_printable)

lemma lexJson_Quote:
  "printable s \<Longrightarrow> lexJson (Quote uprint s @ r) = map_option ((#) (TStr s)) (lexJson r)"
proof -
  assume s: "printable s"
  have "lexJson (dquote # t) = (case lexString t of None \<Rightarrow> None
      | Some (x, r) \<Rightarrow> map_option ((#) (TStr x)) (lexJson r))" for t
    by (simp add: is_space_def dquote_def)
  with s show ?thesis
    by (simp add: Quote_def quoteBody_printable lexString_printable del: lexJson.simps)
qed

end
