(* ===== verification/NetworkAttachments.thy ===== *)
theory NetworkAttachments
  imports ApiStore InterfaceConfigs GoJson
begin

text \<open>
  \<open>controllers/network_attachment_definitions.go\<close>: the text of the networks annotation, and
  the check that the NetworkAttachmentDefinitions it names exist.  Proved here: the text does
  not depend on Go's map order, it is JSON that reads back to the generated networks, and the
  check succeeds exactly when every definition it names is found.
\<close>

section \<open>Creating the annotation\<close>

definition CreateNetworkAttachmentDefinitionName :: "string \<Rightarrow> string \<Rightarrow> string" where
  "CreateNetworkAttachmentDefinitionName templateName suffix = templateName @ ''-'' @ suffix"

text \<open>The fixed pieces of the \<open>Sprintf\<close> format between its \<open>%q\<close> verbs.\<close>

definition nameText :: string where
  \<open>nameText = '' {'' @ [nl] @ ''  "name": ''\<close>

definition interfaceText :: string where
  \<open>interfaceText = '','' @ [nl] @ ''  "interface": ''\<close>

definition ipsText :: string where
  \<open>ipsText = '','' @ [nl] @ ''  "ips": [''\<close>

definition gatewaysText :: string where
  \<open>gatewaysText = ''],'' @ [nl] @ ''  "gateways": [''\<close>

definition closeText :: string where
  \<open>closeText = '']'' @ [nl] @ '' }''\<close>

definition networkJson :: "(nat \<Rightarrow> bool) \<Rightarrow> string \<Rightarrow> string \<Rightarrow> string \<Rightarrow> string \<Rightarrow> string" where
  "networkJson up name interface ip gateway =
     nameText @ Quote up name @ interfaceText @ Quote up interface
     @ ipsText @ Quote up ip @ gatewaysText @ Quote up gateway @ closeText"

definition interfaceNetwork :: "lib \<Rightarrow> string \<Rightarrow> string \<Rightarrow> InterfaceConfig \<Rightarrow> string go" where
  "interfaceNetwork L templateName interfaceName interfaceConfig =
     bind_go (deref (IPv4 interfaceConfig)) (\<lambda>ipv4.
       case Gateway ipv4 of
         None \<Rightarrow> Err (MissingGateway interfaceName)
       | Some gateway \<Rightarrow>
           Ret (networkJson (uprint L) (CreateNetworkAttachmentDefinitionName templateName interfaceName)
             (ifc_Name interfaceConfig) (Address ipv4) gateway))"

text \<open>
  The map argument is the list of its entries in the order Go's \<open>range\<close> happens to meet
  them; reading an absent key gives the nil slice.
\<close>

definition mapSlice :: "(string \<times> 'a list) list \<Rightarrow> string \<Rightarrow> 'a list" where
  "mapSlice m k = (case map_of m k of None \<Rightarrow> [] | Some v \<Rightarrow> v)"

definition CreateNetworkAttachmentDefinitionNetworks ::
  "lib \<Rightarrow> string \<Rightarrow> (string \<times> InterfaceConfig list) list \<Rightarrow> string go" where
  "CreateNetworkAttachmentDefinitionNetworks L templateName interfaceConfigs =
     (let interfaceNames = sort (map fst interfaceConfigs) in
      bind_go (map_go (\<lambda>interfaceName.
                 map_go (interfaceNetwork L templateName interfaceName)
                   (mapSlice interfaceConfigs interfaceName)) interfaceNames)
        (\<lambda>networksJson. Ret (''['' @ [nl] @ Join (concat networksJson) ('','' @ [nl]) @ [nl] @ '']'')))"

section \<open>Reading it back\<close>

record networkAttachmentDefinitionNetwork =
  net_Name :: string
  net_Interface :: string
  net_IP :: string
  net_Gateway :: string

definition zeroNetwork :: networkAttachmentDefinitionNetwork where
  "zeroNetwork = \<lparr>net_Name = '''', net_Interface = '''', net_IP = '''', net_Gateway = ''''\<rparr>"

text \<open>
  \<open>json.Unmarshal\<close> into a slice of that struct: null leaves a value as it is, a key is
  matched with the fields' tags ignoring case, unknown keys are skipped, a value of another
  kind makes the call fail.
\<close>

definition asciiLower :: "char \<Rightarrow> char" where
  "asciiLower c = (if 65 \<le> (of_char c :: nat) \<and> (of_char c :: nat) \<le> 90
     then char_of ((of_char c :: nat) + 32) else c)"

definition foldKey :: "string \<Rightarrow> string" where
  "foldKey = map asciiLower"

fun decodeString :: "json \<Rightarrow> string \<Rightarrow> string option" where
  "decodeString (JString s) old = Some s"
| "decodeString JNull old = Some old"
| "decodeString _ old = None"

definition decodeMember ::
  "string \<times> json \<Rightarrow> networkAttachmentDefinitionNetwork \<Rightarrow> networkAttachmentDefinitionNetwork option" where
  "decodeMember = (\<lambda>(key, v) n.
     if foldKey key = ''name'' then map_option (\<lambda>s. n\<lparr>net_Name := s\<rparr>) (decodeString v (net_Name n))
     else if foldKey key = ''interface'' then map_option (\<lambda>s. n\<lparr>net_Interface := s\<rparr>) (decodeString v (net_Interface n))
     else if foldKey key = ''ip'' then map_option (\<lambda>s. n\<lparr>net_IP := s\<rparr>) (decodeString v (net_IP n))
     else if foldKey key = ''gateway'' then map_option (\<lambda>s. n\<lparr>net_Gateway := s\<rparr>) (decodeString v (net_Gateway n))
     else Some n)"

fun decodeMembers ::
  "(string \<times> json) list \<Rightarrow> networkAttachmentDefinitionNetwork \<Rightarrow> networkAttachmentDefinitionNetwork option" where
  "decodeMembers [] n = Some n"
| "decodeMembers (m # ms) n = Option.bind (decodeMember m n) (decodeMembers ms)"

fun decodeNetwork :: "json \<Rightarrow> networkAttachmentDefinitionNetwork option" where
  "decodeNetwork (JObject ms) = decodeMembers ms zeroNetwork"
| "decodeNetwork JNull = Some zeroNetwork"
| "decodeNetwork _ = None"

fun decodeElements :: "json list \<Rightarrow> networkAttachmentDefinitionNetwork list option" where
  "decodeElements [] = Some []"
| "decodeElements (v # vs) =
     Option.bind (decodeNetwork v) (\<lambda>n. map_option ((#) n) (decodeElements vs))"

fun decodeNetworks :: "json \<Rightarrow> networkAttachmentDefinitionNetwork list option" where
  "decodeNetworks (JArray vs) = decodeElements vs"
| "decodeNetworks JNull = Some []"
| "decodeNetworks _ = None"

definition unmarshalNetworks :: "string \<Rightarrow> networkAttachmentDefinitionNetwork list option" where
  "unmarshalNetworks s = Option.bind (parseJson s) decodeNetworks"

section \<open>Checking that the definitions exist\<close>

fun validateNetworks ::
  "'w client \<Rightarrow> string \<Rightarrow> networkAttachmentDefinitionNetwork list \<Rightarrow> 'w \<Rightarrow> bool \<times> 'w" where
  "validateNetworks c namespace [] w = (True, w)"
| "validateNetworks c namespace (network # networks) w =
     (case GetNAD c (namespace, net_Name network) w of
        (Inl err, w') \<Rightarrow> (False, w')
      | (Inr u, w') \<Rightarrow> validateNetworks c namespace networks w')"

definition ValidateNetworkAttachmentDefinitions ::
  "'w client \<Rightarrow> Deployment \<Rightarrow> 'w \<Rightarrow> bool \<times> 'w" where
  "ValidateNetworkAttachmentDefinitions c deployment w =
     (case Option.bind (templateAnnotations deployment) (\<lambda>m. m NetworksAnnotation) of
        None \<Rightarrow> (False, w)
      | Some networksJson \<Rightarrow>
          (case unmarshalNetworks networksJson of
             None \<Rightarrow> (False, w)
           | Some networks \<Rightarrow> validateNetworks c (Namespace (dep_Meta deployment)) networks w))"

section \<open>The generated text as tokens\<close>

definition networkTokens :: "string \<Rightarrow> string \<Rightarrow> string \<Rightarrow> string \<Rightarrow> token list" where
  "networkTokens name interface ip gateway =
     [TLBrace, TStr ''name'', TColon, TStr name, TComma, TStr ''interface'', TColon, TStr interface,
      TComma, TStr ''ips'', TColon, TLBrack, TStr ip, TRBrack, TComma, TStr ''gateways'', TColon,
      TLBrack, TStr gateway, TRBrack, TRBrace]"

definition networkValue :: "string \<Rightarrow> string \<Rightarrow> string \<Rightarrow> string \<Rightarrow> json" where
  "networkValue name interface ip gateway =
     JObject [(''name'', JString name), (''interface'', JString interface),
       (''ips'', JArray [JString ip]), (''gateways'', JArray [JString gateway])]"

abbreviation prepend :: "token list \<Rightarrow> token list option \<Rightarrow> token list option" where
  "prepend ts \<equiv> map_option ((@) ts)"

lemma prepend_simps [simp]:
  "map_option ((#) t) (prepend ts m) = prepend (t # ts) m"
  "prepend [] m = m"
  by (cases m; simp)+

lemma Cons_prepend: "map_option ((#) t) m = prepend [t] m"
  by (cases m) auto

lemma prepend_prepend: "prepend ts (prepend us m) = prepend (ts @ us) m"
  by (cases m) auto

lemmas text_consts = nl_def dquote_def backslash_def is_space_def

lemma lexString_plain:
  assumes "printable s" "dquote \<notin> set s" "backslash \<notin> set s"
  shows "lexString (s @ dquote # r) = Some (s, r)"
proof -
  have "concat (map escape_ascii s) = s"
    using assms by (induction s) (auto simp: escape_ascii_def)
  with lexString_printable [OF assms(1), of r] show ?thesis by simp
qed

lemma lexString_keys [simp]:
  "lexString (CHR ''n'' # CHR ''a'' # CHR ''m'' # CHR ''e'' # CHR 34 # r) = Some (''name'', r)"
  "lexString (CHR ''i'' # CHR ''n'' # CHR ''t'' # CHR ''e'' # CHR ''r'' # CHR ''f'' # CHR ''a''
     # CHR ''c'' # CHR ''e'' # CHR 34 # r) = Some (''interface'', r)"
  "lexString (CHR ''i'' # CHR ''p'' # CHR ''s'' # CHR 34 # r) = Some (''ips'', r)"
  "lexString (CHR ''g'' # CHR ''a'' # CHR ''t'' # CHR ''e'' # CHR ''w'' # CHR ''a'' # CHR ''y''
     # CHR ''s'' # CHR 34 # r) = Some (''gateways'', r)"
  using lexString_plain [of "''name''" r] lexString_plain [of "''interface''" r]
    lexString_plain [of "''ips''" r] lexString_plain [of "''gateways''" r]
  by (simp_all add: dquote_def backslash_def del: lexString.simps)

lemma lexJson_pieces:
  "lexJson (nameText @ r) = prepend [TLBrace, TStr ''name'', TColon] (lexJson r)"
  "lexJson (interfaceText @ r) = prepend [TComma, TStr ''interface'', TColon] (lexJson r)"
  "lexJson (ipsText @ r) = prepend [TComma, TStr ''ips'', TColon, TLBrack] (lexJson r)"
  "lexJson (gatewaysText @ r) = prepend [TRBrack, TComma, TStr ''gateways'', TColon, TLBrack] (lexJson r)"
  "lexJson (closeText @ r) = prepend [TRBrack, TRBrace] (lexJson r)"
  by (simp_all add: nameText_def interfaceText_def ipsText_def gatewaysText_def closeText_def
      text_consts Cons_prepend prepend_prepend del: lexString.simps)

lemma lexJson_networkJson:
  assumes "printable name" "printable interface" "printable ip" "printable gateway"
  shows "lexJson (networkJson up name interface ip gateway @ r) =
    prepend (networkTokens name interface ip gateway) (lexJson r)"
  using assms by (simp add: networkJson_def networkTokens_def lexJson_pieces lexJson_Quote
      Cons_prepend prepend_prepend del: lexJson.simps)

section \<open>The tokens as a value\<close>

lemma runTokens_network:
  assumes "length st < 9000"
  shows "runTokens BeginValue st (networkTokens name interface ip gateway @ ts) =
    runTokens (EndValue (networkValue name interface ip gateway)) st ts"
  using assms by (simp add: networkTokens_def networkValue_def stepToken_defs maxNestingDepth_def)

lemma decodeNetwork_networkValue:
  "decodeNetwork (networkValue name interface ip gateway) =
     Some \<lparr>net_Name = name, net_Interface = interface, net_IP = [], net_Gateway = []\<rparr>"
  by (simp add: networkValue_def decodeMember_def foldKey_def asciiLower_def zeroNetwork_def)

text \<open>One generated network: the four strings that \<open>Sprintf\<close> prints.\<close>

type_synonym netArgs = "string \<times> string \<times> string \<times> string"

fun netJson :: "(nat \<Rightarrow> bool) \<Rightarrow> netArgs \<Rightarrow> string" where
  "netJson up (n, i, ip, g) = networkJson up n i ip g"

fun netTokens :: "netArgs \<Rightarrow> token list" where
  "netTokens (n, i, ip, g) = networkTokens n i ip g"

fun netValue :: "netArgs \<Rightarrow> json" where
  "netValue (n, i, ip, g) = networkValue n i ip g"

fun netPrintable :: "netArgs \<Rightarrow> bool" where
  "netPrintable (n, i, ip, g) \<longleftrightarrow> printable n \<and> printable i \<and> printable ip \<and> printable g"

fun netRead :: "netArgs \<Rightarrow> networkAttachmentDefinitionNetwork" where
  "netRead (n, i, ip, g) = \<lparr>net_Name = n, net_Interface = i, net_IP = [], net_Gateway = []\<rparr>"

lemma lexJson_netJson:
  "netPrintable a \<Longrightarrow> lexJson (netJson up a @ r) = prepend (netTokens a) (lexJson r)"
  by (cases a) (simp add: lexJson_networkJson)

lemma runTokens_net:
  "length st < 9000 \<Longrightarrow> runTokens BeginValue st (netTokens a @ ts) = runTokens (EndValue (netValue a)) st ts"
  by (cases a) (simp add: runTokens_network)

lemma decodeElements_nets: "decodeElements (map netValue as) = Some (map netRead as)"
proof (induction as)
  case Nil
  then show ?case by simp
next
  case (Cons a as)
  then show ?case by (cases a) (simp add: decodeNetwork_networkValue)
qed

lemma lexJson_ws [simp]:
  "lexJson (nl # r) = lexJson r"
  "lexJson (CHR '','' # r) = prepend [TComma] (lexJson r)"
  "lexJson (CHR ''['' # r) = prepend [TLBrack] (lexJson r)"
  "lexJson (CHR '']'' # r) = prepend [TRBrack] (lexJson r)"
  by (simp_all add: text_consts Cons_prepend)

lemma lexJson_more:
  assumes "\<forall>a \<in> set as. netPrintable a"
  shows "lexJson (concat (map (\<lambda>a. ('','' @ [nl]) @ netJson up a) as) @ r) =
    prepend (concat (map (\<lambda>a. TComma # netTokens a) as)) (lexJson r)"
  using assms
  by (induction as) (simp_all add: lexJson_netJson prepend_prepend del: lexJson.simps)

lemma runTokens_more:
  "runTokens (EndValue v) [InArray vs] (concat (map (\<lambda>a. TComma # netTokens a) as) @ [TRBrack]) =
     Some (JArray (rev vs @ v # map netValue as))"
  by (induction as arbitrary: v vs) (simp_all add: runTokens_net stepToken_def endValue_def)

definition networksText :: "(nat \<Rightarrow> bool) \<Rightarrow> netArgs list \<Rightarrow> string" where
  "networksText up as = ''['' @ [nl] @ Join (map (netJson up) as) ('','' @ [nl]) @ [nl] @ '']''"

lemma netTokens_Cons: "netTokens a @ ts = TLBrace # tl (netTokens a) @ ts"
  by (cases a) (simp add: networkTokens_def)

lemma parseJson_networksText:
  assumes "\<forall>a \<in> set as. netPrintable a"
  shows "parseJson (networksText up as) = Some (JArray (map netValue as))"
proof (cases as)
  case Nil
  then show ?thesis
    by (simp add: networksText_def parseJson_def stepToken_defs maxNestingDepth_def
        del: lexJson.simps(2))
next
  case (Cons a bs)
  with assms have p: "netPrintable a" "\<forall>b \<in> set bs. netPrintable b" by auto
  have "lexJson (networksText up as) =
      Some (TLBrack # netTokens a @ concat (map (\<lambda>a. TComma # netTokens a) bs) @ [TRBrack])"
    using lexJson_more [OF p(2), of up "[nl] @ '']''"] p
    by (simp add: Cons networksText_def Join_Cons lexJson_netJson comp_def prepend_prepend
        del: lexJson.simps(2))
  moreover have "runTokens BeginValue [] (TLBrack # netTokens a @ ts) =
      runTokens (EndValue (netValue a)) [InArray []] ts" for ts
  proof -
    have "runTokens BeginValue [] (TLBrack # netTokens a @ ts) =
        runTokens BeginValue [InArray []] (netTokens a @ ts)"
      by (subst (1 2) netTokens_Cons)
        (simp add: stepToken_defs maxNestingDepth_def)
    then show ?thesis by (simp add: runTokens_net)
  qed
  ultimately show ?thesis
    by (simp add: parseJson_def Cons runTokens_more del: runTokens.simps(2))
qed

lemma unmarshalNetworks_networksText:
  "\<forall>a \<in> set as. netPrintable a \<Longrightarrow> unmarshalNetworks (networksText up as) = Some (map netRead as)"
  by (simp add: unmarshalNetworks_def parseJson_networksText decodeElements_nets)

section \<open>What the annotation holds\<close>

text \<open>
  The networks of an interface map: per key, in byte order of the keys, one network for each
  interface, named after the template and the key.
\<close>

definition expectedNetworks ::
  "string \<Rightarrow> (string \<times> InterfaceConfig list) list \<Rightarrow> networkAttachmentDefinitionNetwork list" where
  "expectedNetworks t m = concat (map (\<lambda>k. map (\<lambda>cfg.
     \<lparr>net_Name = CreateNetworkAttachmentDefinitionName t k, net_Interface = ifc_Name cfg,
      net_IP = '''', net_Gateway = ''''\<rparr>) (mapSlice m k)) (sort (map fst m)))"

definition hasGateway :: "InterfaceConfig \<Rightarrow> bool" where
  "hasGateway cfg \<longleftrightarrow> (\<exists>v g. IPv4 cfg = Some v \<and> Gateway v = Some g)"

text \<open>All the texts that reach the annotation are printable ASCII.\<close>

definition plainInterface :: "InterfaceConfig \<Rightarrow> bool" where
  "plainInterface cfg \<longleftrightarrow> printable (ifc_Name cfg) \<and>
     (case IPv4 cfg of None \<Rightarrow> True
      | Some v \<Rightarrow> printable (Address v) \<and> (case Gateway v of None \<Rightarrow> True | Some g \<Rightarrow> printable g))"

definition plainNetworks :: "string \<Rightarrow> (string \<times> InterfaceConfig list) list \<Rightarrow> bool" where
  "plainNetworks t m \<longleftrightarrow> printable t \<and>
     list_all (\<lambda>(k, cfgs). printable k \<and> list_all plainInterface cfgs) m"

definition netArgsOf :: "string \<Rightarrow> string \<Rightarrow> InterfaceConfig \<Rightarrow> netArgs" where
  "netArgsOf t k cfg = (CreateNetworkAttachmentDefinitionName t k, ifc_Name cfg,
     (case IPv4 cfg of None \<Rightarrow> '''' | Some v \<Rightarrow> Address v),
     (case IPv4 cfg of None \<Rightarrow> '''' | Some v \<Rightarrow> (case Gateway v of None \<Rightarrow> '''' | Some g \<Rightarrow> g)))"

lemma interfaceNetwork_eq:
  "hasGateway cfg \<Longrightarrow> interfaceNetwork L t k cfg = Ret (netJson (uprint L) (netArgsOf t k cfg))"
  by (auto simp: hasGateway_def interfaceNetwork_def netArgsOf_def)

lemma interfaceNetwork_Ret_iff: "(\<exists>s. interfaceNetwork L t k cfg = Ret s) \<longleftrightarrow> hasGateway cfg"
  by (cases "IPv4 cfg") (auto simp: hasGateway_def interfaceNetwork_def split: option.splits)

definition allArgs :: "string \<Rightarrow> (string \<times> InterfaceConfig list) list \<Rightarrow> netArgs list" where
  "allArgs t m = concat (map (\<lambda>k. map (netArgsOf t k) (mapSlice m k)) (sort (map fst m)))"

definition allHaveGateways :: "(string \<times> InterfaceConfig list) list \<Rightarrow> bool" where
  "allHaveGateways m \<longleftrightarrow> list_all (\<lambda>k. list_all hasGateway (mapSlice m k)) (map fst m)"

lemma Create_eq:
  assumes "allHaveGateways m"
  shows "CreateNetworkAttachmentDefinitionNetworks L t m = Ret (networksText (uprint L) (allArgs t m))"
proof -
  let ?f = "\<lambda>k. map (\<lambda>cfg. netJson (uprint L) (netArgsOf t k cfg)) (mapSlice m k)"
  have "map_go (interfaceNetwork L t k) (mapSlice m k) = Ret (?f k)" if "k \<in> set (map fst m)" for k
    using assms that
    by (intro map_go_Ret) (auto simp: allHaveGateways_def list_all_iff interfaceNetwork_eq)
  note inner = this
  have "map_go (\<lambda>k. map_go (interfaceNetwork L t k) (mapSlice m k)) (sort (map fst m)) =
      Ret (map ?f (sort (map fst m)))"
    by (rule map_go_Ret) (rule inner, simp)
  then show ?thesis
    by (simp add: CreateNetworkAttachmentDefinitionNetworks_def Let_def networksText_def allArgs_def
        map_concat comp_def)
qed

lemma Create_Ret_iff:
  "(\<exists>txt. CreateNetworkAttachmentDefinitionNetworks L t m = Ret txt) \<longleftrightarrow> allHaveGateways m"
proof
  assume "\<exists>txt. CreateNetworkAttachmentDefinitionNetworks L t m = Ret txt"
  then have "\<exists>js. map_go (\<lambda>k. map_go (interfaceNetwork L t k) (mapSlice m k)) (sort (map fst m)) = Ret js"
    by (auto simp: CreateNetworkAttachmentDefinitionNetworks_def Let_def go_inv)
  then show "allHaveGateways m"
    by (simp add: map_go_Ret_iff interfaceNetwork_Ret_iff allHaveGateways_def list_all_iff)
qed (auto simp: Create_eq)

lemma Create_Err:
  "CreateNetworkAttachmentDefinitionNetworks L t m = Err e \<Longrightarrow> \<exists>k. e = MissingGateway k"
  by (auto simp: CreateNetworkAttachmentDefinitionNetworks_def interfaceNetwork_def Let_def go_inv
      dest!: map_go_Err split: option.splits)

lemma mapSlice_mem: "cfg \<in> set (mapSlice m k) \<Longrightarrow> \<exists>cfgs. (k, cfgs) \<in> set m \<and> cfg \<in> set cfgs"
  by (cases "map_of m k") (auto simp: mapSlice_def dest: map_of_SomeD)

lemma plain_allArgs:
  assumes "plainNetworks t m"
  shows "\<forall>a \<in> set (allArgs t m). netPrintable a"
proof
  fix a assume "a \<in> set (allArgs t m)"
  then obtain k cfg where k: "k \<in> set (map fst m)" and cfg: "cfg \<in> set (mapSlice m k)"
    and a: "a = netArgsOf t k cfg"
    by (auto simp: allArgs_def)
  from mapSlice_mem [OF cfg] obtain cfgs where "(k, cfgs) \<in> set m" "cfg \<in> set cfgs" by blast
  with assms have "printable k" "plainInterface cfg" "printable t"
    by (auto simp: plainNetworks_def list_all_iff)
  then show "netPrintable a"
    by (auto simp: a netArgsOf_def plainInterface_def CreateNetworkAttachmentDefinitionName_def
        split: option.splits)
qed

lemma netRead_allArgs: "map netRead (allArgs t m) = expectedNetworks t m"
  by (simp add: allArgs_def expectedNetworks_def map_concat comp_def netArgsOf_def)

lemma Create_roundtrip:
  assumes "CreateNetworkAttachmentDefinitionNetworks L t m = Ret txt" and "plainNetworks t m"
  shows "unmarshalNetworks txt = Some (expectedNetworks t m)"
proof -
  have "allHaveGateways m" using assms(1) Create_Ret_iff by blast
  then have "txt = networksText (uprint L) (allArgs t m)" using assms(1) by (simp add: Create_eq)
  then show ?thesis
    using unmarshalNetworks_networksText [OF plain_allArgs [OF assms(2)]]
    by (simp add: netRead_allArgs)
qed

section \<open>What the check does\<close>

lemma validateNetworks_trace:
  "validateNetworks (logged c) ns nets (w, tr) = (ok, (w', tr')) \<Longrightarrow>
    (if ok then tr' = tr @ map (\<lambda>n. DidGetNAD (ns, net_Name n) True) nets
     else \<exists>found n rest. nets = found @ n # rest
       \<and> tr' = tr @ map (\<lambda>n. DidGetNAD (ns, net_Name n) True) found @ [DidGetNAD (ns, net_Name n) False])"
proof (induction nets arbitrary: w tr)
  case Nil
  then show ?case by auto
next
  case (Cons n nets)
  obtain r w1 where get: "GetNAD c (ns, net_Name n) w = (r, w1)" by (cases "GetNAD c (ns, net_Name n) w")
  show ?case
  proof (cases r)
    case (Inl e)
    with Cons.prems get have "\<not> ok" "tr' = tr @ [DidGetNAD (ns, net_Name n) False]"
      by (auto simp: record_call_def)
    then show ?thesis by (auto intro: exI [of _ "[]"])
  next
    case (Inr u)
    with Cons.prems get
    have "validateNetworks (logged c) ns nets (w1, tr @ [DidGetNAD (ns, net_Name n) True]) = (ok, (w', tr'))"
      by (simp add: record_call_def)
    note IH = Cons.IH [OF this]
    show ?thesis
    proof (cases ok)
      case True
      with IH show ?thesis by simp
    next
      case False
      with IH obtain pre m rest where "nets = pre @ m # rest"
        "tr' = (tr @ [DidGetNAD (ns, net_Name n) True]) @ map (\<lambda>n. DidGetNAD (ns, net_Name n) True) pre
           @ [DidGetNAD (ns, net_Name m) False]" by auto
      with False show ?thesis by (auto intro!: exI [of _ "n # pre"])
    qed
  qed
qed

lemma Validate_generated:
  assumes "CreateNetworkAttachmentDefinitionNetworks L t m = Ret txt" "plainNetworks t m"
    and "templateAnnotations d = Some a" "a NetworksAnnotation = Some txt"
  shows "ValidateNetworkAttachmentDefinitions c d w =
    validateNetworks c (Namespace (dep_Meta d)) (expectedNetworks t m) w"
  using Create_roundtrip [OF assms(1,2)] assms(3,4)
  by (simp add: ValidateNetworkAttachmentDefinitions_def)

section \<open>An example\<close>

text \<open>An interface map for the witnesses: one interface with an address and a gateway.\<close>

definition exampleInterface :: "string \<Rightarrow> InterfaceConfig" where
  "exampleInterface n = \<lparr>ifc_Name = n,
     IPv4 = Some \<lparr>Address = ''10.10.12.10/24'', Gateway = Some ''10.10.12.1''\<rparr>\<rparr>"

lemma exampleInterface_simps [simp]:
  "ifc_Name (exampleInterface n) = n"
  "IPv4 (exampleInterface n) = Some \<lparr>Address = ''10.10.12.10/24'', Gateway = Some ''10.10.12.1''\<rparr>"
  "hasGateway (exampleInterface n)"
  "printable n \<Longrightarrow> plainInterface (exampleInterface n)"
  by (simp_all add: exampleInterface_def hasGateway_def plainInterface_def)

lemma example_Create:
  "CreateNetworkAttachmentDefinitionNetworks L ''smf'' [(''n4'', [exampleInterface ''n4''])] =
     Ret (networksText (uprint L) [netArgsOf ''smf'' ''n4'' (exampleInterface ''n4'')])"
  by (subst Create_eq) (simp_all add: allHaveGateways_def mapSlice_def allArgs_def)

definition exampleStore :: store where
  "exampleStore = emptyStore\<lparr>nads := (\<lambda>k. k = (''ns'', ''smf-n4''))\<rparr>"

definition exampleAnnotated :: Deployment where
  "exampleAnnotated = \<lparr>dep_Meta = zeroMeta\<lparr>Namespace := ''ns''\<rparr>,
     dep_Spec = \<lparr>Replicas = 1, MatchLabels = Map.empty, Template = \<lparr>
       pod_Meta = zeroMeta\<lparr>Annotations := Some [NetworksAnnotation \<mapsto>
         networksText (\<lambda>r. True) [netArgsOf ''smf'' ''n4'' (exampleInterface ''n4'')]]\<rparr>,
       pod_Spec = \<lparr>Containers = [], DNSPolicy = '''', RestartPolicy = '''', Volumes = []\<rparr>\<rparr>\<rparr>,
     dep_Conditions = []\<rparr>"

lemma exampleAnnotated_annotations:
  "templateAnnotations exampleAnnotated = Some [NetworksAnnotation \<mapsto>
     networksText (\<lambda>r. True) [netArgsOf ''smf'' ''n4'' (exampleInterface ''n4'')]]"
  "Namespace (dep_Meta exampleAnnotated) = ''ns''"
  by (simp_all add: exampleAnnotated_def templateAnnotations_def)

lemma example_expected:
  "expectedNetworks ''smf'' [(''n4'', [exampleInterface ''n4''])] =
     [\<lparr>net_Name = ''smf-n4'', net_Interface = ''n4'', net_IP = '''', net_Gateway = ''''\<rparr>]"
  by (simp add: expectedNetworks_def mapSlice_def CreateNetworkAttachmentDefinitionName_def)

lemma example_plain: "plainNetworks ''smf'' [(''n4'', [exampleInterface ''n4''])]"
  by (simp add: plainNetworks_def)

lemmas example_Create_lib = example_Create [of "exampleLib undefined", unfolded exampleLib_sel]

section \<open>Properties\<close>

text \<open>
  C23: the annotation does not depend on the order in which Go iterates over the map: two
  enumerations of the same map give the same text, error or panic.
\<close>

theorem annotation_order_independent:
  assumes "distinct (map fst m)" and "distinct (map fst m')" and "map_of m = map_of m'"
  shows "CreateNetworkAttachmentDefinitionNetworks L t m = CreateNetworkAttachmentDefinitionNetworks L t m'"
proof -
  have "set (map fst m) = set (map fst m')"
    using arg_cong [OF assms(3), of dom] by (simp add: dom_map_of_conv_image_fst)
  then have "sort (map fst m) = sort (map fst m')"
    using assms(1,2) by (intro sort_perm_unique)
  moreover have "mapSlice m = mapSlice m'" using assms(3) by (simp add: mapSlice_def fun_eq_iff)
  ultimately show ?thesis by (simp add: CreateNetworkAttachmentDefinitionNetworks_def)
qed

theorem annotation_order_independent_witness:
  "CreateNetworkAttachmentDefinitionNetworks (exampleLib undefined) ''t''
     [(''n3'', [exampleInterface ''n3'']), (''n4'', [exampleInterface ''n4''])] =
   CreateNetworkAttachmentDefinitionNetworks (exampleLib undefined) ''t''
     [(''n4'', [exampleInterface ''n4'']), (''n3'', [exampleInterface ''n3''])]"
  by (rule annotation_order_independent) (auto simp: fun_eq_iff)

text \<open>
  C22: the annotation is JSON that reads back to exactly the networks of the interface map:
  one per selected interface, named \<open>template-key\<close>, in byte order of the keys, for printable
  ASCII names and addresses.
\<close>

theorem annotation_roundtrip:
  assumes "CreateNetworkAttachmentDefinitionNetworks L t m = Ret txt" and "plainNetworks t m"
  shows "unmarshalNetworks txt = Some (expectedNetworks t m)"
  using assms by (rule Create_roundtrip)

theorem annotation_roundtrip_witness:
  "unmarshalNetworks (networksText (\<lambda>r. True) [netArgsOf ''smf'' ''n4'' (exampleInterface ''n4'')]) =
     Some [\<lparr>net_Name = ''smf-n4'', net_Interface = ''n4'', net_IP = '''', net_Gateway = ''''\<rparr>]"
  using annotation_roundtrip [OF example_Create_lib example_plain] by (simp only: example_expected)

text \<open>
  C24: the check made on a deployment with a generated annotation reads the definitions
  \<open>template-key\<close> in the deployment's namespace, in order and up to the first one that is
  missing, and it succeeds exactly when it found all of them.
\<close>

theorem validate_reads_generated_networks:
  assumes "CreateNetworkAttachmentDefinitionNetworks L t m = Ret txt" and "plainNetworks t m"
    and "templateAnnotations d = Some a" and "a NetworksAnnotation = Some txt"
    and "ValidateNetworkAttachmentDefinitions (logged c) d (w, tr) = (ok, (w', tr'))"
  shows "if ok then tr' = tr @ map (\<lambda>n. DidGetNAD (Namespace (dep_Meta d), net_Name n) True) (expectedNetworks t m)
    else \<exists>found n rest. expectedNetworks t m = found @ n # rest
      \<and> tr' = tr @ map (\<lambda>n. DidGetNAD (Namespace (dep_Meta d), net_Name n) True) found
               @ [DidGetNAD (Namespace (dep_Meta d), net_Name n) False]"
  using assms(5) unfolding Validate_generated [OF assms(1-4)] by (rule validateNetworks_trace)

theorem validate_reads_generated_networks_witness:
  "\<exists>s'. ValidateNetworkAttachmentDefinitions (logged storeClient) exampleAnnotated (exampleStore, []) =
     (True, (s', [DidGetNAD (''ns'', ''smf-n4'') True]))"
proof -
  obtain ok s' tr' where run: "ValidateNetworkAttachmentDefinitions (logged storeClient) exampleAnnotated
      (exampleStore, []) = (ok, (s', tr'))"
    by (metis prod.collapse)
  then have ok
    unfolding Validate_generated [OF example_Create_lib example_plain exampleAnnotated_annotations(1)
        fun_upd_same]
    by (simp add: example_expected exampleAnnotated_annotations record_call_def exampleStore_def)
  then show ?thesis
    using validate_reads_generated_networks [OF example_Create_lib example_plain
        exampleAnnotated_annotations(1) fun_upd_same run] run
    by (simp add: example_expected exampleAnnotated_annotations)
qed




end
