(* ===== verification/ReconcileSteps.thy ===== *)
theory ReconcileSteps
  imports StatusSync NetworkAttachments ApiStore
begin

text \<open>
  The steps the three network function reconcilers are composed of, over an arbitrary client
  and world.  Each step is a stretch of the \<open>Reconcile\<close> methods that is the same in all of
  them up to the function's own \<open>createConfigMap\<close>, \<open>createService\<close>, \<open>createDeployment\<close> and
  \<open>syncStatus\<close>, which are arguments.  A step either ends the reconcile or lets it go on.
\<close>

section \<open>Control flow\<close>

text \<open>
  \<open>Return r\<close>: the method returns here (\<open>Err e\<close> is \<open>reconcile.Result{}, e\<close>).
  \<open>Continue x\<close>: the rest of the method runs.
\<close>

datatype 'a flow = Return "Result go" | Continue 'a

fun andThen :: "'a flow \<times> 'w \<Rightarrow> ('a \<Rightarrow> 'w \<Rightarrow> Result go \<times> 'w) \<Rightarrow> Result go \<times> 'w" where
  "andThen (Return r, w) f = (r, w)"
| "andThen (Continue x, w) f = f x w"

section \<open>The steps\<close>

text \<open>
  Looking for the objects the reconcile may already have created; an error of any kind
  counts as not found.
\<close>

definition findConfigMap :: "'w client \<Rightarrow> NamespacedName \<Rightarrow> 'w \<Rightarrow> (bool \<times> string) \<times> 'w" where
  "findConfigMap c k w =
     (case GetConfigMap c k w of
        (Inr cm, w') \<Rightarrow> ((True, ResourceVersion (cm_Meta cm)), w')
      | (Inl _, w') \<Rightarrow> ((False, ''''), w'))"

definition findService :: "'w client \<Rightarrow> NamespacedName \<Rightarrow> 'w \<Rightarrow> bool \<times> 'w" where
  "findService c k w =
     (case GetService c k w of (Inr _, w') \<Rightarrow> (True, w') | (Inl _, w') \<Rightarrow> (False, w'))"

definition findDeployment :: "'w client \<Rightarrow> NamespacedName \<Rightarrow> 'w \<Rightarrow> Deployment option \<times> 'w" where
  "findDeployment c k w =
     (case GetDeployment c k w of (Inr d, w') \<Rightarrow> (Some d, w') | (Inl _, w') \<Rightarrow> (None, w'))"

text \<open>\<open>if deploymentFound { ... }\<close>: synchronise the status, then roll the pods on a new ConfigMap.\<close>

type_synonym 'w syncStatus = "'w client \<Rightarrow> Deployment \<Rightarrow> NFDeployment \<Rightarrow> 'w \<Rightarrow> error option \<times> 'w"

definition syncAndRoll ::
  "'w syncStatus \<Rightarrow> 'w client \<Rightarrow> NFDeployment \<Rightarrow> Deployment option \<Rightarrow> string \<Rightarrow> 'w \<Rightarrow> unit flow \<times> 'w" where
  "syncAndRoll syncStatus c nf currentDeployment configMapVersion w =
     (case currentDeployment of
        None \<Rightarrow> (Continue (), w)
      | Some deployment \<Rightarrow>
          (case (if DeletionTimestamp (dep_Meta deployment) = None then syncStatus c deployment nf w
                 else (None, w)) of
             (Some err, w1) \<Rightarrow> (Return (Err err), w1)
           | (None, w1) \<Rightarrow>
               if mapGet (templateAnnotations deployment) ConfigMapVersionAnnotation \<noteq> configMapVersion then
                 (case setTemplateAnnotation ConfigMapVersionAnnotation configMapVersion deployment of
                    Panic p \<Rightarrow> (Return (Panic p), w1)
                  | Err e \<Rightarrow> (Return (Err e), w1)
                  | Ret rolled \<Rightarrow>
                      (case UpdateDeployment c rolled w1 of
                         (Inl err, w2) \<Rightarrow> (Return (Err err), w2)
                       | (Inr _, w2) \<Rightarrow> (Return (Ret \<lparr>Requeue = True, RequeueAfter = 0\<rparr>), w2)))
               else (Continue (), w1)))"

text \<open>
  \<open>ctrl.SetControllerReference\<close> on a new object: a failure is logged only, and the object
  goes out without the reference.
\<close>

definition controlled :: "lib \<Rightarrow> NFDeployment \<Rightarrow> ObjectMeta \<Rightarrow> ObjectMeta" where
  "controlled L nf m = (case SetControllerReference L nf m of Inl _ \<Rightarrow> m | Inr m' \<Rightarrow> m')"

text \<open>The version of the ConfigMap is the server's, which \<open>Create\<close> writes into the object.\<close>

definition ensureConfigMap ::
  "lib \<Rightarrow> 'w client \<Rightarrow> NFDeployment \<Rightarrow> ConfigMap go \<Rightarrow> bool \<Rightarrow> string \<Rightarrow> 'w \<Rightarrow> string flow \<times> 'w" where
  "ensureConfigMap L c nf made configMapFound configMapVersion w =
     (case made of
        Panic p \<Rightarrow> (Return (Panic p), w)
      | Err err \<Rightarrow> (Return (Err err), w)
      | Ret configMap \<Rightarrow>
          if \<not> configMapFound then
            (case CreateConfigMap c (configMap\<lparr>cm_Meta := controlled L nf (cm_Meta configMap)\<rparr>) w of
               (Inl err, w1) \<Rightarrow> (Return (Err err), w1)
             | (Inr created, w1) \<Rightarrow> (Continue (ResourceVersion (cm_Meta created)), w1))
          else (Continue configMapVersion, w))"

definition ensureService ::
  "lib \<Rightarrow> 'w client \<Rightarrow> NFDeployment \<Rightarrow> Service \<Rightarrow> bool \<Rightarrow> 'w \<Rightarrow> unit flow \<times> 'w" where
  "ensureService L c nf service serviceFound w =
     (if \<not> serviceFound then
        (case CreateService c (service\<lparr>svc_Meta := controlled L nf (svc_Meta service)\<rparr>) w of
           (Inl err, w1) \<Rightarrow> (Return (Err err), w1)
         | (Inr _, w1) \<Rightarrow> (Continue (), w1))
      else (Continue (), w))"

text \<open>
  The last step: create the Deployment once its networks are there (the outcome of \<open>Create\<close>
  is only logged); \<open>whenFound\<close> is what a reconciler does with the Deployment it made when
  one exists already.
\<close>

definition ensureDeployment ::
  "lib \<Rightarrow> 'w client \<Rightarrow> NFDeployment \<Rightarrow> Deployment go \<Rightarrow> bool
   \<Rightarrow> (Deployment \<Rightarrow> 'w \<Rightarrow> 'w) \<Rightarrow> 'w \<Rightarrow> Result go \<times> 'w" where
  "ensureDeployment L c nf made deploymentFound whenFound w =
     (case made of
        Panic p \<Rightarrow> (Panic p, w)
      | Err err \<Rightarrow> (Err err, w)
      | Ret deployment \<Rightarrow>
          if \<not> deploymentFound then
            (case ValidateNetworkAttachmentDefinitions c deployment w of
               (True, w1) \<Rightarrow>
                 (case CreateDeployment c (deployment\<lparr>dep_Meta := controlled L nf (dep_Meta deployment)\<rparr>) w1 of
                    (_, w2) \<Rightarrow> (Ret \<lparr>Requeue = False, RequeueAfter = 30 * Second\<rparr>, w2))
             | (False, w1) \<Rightarrow> (Ret \<lparr>Requeue = False, RequeueAfter = 10 * Second\<rparr>, w1))
          else (Ret emptyResult, whenFound deployment w))"

text \<open>\<open>if err = r.Update(ctx, deployment); err != nil { log }\<close>.\<close>

definition updateFound :: "'w client \<Rightarrow> Deployment \<Rightarrow> 'w \<Rightarrow> 'w" where
  "updateFound c deployment w = snd (UpdateDeployment c deployment w)"

end
