(* ===== verification/NetworkFunction.thy ===== *)
theory NetworkFunction
  imports InterfaceConfigs NetworkAttachments
begin

text \<open>
  What the reconcilers rely on in a network function's \<open>createConfigMap\<close> and
  \<open>createDeployment\<close>, as a locale: the objects are new objects named like the NFDeployment,
  the Deployment carries the ConfigMap version and the networks it was made for, and it
  mounts nothing but files of the ConfigMap.  The consequences are proved here once; each
  function's resource theory provides the interpretation.
\<close>

section \<open>Notions of the contract\<close>

text \<open>A new object with the NFDeployment's name and namespace: no version, no owner.\<close>

definition namedLike :: "NFDeployment \<Rightarrow> ObjectMeta \<Rightarrow> bool" where
  "namedLike nf m \<longleftrightarrow> m = zeroMeta\<lparr>Name := Name (nf_Meta nf), Namespace := Namespace (nf_Meta nf)\<rparr>"

text \<open>The selector finds the pods of the template.\<close>

definition selectsOwnPods :: "Deployment \<Rightarrow> bool" where
  "selectsOwnPods d \<longleftrightarrow> MatchLabels (dep_Spec d) \<noteq> Map.empty
     \<and> Labels (pod_Meta (Template (dep_Spec d))) = Some (MatchLabels (dep_Spec d))"

text \<open>
  Every mount names a volume of the pod, and every file that a volume projects is a key of
  the ConfigMap of that name.
\<close>

definition volumesResolve :: "Deployment \<Rightarrow> ConfigMap \<Rightarrow> bool" where
  "volumesResolve d cm \<longleftrightarrow>
     (let pod = pod_Spec (Template (dep_Spec d)) in
      (\<forall>container \<in> set (Containers pod). \<forall>mount \<in> set (VolumeMounts container).
         \<exists>volume \<in> set (Volumes pod). vol_Name volume = vm_Name mount)
      \<and> (\<forall>volume \<in> set (Volumes pod). \<forall>source \<in> set (ProjectedSources volume).
           proj_Name source = Name (cm_Meta cm)
           \<and> (\<forall>item \<in> set (Items source). ktp_Key item \<in> dom (Data cm))))"

text \<open>Container resources: what is requested is what is allowed.\<close>

definition guaranteed :: "Deployment \<Rightarrow> bool" where
  "guaranteed d \<longleftrightarrow> (\<forall>container \<in> set (Containers (pod_Spec (Template (dep_Spec d)))).
     Limits (Resources container) = Requests (Resources container)
     \<and> dom (Limits (Resources container)) = {''cpu'', ''memory''})"

lemma resources_dom [simp]: "dom [''cpu'' \<mapsto> a, ''memory'' \<mapsto> b] = {''cpu'', ''memory''}"
  by (simp only: dom_fun_upd dom_empty option.distinct if_False insert_commute)

text \<open>The networks of an NFDeployment, for the interface names a function attaches.\<close>

definition networksOf :: "string list \<Rightarrow> NFDeployment \<Rightarrow> (string \<times> InterfaceConfig list) list" where
  "networksOf names nf = map (\<lambda>n. (n, GetInterfaceConfigs (Interfaces (nf_Spec nf)) n)) names"

definition attachable :: "string list \<Rightarrow> NFDeployment \<Rightarrow> bool" where
  "attachable names nf \<longleftrightarrow>
     list_all (\<lambda>cfg. ifc_Name cfg \<in> set names \<longrightarrow> hasGateway cfg) (Interfaces (nf_Spec nf))"

lemma networksOf_keys [simp]: "map fst (networksOf names nf) = names"
  by (simp add: networksOf_def comp_def)

lemma mapSlice_networksOf:
  "n \<in> set names \<Longrightarrow> mapSlice (networksOf names nf) n = GetInterfaceConfigs (Interfaces (nf_Spec nf)) n"
  by (induction names) (auto simp: networksOf_def mapSlice_def)

lemma allHaveGateways_networksOf: "allHaveGateways (networksOf names nf) \<longleftrightarrow> attachable names nf"
  by (auto simp: allHaveGateways_def attachable_def list_all_iff mapSlice_networksOf)

section \<open>The contract\<close>

locale network_function =
  fixes createConfigMap :: "'x \<Rightarrow> NFDeployment \<Rightarrow> ConfigMap go"
    and createDeployment :: "lib \<Rightarrow> string \<Rightarrow> NFDeployment \<Rightarrow> Deployment go"
    and networks :: "string list"
  assumes configMap_named: "createConfigMap x nf = Ret cm \<Longrightarrow> namedLike nf (cm_Meta cm)"
    and deployment_named: "createDeployment L v nf = Ret d \<Longrightarrow> namedLike nf (dep_Meta d) \<and> dep_Conditions d = []"
    and deployment_annotations: "createDeployment L v nf = Ret d \<Longrightarrow> \<exists>annot.
      CreateNetworkAttachmentDefinitionNetworks L (Name (nf_Meta nf)) (networksOf networks nf) = Ret annot
      \<and> templateAnnotations d = Some [ConfigMapVersionAnnotation \<mapsto> v, NetworksAnnotation \<mapsto> annot]"
    and deployment_pods: "createDeployment L v nf = Ret d \<Longrightarrow> selectsOwnPods d \<and> guaranteed d"
    and deployment_volumes: "createDeployment L v nf = Ret d \<Longrightarrow> createConfigMap x nf = Ret cm \<Longrightarrow>
      volumesResolve d cm"
    and deployment_total: "createDeployment L v nf \<noteq> Err e \<or> (\<exists>n. e = MissingGateway n)"
    and deployment_succeeds: "(\<exists>d. createDeployment L v nf = Ret d) \<longleftrightarrow>
      Capacity (nf_Spec nf) \<noteq> None \<and> attachable networks nf"
begin

lemma deployment_version:
  "createDeployment L v nf = Ret d \<Longrightarrow> mapGet (templateAnnotations d) ConfigMapVersionAnnotation = v"
  using deployment_annotations by (fastforce simp: mapGet_def)

lemma deployment_succeeds_any: "createDeployment L v nf = Ret d \<Longrightarrow> \<exists>d'. createDeployment L v' nf = Ret d'"
  using deployment_succeeds by blast

lemma deployment_unowned: "createDeployment L v nf = Ret d \<Longrightarrow>
    OwnerReferences (dep_Meta d) = [] \<and> ResourceVersion (dep_Meta d) = '''' \<and> keyOf (dep_Meta d) = keyOf (nf_Meta nf)"
  using deployment_named by (fastforce simp: namedLike_def zeroMeta_def keyOf_def)

lemma configMap_key: "createConfigMap x nf = Ret cm \<Longrightarrow> keyOf (cm_Meta cm) = keyOf (nf_Meta nf)"
  using configMap_named by (fastforce simp: namedLike_def keyOf_def)

text \<open>The networks the check will look for, for a deployment this function made.\<close>

lemma deployment_validate:
  assumes "createDeployment L v nf = Ret d" "plainNetworks (Name (nf_Meta nf)) (networksOf networks nf)"
  shows "ValidateNetworkAttachmentDefinitions c d w =
    validateNetworks c (Namespace (nf_Meta nf))
      (expectedNetworks (Name (nf_Meta nf)) (networksOf networks nf)) w"
proof -
  obtain annot where annot: "CreateNetworkAttachmentDefinitionNetworks L (Name (nf_Meta nf)) (networksOf networks nf) = Ret annot"
    and ann: "templateAnnotations d = Some [ConfigMapVersionAnnotation \<mapsto> v, NetworksAnnotation \<mapsto> annot]"
    using deployment_annotations [OF assms(1)] by blast
  have "Namespace (dep_Meta d) = Namespace (nf_Meta nf)"
    using deployment_named [OF assms(1)] by (simp add: namedLike_def)
  then show ?thesis
    using Validate_generated [OF annot assms(2) ann] by simp
qed

end

end
