(* ===== verification/Traces.thy ===== *)
theory Traces
  imports ReconcileSteps NetworkFunction
begin

text \<open>
  The calls a reconcile makes, whatever the client answers: in which order it writes, that a
  failed write is the last one, that a Deployment is created only after its networks were
  found, and which objects it writes.  One lemma per step; the reconciler theories put them
  together.
\<close>

section \<open>The order of the writes\<close>

text \<open>Status, ConfigMap, Service, Deployment.\<close>

fun rank :: "call \<Rightarrow> nat" where
  "rank (DidUpdateStatus x b) = 0"
| "rank (DidCreateConfigMap x b) = 1"
| "rank (DidCreateService x b) = 2"
| "rank (DidCreateDeployment x b) = 3"
| "rank (DidUpdateDeployment x b) = 3"
| "rank _ = 0"

fun accepted :: "call \<Rightarrow> bool" where
  "accepted (DidUpdateStatus x b) = b"
| "accepted (DidCreateConfigMap x b) = b"
| "accepted (DidCreateService x b) = b"
| "accepted (DidCreateDeployment x b) = b"
| "accepted (DidUpdateDeployment x b) = b"
| "accepted _ = True"

text \<open>
  At most one write of each rank, in increasing rank between the bounds, and every write but
  the last one accepted by the server.
\<close>

definition orderedWrites :: "nat \<Rightarrow> nat \<Rightarrow> call list \<Rightarrow> bool" where
  "orderedWrites lo hi evs \<longleftrightarrow>
     (let ws = filter is_write evs in
      sorted_wrt (<) (map rank ws) \<and> (\<forall>e \<in> set ws. lo \<le> rank e \<and> rank e < hi)
      \<and> (\<forall>e \<in> set (butlast ws). accepted e))"

definition allAccepted :: "call list \<Rightarrow> bool" where
  "allAccepted evs \<longleftrightarrow> (\<forall>e \<in> set (filter is_write evs). accepted e)"

lemma orderedWrites_reads:
  "filter is_write evs = [] \<Longrightarrow> orderedWrites lo hi evs" "filter is_write evs = [] \<Longrightarrow> allAccepted evs"
  by (simp_all only: orderedWrites_def allAccepted_def Let_def) auto

lemma orderedWrites_append:
  assumes "orderedWrites lo mid evs" "allAccepted evs" "orderedWrites mid hi evs'" "lo \<le> mid" "mid \<le> hi"
  shows "orderedWrites lo hi (evs @ evs')"
proof -
  let ?ws = "filter is_write evs" and ?ws' = "filter is_write evs'"
  have "sorted_wrt (<) (map rank (?ws @ ?ws'))"
    using assms by (fastforce simp: orderedWrites_def Let_def sorted_wrt_append)
  moreover have "\<forall>e \<in> set (?ws @ ?ws'). lo \<le> rank e \<and> rank e < hi"
    using assms by (fastforce simp: orderedWrites_def Let_def)
  moreover have "\<forall>e \<in> set (butlast (?ws @ ?ws')). accepted e"
    using assms by (auto simp: orderedWrites_def allAccepted_def Let_def butlast_append dest: in_set_butlastD)
  ultimately show ?thesis
    unfolding orderedWrites_def Let_def filter_append by simp
qed

lemma orderedWrites_mono: "orderedWrites lo mid evs \<Longrightarrow> mid \<le> hi \<Longrightarrow> orderedWrites lo hi evs"
  by (fastforce simp: orderedWrites_def Let_def)

section \<open>What one step may do\<close>

text \<open>
  The step turned the trace \<open>tr\<close> into \<open>tr'\<close>: it only appended, its writes are ordered
  between the ranks, each satisfies \<open>P\<close>, and if the reconcile goes on they were all accepted.
\<close>

definition stepped :: "nat \<Rightarrow> nat \<Rightarrow> (call \<Rightarrow> bool) \<Rightarrow> bool \<Rightarrow> call list \<Rightarrow> call list \<Rightarrow> bool" where
  "stepped lo hi P goes_on tr tr' \<longleftrightarrow>
     (\<exists>evs. tr' = tr @ evs \<and> orderedWrites lo hi evs \<and> (\<forall>e \<in> set evs. P e)
        \<and> (goes_on \<longrightarrow> allAccepted evs))"

lemma stepped_refl [simp]: "stepped lo hi P b tr tr"
  by (auto simp: stepped_def orderedWrites_reads)

lemma stepped_trans:
  assumes "stepped lo mid P True tr tr'" "stepped mid hi P b tr' tr''" "lo \<le> mid" "mid \<le> hi"
  shows "stepped lo hi P b tr tr''"
proof -
  from assms(1) obtain evs where 1: "tr' = tr @ evs" "orderedWrites lo mid evs" "allAccepted evs" "\<forall>e \<in> set evs. P e"
    unfolding stepped_def by blast
  from assms(2) obtain evs' where 2: "tr'' = tr' @ evs'" "orderedWrites mid hi evs'" "\<forall>e \<in> set evs'. P e"
    "b \<longrightarrow> allAccepted evs'"
    unfolding stepped_def by blast
  have "orderedWrites lo hi (evs @ evs')"
    using 1(2,3) 2(2) assms(3,4) by (rule orderedWrites_append)
  with 1 2 show ?thesis
    unfolding stepped_def by (intro exI [of _ "evs @ evs'"]) (auto simp: allAccepted_def)
qed

lemma stepped_mono: "stepped lo mid P b tr tr' \<Longrightarrow> mid \<le> hi \<Longrightarrow> stepped lo hi P b tr tr'"
  unfolding stepped_def using orderedWrites_mono by blast

lemma stepped_end: "stepped lo mid P b tr tr' \<Longrightarrow> mid \<le> hi \<Longrightarrow> stepped lo hi P False tr tr'"
  unfolding stepped_def using orderedWrites_mono by blast

lemma stepped_weaken: "stepped lo hi P b tr tr' \<Longrightarrow> (\<And>e. P e \<Longrightarrow> Q e) \<Longrightarrow> stepped lo hi Q b tr tr'"
  unfolding stepped_def by blast

lemma stepped_reads:
  "\<forall>e \<in> set evs. \<not> is_write e \<and> P e \<Longrightarrow> stepped lo hi P b tr (tr @ evs)"
  unfolding stepped_def by (intro exI [of _ evs]) (simp add: orderedWrites_reads filter_empty_conv)

lemma stepped_write:
  "is_write e \<Longrightarrow> lo \<le> rank e \<Longrightarrow> rank e < hi \<Longrightarrow> P e \<Longrightarrow> b \<longrightarrow> accepted e \<Longrightarrow> stepped lo hi P b tr (tr @ [e])"
  unfolding stepped_def by (intro exI [of _ "[e]"]) (simp add: orderedWrites_def allAccepted_def)

section \<open>The steps\<close>

fun goes_on :: "'a flow \<Rightarrow> bool" where
  "goes_on (Return r) = False"
| "goes_on (Continue x) = True"

lemma find_stepped:
  "findConfigMap (logged c) k (w, tr) = (x, (w', tr')) \<Longrightarrow> P (DidGetConfigMap k) \<Longrightarrow> stepped lo hi P b tr tr'"
  "findService (logged c) k (w, tr) = (y, (w', tr')) \<Longrightarrow> P (DidGetService k) \<Longrightarrow> stepped lo hi P b tr tr'"
  "findDeployment (logged c) k (w, tr) = (z, (w', tr')) \<Longrightarrow> P (DidGetDeployment k) \<Longrightarrow> stepped lo hi P b tr tr'"
  by (auto simp: findConfigMap_def findService_def findDeployment_def record_call_def
      split: prod.splits sum.splits intro!: stepped_reads)

text \<open>\<open>syncStatus\<close> writes the status of the NFDeployment it was given, or nothing.\<close>

definition statusWriter :: "(('w \<times> call list) syncStatus) \<Rightarrow> 'w client \<Rightarrow> bool" where
  "statusWriter sync c \<longleftrightarrow> (\<forall>d nf w tr r w' tr'. sync (logged c) d nf (w, tr) = (r, (w', tr')) \<longrightarrow>
     r = None \<and> tr' = tr
     \<or> (\<exists>st. tr' = tr @ [DidUpdateStatus (nf\<lparr>nf_Status := st\<rparr>) (r = None)]))"

text \<open>The writes of \<open>syncAndRoll\<close>: the status, and the found deployment with a new ConfigMap version.\<close>

definition rolledFrom :: "Deployment \<Rightarrow> string \<Rightarrow> Deployment \<Rightarrow> bool" where
  "rolledFrom d v d' \<longleftrightarrow> setTemplateAnnotation ConfigMapVersionAnnotation v d = Ret d'"

lemma sync_stepped:
  assumes "statusWriter sync c"
    and "(if DeletionTimestamp (dep_Meta d) = None then sync (logged c) d nf (w, tr) else (None, (w, tr))) = (err, (w1, tr1))"
    and status: "\<And>st b. P (DidUpdateStatus (nf\<lparr>nf_Status := st\<rparr>) b)"
  shows "stepped 0 1 P (err = None) tr tr1"
proof (cases "DeletionTimestamp (dep_Meta d)")
  case None
  with assms(1,2) have "err = None \<and> tr1 = tr \<or> (\<exists>st. tr1 = tr @ [DidUpdateStatus (nf\<lparr>nf_Status := st\<rparr>) (err = None)])"
    unfolding statusWriter_def by simp
  then show ?thesis
    by (auto intro: stepped_write status)
qed (use assms(2) in simp)

lemma syncAndRoll_stepped:
  assumes sync: "statusWriter sync c"
    and run: "syncAndRoll sync (logged c) nf cur v (w, tr) = (out, (w', tr'))"
    and status: "\<And>st b. P (DidUpdateStatus (nf\<lparr>nf_Status := st\<rparr>) b)"
    and roll: "\<And>d d' b. cur = Some d \<Longrightarrow> rolledFrom d v d' \<Longrightarrow> P (DidUpdateDeployment d' b)"
  shows "stepped 0 (if goes_on out then 1 else 4) P (goes_on out) tr tr'"
proof (cases cur)
  case None
  with run show ?thesis by (simp add: syncAndRoll_def)
next
  case (Some d)
  obtain err w1 tr1 where s: "(if DeletionTimestamp (dep_Meta d) = None then sync (logged c) d nf (w, tr)
      else (None, (w, tr))) = (err, (w1, tr1))"
    by (metis prod.collapse)
  have st: "stepped 0 1 P (err = None) tr tr1"
    by (rule sync_stepped [where ?P = P, OF sync s]) (rule status)
  from s run Some consider (goes) "err = None" "out = Continue ()" "tr' = tr1" | (stops) "\<not> goes_on out" "tr' = tr1"
    | (rolls) d' b where "err = None" "\<not> goes_on out" "rolledFrom d v d'" "tr' = tr1 @ [DidUpdateDeployment d' b]"
    by (auto simp: syncAndRoll_def rolledFrom_def record_call_def
        split: if_splits go.splits prod.splits sum.splits option.splits)
  then show ?thesis
  proof cases
    case goes
    with st show ?thesis by simp
  next
    case stops
    with st show ?thesis by (simp add: stepped_end)
  next
    case rolls
    have "stepped 1 4 P False tr1 tr'"
      unfolding rolls(4) using roll [OF Some rolls(3)] by (intro stepped_write) auto
    with st rolls(1,2) show ?thesis by (simp add: stepped_trans [of 0 1])
  qed
qed

lemma ensureConfigMap_stepped:
  assumes run: "ensureConfigMap L (logged c) nf made exists v (w, tr) = (out, (w', tr'))"
    and P: "\<And>cm b. made = Ret cm \<Longrightarrow> \<not> exists \<Longrightarrow> P (DidCreateConfigMap (cm\<lparr>cm_Meta := controlled L nf (cm_Meta cm)\<rparr>) b)"
  shows "stepped 1 2 P (goes_on out) tr tr'"
  using run
  by (auto simp: ensureConfigMap_def record_call_def split: go.splits if_splits prod.splits sum.splits
      intro!: stepped_write P)

lemma ensureService_stepped:
  assumes run: "ensureService L (logged c) nf svc exists (w, tr) = (out, (w', tr'))"
    and P: "\<And>b. \<not> exists \<Longrightarrow> P (DidCreateService (svc\<lparr>svc_Meta := controlled L nf (svc_Meta svc)\<rparr>) b)"
  shows "stepped 2 3 P (goes_on out) tr tr'"
  using run
  by (auto simp: ensureService_def record_call_def split: if_splits prod.splits sum.splits
      intro!: stepped_write P)

lemma validateNetworks_reads:
  assumes "validateNetworks (logged c) ns nets (w, tr) = (ok, (w', tr'))"
  shows "\<exists>evs. tr' = tr @ evs \<and> (\<forall>e \<in> set evs. \<exists>k b. e = DidGetNAD k b)"
  using validateNetworks_trace [OF assms] by (auto split: if_splits)

lemma Validate_reads:
  assumes "ValidateNetworkAttachmentDefinitions (logged c) d (w, tr) = (ok, (w', tr'))"
  shows "\<exists>evs. tr' = tr @ evs \<and> (\<forall>e \<in> set evs. \<exists>k b. e = DidGetNAD k b)"
  using assms
  by (auto simp: ValidateNetworkAttachmentDefinitions_def split: option.splits dest: validateNetworks_reads)

lemma ensureDeployment_stepped:
  assumes run: "ensureDeployment L (logged c) nf made exists whenFound (w, tr) = (r, (w', tr'))"
    and nad: "\<And>k b. P (DidGetNAD k b)"
    and create: "\<And>d b. made = Ret d \<Longrightarrow> \<not> exists \<Longrightarrow>
      P (DidCreateDeployment (d\<lparr>dep_Meta := controlled L nf (dep_Meta d)\<rparr>) b)"
    and update: "\<And>d w1 tr1. made = Ret d \<Longrightarrow> exists \<Longrightarrow> whenFound d (w, tr) = (w1, tr1) \<Longrightarrow> stepped 3 4 P False tr tr1"
  shows "stepped 3 4 P False tr tr'"
proof (cases made)
  case (Ret d)
  show ?thesis
  proof (cases exists)
    case True
    with Ret run update show ?thesis by (simp add: ensureDeployment_def)
  next
    case False
    obtain ok w1 tr1 where v: "ValidateNetworkAttachmentDefinitions (logged c) d (w, tr) = (ok, (w1, tr1))"
      by (metis prod.collapse)
    obtain evs where tr1: "tr1 = tr @ evs" and reads: "\<forall>e \<in> set evs. \<exists>k b. e = DidGetNAD k b"
      using Validate_reads [OF v] by blast
    from reads nad have "\<forall>e \<in> set evs. \<not> is_write e \<and> P e"
      by fastforce
    then have reads: "stepped 3 3 P True tr tr1"
      unfolding tr1 by (rule stepped_reads)
    show ?thesis
    proof (cases ok)
      case True
      with Ret False run v obtain b where "tr' = tr1 @ [DidCreateDeployment (d\<lparr>dep_Meta := controlled L nf (dep_Meta d)\<rparr>) b]"
        by (auto simp: ensureDeployment_def record_call_def split: prod.splits)
      then have "stepped 3 4 P False tr1 tr'"
        using create [OF Ret False] by (simp add: stepped_write)
      with reads show ?thesis by (rule stepped_trans) simp_all
    next
      case False': False
      with Ret False run v have "tr' = tr1"
        by (simp add: ensureDeployment_def)
      with reads show ?thesis by (simp add: stepped_end)
    qed
  qed
qed (use run in \<open>auto simp: ensureDeployment_def\<close>)

lemma updateFound_stepped:
  assumes "updateFound (logged c) d (w, tr) = (w1, tr1)" "\<And>b. P (DidUpdateDeployment d b)"
  shows "stepped 3 4 P False tr tr1"
  using assms by (auto simp: updateFound_def record_call_def split: prod.splits intro!: stepped_write)

text \<open>
  A Deployment is created right after all its networks were found, and only then.
\<close>

context network_function
begin

lemma ensureDeployment_create:
  assumes run: "ensureDeployment L (logged c) nf (createDeployment L v nf) exists whenFound (w, tr) = (r, (w', tr'))"
    and plain: "plainNetworks (Name (nf_Meta nf)) (networksOf networks nf)"
    and "\<not> exists"
  shows "\<exists>evs. tr' = tr @ evs \<and> (\<forall>d b. DidCreateDeployment d b \<in> set evs \<longrightarrow>
    evs = map (\<lambda>n. DidGetNAD (Namespace (nf_Meta nf), net_Name n) True)
            (expectedNetworks (Name (nf_Meta nf)) (networksOf networks nf)) @ [DidCreateDeployment d b])"
proof (cases "createDeployment L v nf")
  case (Ret d)
  let ?nets = "expectedNetworks (Name (nf_Meta nf)) (networksOf networks nf)"
  obtain ok w1 tr1 where v: "validateNetworks (logged c) (Namespace (nf_Meta nf)) ?nets (w, tr) = (ok, (w1, tr1))"
    by (metis prod.collapse)
  note val = deployment_validate [OF Ret plain, of "logged c" "(w, tr)"]
  show ?thesis
  proof (cases ok)
    case True
    with v have "tr1 = tr @ map (\<lambda>n. DidGetNAD (Namespace (nf_Meta nf), net_Name n) True) ?nets"
      using validateNetworks_trace [OF v] by simp
    with True v val run Ret assms(3) show ?thesis
      by (fastforce simp: ensureDeployment_def record_call_def split: prod.splits)
  next
    case False
    with v val run Ret assms(3) have "tr' = tr1"
      by (simp add: ensureDeployment_def)
    with validateNetworks_reads [OF v] show ?thesis by fastforce
  qed
qed (use run in \<open>auto simp: ensureDeployment_def\<close>)

end

section \<open>Putting the steps together\<close>

text \<open>
  A reconcile either finishes early, or reaches its last step \<open>D\<close> with all writes so far
  accepted and of a rank below the Deployment's.
\<close>

definition finishes :: "nat \<Rightarrow> (call \<Rightarrow> bool) \<Rightarrow> ('w \<times> call list \<Rightarrow> Result go \<times> ('w \<times> call list) \<Rightarrow> bool)
    \<Rightarrow> call list \<Rightarrow> Result go \<times> ('w \<times> call list) \<Rightarrow> bool" where
  "finishes lo P D tr out \<longleftrightarrow> stepped lo 4 P False tr (snd (snd out))
     \<or> (\<exists>w1 tr1. stepped lo 3 P True tr tr1 \<and> D (w1, tr1) out)"

lemma finishes_last: "D (w, tr) out \<Longrightarrow> finishes lo P D tr out"
  unfolding finishes_def using stepped_refl by blast

lemma finishes_early: "stepped lo mid P b tr (snd (snd out)) \<Longrightarrow> mid \<le> 4 \<Longrightarrow> finishes lo P D tr out"
  unfolding finishes_def using stepped_end by blast

lemma finishes_after:
  assumes "stepped lo mid P True tr tr1" "finishes mid P D tr1 out" "lo \<le> mid" "mid \<le> 3"
  shows "finishes lo P D tr out"
  using assms(2) unfolding finishes_def
proof (elim disjE exE conjE)
  assume "stepped mid 4 P False tr1 (snd (snd out))"
  with assms(1) have "stepped lo 4 P False tr (snd (snd out))"
    by (rule stepped_trans) (use assms(3,4) in simp_all)
  then show "stepped lo 4 P False tr (snd (snd out)) \<or> (\<exists>w1 tr1. stepped lo 3 P True tr tr1 \<and> D (w1, tr1) out)"
    by blast
next
  fix w2 tr2
  assume "stepped mid 3 P True tr1 tr2" "D (w2, tr2) out"
  with stepped_trans [OF assms(1) this(1) assms(3,4)]
  show "stepped lo 4 P False tr (snd (snd out)) \<or> (\<exists>w1 tr1. stepped lo 3 P True tr tr1 \<and> D (w1, tr1) out)"
    by blast
qed

lemma andThen_finishes:
  assumes run: "andThen m f = out" and m: "m = (fl, (w1, tr1))"
    and first: "stepped lo (if goes_on fl then mid else 4) P (goes_on fl) tr tr1"
    and rest: "\<And>x. fl = Continue x \<Longrightarrow> f x (w1, tr1) = out \<Longrightarrow> finishes mid P D tr1 out"
    and "lo \<le> mid" "mid \<le> 3"
  shows "finishes lo P D tr out"
proof (cases fl)
  case (Return r')
  with run m first show ?thesis by (auto intro: finishes_early)
next
  case (Continue x)
  with run m have "f x (w1, tr1) = out" by simp
  with Continue first rest assms(5,6) show ?thesis by (auto intro: finishes_after)
qed

lemma stepped_if: "stepped lo mid P b tr tr' \<Longrightarrow> mid \<le> hi \<Longrightarrow> stepped lo (if b then mid else hi) P b tr tr'"
  by (auto intro: stepped_mono)

text \<open>
  A condition on calls that holds for everything a function's reconcile may do: all reads,
  the status of its NFDeployment, the found deployment with a new ConfigMap version, the new
  objects (\<open>CM\<close>, \<open>SV\<close>, \<open>DP\<close>), and with \<open>upd\<close> the new deployment in place of the found one.
\<close>

definition lawful :: "(call \<Rightarrow> bool) \<Rightarrow> lib \<Rightarrow> 'w client \<Rightarrow> NFDeployment \<Rightarrow> (ConfigMap \<Rightarrow> bool)
    \<Rightarrow> (Service \<Rightarrow> bool) \<Rightarrow> (Deployment \<Rightarrow> bool) \<Rightarrow> bool \<Rightarrow> bool" where
  "lawful P L c nf CM SV DP upd \<longleftrightarrow>
     (\<forall>e. \<not> is_write e \<longrightarrow> P e)
     \<and> (\<forall>st b. P (DidUpdateStatus (nf\<lparr>nf_Status := st\<rparr>) b))
     \<and> (\<forall>d w w' v d' b. GetDeployment c (keyOf (nf_Meta nf)) w = (Inr d, w') \<longrightarrow> rolledFrom d v d'
          \<longrightarrow> P (DidUpdateDeployment d' b))
     \<and> (\<forall>cm b. CM cm \<longrightarrow> P (DidCreateConfigMap (cm\<lparr>cm_Meta := controlled L nf (cm_Meta cm)\<rparr>) b))
     \<and> (\<forall>s b. SV s \<longrightarrow> P (DidCreateService (s\<lparr>svc_Meta := controlled L nf (svc_Meta s)\<rparr>) b))
     \<and> (\<forall>d b. DP d \<longrightarrow> P (DidCreateDeployment (d\<lparr>dep_Meta := controlled L nf (dep_Meta d)\<rparr>) b))
     \<and> (\<forall>d b. upd \<longrightarrow> DP d \<longrightarrow> P (DidUpdateDeployment d b))"

lemma findDeployment_Some:
  "findDeployment (logged c) k (w, tr) = (Some d, s') \<Longrightarrow> \<exists>w'. GetDeployment c k w = (Inr d, w')"
  by (auto simp: findDeployment_def record_call_def split: prod.splits sum.splits)

text \<open>The writes a reconcile is permitted, spelled out.\<close>

fun permitted :: "lib \<Rightarrow> NFDeployment \<Rightarrow> (ConfigMap \<Rightarrow> bool) \<Rightarrow> (Service \<Rightarrow> bool)
    \<Rightarrow> (Deployment \<Rightarrow> bool) \<Rightarrow> bool \<Rightarrow> call \<Rightarrow> bool" where
  "permitted L nf CM SV DP upd (DidUpdateStatus x b) = (\<exists>st. x = nf\<lparr>nf_Status := st\<rparr>)"
| "permitted L nf CM SV DP upd (DidUpdateDeployment x b) = ((\<exists>d v. rolledFrom d v x) \<or> upd \<and> DP x)"
| "permitted L nf CM SV DP upd (DidCreateConfigMap x b) =
     (\<exists>cm. CM cm \<and> x = cm\<lparr>cm_Meta := controlled L nf (cm_Meta cm)\<rparr>)"
| "permitted L nf CM SV DP upd (DidCreateService x b) =
     (\<exists>s. SV s \<and> x = s\<lparr>svc_Meta := controlled L nf (svc_Meta s)\<rparr>)"
| "permitted L nf CM SV DP upd (DidCreateDeployment x b) =
     (\<exists>d. DP d \<and> x = d\<lparr>dep_Meta := controlled L nf (dep_Meta d)\<rparr>)"
| "permitted L nf CM SV DP upd _ = True"

lemma lawful_permitted: "lawful (permitted L nf CM SV DP upd) L c nf CM SV DP upd"
proof -
  have "permitted L nf CM SV DP upd e" if "\<not> is_write e" for e
    using that by (cases e) simp_all
  then show ?thesis
    by (fastforce simp: lawful_def)
qed

lemma lawful_update:
  assumes "lawful P L c nf CM SV DP True" "DP d" "updateFound (logged c) d (w, tr) = (w1, tr1)"
  shows "stepped 3 4 P False tr tr1"
  by (rule updateFound_stepped [OF assms(3)]) (use assms(1,2) in \<open>simp add: lawful_def\<close>)

lemma lawful_new_deployments: "lawful P L c nf CM SV DP upd \<Longrightarrow> lawful P L c nf CM SV (\<lambda>d. False) False"
  by (simp add: lawful_def)

text \<open>The last step in \<open>finishes\<close>: creating the Deployment, or \<open>whenFound\<close>.\<close>

definition lastStep :: "lib \<Rightarrow> 'w client \<Rightarrow> NFDeployment \<Rightarrow> (string \<Rightarrow> Deployment go)
    \<Rightarrow> (Deployment \<Rightarrow> 'w \<times> call list \<Rightarrow> 'w \<times> call list)
    \<Rightarrow> 'w \<times> call list \<Rightarrow> Result go \<times> ('w \<times> call list) \<Rightarrow> bool" where
  "lastStep L c nf mk whenFound s out \<longleftrightarrow>
     (\<exists>v exists. ensureDeployment L (logged c) nf (mk v) exists whenFound s = out)"

lemma finishes_stepped:
  assumes "finishes 0 P (lastStep L c nf mk whenFound) tr (r, (w', tr'))"
    and P: "lawful P L c nf CM SV (\<lambda>d. \<exists>v. mk v = Ret d) upd"
    and found: "\<And>d w tr w1 tr1. \<exists>v. mk v = Ret d \<Longrightarrow> whenFound d (w, tr) = (w1, tr1) \<Longrightarrow> stepped 3 4 P False tr tr1"
  shows "stepped 0 4 P False tr tr'"
  using assms(1) unfolding finishes_def lastStep_def
proof (elim disjE exE conjE)
  fix w1 tr1 v exists
  assume s: "stepped 0 3 P True tr tr1"
    and run: "ensureDeployment L (logged c) nf (mk v) exists whenFound (w1, tr1) = (r, (w', tr'))"
  have "stepped 3 4 P False tr1 tr'"
  proof (rule ensureDeployment_stepped [OF run])
    fix d w2 tr2
    assume "mk v = Ret d" "whenFound d (w1, tr1) = (w2, tr2)"
    then show "stepped 3 4 P False tr1 tr2" by (intro found) auto
  qed (use P in \<open>auto simp: lawful_def\<close>)
  with s show "stepped 0 4 P False tr tr'"
    by (rule stepped_trans) simp_all
qed simp

text \<open>A call that is not the creation of a Deployment.\<close>

definition noDeployment :: "call \<Rightarrow> bool" where
  "noDeployment e \<longleftrightarrow> (\<forall>d b. e \<noteq> DidCreateDeployment d b)"

lemma lawful_noDeployment: "lawful noDeployment L c nf CM SV (\<lambda>d. False) False"
  by (auto simp: lawful_def noDeployment_def)

context network_function
begin

lemma finishes_create:
  assumes "finishes 0 noDeployment (lastStep L c nf (\<lambda>v. createDeployment L v nf) whenFound) [] (r, (w', tr'))"
    and found: "\<And>d w tr w1 tr1. whenFound d (w, tr) = (w1, tr1) \<Longrightarrow> stepped 3 4 noDeployment False tr tr1"
    and plain: "plainNetworks (Name (nf_Meta nf)) (networksOf networks nf)"
    and d: "DidCreateDeployment d b \<in> set tr'"
  shows "\<exists>tr0. (\<forall>e \<in> set tr0. noDeployment e) \<and> tr' = tr0
      @ map (\<lambda>n. DidGetNAD (Namespace (nf_Meta nf), net_Name n) True)
          (expectedNetworks (Name (nf_Meta nf)) (networksOf networks nf))
      @ [DidCreateDeployment d b]"
  using assms(1) unfolding finishes_def lastStep_def
proof (elim disjE exE conjE)
  assume "stepped 0 4 noDeployment False [] (snd (snd (r, w', tr')))"
  with d show ?thesis by (auto simp: stepped_def noDeployment_def)
next
  fix w1 tr1 v exists
  assume s: "stepped 0 3 noDeployment True [] tr1"
    and run: "ensureDeployment L (logged c) nf (createDeployment L v nf) exists whenFound (w1, tr1) = (r, (w', tr'))"
  from s have none: "\<forall>e \<in> set tr1. noDeployment e" by (auto simp: stepped_def)
  show ?thesis
  proof (cases "exists")
    case True
    have "stepped 3 4 noDeployment False tr1 tr'"
      by (rule ensureDeployment_stepped [OF run])
        (use True found in \<open>auto simp: noDeployment_def\<close>)
    with none have "\<forall>e \<in> set tr'. noDeployment e" by (auto simp: stepped_def)
    with d have False unfolding noDeployment_def by blast
    then show ?thesis ..
  next
    case False
    from ensureDeployment_create [OF run plain False] obtain evs where evs: "tr' = tr1 @ evs"
      "DidCreateDeployment d b \<in> set evs \<Longrightarrow>
        evs = map (\<lambda>n. DidGetNAD (Namespace (nf_Meta nf), net_Name n) True)
            (expectedNetworks (Name (nf_Meta nf)) (networksOf networks nf)) @ [DidCreateDeployment d b]"
      by blast
    moreover from none d evs(1) have "DidCreateDeployment d b \<in> set evs"
      by (auto simp: noDeployment_def)
    ultimately show ?thesis using none by (intro exI [of _ tr1]) auto
  qed
qed

end

lemma stepped_Nil: "stepped 0 4 P b [] tr \<Longrightarrow> orderedWrites 0 4 tr \<and> (\<forall>e \<in> set tr. P e)"
  by (auto simp: stepped_def)

end
