(* ===== verification/Convergence.thy ===== *)
theory Convergence
  imports Traces
begin

text \<open>
  What the steps of a reconcile do to the objects of an API server that keeps the contract
  \<open>api_server\<close>, proved inside that locale; the reconciler theories draw the consequences:
  everything gets created, a settled function stays as it is, a new ConfigMap version rolls
  the pods.
\<close>

section \<open>Hypotheses on the library\<close>

text \<open>\<open>SetControllerReference\<close> changes nothing but the owner references.\<close>

definition ownerRefsOnly :: "lib \<Rightarrow> bool" where
  "ownerRefsOnly L \<longleftrightarrow> (\<forall>nf m m'. SetControllerReference L nf m = Inr m' \<longrightarrow>
     (\<exists>refs. m' = m\<lparr>OwnerReferences := refs\<rparr>))"

lemma controlled_sel [simp]:
  assumes "ownerRefsOnly L"
  shows "keyOf (controlled L nf m) = keyOf m" "Namespace (controlled L nf m) = Namespace m"
    "Name (controlled L nf m) = Name m"
    "ResourceVersion (controlled L nf m) = ResourceVersion m" "DeletionTimestamp (controlled L nf m) = DeletionTimestamp m"
proof -
  have "(\<exists>refs. controlled L nf m = m\<lparr>OwnerReferences := refs\<rparr>) \<or> controlled L nf m = m"
  proof (cases "SetControllerReference L nf m")
    case (Inr m')
    with assms show ?thesis unfolding ownerRefsOnly_def controlled_def by fastforce
  qed (simp add: controlled_def)
  then show "keyOf (controlled L nf m) = keyOf m" "Namespace (controlled L nf m) = Namespace m"
    "Name (controlled L nf m) = Name m"
    "ResourceVersion (controlled L nf m) = ResourceVersion m" "DeletionTimestamp (controlled L nf m) = DeletionTimestamp m"
    by (auto simp: keyOf_def)
qed

lemma ownerRefsOnly_exampleLib [simp]: "ownerRefsOnly (exampleLib upf)"
  by (auto simp: ownerRefsOnly_def exampleLib_def split: if_splits)

section \<open>The status of the NFDeployment\<close>

text \<open>The NFDeployments after one synchronisation against a deployment at a time.\<close>

definition synced :: "createStatus \<Rightarrow> NFDeployment \<Rightarrow> Time \<times> Deployment \<Rightarrow> NFDeployment \<Rightarrow> bool" where
  "synced create nf td nf' \<longleftrightarrow> (\<exists>v. nf' = (syncOnce create nf td)\<lparr>nf_Meta := versioned v (nf_Meta nf)\<rparr>)
     \<and> (\<not> updates create nf td \<longrightarrow> nf' = nf)"

section \<open>The steps\<close>

context api_server
begin

lemma syncStatus_view:
  assumes "nfsOf (viewOf c w) (keyOf (nf_Meta nf)) = Some nf"
  shows "\<exists>w' nf'. syncStatusWith create c d nf w = (None, w') \<and> synced create nf (Now c w, d) nf'
    \<and> viewOf c w' = (viewOf c w)\<lparr>nfsOf := (nfsOf (viewOf c w))(keyOf (nf_Meta nf) \<mapsto> nf')\<rparr>
    \<and> (\<not> updates create nf (Now c w, d) \<longrightarrow> w' = w)"
proof (cases "create (Now c w) d nf")
  case (Pair st upd)
  show ?thesis
  proof (cases upd)
    case False
    with Pair have "syncStatusWith create c d nf w = (None, w)" "\<not> updates create nf (Now c w, d)"
      "syncOnce create nf (Now c w, d) = nf"
      by (simp_all add: syncStatusWith_def updates_def syncOnce_def)
    moreover have "(nfsOf (viewOf c w))(keyOf (nf_Meta nf) \<mapsto> nf) = nfsOf (viewOf c w)"
      using assms by (simp add: fun_upd_idem)
    moreover have "nf\<lparr>nf_Meta := versioned (ResourceVersion (nf_Meta nf)) (nf_Meta nf)\<rparr> = nf"
      by (simp add: versioned_def)
    ultimately show ?thesis
      by (intro exI [of _ w] exI [of _ nf]) (auto simp: synced_def intro: exI [of _ "ResourceVersion (nf_Meta nf)"])
  next
    case True
    have "nfsOf (viewOf c w) (keyOf (nf_Meta (nf\<lparr>nf_Status := st\<rparr>))) = Some nf"
      using assms by simp
    moreover have "mayReplace (nf_Meta (nf\<lparr>nf_Status := st\<rparr>)) (nf_Meta nf)"
      by (simp add: mayReplace_def)
    ultimately obtain v w' where u: "UpdateStatus c (nf\<lparr>nf_Status := st\<rparr>) w =
        (Inr (nf\<lparr>nf_Meta := versioned v (nf_Meta nf), nf_Status := st\<rparr>), w')"
      "viewOf c w' = (viewOf c w)\<lparr>nfsOf := (nfsOf (viewOf c w))
        (keyOf (nf_Meta nf) \<mapsto> nf\<lparr>nf_Meta := versioned v (nf_Meta nf), nf_Status := st\<rparr>)\<rparr>"
      using update_status [of w "nf\<lparr>nf_Status := st\<rparr>" nf] by (auto simp: Let_def)
    with Pair True have "syncStatusWith create c d nf w = (None, w')" "updates create nf (Now c w, d)"
      "syncOnce create nf (Now c w, d) = nf\<lparr>nf_Status := st\<rparr>"
      by (simp_all add: syncStatusWith_def updates_def syncOnce_def)
    moreover from this have "synced create nf (Now c w, d) (nf\<lparr>nf_Meta := versioned v (nf_Meta nf), nf_Status := st\<rparr>)"
      unfolding synced_def by (intro conjI exI [of _ v]) simp_all
    ultimately show ?thesis
      using u(2) by blast
  qed
qed

lemma find_view:
  "cmsOf (viewOf c w) k = Some cm \<Longrightarrow> findConfigMap c k w = ((True, ResourceVersion (cm_Meta cm)), w)"
  "cmsOf (viewOf c w) k = None \<Longrightarrow> findConfigMap c k w = ((False, ''''), w)"
  "svcsOf (viewOf c w) k = Some s \<Longrightarrow> findService c k w = (True, w)"
  "svcsOf (viewOf c w) k = None \<Longrightarrow> findService c k w = (False, w)"
  "depsOf (viewOf c w) k = Some d \<Longrightarrow> findDeployment c k w = (Some d, w)"
  "depsOf (viewOf c w) k = None \<Longrightarrow> findDeployment c k w = (None, w)"
  using reads(2-4) [of w k] misses(1-3) [of w k]
  by (auto simp: findConfigMap_def findService_def findDeployment_def)

lemma syncAndRoll_settled:
  assumes "nfsOf (viewOf c w) (keyOf (nf_Meta nf)) = Some nf"
    and "mapGet (templateAnnotations d) ConfigMapVersionAnnotation = v"
  shows "\<exists>w' nfs'. syncAndRoll (syncStatusWith create) c nf (Some d) v w = (Continue (), w')
    \<and> viewOf c w' = (viewOf c w)\<lparr>nfsOf := nfs'\<rparr>
    \<and> (\<not> updates create nf (Now c w, d) \<or> DeletionTimestamp (dep_Meta d) \<noteq> None \<longrightarrow> w' = w)
    \<and> (DeletionTimestamp (dep_Meta d) = None \<longrightarrow>
         (\<exists>nf'. nfs' = (nfsOf (viewOf c w))(keyOf (nf_Meta nf) \<mapsto> nf') \<and> synced create nf (Now c w, d) nf'))"
proof (cases "DeletionTimestamp (dep_Meta d)")
  case None
  obtain w' nf' where "syncStatusWith create c d nf w = (None, w')" "synced create nf (Now c w, d) nf'"
    "viewOf c w' = (viewOf c w)\<lparr>nfsOf := (nfsOf (viewOf c w))(keyOf (nf_Meta nf) \<mapsto> nf')\<rparr>"
    "\<not> updates create nf (Now c w, d) \<longrightarrow> w' = w"
    using syncStatus_view [OF assms(1), of create d] by blast
  with None assms(2) show ?thesis
    by (intro exI [of _ w'] exI [of _ "(nfsOf (viewOf c w))(keyOf (nf_Meta nf) \<mapsto> nf')"])
      (auto simp: syncAndRoll_def)
next
  case (Some t)
  with assms(2) show ?thesis
    by (intro exI [of _ w] exI [of _ "nfsOf (viewOf c w)"]) (simp add: syncAndRoll_def)
qed

text \<open>A new ConfigMap version is written into the found deployment, and the reconcile ends.\<close>

lemma syncAndRoll_rolls:
  assumes "nfsOf (viewOf c w) (keyOf (nf_Meta nf)) = Some nf"
    and "depsOf (viewOf c w) (keyOf (dep_Meta d)) = Some d"
    and "templateAnnotations d = Some m" and "mapGet (Some m) ConfigMapVersionAnnotation \<noteq> v"
  shows "\<exists>w' rolled old. syncAndRoll (syncStatusWith create) c nf (Some d) v w =
        (Return (Ret \<lparr>Requeue = True, RequeueAfter = 0\<rparr>), w')
    \<and> rolledFrom d v rolled
    \<and> (\<exists>rv g. depsOf (viewOf c w') = (depsOf (viewOf c w))(keyOf (dep_Meta d) \<mapsto> updatedDeployment rv g d rolled))
    \<and> cmsOf (viewOf c w') = cmsOf (viewOf c w) \<and> svcsOf (viewOf c w') = svcsOf (viewOf c w)"
proof -
  obtain rolled where rolled: "setTemplateAnnotation ConfigMapVersionAnnotation v d = Ret rolled"
    using assms(3) by (simp add: setTemplateAnnotation_def Let_def)
  have meta: "dep_Meta rolled = dep_Meta d"
    using setTemplateAnnotation_Ret(1) [OF rolled] .
  obtain w1 where w1: "(if DeletionTimestamp (dep_Meta d) = None then syncStatusWith create c d nf w else (None, w)) = (None, w1)"
    and v1: "depsOf (viewOf c w1) = depsOf (viewOf c w)" "cmsOf (viewOf c w1) = cmsOf (viewOf c w)"
      "svcsOf (viewOf c w1) = svcsOf (viewOf c w)"
    using syncStatus_view [OF assms(1), of create d] by (cases "DeletionTimestamp (dep_Meta d)") fastforce+
  have "depsOf (viewOf c w1) (keyOf (dep_Meta rolled)) = Some d"
    using assms(2) v1(1) meta by simp
  moreover have "mayReplace (dep_Meta rolled) (dep_Meta d)"
    by (simp add: meta mayReplace_def)
  ultimately obtain rv g w2 where u: "UpdateDeployment c rolled w1 = (Inr (updatedDeployment rv g d rolled), w2)"
    "viewOf c w2 = (viewOf c w1)\<lparr>depsOf := (depsOf (viewOf c w1))(keyOf (dep_Meta rolled) \<mapsto> updatedDeployment rv g d rolled)\<rparr>"
    using update_deployment by blast
  have "syncAndRoll (syncStatusWith create) c nf (Some d) v w = (Return (Ret \<lparr>Requeue = True, RequeueAfter = 0\<rparr>), w2)"
    using w1 assms(3,4) rolled u(1) by (simp add: syncAndRoll_def)
  with rolled u(2) v1 meta show ?thesis
    by (intro exI [of _ w2] exI [of _ rolled]) (auto simp: rolledFrom_def)
qed

lemma ensureConfigMap_creates:
  assumes "cmsOf (viewOf c w) (keyOf (cm_Meta cm)) = None" "ownerRefsOnly L"
  shows "\<exists>v w'. v \<noteq> '''' \<and> ensureConfigMap L c nf (Ret cm) False v0 w = (Continue v, w')
    \<and> viewOf c w' = (viewOf c w)\<lparr>cmsOf := (cmsOf (viewOf c w))
        (keyOf (cm_Meta cm) \<mapsto> cm\<lparr>cm_Meta := versioned v (controlled L nf (cm_Meta cm))\<rparr>)\<rparr>"
proof -
  let ?cm = "cm\<lparr>cm_Meta := controlled L nf (cm_Meta cm)\<rparr>"
  from assms have "cmsOf (viewOf c w) (keyOf (cm_Meta ?cm)) = None" by simp
  from create_config_map [OF this] assms(2) show ?thesis
    by (auto simp: ensureConfigMap_def)
qed

lemma ensureService_creates:
  assumes "svcsOf (viewOf c w) (keyOf (svc_Meta s)) = None" "ownerRefsOnly L"
  shows "\<exists>v w'. ensureService L c nf s False w = (Continue (), w')
    \<and> viewOf c w' = (viewOf c w)\<lparr>svcsOf := (svcsOf (viewOf c w))
        (keyOf (svc_Meta s) \<mapsto> s\<lparr>svc_Meta := versioned v (controlled L nf (svc_Meta s))\<rparr>)\<rparr>"
proof -
  let ?s = "s\<lparr>svc_Meta := controlled L nf (svc_Meta s)\<rparr>"
  from assms have "svcsOf (viewOf c w) (keyOf (svc_Meta ?s)) = None" by simp
  from create_service [OF this] assms(2) show ?thesis
    by (auto simp: ensureService_def)
qed

lemma validateNetworks_finds:
  "\<forall>n \<in> set nets. nadsOf (viewOf c w) (ns, net_Name n) \<Longrightarrow> validateNetworks c ns nets w = (True, w)"
  by (induction nets) (auto simp: reads)

lemma validateNetworks_misses:
  "n \<in> set nets \<Longrightarrow> \<not> nadsOf (viewOf c w) (ns, net_Name n) \<Longrightarrow> validateNetworks c ns nets w = (False, w)"
proof (induction nets)
  case (Cons m nets)
  obtain x where get: "GetNAD c (ns, net_Name m) w = (x, w)"
    using reads_leave(6) [of "(ns, net_Name m)" w] by (metis prod.collapse)
  then show ?case
    using Cons by (cases x) (auto simp: viewOf_def answer_def)
qed simp

lemma ensureDeployment_creates:
  assumes "depsOf (viewOf c w) (keyOf (dep_Meta d)) = None" "ownerRefsOnly L"
    and "ValidateNetworkAttachmentDefinitions c d w = (True, w)"
  shows "\<exists>v g w'. ensureDeployment L c nf (Ret d) False f w = (Ret \<lparr>Requeue = False, RequeueAfter = 30 * Second\<rparr>, w')
    \<and> viewOf c w' = (viewOf c w)\<lparr>depsOf := (depsOf (viewOf c w))
        (keyOf (dep_Meta d) \<mapsto> createdDeployment v g (d\<lparr>dep_Meta := controlled L nf (dep_Meta d)\<rparr>))\<rparr>"
proof -
  let ?d = "d\<lparr>dep_Meta := controlled L nf (dep_Meta d)\<rparr>"
  from assms have "depsOf (viewOf c w) (keyOf (dep_Meta ?d)) = None" by simp
  from create_deployment [OF this] obtain v g w' where
    "CreateDeployment c ?d w = (Inr (createdDeployment v g ?d), w')"
    "viewOf c w' = (viewOf c w)\<lparr>depsOf := (depsOf (viewOf c w))(keyOf (dep_Meta ?d) \<mapsto> createdDeployment v g ?d)\<rparr>"
    by blast
  with assms(2,3) show ?thesis
    by (intro exI [of _ v] exI [of _ g] exI [of _ w']) (simp add: ensureDeployment_def)
qed

text \<open>Overwriting the found deployment with an unversioned one.\<close>

lemma updateFound_view:
  assumes "depsOf (viewOf c w) (keyOf (dep_Meta d)) = Some old" "ResourceVersion (dep_Meta d) = ''''"
  shows "\<exists>v g. viewOf c (updateFound c d w) = (viewOf c w)\<lparr>depsOf := (depsOf (viewOf c w))
        (keyOf (dep_Meta d) \<mapsto> updatedDeployment v g old d)\<rparr>"
proof -
  from update_deployment [OF assms(1)] assms(2) obtain v g w' where
    "UpdateDeployment c d w = (Inr (updatedDeployment v g old d), w')"
    "viewOf c w' = (viewOf c w)\<lparr>depsOf := (depsOf (viewOf c w))(keyOf (dep_Meta d) \<mapsto> updatedDeployment v g old d)\<rparr>"
    by (auto simp: mayReplace_def)
  then show ?thesis
    by (intro exI [of _ v] exI [of _ g]) (simp add: updateFound_def)
qed

end

end
