(* ===== verification/ConfigRefs.thy ===== *)
theory ConfigRefs
  imports ApiServer
begin

text \<open>
  \<open>GetAllConfigRefs\<close> of \<open>controllers/nf/smf/reconciler.go\<close>: the configs an SMF refers to,
  fetched one by one.
\<close>

section \<open>Definitions\<close>

text \<open>
  The loop of \<open>GetAllConfigRefs\<close>, with the configs collected so far; a config that was
  collected already (by namespace and name) is skipped.
\<close>

fun smf_collectConfigRefs ::
  "'w client \<Rightarrow> string \<Rightarrow> ObjectReference list \<Rightarrow> Config list \<Rightarrow> 'w \<Rightarrow> Config list go \<times> 'w" where
  "smf_collectConfigRefs c namespace [] configRefs w = (Ret configRefs, w)"
| "smf_collectConfigRefs c namespace (objRef # rest) configRefs w =
     (case ref_Name objRef of
        None \<Rightarrow> (Panic NilDereference, w)
      | Some name \<Rightarrow>
          (case GetConfig c (namespace, name) w of
             (Inl err, w1) \<Rightarrow> (Err err, w1)
           | (Inr configRef, w1) \<Rightarrow>
               if list_ex (\<lambda>configRef'. keyOf (cfg_Meta configRef') = keyOf (cfg_Meta configRef)) configRefs
               then smf_collectConfigRefs c namespace rest configRefs w1
               else smf_collectConfigRefs c namespace rest (configRefs @ [configRef]) w1))"

definition smf_GetAllConfigRefs ::
  "'w client \<Rightarrow> NFDeployment \<Rightarrow> NamespacedName \<Rightarrow> 'w \<Rightarrow> Config list go \<times> 'w" where
  "smf_GetAllConfigRefs c smfDeployment namespace w =
     smf_collectConfigRefs c (fst namespace) (ParametersRefs (nf_Spec smfDeployment)) [] w"

section \<open>Library\<close>

lemma collect_Nil [simp]: "smf_collectConfigRefs c ns [] acc w = (Ret acc, w)"
  by simp

text \<open>The collected configs extend the given ones, and no two of them share a key.\<close>

lemma collect_distinct:
  assumes "smf_collectConfigRefs c ns refs acc w = (Ret configs, w')" "distinct (map (keyOf \<circ> cfg_Meta) acc)"
  shows "distinct (map (keyOf \<circ> cfg_Meta) configs) \<and> (\<exists>new. configs = acc @ new \<and> length new \<le> length refs)"
  using assms
proof (induction refs arbitrary: acc w)
  case Nil
  then show ?case by simp
next
  case (Cons ref refs)
  from Cons.prems(1) obtain name cfg w1 where name: "ref_Name ref = Some name"
    and get: "GetConfig c (ns, name) w = (Inr cfg, w1)"
    by (auto split: option.splits prod.splits sum.splits)
  show ?case
  proof (cases "list_ex (\<lambda>x. keyOf (cfg_Meta x) = keyOf (cfg_Meta cfg)) acc")
    case True
    with Cons.prems name get Cons.IH [of acc w1] show ?thesis by auto
  next
    case False
    then have "distinct (map (keyOf \<circ> cfg_Meta) (acc @ [cfg]))"
      using Cons.prems(2) by (auto simp: list_ex_iff comp_def)
    with False Cons.prems name get Cons.IH [of "acc @ [cfg]" w1] show ?thesis by fastforce
  qed
qed

text \<open>An error of the loop is the error of one of its reads, which is its last call.\<close>

lemma collect_Err:
  assumes "smf_collectConfigRefs c ns refs acc w = (Err e, w')"
  shows "\<exists>ref \<in> set refs. \<exists>name w0. ref_Name ref = Some name \<and> GetConfig c (ns, name) w0 = (Inl e, w')"
  using assms
proof (induction refs arbitrary: acc w)
  case Nil
  then show ?case by simp
next
  case (Cons ref refs)
  then show ?case
    by (auto split: option.splits prod.splits sum.splits if_splits)
qed

lemma collect_Panic:
  assumes "smf_collectConfigRefs c ns refs acc w = (Panic k, w')"
  shows "k = NilDereference \<and> (\<exists>ref \<in> set refs. ref_Name ref = None)"
  using assms
proof (induction refs arbitrary: acc w)
  case Nil
  then show ?case by simp
next
  case (Cons ref refs)
  then show ?case
    by (auto split: option.splits prod.splits sum.splits if_splits)
qed

lemma collect_sources:
  assumes "smf_collectConfigRefs c ns refs acc w = (Ret configs, w')" "cfg \<in> set configs"
  shows "cfg \<in> set acc \<or> (\<exists>ref \<in> set refs. \<exists>name w0 w1. ref_Name ref = Some name \<and> GetConfig c (ns, name) w0 = (Inr cfg, w1))"
  using assms
proof (induction refs arbitrary: acc w)
  case Nil
  then show ?case by simp
next
  case (Cons ref refs)
  from Cons.prems(1) obtain name cfg' w1 where name: "ref_Name ref = Some name"
    and get: "GetConfig c (ns, name) w = (Inr cfg', w1)"
    by (auto split: option.splits prod.splits sum.splits)
  with Cons.prems obtain acc' where run: "smf_collectConfigRefs c ns refs acc' w1 = (Ret configs, w')"
    and acc': "acc' = acc \<or> acc' = acc @ [cfg']"
    by (auto split: if_splits)
  from Cons.IH [OF run Cons.prems(2)] acc' name get show ?case by auto
qed

text \<open>Skipping what was seen before keeps the first occurrences.\<close>

lemma remdups_skip: "n \<in> set ys \<Longrightarrow> remdups (xs @ n # ys) = remdups (xs @ ys)"
  by (induction xs) auto

definition firsts :: "'a list \<Rightarrow> 'a list" where
  "firsts xs = rev (remdups (rev xs))"

lemma firsts_distinct: "distinct xs \<Longrightarrow> firsts xs = xs"
  by (simp add: firsts_def distinct_remdups_id)

lemma firsts_skip: "n \<in> set xs \<Longrightarrow> firsts (xs @ n # ys) = firsts (xs @ ys)"
  by (simp add: firsts_def remdups_skip)

text \<open>
  Against an API server that has every config under its own key: one config for each name, in
  the order in which the names are first mentioned.
\<close>

context api_server
begin

lemma collect_firsts:
  assumes "distinct (acc :: string list)"
    and "\<forall>name \<in> set acc \<union> set names. cfgsOf (viewOf c w) (ns, name) = Some (cfg name) \<and> keyOf (cfg_Meta (cfg name)) = (ns, name)"
  shows "smf_collectConfigRefs c ns (map (\<lambda>name. \<lparr>ref_Name = Some name\<rparr>) names) (map cfg acc) w =
    (Ret (map cfg (firsts (acc @ names))), w)"
  using assms
proof (induction names arbitrary: acc)
  case Nil
  then show ?case by (simp add: firsts_distinct)
next
  case (Cons name names)
  have get: "GetConfig c (ns, name) w = (Inr (cfg name), w)"
    using Cons.prems(2) reads(5) by simp
  have seen: "list_ex (\<lambda>x. keyOf (cfg_Meta x) = keyOf (cfg_Meta (cfg name))) (map cfg acc) \<longleftrightarrow> name \<in> set acc"
    using Cons.prems(2) by (auto simp: list_ex_iff)
  show ?case
  proof (cases "name \<in> set acc")
    case True
    with get seen Cons.IH [OF Cons.prems(1)] Cons.prems(2) show ?thesis by (simp add: firsts_skip)
  next
    case False
    with Cons.prems Cons.IH [of "acc @ [name]"] get seen show ?thesis by simp
  qed
qed

lemma collect_missing:
  assumes "name \<in> set names" "cfgsOf (viewOf c w) (ns, name) = None"
  shows "\<exists>e. fst (smf_collectConfigRefs c ns (map (\<lambda>name. \<lparr>ref_Name = Some name\<rparr>) names) acc w) = Err e"
  using assms(1)
proof (induction names arbitrary: acc)
  case Nil
  then show ?case by simp
next
  case (Cons n names)
  show ?case
  proof (cases "cfgsOf (viewOf c w) (ns, n)")
    case None
    with misses(4) [OF None] show ?thesis by auto
  next
    case (Some cfg)
    with Cons.prems assms(2) have "name \<in> set names" by auto
    with Cons.IH reads(5) [OF Some] show ?thesis by simp
  qed
qed

end

end
