(* ===== verification/Replay.thy ===== *)
theory Replay
  imports ReconcileSteps ConfigRefs
begin

text \<open>
  The call log of \<open>Client\<close> is adequate: a reconcile run over the logging client gives the
  same result as over the client itself, and its final world is what the logged calls, made
  one after the other, leave behind.  What is proved about all logs therefore holds for the
  worlds.
\<close>

section \<open>Making the logged calls again\<close>

fun replay :: "'w client \<Rightarrow> call \<Rightarrow> 'w \<Rightarrow> 'w" where
  "replay c (DidGetNFDeployment k) w = snd (GetNFDeployment c k w)"
| "replay c (DidGetConfigMap k) w = snd (GetConfigMap c k w)"
| "replay c (DidGetService k) w = snd (GetService c k w)"
| "replay c (DidGetDeployment k) w = snd (GetDeployment c k w)"
| "replay c (DidGetConfig k b) w = snd (GetConfig c k w)"
| "replay c (DidGetNAD k b) w = snd (GetNAD c k w)"
| "replay c (DidCreateConfigMap x b) w = snd (CreateConfigMap c x w)"
| "replay c (DidCreateService x b) w = snd (CreateService c x w)"
| "replay c (DidCreateDeployment x b) w = snd (CreateDeployment c x w)"
| "replay c (DidUpdateDeployment x b) w = snd (UpdateDeployment c x w)"
| "replay c (DidUpdateStatus x b) w = snd (UpdateStatus c x w)"

text \<open>The logging program \<open>F\<close> is the program \<open>f\<close> with a log.\<close>

definition mirrors :: "'w client \<Rightarrow> ('w \<times> call list \<Rightarrow> 'a \<times> ('w \<times> call list)) \<Rightarrow> ('w \<Rightarrow> 'a \<times> 'w) \<Rightarrow> bool" where
  "mirrors c F f \<longleftrightarrow> (\<forall>w tr. \<exists>evs. F (w, tr) = (fst (f w), (snd (f w), tr @ evs))
     \<and> snd (f w) = fold (replay c) evs w)"

named_theorems mirroring \<open>programs and their logging versions\<close>

lemma mirrors_ret [mirroring]: "mirrors c (\<lambda>s. (x, s)) (\<lambda>w. (x, w))"
  unfolding mirrors_def by (intro allI exI [of _ "[]"]) simp

lemma mirrors_call:
  "(\<And>w. snd (f w) = replay c (ev (fst (f w))) w) \<Longrightarrow> mirrors c (record_call ev f) f"
  unfolding mirrors_def record_call_def
  by (intro allI, rule_tac x = "[ev (fst (f w))]" in exI) (simp add: case_prod_beta)

lemma mirrors_bind:
  assumes "mirrors c F f" "\<And>x. mirrors c (G x) (g x)"
  shows "mirrors c (\<lambda>s. case F s of (x, s') \<Rightarrow> G x s') (\<lambda>w. case f w of (x, w') \<Rightarrow> g x w')"
  unfolding mirrors_def
proof (intro allI)
  fix w tr
  obtain x w1 where f: "f w = (x, w1)" by force
  from assms(1) obtain evs where 1: "F (w, tr) = (x, (w1, tr @ evs))" "w1 = fold (replay c) evs w"
    unfolding mirrors_def by (metis f fst_conv snd_conv)
  from assms(2) obtain evs' where 2: "G x (w1, tr @ evs) = (fst (g x w1), (snd (g x w1), (tr @ evs) @ evs'))"
    "snd (g x w1) = fold (replay c) evs' w1"
    unfolding mirrors_def by blast
  show "\<exists>evs. (case F (w, tr) of (x, s') \<Rightarrow> G x s') =
      (fst (case f w of (x, w') \<Rightarrow> g x w'), snd (case f w of (x, w') \<Rightarrow> g x w'), tr @ evs)
    \<and> snd (case f w of (x, w') \<Rightarrow> g x w') = fold (replay c) evs w"
    using 1 2 by (intro exI [of _ "evs @ evs'"]) (simp add: f)
qed

lemma mirrors_cong: "mirrors c F f \<Longrightarrow> F = F' \<Longrightarrow> f = f' \<Longrightarrow> mirrors c F' f'"
  by simp

lemma mirrors_andThen [mirroring]:
  assumes "mirrors c F f" "\<And>x. mirrors c (G x) (g x)"
  shows "mirrors c (\<lambda>s. andThen (F s) G) (\<lambda>w. andThen (f w) g)"
proof -
  have eq: "andThen m h = (case m of (fl, s) \<Rightarrow> case fl of Return r \<Rightarrow> (r, s) | Continue x \<Rightarrow> h x s)" for m h
    by (cases "(m, h)" rule: andThen.cases) auto
  have "mirrors c (\<lambda>s. case fl of Return r \<Rightarrow> (r, s) | Continue x \<Rightarrow> G x s)
      (\<lambda>w. case fl of Return r \<Rightarrow> (r, w) | Continue x \<Rightarrow> g x w)" for fl
    using assms(2) by (cases fl) (simp_all add: mirrors_ret)
  then show ?thesis
    unfolding eq by (rule mirrors_bind [OF assms(1)])
qed

text \<open>The client's operations.\<close>

lemma mirrors_client [mirroring]:
  "mirrors c (GetNFDeployment (logged c) k) (GetNFDeployment c k)"
  "mirrors c (GetConfigMap (logged c) k) (GetConfigMap c k)"
  "mirrors c (GetService (logged c) k) (GetService c k)"
  "mirrors c (GetDeployment (logged c) k) (GetDeployment c k)"
  "mirrors c (GetConfig (logged c) k) (GetConfig c k)"
  "mirrors c (GetNAD (logged c) k) (GetNAD c k)"
  "mirrors c (CreateConfigMap (logged c) cm) (CreateConfigMap c cm)"
  "mirrors c (CreateService (logged c) sv) (CreateService c sv)"
  "mirrors c (CreateDeployment (logged c) d) (CreateDeployment c d)"
  "mirrors c (UpdateDeployment (logged c) d) (UpdateDeployment c d)"
  "mirrors c (UpdateStatus (logged c) nf) (UpdateStatus c nf)"
  by (simp_all add: mirrors_call)

section \<open>The steps\<close>

text \<open>A program that first decides on a value it already has.\<close>

lemma mirrors_cases [mirroring]:
  "(b \<Longrightarrow> mirrors c F f) \<Longrightarrow> (\<not> b \<Longrightarrow> mirrors c G g) \<Longrightarrow> mirrors c (\<lambda>s. if b then F s else G s) (\<lambda>w. if b then f w else g w)"
  "(b \<Longrightarrow> mirrors c F f) \<Longrightarrow> (\<not> b \<Longrightarrow> mirrors c G g) \<Longrightarrow>
    mirrors c (\<lambda>s. case b of True \<Rightarrow> F s | False \<Rightarrow> G s) (\<lambda>w. case b of True \<Rightarrow> f w | False \<Rightarrow> g w)"
  "(\<And>e. r = Inl e \<Longrightarrow> mirrors c (F1 e) (f1 e)) \<Longrightarrow> (\<And>x. r = Inr x \<Longrightarrow> mirrors c (F2 x) (f2 x)) \<Longrightarrow>
    mirrors c (\<lambda>s. case r of Inl e \<Rightarrow> F1 e s | Inr x \<Rightarrow> F2 x s) (\<lambda>w. case r of Inl e \<Rightarrow> f1 e w | Inr x \<Rightarrow> f2 x w)"
  "(p = None \<Longrightarrow> mirrors c F f) \<Longrightarrow> (\<And>x. p = Some x \<Longrightarrow> mirrors c (G2 x) (g2 x)) \<Longrightarrow>
    mirrors c (\<lambda>s. case p of None \<Rightarrow> F s | Some x \<Rightarrow> G2 x s) (\<lambda>w. case p of None \<Rightarrow> f w | Some x \<Rightarrow> g2 x w)"
  "(\<And>x. m = Ret x \<Longrightarrow> mirrors c (H1 x) (h1 x)) \<Longrightarrow> (\<And>e. m = Err e \<Longrightarrow> mirrors c (H2 e) (h2 e)) \<Longrightarrow>
    (\<And>k. m = Panic k \<Longrightarrow> mirrors c (H3 k) (h3 k)) \<Longrightarrow>
    mirrors c (\<lambda>s. case m of Ret x \<Rightarrow> H1 x s | Err e \<Rightarrow> H2 e s | Panic k \<Rightarrow> H3 k s)
      (\<lambda>w. case m of Ret x \<Rightarrow> h1 x w | Err e \<Rightarrow> h2 e w | Panic k \<Rightarrow> h3 k w)"
      apply (cases b; simp)
     apply (cases b; simp)
    apply (cases r; simp)
   apply (cases p; simp)
  apply (cases m; simp)
  done

lemma mirrors_find [mirroring]:
  "mirrors c (findConfigMap (logged c) k) (findConfigMap c k)"
  "mirrors c (findService (logged c) k) (findService c k)"
  "mirrors c (findDeployment (logged c) k) (findDeployment c k)"
  unfolding findConfigMap_def findService_def findDeployment_def
  by (intro mirrors_bind mirroring)+

lemma mirrors_validateNetworks [mirroring]:
  "mirrors c (validateNetworks (logged c) ns nets) (validateNetworks c ns nets)"
proof (induction nets)
  case Nil
  then show ?case by (simp add: mirrors_ret)
next
  case (Cons n nets)
  then show ?case
    unfolding validateNetworks.simps by (intro mirrors_bind mirroring)
qed

lemma mirrors_Validate [mirroring]:
  "mirrors c (ValidateNetworkAttachmentDefinitions (logged c) d) (ValidateNetworkAttachmentDefinitions c d)"
  unfolding ValidateNetworkAttachmentDefinitions_def Let_def by (intro mirrors_bind mirroring)

lemma mirrors_collect [mirroring]:
  "mirrors c (smf_collectConfigRefs (logged c) ns refs acc) (smf_collectConfigRefs c ns refs acc)"
proof (induction refs arbitrary: acc)
  case Nil
  then show ?case by (simp add: mirrors_ret)
next
  case (Cons ref refs)
  then show ?case
    unfolding smf_collectConfigRefs.simps by (intro mirrors_bind mirroring)
qed

text \<open>The clock is read without a call.\<close>

lemma mirrors_sync [mirroring]: "mirrors c (syncStatusWith create (logged c) d nf) (syncStatusWith create c d nf)"
  unfolding mirrors_def
proof (intro allI)
  fix w tr
  have "mirrors c
      (\<lambda>s. case create (Now c w) d nf of (st, update) \<Rightarrow> if update then
          (case UpdateStatus (logged c) (nf\<lparr>nf_Status := st\<rparr>) s of (Inl err, s') \<Rightarrow> (Some err, s') | (Inr _, s') \<Rightarrow> (None, s'))
        else (None, s))
      (\<lambda>w0. case create (Now c w) d nf of (st, update) \<Rightarrow> if update then
          (case UpdateStatus c (nf\<lparr>nf_Status := st\<rparr>) w0 of (Inl err, s') \<Rightarrow> (Some err, s') | (Inr _, s') \<Rightarrow> (None, s'))
        else (None, w0))"
    by (cases "create (Now c w) d nf", simp only: prod.case) (intro mirrors_bind mirroring)
  then show "\<exists>evs. syncStatusWith create (logged c) d nf (w, tr) = (fst (syncStatusWith create c d nf w),
      (snd (syncStatusWith create c d nf w), tr @ evs))
    \<and> snd (syncStatusWith create c d nf w) = fold (replay c) evs w"
    unfolding mirrors_def syncStatusWith_def logged_sel(12) fst_conv by blast
qed

lemma mirrors_syncAndRoll [mirroring]:
  "mirrors c (syncAndRoll (syncStatusWith create) (logged c) nf cur v) (syncAndRoll (syncStatusWith create) c nf cur v)"
  unfolding syncAndRoll_def by (intro mirrors_bind mirroring)

lemma mirrors_ensure [mirroring]:
  "mirrors c (ensureConfigMap L (logged c) nf made fnd v) (ensureConfigMap L c nf made fnd v)"
  "mirrors c (ensureService L (logged c) nf sv fnd) (ensureService L c nf sv fnd)"
  unfolding ensureConfigMap_def ensureService_def by (intro mirrors_bind mirroring)+

lemma mirrors_ensureDeployment [mirroring]:
  assumes "\<And>d. mirrors c (\<lambda>s. (Ret emptyResult, F d s)) (\<lambda>w. (Ret emptyResult, f d w))"
  shows "mirrors c (ensureDeployment L (logged c) nf made fnd F) (ensureDeployment L c nf made fnd f)"
  unfolding ensureDeployment_def by (intro mirrors_bind mirroring assms)

lemma mirrors_updateFound [mirroring]:
  "mirrors c (\<lambda>s. (x, updateFound (logged c) d s)) (\<lambda>w. (x, updateFound c d w))"
proof -
  have "mirrors c (\<lambda>s. case UpdateDeployment (logged c) d s of (r, s') \<Rightarrow> (x, s'))
      (\<lambda>w. case UpdateDeployment c d w of (r, w') \<Rightarrow> (x, w'))"
    by (intro mirrors_bind mirroring)
  then show ?thesis by (simp add: updateFound_def case_prod_beta)
qed

end
