(* ===== verification/Reconciling.thy ===== *)
theory Reconciling
  imports Convergence Replay
begin

text \<open>
  What the reconcilers of the three network functions have in common, proved once: a reconcile
  with the functions' own parts as arguments.  The reconciler theories show that their
  \<open>Reconcile\<close> is this one with their parts, and draw the consequences.
\<close>

section \<open>A reconcile with its parts\<close>

record parts =
  create_of :: createStatus
  refs_of :: "NFDeployment \<Rightarrow> ObjectReference list"
  configMap_of :: "lib \<Rightarrow> NFDeployment \<Rightarrow> Config list \<Rightarrow> ConfigMap go"
  service_of :: "(NFDeployment \<Rightarrow> Service) option"
  deployment_of :: "lib \<Rightarrow> string \<Rightarrow> NFDeployment \<Rightarrow> Deployment go"
  overwrites :: bool

definition findServiceOf :: "parts \<Rightarrow> 'w client \<Rightarrow> NamespacedName \<Rightarrow> 'w \<Rightarrow> bool \<times> 'w" where
  "findServiceOf p c k w = (case service_of p of None \<Rightarrow> (True, w) | Some mk \<Rightarrow> findService c k w)"

definition ensureServiceOf :: "parts \<Rightarrow> lib \<Rightarrow> 'w client \<Rightarrow> NFDeployment \<Rightarrow> bool \<Rightarrow> 'w \<Rightarrow> unit flow \<times> 'w" where
  "ensureServiceOf p L c nf serviceFound w =
     (case service_of p of None \<Rightarrow> (Continue (), w) | Some mk \<Rightarrow> ensureService L c nf (mk nf) serviceFound w)"

definition whenFound :: "parts \<Rightarrow> 'w client \<Rightarrow> Deployment \<Rightarrow> 'w \<Rightarrow> 'w" where
  "whenFound p c d w = (if overwrites p then updateFound c d w else w)"

text \<open>From the second of the two created objects on, and from the first one on.\<close>

definition createRest ::
  "parts \<Rightarrow> lib \<Rightarrow> 'w client \<Rightarrow> NFDeployment \<Rightarrow> bool \<Rightarrow> bool \<Rightarrow> string \<Rightarrow> 'w \<Rightarrow> Result go \<times> 'w" where
  "createRest p L c nf serviceFound deploymentFound v w =
     andThen (ensureServiceOf p L c nf serviceFound w) (\<lambda>_ w1.
     ensureDeployment L c nf (deployment_of p L v nf) deploymentFound (whenFound p c) w1)"

definition createAll ::
  "parts \<Rightarrow> lib \<Rightarrow> 'w client \<Rightarrow> NFDeployment \<Rightarrow> bool \<times> string \<Rightarrow> bool \<Rightarrow> bool \<Rightarrow> Config list go \<Rightarrow> 'w \<Rightarrow> Result go \<times> 'w" where
  "createAll p L c nf cm serviceFound deploymentFound configs w =
     (case configs of Panic k \<Rightarrow> (Panic k, w) | Err e \<Rightarrow> (Err e, w) | Ret refs \<Rightarrow>
        andThen (ensureConfigMap L c nf (configMap_of p L nf refs) (fst cm) (snd cm) w)
          (createRest p L c nf serviceFound deploymentFound))"

definition reconcileNF :: "parts \<Rightarrow> lib \<Rightarrow> 'w client \<Rightarrow> NFDeployment \<Rightarrow> string \<Rightarrow> 'w \<Rightarrow> Result go \<times> 'w" where
  "reconcileNF p L c nf ns w0 =
     (case findConfigMap c (keyOf (nf_Meta nf)) w0 of (cm, w1) \<Rightarrow>
      case findServiceOf p c (keyOf (nf_Meta nf)) w1 of (serviceFound, w2) \<Rightarrow>
      case findDeployment c (keyOf (nf_Meta nf)) w2 of (cur, w3) \<Rightarrow>
      andThen (syncAndRoll (syncStatusWith (create_of p)) c nf cur (snd cm) w3) (\<lambda>_ w4.
      case smf_collectConfigRefs c ns (refs_of p nf) [] w4 of (configs, w5) \<Rightarrow>
      createAll p L c nf cm serviceFound (cur \<noteq> None) configs w5))"

definition reconcileWith :: "parts \<Rightarrow> lib \<Rightarrow> 'w client \<Rightarrow> NamespacedName \<Rightarrow> 'w \<Rightarrow> Result go \<times> 'w" where
  "reconcileWith p L c req w =
     (case GetNFDeployment c req w of
        (Inl err, w0) \<Rightarrow> (if IsNotFound err then Ret emptyResult else Err err, w0)
      | (Inr nf, w0) \<Rightarrow> reconcileNF p L c nf (fst req) w0)"

section \<open>Logs\<close>

lemma mirrors_parts [mirroring]:
  "mirrors c (findServiceOf p (logged c) k) (findServiceOf p c k)"
  "mirrors c (ensureServiceOf p L (logged c) nf sf) (ensureServiceOf p L c nf sf)"
  "mirrors c (\<lambda>s. (x, whenFound p (logged c) d s)) (\<lambda>w. (x, whenFound p c d w))"
    apply (cases "service_of p"; simp add: findServiceOf_def [abs_def] mirroring)
   apply (cases "service_of p"; simp add: ensureServiceOf_def [abs_def] mirroring)
  apply (cases "overwrites p"; simp add: whenFound_def mirroring)
  done

lemma mirrors_createAll [mirroring]:
  "mirrors c (createRest p L (logged c) nf sf df v) (createRest p L c nf sf df v)"
  "mirrors c (createAll p L (logged c) nf cm sf df configs) (createAll p L c nf cm sf df configs)"
  unfolding createRest_def createAll_def by (intro mirrors_bind mirroring)+

lemma mirrors_reconcile [mirroring]:
  "mirrors c (reconcileNF p L (logged c) nf ns) (reconcileNF p L c nf ns)"
  "mirrors c (reconcileWith p L (logged c) req) (reconcileWith p L c req)"
  unfolding reconcileWith_def reconcileNF_def by (intro mirrors_bind mirroring)+

text \<open>
  The world after a reconcile is the world its log leads to, and the result is the same
  without the log.
\<close>

lemma reconcile_log:
  assumes "reconcileWith p L (logged c) req (w, []) = (r, (w', tr))"
  shows "reconcileWith p L c req w = (r, w')" "w' = fold (replay c) tr w"
  using mirrors_reconcile(2) [of c p L req] assms unfolding mirrors_def
  by (metis append_Nil fst_conv prod.collapse snd_conv)+

abbreviation parts_lawful :: "parts \<Rightarrow> (call \<Rightarrow> bool) \<Rightarrow> lib \<Rightarrow> 'w client \<Rightarrow> NFDeployment \<Rightarrow> bool" where
  "parts_lawful p P L c nf \<equiv> lawful P L c nf (\<lambda>cm. \<exists>refs. configMap_of p L nf refs = Ret cm)
     (\<lambda>s. \<exists>mk. service_of p = Some mk \<and> s = mk nf)
     (\<lambda>d. \<exists>v. deployment_of p L v nf = Ret d) (overwrites p)"

abbreviation parts_lawful0 :: "parts \<Rightarrow> (call \<Rightarrow> bool) \<Rightarrow> lib \<Rightarrow> 'w client \<Rightarrow> NFDeployment \<Rightarrow> bool" where
  "parts_lawful0 p P L c nf \<equiv> lawful P L c nf (\<lambda>cm. \<exists>refs. configMap_of p L nf refs = Ret cm)
     (\<lambda>s. \<exists>mk. service_of p = Some mk \<and> s = mk nf) (\<lambda>d. False) False"

lemma statusWriter_syncStatusWith: "statusWriter (syncStatusWith create) c"
  by (auto simp: statusWriter_def syncStatusWith_def record_call_def split: prod.splits sum.splits if_splits)

lemma findServiceOf_stepped:
  assumes "findServiceOf p (logged c) k (w, tr) = (y, (w', tr'))" "P (DidGetService k)"
  shows "stepped lo hi P b tr tr'"
  using assms by (auto simp: findServiceOf_def split: option.splits dest: find_stepped(2))

lemma collect_reads:
  assumes "smf_collectConfigRefs (logged c) ns refs acc (w, tr) = (x, (w', tr'))"
  shows "\<exists>evs. tr' = tr @ evs \<and> (\<forall>e \<in> set evs. \<not> is_write e)"
  using assms
proof (induction refs arbitrary: acc w tr)
  case Nil
  then show ?case by simp
next
  case (Cons ref refs)
  show ?case
  proof (cases "ref_Name ref")
    case None
    with Cons.prems show ?thesis by simp
  next
    case (Some name)
    obtain y w1 where get: "GetConfig c (ns, name) w = (y, w1)"
      by (metis prod.collapse)
    show ?thesis
    proof (cases y)
      case (Inl e)
      with Cons.prems Some get show ?thesis by (auto simp: record_call_def)
    next
      case (Inr cfg)
      with Cons.prems Some get obtain acc' where
        "smf_collectConfigRefs (logged c) ns refs acc' (w1, tr @ [DidGetConfig (ns, name) True]) = (x, (w', tr'))"
        by (auto simp: record_call_def split: if_splits)
      from Cons.IH [OF this] show ?thesis by auto
    qed
  qed
qed

lemma createRest_finishes:
  assumes run: "createRest p L (logged c) nf sf df v (w, tr) = (r, (w', tr'))"
    and P: "parts_lawful0 p P L c nf"
  shows "finishes 2 P (lastStep L c nf (\<lambda>v. deployment_of p L v nf) (whenFound p (logged c))) tr (r, (w', tr'))"
proof -
  obtain out w1 tr1 where 1: "ensureServiceOf p L (logged c) nf sf (w, tr) = (out, (w1, tr1))"
    by (metis prod.collapse)
  show ?thesis
  proof (rule andThen_finishes [OF run [unfolded createRest_def] 1])
    show "stepped 2 (if goes_on out then 3 else 4) P (goes_on out) tr tr1"
    proof (cases "service_of p")
      case (Some mk)
      with 1 have "ensureService L (logged c) nf (mk nf) sf (w, tr) = (out, (w1, tr1))"
        by (simp add: ensureServiceOf_def)
      then show ?thesis
        using P Some by (intro stepped_if ensureService_stepped) (auto simp: lawful_def)
    qed (use 1 in \<open>simp add: ensureServiceOf_def\<close>)
    fix x
    assume "ensureDeployment L (logged c) nf (deployment_of p L v nf) df (whenFound p (logged c)) (w1, tr1) = (r, (w', tr'))"
    then have "lastStep L c nf (\<lambda>v. deployment_of p L v nf) (whenFound p (logged c)) (w1, tr1) (r, (w', tr'))"
      unfolding lastStep_def by blast
    then show "finishes 3 P (lastStep L c nf (\<lambda>v. deployment_of p L v nf) (whenFound p (logged c))) tr1 (r, (w', tr'))"
      by (rule finishes_last)
  qed simp_all
qed

lemma createAll_finishes:
  assumes run: "createAll p L (logged c) nf cm sf df configs (w, tr) = (r, (w', tr'))"
    and P: "parts_lawful0 p P L c nf"
  shows "finishes 1 P (lastStep L c nf (\<lambda>v. deployment_of p L v nf) (whenFound p (logged c))) tr (r, (w', tr'))"
proof (cases configs)
  case (Ret refs)
  obtain out w1 tr1 where 1: "ensureConfigMap L (logged c) nf (configMap_of p L nf refs) (fst cm) (snd cm) (w, tr) = (out, (w1, tr1))"
    by (metis prod.collapse)
  show ?thesis
  proof (rule andThen_finishes [OF run [unfolded createAll_def Ret go.case] 1])
    show "stepped 1 (if goes_on out then 2 else 4) P (goes_on out) tr tr1"
      using P by (intro stepped_if ensureConfigMap_stepped [OF 1]) (auto simp: lawful_def)
  qed (simp_all add: createRest_finishes [OF _ P])
qed (use run in \<open>auto simp: createAll_def finishes_def\<close>)

lemma finds_stepped:
  assumes "findConfigMap (logged c) k (w0, tr0) = (cm, (w1, tr1))" "findServiceOf p (logged c) k (w1, tr1) = (svf, (w2, tr2))"
    "findDeployment (logged c) k (w2, tr2) = (cur, (w3, tr3))"
    and reads: "\<And>e. \<not> is_write e \<Longrightarrow> P e"
  shows "stepped 0 0 P True tr0 tr3"
proof -
  have "stepped 0 0 P True tr0 tr1"
    by (rule find_stepped(1) [OF assms(1)]) (simp add: reads)
  moreover have "stepped 0 0 P True tr1 tr2"
    by (rule findServiceOf_stepped [OF assms(2)]) (simp add: reads)
  moreover have "stepped 0 0 P True tr2 tr3"
    by (rule find_stepped(3) [OF assms(3)]) (simp add: reads)
  ultimately show ?thesis
    by (meson stepped_trans order_refl)
qed

lemma roll_lawful:
  assumes "findDeployment (logged c) (keyOf (nf_Meta nf)) (w, tr) = (Some d, s)" "rolledFrom d v d'" and P: "parts_lawful0 p P L c nf"
  shows "P (DidUpdateDeployment d' b)"
proof -
  obtain w' where "GetDeployment c (keyOf (nf_Meta nf)) w = (Inr d, w')"
    using findDeployment_Some [OF assms(1)] by auto
  moreover have "\<forall>d w w' v d' b. GetDeployment c (keyOf (nf_Meta nf)) w = (Inr d, w') \<longrightarrow> rolledFrom d v d' \<longrightarrow> P (DidUpdateDeployment d' b)"
    using P unfolding lawful_def by (elim conjE)
  ultimately show ?thesis
    using assms(2) by blast
qed

lemma resume_finishes:
  assumes rest: "(case smf_collectConfigRefs (logged c) ns refs [] (w, tr) of (configs, w1) \<Rightarrow>
      createAll p L (logged c) nf cm sf df configs w1) = (r, (w', tr'))"
    and P: "parts_lawful0 p P L c nf"
  shows "finishes 1 P (lastStep L c nf (\<lambda>v. deployment_of p L v nf) (whenFound p (logged c))) tr (r, (w', tr'))"
proof -
  obtain x w1 tr1 where 1: "smf_collectConfigRefs (logged c) ns refs [] (w, tr) = (x, (w1, tr1))"
    by (metis prod.collapse)
  have "stepped 1 1 P True tr tr1"
    using collect_reads [OF 1] P by (auto simp: lawful_def intro: stepped_reads)
  moreover have "finishes 1 P (lastStep L c nf (\<lambda>v. deployment_of p L v nf) (whenFound p (logged c))) tr1 (r, (w', tr'))"
    by (rule createAll_finishes [OF _ P]) (use rest 1 in simp)
  ultimately show ?thesis
    by (rule finishes_after) simp_all
qed

lemma reconcile_finishes:
  assumes run: "reconcileWith p L (logged c) req (w, tr) = (r, (w', tr'))"
    and get: "GetNFDeployment c req w = (Inr nf, w0)"
    and P: "parts_lawful0 p P L c nf"
  shows "finishes 0 P (lastStep L c nf (\<lambda>v. deployment_of p L v nf) (whenFound p (logged c))) tr (r, (w', tr'))"
proof -
  let ?k = "keyOf (nf_Meta nf)"
  let ?tr0 = "tr @ [DidGetNFDeployment req]"
  obtain cm w1 tr1 where 1: "findConfigMap (logged c) ?k (w0, ?tr0) = (cm, (w1, tr1))"
    by (metis prod.collapse)
  obtain svf w2 tr2 where 2: "findServiceOf p (logged c) ?k (w1, tr1) = (svf, (w2, tr2))"
    by (metis prod.collapse)
  obtain cur w3 tr3 where 3: "findDeployment (logged c) ?k (w2, tr2) = (cur, (w3, tr3))"
    by (metis prod.collapse)
  obtain out w4 tr4 where 4: "syncAndRoll (syncStatusWith (create_of p)) (logged c) nf cur (snd cm) (w3, tr3) = (out, (w4, tr4))"
    by (metis prod.collapse)
  have run': "andThen (syncAndRoll (syncStatusWith (create_of p)) (logged c) nf cur (snd cm) (w3, tr3)) (\<lambda>_ w4.
      case smf_collectConfigRefs (logged c) (fst req) (refs_of p nf) [] w4 of (configs, w5) \<Rightarrow>
      createAll p L (logged c) nf cm svf (cur \<noteq> None) configs w5) = (r, (w', tr'))"
    using run get 1 2 3 by (simp add: reconcileWith_def reconcileNF_def record_call_def)
  have reads: "\<not> is_write e \<Longrightarrow> P e" for e
    using P by (simp add: lawful_def)
  have "stepped 0 0 P True tr ?tr0"
    by (rule stepped_reads) (simp add: reads)
  then have finds: "stepped 0 0 P True tr tr3"
    using finds_stepped [OF 1 2 3 reads] by (rule stepped_trans) simp_all
  have "finishes 0 P (lastStep L c nf (\<lambda>v. deployment_of p L v nf) (whenFound p (logged c))) tr3 (r, (w', tr'))"
  proof (rule andThen_finishes [OF run' 4])
    show "stepped 0 (if goes_on out then 1 else 4) P (goes_on out) tr3 tr4"
    proof (rule syncAndRoll_stepped [OF statusWriter_syncStatusWith 4])
      show "P (DidUpdateStatus (nf\<lparr>nf_Status := st\<rparr>) b)" for st b
        using P by (simp add: lawful_def)
    qed (use 3 P in \<open>auto intro: roll_lawful\<close>)
  qed (use P in \<open>auto intro: resume_finishes simp del: One_nat_def\<close>)
  with finds show ?thesis by (rule finishes_after) simp_all
qed

lemma reconcile_stepped:
  assumes run: "reconcileWith p L (logged c) req (w, tr) = (r, (w', tr'))"
    and get: "GetNFDeployment c req w = (Inr nf, w0)"
    and P: "parts_lawful p P L c nf"
  shows "stepped 0 4 P False tr tr'"
proof (rule finishes_stepped [OF reconcile_finishes [OF run get lawful_new_deployments [OF P]] P])
  fix d w tr w1 tr1
  assume "\<exists>v. deployment_of p L v nf = Ret d" "whenFound p (logged c) d (w, tr) = (w1, tr1)"
  then show "stepped 3 4 P False tr tr1"
    using P by (cases "overwrites p") (auto simp: whenFound_def intro: lawful_update)
qed

section \<open>Against an API server\<close>

context api_server
begin

lemma collect_stays: "snd (smf_collectConfigRefs c ns refs acc w) = w"
proof (induction refs arbitrary: acc)
  case Nil
  then show ?case by simp
next
  case (Cons ref refs)
  show ?case
  proof (cases "ref_Name ref")
    case (Some name)
    obtain y where "GetConfig c (ns, name) w = (y, w)"
      using reads_leave(5) [of "(ns, name)" w] by (metis prod.collapse)
    with Some Cons.IH show ?thesis by (cases y) simp_all
  qed simp
qed

lemma collect_config_view:
  assumes "cfgsOf (viewOf c w') = cfgsOf (viewOf c w)"
  shows "fst (smf_collectConfigRefs c ns refs acc w') = fst (smf_collectConfigRefs c ns refs acc w)
    \<or> (\<exists>e e'. fst (smf_collectConfigRefs c ns refs acc w') = Err e \<and> fst (smf_collectConfigRefs c ns refs acc w) = Err e')"
proof (induction refs arbitrary: acc)
  case Nil
  then show ?case by simp
next
  case (Cons ref refs)
  show ?case
  proof (cases "ref_Name ref")
    case (Some name)
    show ?thesis
    proof (cases "cfgsOf (viewOf c w) (ns, name)")
      case None
      with assms misses(4) [of w "(ns, name)"] misses(4) [of w' "(ns, name)"] Some show ?thesis by auto
    next
      case (Some cfg)
      with assms reads(5) [of w "(ns, name)" cfg] reads(5) [of w' "(ns, name)" cfg] \<open>ref_Name ref = Some name\<close> Cons.IH
      show ?thesis by simp
    qed
  qed simp
qed

lemma collect_config_Ret:
  "fst (smf_collectConfigRefs c ns refs acc w) = Ret xs \<Longrightarrow> cfgsOf (viewOf c w') = cfgsOf (viewOf c w) \<Longrightarrow>
    fst (smf_collectConfigRefs c ns refs acc w') = Ret xs"
  using collect_config_view [of w' w ns refs acc] by auto

lemma findServiceOf_view:
  "service_of p = Some mk \<Longrightarrow> svcsOf (viewOf c w) k = None \<Longrightarrow> findServiceOf p c k w = (False, w)"
  "service_of p = None \<or> svcsOf (viewOf c w) k = Some s \<Longrightarrow> findServiceOf p c k w = (True, w)"
  using find_view(3,4) [of w k] by (auto simp: findServiceOf_def split: option.splits)

lemma findServiceOf_stays: "\<exists>b. findServiceOf p c k w = (b, w)"
  by (cases "service_of p"; cases "svcsOf (viewOf c w) k") (auto simp: findServiceOf_view)

lemma ensureServiceOf_exists: "ensureServiceOf p L c nf True w = (Continue (), w)"
  by (simp add: ensureServiceOf_def ensureService_def split: option.split)

text \<open>
  A found deployment without annotations, next to a ConfigMap, ends the reconcile in a panic:
  the write into the nil map.
\<close>

lemma reconcile_nil_annotations:
  assumes nf: "nfsOf (viewOf c w) req = Some nf" "keyOf (nf_Meta nf) = req"
    and found: "cmsOf (viewOf c w) req = Some cm" "depsOf (viewOf c w) req = Some d"
    and nil: "templateAnnotations d = None" "ResourceVersion (cm_Meta cm) \<noteq> ''''"
  shows "fst (reconcileWith p L c req w) = Panic NilMapWrite"
proof -
  obtain b where svc: "findServiceOf p c req w = (b, w)"
    using findServiceOf_stays by blast
  obtain w1 where w1: "(if DeletionTimestamp (dep_Meta d) = None then syncStatusWith (create_of p) c d nf w else (None, w)) = (None, w1)"
    using syncStatus_view [of w nf "create_of p" d] nf by (cases "DeletionTimestamp (dep_Meta d)") auto
  have "setTemplateAnnotation ConfigMapVersionAnnotation (ResourceVersion (cm_Meta cm)) d = Panic NilMapWrite"
    using nil(1) by (simp add: setTemplateAnnotation_def Let_def)
  with w1 nil have "syncAndRoll (syncStatusWith (create_of p)) c nf (Some d) (ResourceVersion (cm_Meta cm)) w =
      (Return (Panic NilMapWrite), w1)"
    by (simp add: syncAndRoll_def mapGet_def)
  with reads(1) [OF nf(1)] find_view(1,5) found svc show ?thesis
    by (simp add: reconcileWith_def reconcileNF_def nf(2))
qed

text \<open>A ConfigMap of another version rolls the pods, and nothing else is done.\<close>

lemma reconcile_rolls:
  assumes nf: "nfsOf (viewOf c w) req = Some nf" "keyOf (nf_Meta nf) = req"
    and found: "cmsOf (viewOf c w) req = Some cm" "depsOf (viewOf c w) req = Some d" "keyOf (dep_Meta d) = req"
    and stale: "templateAnnotations d = Some m" "mapGet (Some m) ConfigMapVersionAnnotation \<noteq> ResourceVersion (cm_Meta cm)"
  shows "\<exists>w' rolled rv g. reconcileWith p L c req w = (Ret \<lparr>Requeue = True, RequeueAfter = 0\<rparr>, w')
    \<and> rolledFrom d (ResourceVersion (cm_Meta cm)) rolled
    \<and> depsOf (viewOf c w') = (depsOf (viewOf c w))(req \<mapsto> updatedDeployment rv g d rolled)
    \<and> cmsOf (viewOf c w') = cmsOf (viewOf c w) \<and> svcsOf (viewOf c w') = svcsOf (viewOf c w)"
proof -
  obtain b where svc: "findServiceOf p c req w = (b, w)"
    using findServiceOf_stays by blast
  obtain w' rolled rv g where "syncAndRoll (syncStatusWith (create_of p)) c nf (Some d) (ResourceVersion (cm_Meta cm)) w =
        (Return (Ret \<lparr>Requeue = True, RequeueAfter = 0\<rparr>), w')"
    "rolledFrom d (ResourceVersion (cm_Meta cm)) rolled"
    "depsOf (viewOf c w') = (depsOf (viewOf c w))(req \<mapsto> updatedDeployment rv g d rolled)"
    "cmsOf (viewOf c w') = cmsOf (viewOf c w)" "svcsOf (viewOf c w') = svcsOf (viewOf c w)"
    using syncAndRoll_rolls [of w nf d m "ResourceVersion (cm_Meta cm)" "create_of p"] nf found stale by auto
  with reads(1) [OF nf(1)] find_view(1,5) found svc show ?thesis
    by (intro exI [of _ w'] exI [of _ rolled] exI [of _ rv] exI [of _ g])
      (simp add: reconcileWith_def reconcileNF_def nf(2))
qed

text \<open>Everything is there and up to date: what is left is to deal with the found deployment.\<close>

lemma reconcile_settled:
  assumes nf: "nfsOf (viewOf c w) req = Some nf" "keyOf (nf_Meta nf) = req"
    and found: "cmsOf (viewOf c w) req = Some cm" "depsOf (viewOf c w) req = Some d"
      "service_of p = None \<or> svcsOf (viewOf c w) req \<noteq> None"
    and fresh: "mapGet (templateAnnotations d) ConfigMapVersionAnnotation = ResourceVersion (cm_Meta cm)"
    and quiet: "\<not> updates (create_of p) nf (Now c w, d) \<or> DeletionTimestamp (dep_Meta d) \<noteq> None"
    and configs: "fst (smf_collectConfigRefs c (fst req) (refs_of p nf) [] w) = Ret refs"
    and made: "configMap_of p L nf refs = Ret cm'" "deployment_of p L (ResourceVersion (cm_Meta cm)) nf = Ret d'"
  shows "reconcileWith p L c req w = (Ret emptyResult, whenFound p c d' w)"
proof -
  have svc: "findServiceOf p c req w = (True, w)"
    using findServiceOf_view(2) found(3) by blast
  have sync: "syncAndRoll (syncStatusWith (create_of p)) c nf (Some d) (ResourceVersion (cm_Meta cm)) w = (Continue (), w)"
    using syncAndRoll_settled [of w nf d "ResourceVersion (cm_Meta cm)" "create_of p"] nf fresh quiet by auto
  have "smf_collectConfigRefs c (fst req) (refs_of p nf) [] w = (Ret refs, w)"
    using configs collect_stays by (metis prod.collapse)
  with sync reads(1) [OF nf(1)] find_view(1,5) found(1,2) svc made show ?thesis
    by (simp add: reconcileWith_def reconcileNF_def nf(2) createAll_def createRest_def ensureServiceOf_exists
        ensureConfigMap_def ensureDeployment_def)
qed

text \<open>Everything is there, and the status may have to be written first.\<close>

lemma reconcile_up_to_date:
  assumes nf: "nfsOf (viewOf c w) req = Some nf" "keyOf (nf_Meta nf) = req"
    and found: "cmsOf (viewOf c w) req = Some cm" "depsOf (viewOf c w) req = Some d"
      "service_of p = None \<or> svcsOf (viewOf c w) req \<noteq> None"
    and fresh: "mapGet (templateAnnotations d) ConfigMapVersionAnnotation = ResourceVersion (cm_Meta cm)"
    and live: "DeletionTimestamp (dep_Meta d) = None"
    and configs: "fst (smf_collectConfigRefs c (fst req) (refs_of p nf) [] w) = Ret refs"
    and made: "configMap_of p L nf refs = Ret cm'" "deployment_of p L (ResourceVersion (cm_Meta cm)) nf = Ret d'"
  shows "\<exists>w' nf'. reconcileWith p L c req w = (Ret emptyResult, whenFound p c d' w')
    \<and> synced (create_of p) nf (Now c w, d) nf'
    \<and> viewOf c w' = (viewOf c w)\<lparr>nfsOf := (nfsOf (viewOf c w))(req \<mapsto> nf')\<rparr>"
proof -
  have svc: "findServiceOf p c req w = (True, w)"
    using findServiceOf_view(2) found(3) by blast
  obtain w' nf' where sync: "syncAndRoll (syncStatusWith (create_of p)) c nf (Some d) (ResourceVersion (cm_Meta cm)) w = (Continue (), w')"
    and st: "synced (create_of p) nf (Now c w, d) nf'"
    and view: "viewOf c w' = (viewOf c w)\<lparr>nfsOf := (nfsOf (viewOf c w))(req \<mapsto> nf')\<rparr>"
    using syncAndRoll_settled [of w nf d "ResourceVersion (cm_Meta cm)" "create_of p"] nf fresh live by auto
  have "fst (smf_collectConfigRefs c (fst req) (refs_of p nf) [] w') = Ret refs"
    by (rule collect_config_Ret [OF configs]) (simp add: view)
  then have "smf_collectConfigRefs c (fst req) (refs_of p nf) [] w' = (Ret refs, w')"
    using collect_stays by (metis prod.collapse)
  with sync st view reads(1) [OF nf(1)] find_view(1,5) found(1,2) svc made show ?thesis
    by (intro exI [of _ w'] exI [of _ nf']) (simp add: reconcileWith_def reconcileNF_def nf(2) createAll_def createRest_def ensureServiceOf_exists
        ensureConfigMap_def ensureDeployment_def)
qed

text \<open>A config that cannot be read ends the reconcile before anything is created.\<close>

lemma reconcile_config_error:
  assumes nf: "nfsOf (viewOf c w) req = Some nf" "keyOf (nf_Meta nf) = req"
    and none: "depsOf (viewOf c w) req = None"
    and configs: "fst (smf_collectConfigRefs c (fst req) (refs_of p nf) [] w) = Err e"
  shows "reconcileWith p L c req w = (Err e, w)"
proof -
  obtain b where svc: "findServiceOf p c req w = (b, w)"
    using findServiceOf_stays by blast
  obtain cm where cm: "findConfigMap c req w = (cm, w)"
    using find_view(1,2) by (cases "cmsOf (viewOf c w) req") blast+
  have "smf_collectConfigRefs c (fst req) (refs_of p nf) [] w = (Err e, w)"
    using configs collect_stays by (metis prod.collapse)
  with svc cm reads(1) [OF nf(1)] find_view(6) [OF none] show ?thesis
    by (simp add: reconcileWith_def reconcileNF_def nf(2) createAll_def syncAndRoll_def)
qed

end

end
