(* ===== verification/Creation.thy ===== *)
theory Creation
  imports Reconciling
begin

text \<open>
  The contract of a whole reconciler: the resource functions of \<open>NetworkFunction\<close> and a
  Service of the NFDeployment's name.  Proved from it, for every API server: the first
  reconcile creates everything, a settled function is left alone or overwritten, and an
  overwritten Deployment has lost its controller reference.
\<close>

text \<open>The Service after a reconcile that found \<open>old\<close>: the one made, or the one found.\<close>

definition provided :: "parts \<Rightarrow> lib \<Rightarrow> NFDeployment \<Rightarrow> Service option \<Rightarrow> Service option \<Rightarrow> bool" where
  "provided p L nf old new \<longleftrightarrow> (\<forall>mk. service_of p = Some mk \<longrightarrow> (case old of
     None \<Rightarrow> \<exists>v. new = Some ((mk nf)\<lparr>svc_Meta := versioned v (controlled L nf (svc_Meta (mk nf)))\<rparr>)
   | Some s \<Rightarrow> new = Some s))"

lemma provided_some: "provided p L nf old new \<Longrightarrow> service_of p \<noteq> None \<Longrightarrow> new \<noteq> None"
  by (auto simp: provided_def split: option.splits)

locale reconciler = network_function "\<lambda>x nf. configMap_of p (fst x) nf (snd x)" "deployment_of p" networks
  for p :: parts and networks :: "string list" +
  assumes service_named: "service_of p = Some mk \<Longrightarrow> namedLike nf (svc_Meta (mk nf))"
begin

lemma service_key: "service_of p = Some mk \<Longrightarrow> keyOf (svc_Meta (mk nf)) = keyOf (nf_Meta nf)"
  using service_named [of mk nf] by (simp add: namedLike_def keyOf_def)

lemma configMap_of_key: "configMap_of p L nf refs = Ret cm \<Longrightarrow> keyOf (cm_Meta cm) = keyOf (nf_Meta nf)"
  using configMap_key [of "(L, refs)" nf cm] by simp

text \<open>The ConfigMap, found or created, and the Service, where the function has one.\<close>

lemma configMap_ensured:
  assumes api: "api_server c" and L: "ownerRefsOnly L"
    and cm: "configMap_of p L nf refs = Ret cm" and key: "keyOf (nf_Meta nf) = req"
  shows "\<exists>b v0 v w' cm'. findConfigMap c req w = ((b, v0), w) \<and> ensureConfigMap L c nf (Ret cm) b v0 w = (Continue v, w')
    \<and> viewOf c w' = (viewOf c w)\<lparr>cmsOf := (cmsOf (viewOf c w))(req \<mapsto> cm')\<rparr> \<and> ResourceVersion (cm_Meta cm') = v
    \<and> (case cmsOf (viewOf c w) req of
         None \<Rightarrow> v \<noteq> [] \<and> cm' = cm\<lparr>cm_Meta := versioned v (controlled L nf (cm_Meta cm))\<rparr>
       | Some old \<Rightarrow> cm' = old \<and> w' = w)"
proof (cases "cmsOf (viewOf c w) req")
  case None
  moreover obtain v w' where "v \<noteq> []" "ensureConfigMap L c nf (Ret cm) False [] w = (Continue v, w')"
    "viewOf c w' = (viewOf c w)\<lparr>cmsOf := (cmsOf (viewOf c w))
      (req \<mapsto> cm\<lparr>cm_Meta := versioned v (controlled L nf (cm_Meta cm))\<rparr>)\<rparr>"
    using api_server.ensureConfigMap_creates [OF api _ L, of w cm nf "[]"] None configMap_of_key [OF cm] key by auto
  ultimately show ?thesis
    using api_server.find_view(2) [OF api None] by (intro exI) auto
next
  case (Some old)
  then have "viewOf c w = (viewOf c w)\<lparr>cmsOf := (cmsOf (viewOf c w))(req \<mapsto> old)\<rparr>"
    by (simp add: fun_upd_idem)
  with Some show ?thesis
    using api_server.find_view(1) [OF api Some] by (intro exI) (auto simp: ensureConfigMap_def)
qed

lemma service_ensured:
  assumes api: "api_server c" and L: "ownerRefsOnly L"
    and same: "svcsOf (viewOf c w') = svcsOf (viewOf c w)" and key: "keyOf (nf_Meta nf) = req"
  shows "\<exists>b w'' svcs'. findServiceOf p c req w = (b, w) \<and> ensureServiceOf p L c nf b w' = (Continue (), w'')
    \<and> viewOf c w'' = (viewOf c w')\<lparr>svcsOf := svcs'\<rparr>
    \<and> provided p L nf (svcsOf (viewOf c w) req) (svcs' req)
    \<and> (service_of p = None \<or> svcsOf (viewOf c w) req \<noteq> None \<longrightarrow> w'' = w')"
proof (cases "service_of p = None \<or> svcsOf (viewOf c w) req \<noteq> None")
  case True
  then have "findServiceOf p c req w = (True, w)"
    using api_server.findServiceOf_view(2) [OF api] by blast
  moreover have "ensureServiceOf p L c nf True w' = (Continue (), w')"
    by (rule api_server.ensureServiceOf_exists [OF api])
  ultimately show ?thesis
    using True same by (intro exI [of _ True] exI [of _ w'] exI [of _ "svcsOf (viewOf c w')"]) (auto simp: provided_def)
next
  case False
  then obtain mk where mk: "service_of p = Some mk" and none: "svcsOf (viewOf c w) req = None" by auto
  with api_server.ensureService_creates [OF api _ L, of w' "mk nf" nf] service_key [OF mk, of nf] same key
  have "\<exists>v w''. ensureServiceOf p L c nf False w' = (Continue (), w'') \<and> viewOf c w'' = (viewOf c w')\<lparr>svcsOf :=
      (svcsOf (viewOf c w'))(req \<mapsto> (mk nf)\<lparr>svc_Meta := versioned v (controlled L nf (svc_Meta (mk nf)))\<rparr>)\<rparr>"
    by (auto simp: ensureServiceOf_def)
  with api_server.findServiceOf_view(1) [OF api mk none] none mk show ?thesis
    by (intro exI [of _ False]) (fastforce simp: provided_def)
qed

text \<open>
  As long as there is no Deployment, a reconcile comes down to its last step, after the
  ConfigMap and the Service were found or created.
\<close>

lemma before_deployment:
  assumes api: "api_server c" and L: "ownerRefsOnly L"
    and nf: "nfsOf (viewOf c w) req = Some nf" "keyOf (nf_Meta nf) = req"
    and none: "depsOf (viewOf c w) req = None"
    and configs: "fst (smf_collectConfigRefs c (fst req) (refs_of p nf) [] w) = Ret refs"
    and cm: "configMap_of p L nf refs = Ret cm"
    and dep: "Capacity (nf_Spec nf) \<noteq> None" "attachable networks nf"
  shows "\<exists>v w1 d cm' svcs'. deployment_of p L v nf = Ret d
    \<and> reconcileWith p L c req w = ensureDeployment L c nf (Ret d) False (whenFound p c) w1
    \<and> viewOf c w1 = (viewOf c w)\<lparr>cmsOf := (cmsOf (viewOf c w))(req \<mapsto> cm'), svcsOf := svcs'\<rparr>
    \<and> ResourceVersion (cm_Meta cm') = v
    \<and> (cmsOf (viewOf c w) req = None \<longrightarrow> v \<noteq> [] \<and> cm' = cm\<lparr>cm_Meta := versioned v (controlled L nf (cm_Meta cm))\<rparr>)
    \<and> (\<forall>old. cmsOf (viewOf c w) req = Some old \<longrightarrow> cm' = old)
    \<and> provided p L nf (svcsOf (viewOf c w) req) (svcs' req)
    \<and> (cmsOf (viewOf c w) req \<noteq> None \<and> (service_of p = None \<or> svcsOf (viewOf c w) req \<noteq> None) \<longrightarrow> w1 = w)"
proof -
  obtain b v0 v w1 cm' where 1: "findConfigMap c req w = ((b, v0), w)" "ensureConfigMap L c nf (Ret cm) b v0 w = (Continue v, w1)"
    "viewOf c w1 = (viewOf c w)\<lparr>cmsOf := (cmsOf (viewOf c w))(req \<mapsto> cm')\<rparr>" "ResourceVersion (cm_Meta cm') = v"
    "case cmsOf (viewOf c w) req of None \<Rightarrow> v \<noteq> [] \<and> cm' = cm\<lparr>cm_Meta := versioned v (controlled L nf (cm_Meta cm))\<rparr>
      | Some old \<Rightarrow> cm' = old \<and> w1 = w"
    using configMap_ensured [OF api L cm nf(2), of w] by blast
  obtain sf w2 svcs' where 2: "findServiceOf p c req w = (sf, w)" "ensureServiceOf p L c nf sf w1 = (Continue (), w2)"
    "viewOf c w2 = (viewOf c w1)\<lparr>svcsOf := svcs'\<rparr>"
    "provided p L nf (svcsOf (viewOf c w) req) (svcs' req)"
    "service_of p = None \<or> svcsOf (viewOf c w) req \<noteq> None \<longrightarrow> w2 = w1"
    using service_ensured [OF api L _ nf(2), of w1 w] 1(3) by auto
  obtain d where d: "deployment_of p L v nf = Ret d"
    using deployment_succeeds [of L v nf] dep by blast
  have "smf_collectConfigRefs c (fst req) (refs_of p nf) [] w = (Ret refs, w)"
    using configs api_server.collect_stays [OF api] by (metis prod.collapse)
  then have "reconcileWith p L c req w = ensureDeployment L c nf (Ret d) False (whenFound p c) w2"
    using api_server.reads(1) [OF api nf(1)] api_server.find_view(6) [OF api none] cm d 1(1,2) 2(1,2)
    by (simp add: reconcileWith_def reconcileNF_def nf(2) syncAndRoll_def createAll_def createRest_def)
  with d 1(3-5) 2(3-5) show ?thesis
    by (intro exI [of _ v] exI [of _ w2] exI [of _ d] exI [of _ cm'] exI [of _ svcs']) (auto split: option.splits)
qed

text \<open>The last step creates the Deployment once its networks are there, and waits before.\<close>

lemma last_creates:
  assumes api: "api_server c" and L: "ownerRefsOnly L"
    and d: "deployment_of p L v nf = Ret d" and nf: "keyOf (nf_Meta nf) = req"
    and none: "depsOf (viewOf c w) req = None"
    and plain: "plainNetworks (Name (nf_Meta nf)) (networksOf networks nf)"
    and nads: "\<forall>n \<in> set (expectedNetworks (Name (nf_Meta nf)) (networksOf networks nf)).
      nadsOf (viewOf c w) (Namespace (nf_Meta nf), net_Name n)"
  shows "\<exists>w' stored rv g. ensureDeployment L c nf (Ret d) False f w = (Ret \<lparr>Requeue = False, RequeueAfter = 30 * Second\<rparr>, w')
    \<and> viewOf c w' = (viewOf c w)\<lparr>depsOf := (depsOf (viewOf c w))(req \<mapsto> stored)\<rparr>
    \<and> stored = createdDeployment rv g (d\<lparr>dep_Meta := controlled L nf (dep_Meta d)\<rparr>)
    \<and> mapGet (templateAnnotations stored) ConfigMapVersionAnnotation = v
    \<and> dep_Conditions stored = [] \<and> DeletionTimestamp (dep_Meta stored) = None"
proof -
  have val: "ValidateNetworkAttachmentDefinitions c d w = (True, w)"
    unfolding deployment_validate [OF d plain] using api_server.validateNetworks_finds [OF api] nads by simp
  obtain rv g w' where 1: "ensureDeployment L c nf (Ret d) False f w = (Ret \<lparr>Requeue = False, RequeueAfter = 30 * Second\<rparr>, w')"
    "viewOf c w' = (viewOf c w)\<lparr>depsOf := (depsOf (viewOf c w))
      (req \<mapsto> createdDeployment rv g (d\<lparr>dep_Meta := controlled L nf (dep_Meta d)\<rparr>))\<rparr>"
    using api_server.ensureDeployment_creates [OF api _ L val, of nf f] none deployment_unowned [OF d] nf by auto
  moreover have "templateAnnotations (createdDeployment rv g (d\<lparr>dep_Meta := controlled L nf (dep_Meta d)\<rparr>)) = templateAnnotations d"
    by (simp add: templateAnnotations_def createdDeployment_def)
  moreover have "DeletionTimestamp (dep_Meta d) = None"
    using deployment_named [OF d] by (auto simp: namedLike_def zeroMeta_def)
  ultimately show ?thesis
    using deployment_version [OF d] L by (intro exI) (auto simp del: createdDeployment_sel(4))
qed

lemma last_waits:
  assumes api: "api_server c" and d: "deployment_of p L v nf = Ret d"
    and plain: "plainNetworks (Name (nf_Meta nf)) (networksOf networks nf)"
    and missing: "n \<in> set (expectedNetworks (Name (nf_Meta nf)) (networksOf networks nf))"
      "\<not> nadsOf (viewOf c w) (Namespace (nf_Meta nf), net_Name n)"
  shows "ensureDeployment L c nf (Ret d) False f w = (Ret \<lparr>Requeue = False, RequeueAfter = 10 * Second\<rparr>, w)"
proof -
  have "ValidateNetworkAttachmentDefinitions c d w = (False, w)"
    unfolding deployment_validate [OF d plain] by (rule api_server.validateNetworks_misses [OF api missing])
  then show ?thesis by (simp add: ensureDeployment_def)
qed

lemma first_reconcile:
  assumes api: "api_server c" and L: "ownerRefsOnly L"
    and nf: "nfsOf (viewOf c w) req = Some nf" "keyOf (nf_Meta nf) = req"
    and fresh: "cmsOf (viewOf c w) req = None" "depsOf (viewOf c w) req = None"
    and configs: "fst (smf_collectConfigRefs c (fst req) (refs_of p nf) [] w) = Ret refs"
    and cm: "configMap_of p L nf refs = Ret cm"
    and dep: "Capacity (nf_Spec nf) \<noteq> None" "attachable networks nf"
    and plain: "plainNetworks (Name (nf_Meta nf)) (networksOf networks nf)"
    and nads: "\<forall>n \<in> set (expectedNetworks (Name (nf_Meta nf)) (networksOf networks nf)).
      nadsOf (viewOf c w) (Namespace (nf_Meta nf), net_Name n)"
  shows "\<exists>w' cm' d. reconcileWith p L c req w = (Ret \<lparr>Requeue = False, RequeueAfter = 30 * Second\<rparr>, w')
    \<and> cmsOf (viewOf c w') req = Some cm' \<and> Data cm' = Data cm
    \<and> (service_of p \<noteq> None \<longrightarrow> svcsOf (viewOf c w') req \<noteq> None)
    \<and> depsOf (viewOf c w') req = Some d
    \<and> mapGet (templateAnnotations d) ConfigMapVersionAnnotation = ResourceVersion (cm_Meta cm')
    \<and> ResourceVersion (cm_Meta cm') \<noteq> []
    \<and> dep_Conditions d = [] \<and> DeletionTimestamp (dep_Meta d) = None \<and> nfsOf (viewOf c w') = nfsOf (viewOf c w)"
proof -
  obtain v w1 d cm' svcs' where 1: "deployment_of p L v nf = Ret d"
    "reconcileWith p L c req w = ensureDeployment L c nf (Ret d) False (whenFound p c) w1"
    "viewOf c w1 = (viewOf c w)\<lparr>cmsOf := (cmsOf (viewOf c w))(req \<mapsto> cm'), svcsOf := svcs'\<rparr>"
    "ResourceVersion (cm_Meta cm') = v" "v \<noteq> []" "Data cm' = Data cm" "provided p L nf (svcsOf (viewOf c w) req) (svcs' req)"
    using before_deployment [OF api L nf fresh(2) configs cm dep] fresh(1) by auto
  obtain w' stored where "ensureDeployment L c nf (Ret d) False (whenFound p c) w1 = (Ret \<lparr>Requeue = False, RequeueAfter = 30 * Second\<rparr>, w')"
    "viewOf c w' = (viewOf c w1)\<lparr>depsOf := (depsOf (viewOf c w1))(req \<mapsto> stored)\<rparr>"
    "mapGet (templateAnnotations stored) ConfigMapVersionAnnotation = v" "dep_Conditions stored = []"
    "DeletionTimestamp (dep_Meta stored) = None"
    using last_creates [OF api L 1(1) nf(2) _ plain, of w1 "whenFound p c"] fresh(2) nads 1(3) by auto
  with 1 provided_some [OF 1(7)] show ?thesis
    by (intro exI [of _ w'] exI [of _ cm'] exI [of _ stored]) simp
qed

text \<open>
  A settled function whose reconciler overwrites: the Deployment is written again from the
  specification, without any owner and with the resource version left open.
\<close>

lemma settled_overwrites:
  assumes api: "api_server c"
    and settled: "reconcileWith p L c req w = (Ret emptyResult, whenFound p c d' w)"
    and d': "deployment_of p L v nf = Ret d'" and nf: "keyOf (nf_Meta nf) = req"
    and d: "depsOf (viewOf c w) req = Some d" and "overwrites p"
  shows "\<exists>w' rv g. reconcileWith p L c req w = (Ret emptyResult, w')
    \<and> viewOf c w' = (viewOf c w)\<lparr>depsOf := (depsOf (viewOf c w))(req \<mapsto> updatedDeployment rv g d d')\<rparr>
    \<and> OwnerReferences (dep_Meta (updatedDeployment rv g d d')) = []"
proof -
  note unowned = deployment_unowned [OF d']
  with nf d api_server.updateFound_view [OF api, of w d' d] obtain rv g where
    "viewOf c (updateFound c d' w) = (viewOf c w)\<lparr>depsOf := (depsOf (viewOf c w))(req \<mapsto> updatedDeployment rv g d d')\<rparr>"
    by auto
  with settled unowned assms(6) show ?thesis
    by (intro exI [of _ "updateFound c d' w"] exI [of _ rv] exI [of _ g]) (simp add: whenFound_def)
qed

text \<open>The Deployment is created right after its networks were found.\<close>

lemma reconcile_create:
  assumes run: "reconcileWith p L (logged c) req (w, []) = (r, (w', tr))"
    and get: "GetNFDeployment c req w = (Inr nf, w0)"
    and plain: "plainNetworks (Name (nf_Meta nf)) (networksOf networks nf)"
    and d: "DidCreateDeployment d b \<in> set tr"
  shows "\<exists>earlier. (\<forall>e \<in> set earlier. noDeployment e) \<and> tr = earlier
      @ map (\<lambda>n. DidGetNAD (Namespace (nf_Meta nf), net_Name n) True)
          (expectedNetworks (Name (nf_Meta nf)) (networksOf networks nf))
      @ [DidCreateDeployment d b]"
proof (rule finishes_create [OF reconcile_finishes [OF run get lawful_noDeployment] _ plain d])
  fix d w tr w1 tr1
  assume "whenFound p (logged c) d (w, tr) = (w1, tr1)"
  then show "stepped 3 4 noDeployment False tr tr1"
    by (cases "overwrites p") (auto simp: whenFound_def noDeployment_def intro: updateFound_stepped)
qed

end

section \<open>Examples\<close>

text \<open>
  An NFDeployment that has its first condition, and a cluster where everything of it exists:
  the ConfigMap in version 7, and a Deployment with the given annotations.
\<close>

definition running :: "NFDeployment \<Rightarrow> NFDeployment" where
  "running nf = nf\<lparr>nf_Status := nf_Status (startedNF [])\<rparr>"

definition runningDeployment :: "StringMap option \<Rightarrow> Deployment" where
  "runningDeployment annotations = \<lparr>
     dep_Meta = zeroMeta\<lparr>Name := ''nf'', Namespace := ''ns'',
       OwnerReferences := [\<lparr>owner_Kind = ''NFDeployment'', owner_Name = ''nf''\<rparr>]\<rparr>,
     dep_Spec = \<lparr>Replicas = 1, MatchLabels = Map.empty, Template = \<lparr>pod_Meta = zeroMeta\<lparr>Annotations := annotations\<rparr>,
       pod_Spec = \<lparr>Containers = [], DNSPolicy = [], RestartPolicy = [], Volumes = []\<rparr>\<rparr>\<rparr>,
     dep_Conditions = [\<lparr>dc_Type = DeploymentProgressing\<rparr>]\<rparr>"

definition runningConfigMap :: ConfigMap where
  "runningConfigMap = \<lparr>cm_APIVersion = ''v1'', cm_Kind = ''ConfigMap'',
     cm_Meta = zeroMeta\<lparr>Name := ''nf'', Namespace := ''ns'', ResourceVersion := ''7''\<rparr>, Data = Map.empty\<rparr>"

definition runningStore :: "NFDeployment \<Rightarrow> Service option \<Rightarrow> StringMap option \<Rightarrow> store" where
  "runningStore nf service annotations = emptyStore\<lparr>nfs := [(''ns'', ''nf'') \<mapsto> running nf],
     cms := [(''ns'', ''nf'') \<mapsto> runningConfigMap], svcs := (\<lambda>k. if k = (''ns'', ''nf'') then service else None),
     deps := [(''ns'', ''nf'') \<mapsto> runningDeployment annotations]\<rparr>"

lemma running_sel [simp]:
  "nf_Meta (running nf) = nf_Meta nf" "nf_Spec (running nf) = nf_Spec nf" "history (running nf) = [Reconciling]"
  "templateAnnotations (runningDeployment a) = a" "observed (runningDeployment a) = Some DeploymentProgressing"
  "keyOf (dep_Meta (runningDeployment a)) = (''ns'', ''nf'')" "DeletionTimestamp (dep_Meta (runningDeployment a)) = None"
  "OwnerReferences (dep_Meta (runningDeployment a)) = [\<lparr>owner_Kind = ''NFDeployment'', owner_Name = ''nf''\<rparr>]"
  "ResourceVersion (cm_Meta runningConfigMap) = ''7''"
  by (simp_all add: running_def runningDeployment_def runningConfigMap_def startedNF_def history_def observed_def
      templateAnnotations_def keyOf_def zeroMeta_def)

lemma runningStore_sel [simp]:
  "nfs (runningStore nf s a) = [(''ns'', ''nf'') \<mapsto> running nf]" "cms (runningStore nf s a) = [(''ns'', ''nf'') \<mapsto> runningConfigMap]"
  "svcs (runningStore nf s a) (''ns'', ''nf'') = s" "deps (runningStore nf s a) = [(''ns'', ''nf'') \<mapsto> runningDeployment a]"
  "cfgs (runningStore nf s a) = Map.empty"
  by (simp_all add: runningStore_def emptyStore_def)

end
