(* ===== verification/Effects.thy ===== *)
theory Effects
  imports Creation
begin

text \<open>
  What one reconcile can do to the objects of an API server, on every branch: it changes
  nothing outside the request's key, never replaces a ConfigMap or a Service, gives the
  NFDeployment at most the status its \<open>createNfDeploymentStatus\<close> made, and keeps the
  Deployment in step with the version of its ConfigMap.
\<close>

section \<open>The effect of a reconcile\<close>

text \<open>Deployment and ConfigMap of a key agree: the Deployment carries the ConfigMap's version.\<close>

definition agrees :: "cluster \<Rightarrow> NamespacedName \<Rightarrow> bool" where
  "agrees v k \<longleftrightarrow> (\<forall>d. depsOf v k = Some d \<longrightarrow> (\<exists>cm. cmsOf v k = Some cm
     \<and> mapGet (templateAnnotations d) ConfigMapVersionAnnotation = ResourceVersion (cm_Meta cm)))"

text \<open>An entry that may only be filled in, and one that may be written.\<close>

definition filled :: "'k \<Rightarrow> ('k \<rightharpoonup> 'a) \<Rightarrow> ('k \<rightharpoonup> 'a) \<Rightarrow> bool" where
  "filled k m m' \<longleftrightarrow> m' = m \<or> m k = None \<and> (\<exists>x. m' = m(k \<mapsto> x))"

definition written :: "'k \<Rightarrow> ('k \<rightharpoonup> 'a) \<Rightarrow> ('k \<rightharpoonup> 'a) \<Rightarrow> bool" where
  "written k m m' \<longleftrightarrow> m' = m \<or> (\<exists>x. m' = m(k \<mapsto> x))"

text \<open>A Deployment written with a version, and what a look for the ConfigMap found.\<close>

definition deployed :: "'k \<Rightarrow> string \<Rightarrow> ('k \<rightharpoonup> Deployment) \<Rightarrow> ('k \<rightharpoonup> Deployment) \<Rightarrow> bool" where
  "deployed k v m m' \<longleftrightarrow> m' = m \<or> (\<exists>d. m' = m(k \<mapsto> d) \<and> mapGet (templateAnnotations d) ConfigMapVersionAnnotation = v)"

definition seenConfigMap :: "bool \<times> string \<Rightarrow> ConfigMap option \<Rightarrow> bool" where
  "seenConfigMap x cm \<longleftrightarrow> x = (case cm of None \<Rightarrow> (False, []) | Some cm \<Rightarrow> (True, ResourceVersion (cm_Meta cm)))"

definition statusWritten :: "createStatus \<Rightarrow> Time \<Rightarrow> NFDeployment \<Rightarrow> cluster \<Rightarrow> (NamespacedName \<rightharpoonup> NFDeployment) \<Rightarrow> bool" where
  "statusWritten create now nf v nfs' \<longleftrightarrow> nfs' = nfsOf v
     \<or> (\<exists>d nf'. depsOf v (keyOf (nf_Meta nf)) = Some d \<and> nfs' = (nfsOf v)(keyOf (nf_Meta nf) \<mapsto> nf')
          \<and> synced create nf (now, d) nf')"

definition effect :: "createStatus \<Rightarrow> Time \<Rightarrow> NFDeployment \<Rightarrow> cluster \<Rightarrow> cluster \<Rightarrow> bool" where
  "effect create now nf v v' \<longleftrightarrow>
     (let k = keyOf (nf_Meta nf) in
      statusWritten create now nf v (nfsOf v') \<and> filled k (cmsOf v) (cmsOf v') \<and> filled k (svcsOf v) (svcsOf v')
      \<and> written k (depsOf v) (depsOf v') \<and> cfgsOf v' = cfgsOf v \<and> nadsOf v' = nadsOf v
      \<and> (agrees v k \<longrightarrow> agrees v' k))"

lemma effect_refl [simp]: "effect create now nf v v"
  by (simp add: effect_def statusWritten_def filled_def written_def Let_def)

lemma effects_refl [simp]: "filled k m m" "written k m m" "deployed k v n n" "statusWritten create now nf V (nfsOf V)"
  by (simp_all add: filled_def written_def deployed_def statusWritten_def)

lemma filled_new: "m k = None \<Longrightarrow> filled k m (m(k \<mapsto> x))"
  by (auto simp: filled_def)

lemma deployed_new: "mapGet (templateAnnotations d) ConfigMapVersionAnnotation = v \<Longrightarrow> deployed k v m (m(k \<mapsto> d))"
  by (auto simp: deployed_def)

lemma deployed_written: "deployed k v m m' \<Longrightarrow> written k m m'"
  by (auto simp: deployed_def written_def)

text \<open>Agreement survives filling in a ConfigMap and writing its version.\<close>

lemma agrees_kept:
  assumes "agrees V k" "filled k (cmsOf V) (cmsOf V')"
    and "depsOf V' = depsOf V \<or> (\<exists>cm. cmsOf V' k = Some cm \<and> deployed k (ResourceVersion (cm_Meta cm)) (depsOf V) (depsOf V'))"
  shows "agrees V' k"
  using assms unfolding agrees_def filled_def deployed_def by (auto split: if_splits)

section \<open>The steps\<close>

context api_server
begin

lemma Validate_stays: "snd (ValidateNetworkAttachmentDefinitions c d w) = w"
proof -
  have "snd (validateNetworks c ns nets w) = w" for ns nets
  proof (induction nets)
    case Nil
    then show ?case by simp
  next
    case (Cons n nets)
    obtain x where "GetNAD c (ns, net_Name n) w = (x, w)"
      using reads_leave(6) [of "(ns, net_Name n)" w] by (metis prod.collapse)
    with Cons show ?case by (cases x) simp_all
  qed
  then show ?thesis
    by (auto simp: ValidateNetworkAttachmentDefinitions_def split: option.splits)
qed

lemma sync_effect:
  assumes nf: "nfsOf (viewOf c w) k = Some nf" "keyOf (nf_Meta nf) = k" and d: "depsOf (viewOf c w) k = Some d"
  shows "\<exists>w' nfs'. (if DeletionTimestamp (dep_Meta d) = None then syncStatusWith create c d nf w else (None, w)) = (None, w')
    \<and> viewOf c w' = (viewOf c w)\<lparr>nfsOf := nfs'\<rparr> \<and> statusWritten create (Now c w) nf (viewOf c w) nfs'"
proof (cases "DeletionTimestamp (dep_Meta d)")
  case None
  obtain w' nf' where "syncStatusWith create c d nf w = (None, w')" "synced create nf (Now c w, d) nf'"
    "viewOf c w' = (viewOf c w)\<lparr>nfsOf := (nfsOf (viewOf c w))(k \<mapsto> nf')\<rparr>"
    using syncStatus_view [of w nf create d] nf by auto
  with None d nf(2) show ?thesis
    by (intro exI [of _ w'] exI [of _ "(nfsOf (viewOf c w))(k \<mapsto> nf')"]) (auto simp: statusWritten_def)
qed (auto intro: exI [of _ w] exI [of _ "nfsOf (viewOf c w)"])

lemma roll_effect:
  assumes d: "depsOf (viewOf c w) k = Some d" "keyOf (dep_Meta d) = k"
    and rolled: "setTemplateAnnotation ConfigMapVersionAnnotation v d = Ret rolled"
  shows "\<exists>d' w' deps'. UpdateDeployment c rolled w = (Inr d', w') \<and> viewOf c w' = (viewOf c w)\<lparr>depsOf := deps'\<rparr>
    \<and> deployed k v (depsOf (viewOf c w)) deps'"
proof -
  note set = setTemplateAnnotation_Ret [OF rolled]
  have "depsOf (viewOf c w) (keyOf (dep_Meta rolled)) = Some d" "mayReplace (dep_Meta rolled) (dep_Meta d)"
    using d set(1) by (simp_all add: mayReplace_def)
  from update_deployment [OF this] obtain rv g w' where
    "UpdateDeployment c rolled w = (Inr (updatedDeployment rv g d rolled), w')"
    "viewOf c w' = (viewOf c w)\<lparr>depsOf := (depsOf (viewOf c w))(k \<mapsto> updatedDeployment rv g d rolled)\<rparr>"
    using set(1) d(2) by auto
  moreover have "mapGet (templateAnnotations (updatedDeployment rv g d rolled)) ConfigMapVersionAnnotation = v"
    using set(5) by (auto simp: mapGet_def)
  ultimately show ?thesis
    by (blast intro: deployed_new)
qed

lemma syncAndRoll_effect:
  assumes nf: "nfsOf (viewOf c w) k = Some nf" "keyOf (nf_Meta nf) = k"
    and cur: "cur = depsOf (viewOf c w) k" "\<And>d. cur = Some d \<Longrightarrow> keyOf (dep_Meta d) = k"
  shows "\<exists>out w' nfs' deps'. syncAndRoll (syncStatusWith create) c nf cur v w = (out, w')
    \<and> viewOf c w' = (viewOf c w)\<lparr>nfsOf := nfs', depsOf := deps'\<rparr>
    \<and> statusWritten create (Now c w) nf (viewOf c w) nfs' \<and> deployed k v (depsOf (viewOf c w)) deps'
    \<and> (goes_on out \<or> cur = None \<longrightarrow> deps' = depsOf (viewOf c w))"
proof (cases cur)
  case None
  then show ?thesis
    by (intro exI [of _ "Continue ()"] exI [of _ w] exI [of _ "nfsOf (viewOf c w)"] exI [of _ "depsOf (viewOf c w)"])
      (simp add: syncAndRoll_def)
next
  case (Some d)
  with cur have d: "depsOf (viewOf c w) k = Some d" "keyOf (dep_Meta d) = k" by auto
  obtain w1 nfs' where sync: "(if DeletionTimestamp (dep_Meta d) = None then syncStatusWith create c d nf w else (None, w)) = (None, w1)"
    and view: "viewOf c w1 = (viewOf c w)\<lparr>nfsOf := nfs'\<rparr>" and st: "statusWritten create (Now c w) nf (viewOf c w) nfs'"
    using sync_effect [OF nf d(1), of create] by blast
  consider "mapGet (templateAnnotations d) ConfigMapVersionAnnotation = v"
    | rolled where "mapGet (templateAnnotations d) ConfigMapVersionAnnotation \<noteq> v"
        "setTemplateAnnotation ConfigMapVersionAnnotation v d = Ret rolled"
    | "mapGet (templateAnnotations d) ConfigMapVersionAnnotation \<noteq> v"
        "setTemplateAnnotation ConfigMapVersionAnnotation v d = Panic NilMapWrite"
    by (cases "templateAnnotations d") (auto simp: setTemplateAnnotation_def Let_def)
  then show ?thesis
  proof cases
    case 1
    with Some sync view st show ?thesis
      by (intro exI [of _ "Continue ()"] exI [of _ w1] exI [of _ nfs'] exI [of _ "depsOf (viewOf c w)"])
        (simp add: syncAndRoll_def)
  next
    case (2 rolled)
    obtain d' w2 deps' where "UpdateDeployment c rolled w1 = (Inr d', w2)" "viewOf c w2 = (viewOf c w1)\<lparr>depsOf := deps'\<rparr>"
      "deployed k v (depsOf (viewOf c w1)) deps'"
      using roll_effect [OF _ d(2) 2(2), of w1] d(1) by (auto simp: view)
    with 2 Some sync view st show ?thesis
      by (intro exI [of _ "Return (Ret \<lparr>Requeue = True, RequeueAfter = 0\<rparr>)"] exI [of _ w2] exI [of _ nfs'] exI [of _ deps'])
        (simp add: syncAndRoll_def)
  next
    case 3
    with Some sync view st show ?thesis
      by (intro exI [of _ "Return (Panic NilMapWrite)"] exI [of _ w1] exI [of _ nfs'] exI [of _ "depsOf (viewOf c w)"])
        (simp add: syncAndRoll_def)
  qed
qed

lemma findConfigMap_seen: "\<exists>x. findConfigMap c k w = (x, w) \<and> seenConfigMap x (cmsOf (viewOf c w) k)"
  using find_view(1,2) [of w k] by (cases "cmsOf (viewOf c w) k") (auto simp: seenConfigMap_def)

lemma findDeployment_seen: "findDeployment c k w = (depsOf (viewOf c w) k, w)"
  using find_view(5,6) [of w k] by (cases "depsOf (viewOf c w) k") auto

lemma ensureConfigMap_effect:
  assumes L: "ownerRefsOnly L" and key: "\<And>cm. made = Ret cm \<Longrightarrow> keyOf (cm_Meta cm) = k"
    and seen: "seenConfigMap x (cmsOf (viewOf c w) k)"
  shows "\<exists>out w' cms'. ensureConfigMap L c nf made (fst x) (snd x) w = (out, w')
    \<and> viewOf c w' = (viewOf c w)\<lparr>cmsOf := cms'\<rparr> \<and> filled k (cmsOf (viewOf c w)) cms'
    \<and> (\<forall>v. out = Continue v \<longrightarrow> (\<exists>cm. cms' k = Some cm \<and> v = ResourceVersion (cm_Meta cm)))"
proof -
  have stays: ?thesis if "ensureConfigMap L c nf made (fst x) (snd x) w = (out, w)"
    "\<And>v. out = Continue v \<Longrightarrow> \<exists>cm. cmsOf (viewOf c w) k = Some cm \<and> v = ResourceVersion (cm_Meta cm)" for out
    using that by (intro exI [of _ out] exI [of _ w] exI [of _ "cmsOf (viewOf c w)"]) simp
  show ?thesis
  proof (cases made)
    case (Ret cm)
    show ?thesis
    proof (cases "cmsOf (viewOf c w) k")
      case (Some old)
      with Ret seen show ?thesis
        by (intro stays [of "Continue (snd x)"]) (auto simp: seenConfigMap_def ensureConfigMap_def)
    next
      case None
      with ensureConfigMap_creates [OF _ L, of w cm nf "snd x"] key [OF Ret] obtain v w' where
        "ensureConfigMap L c nf (Ret cm) False (snd x) w = (Continue v, w')"
        "viewOf c w' = (viewOf c w)\<lparr>cmsOf := (cmsOf (viewOf c w))(k \<mapsto> cm\<lparr>cm_Meta := versioned v (controlled L nf (cm_Meta cm))\<rparr>)\<rparr>"
        by auto
      with Ret None seen show ?thesis
        by (intro exI [of _ "Continue v"] exI [of _ w']
            exI [of _ "(cmsOf (viewOf c w))(k \<mapsto> cm\<lparr>cm_Meta := versioned v (controlled L nf (cm_Meta cm))\<rparr>)"])
          (auto simp: seenConfigMap_def filled_new)
    qed
  next
    case (Err e)
    then show ?thesis by (intro stays [of "Return (Err e)"]) (simp_all add: ensureConfigMap_def)
  next
    case (Panic q)
    then show ?thesis by (intro stays [of "Return (Panic q)"]) (simp_all add: ensureConfigMap_def)
  qed
qed

end

context reconciler
begin

lemma ensureServiceOf_effect:
  assumes api: "api_server c" and L: "ownerRefsOnly L"
    and sf: "sf \<or> service_of p = None \<or> svcsOf (viewOf c w) (keyOf (nf_Meta nf)) = None"
  shows "\<exists>w' svcs'. ensureServiceOf p L c nf sf w = (Continue (), w')
    \<and> viewOf c w' = (viewOf c w)\<lparr>svcsOf := svcs'\<rparr> \<and> filled (keyOf (nf_Meta nf)) (svcsOf (viewOf c w)) svcs'"
proof (cases "sf \<or> service_of p = None")
  case True
  then have "ensureServiceOf p L c nf sf w = (Continue (), w)"
    by (auto simp: ensureServiceOf_def ensureService_def split: option.split)
  then show ?thesis
    by (intro exI [of _ w] exI [of _ "svcsOf (viewOf c w)"]) (simp add: filled_def)
next
  case False
  then obtain mk where mk: "service_of p = Some mk" by blast
  with False sf have none: "svcsOf (viewOf c w) (keyOf (svc_Meta (mk nf))) = None"
    by (simp add: service_key [OF mk])
  from api_server.ensureService_creates [OF api none L, of nf] False mk none show ?thesis
    by (fastforce simp: ensureServiceOf_def filled_def service_key [OF mk])
qed

lemma ensureDeployment_replaces:
  assumes api: "api_server c" and Ret: "deployment_of p L v nf = Ret d" and old: "depsOf (viewOf c w) (keyOf (nf_Meta nf)) = Some old"
  shows "\<exists>r w' deps'. ensureDeployment L c nf (Ret d) True (whenFound p c) w = (r, w')
    \<and> viewOf c w' = (viewOf c w)\<lparr>depsOf := deps'\<rparr> \<and> deployed (keyOf (nf_Meta nf)) v (depsOf (viewOf c w)) deps'"
proof (cases "overwrites p")
  case True
  let ?d = "\<lambda>rv g. updatedDeployment rv g old d"
  from api_server.updateFound_view [OF api, of w d old] old deployment_unowned [OF Ret] obtain rv g where
    "viewOf c (updateFound c d w) = (viewOf c w)\<lparr>depsOf := (depsOf (viewOf c w))(keyOf (nf_Meta nf) \<mapsto> ?d rv g)\<rparr>"
    by auto
  with True deployment_version [OF Ret] show ?thesis
    by (intro exI [of _ "Ret emptyResult"] exI [of _ "updateFound c d w"]
        exI [of _ "(depsOf (viewOf c w))(keyOf (nf_Meta nf) \<mapsto> ?d rv g)"])
      (auto simp: ensureDeployment_def whenFound_def intro!: deployed_new)
next
  case False
  then show ?thesis
    by (intro exI [of _ "Ret emptyResult"] exI [of _ w] exI [of _ "depsOf (viewOf c w)"])
      (simp add: ensureDeployment_def whenFound_def)
qed

lemma ensureDeployment_makes:
  assumes api: "api_server c" and L: "ownerRefsOnly L" and Ret: "deployment_of p L v nf = Ret d"
    and none: "depsOf (viewOf c w) (keyOf (nf_Meta nf)) = None"
    and ok: "ValidateNetworkAttachmentDefinitions c d w = (True, w)"
  shows "\<exists>r w' deps'. ensureDeployment L c nf (Ret d) False (whenFound p c) w = (r, w')
    \<and> viewOf c w' = (viewOf c w)\<lparr>depsOf := deps'\<rparr> \<and> deployed (keyOf (nf_Meta nf)) v (depsOf (viewOf c w)) deps'"
proof -
  let ?d = "\<lambda>rv g. createdDeployment rv g (d\<lparr>dep_Meta := controlled L nf (dep_Meta d)\<rparr>)"
  from api_server.ensureDeployment_creates [OF api _ L ok, of nf "whenFound p c"] none deployment_unowned [OF Ret]
  obtain rv g w' where "ensureDeployment L c nf (Ret d) False (whenFound p c) w = (Ret \<lparr>Requeue = False, RequeueAfter = 30 * Second\<rparr>, w')"
    "viewOf c w' = (viewOf c w)\<lparr>depsOf := (depsOf (viewOf c w))(keyOf (nf_Meta nf) \<mapsto> ?d rv g)\<rparr>"
    by auto
  moreover have "mapGet (templateAnnotations (?d rv g)) ConfigMapVersionAnnotation = v"
    using deployment_version [OF Ret] by (simp add: templateAnnotations_def)
  ultimately show ?thesis
    by (blast intro: deployed_new)
qed

lemma ensureDeployment_effect:
  assumes api: "api_server c" and L: "ownerRefsOnly L"
    and df: "df \<longleftrightarrow> depsOf (viewOf c w) (keyOf (nf_Meta nf)) \<noteq> None"
  shows "\<exists>r w' deps'. ensureDeployment L c nf (deployment_of p L v nf) df (whenFound p c) w = (r, w')
    \<and> viewOf c w' = (viewOf c w)\<lparr>depsOf := deps'\<rparr> \<and> deployed (keyOf (nf_Meta nf)) v (depsOf (viewOf c w)) deps'"
proof (cases "deployment_of p L v nf")
  case (Ret d)
  obtain ok where val: "ValidateNetworkAttachmentDefinitions c d w = (ok, w)"
    using api_server.Validate_stays [OF api] by (metis prod.collapse)
  consider old where "df" "depsOf (viewOf c w) (keyOf (nf_Meta nf)) = Some old"
    | "\<not> df" "depsOf (viewOf c w) (keyOf (nf_Meta nf)) = None" "ok" | "\<not> df" "\<not> ok"
    using df by (cases "depsOf (viewOf c w) (keyOf (nf_Meta nf))") auto
  then show ?thesis
  proof cases
    case (1 old)
    with Ret ensureDeployment_replaces [OF api Ret 1(2)] show ?thesis by simp
  next
    case 2
    with Ret ensureDeployment_makes [OF api L Ret 2(2)] val show ?thesis by simp
  next
    case 3
    with Ret val show ?thesis
      by (intro exI [of _ "Ret \<lparr>Requeue = False, RequeueAfter = 10 * Second\<rparr>"] exI [of _ w] exI [of _ "depsOf (viewOf c w)"])
        (simp add: ensureDeployment_def)
  qed
qed (auto simp: ensureDeployment_def intro!: exI [of _ w] exI [of _ "depsOf (viewOf c w)"])

lemma createRest_effect:
  assumes api: "api_server c" and L: "ownerRefsOnly L" and k: "k = keyOf (nf_Meta nf)"
    and sf: "sf \<or> service_of p = None \<or> svcsOf (viewOf c w) k = None"
    and df: "df \<longleftrightarrow> depsOf (viewOf c w) k \<noteq> None"
  shows "\<exists>r w' svcs' deps'. createRest p L c nf sf df v w = (r, w')
    \<and> viewOf c w' = (viewOf c w)\<lparr>svcsOf := svcs', depsOf := deps'\<rparr>
    \<and> filled k (svcsOf (viewOf c w)) svcs' \<and> deployed k v (depsOf (viewOf c w)) deps'"
proof -
  obtain w1 svcs' where 1: "ensureServiceOf p L c nf sf w = (Continue (), w1)"
    "viewOf c w1 = (viewOf c w)\<lparr>svcsOf := svcs'\<rparr>" "filled k (svcsOf (viewOf c w)) svcs'"
    using ensureServiceOf_effect [OF api L, of sf w nf] sf k by auto
  then obtain r w2 deps' where 2: "ensureDeployment L c nf (deployment_of p L v nf) df (whenFound p c) w1 = (r, w2)"
    "viewOf c w2 = (viewOf c w1)\<lparr>depsOf := deps'\<rparr>" "deployed k v (depsOf (viewOf c w)) deps'"
    using ensureDeployment_effect [OF api L, of df w1 nf v] df k by auto
  have "createRest p L c nf sf df v w = (r, w2)"
    using 1(1) 2(1) by (simp add: createRest_def)
  moreover have "viewOf c w2 = (viewOf c w)\<lparr>svcsOf := svcs', depsOf := deps'\<rparr>"
    by (simp add: 1(2) 2(2))
  ultimately show ?thesis
    using 1(3) 2(3) by blast
qed

lemma createAll_effect:
  assumes api: "api_server c" and L: "ownerRefsOnly L" and k: "k = keyOf (nf_Meta nf)"
    and cm: "seenConfigMap x (cmsOf (viewOf c w) k)"
    and sf: "sf \<or> service_of p = None \<or> svcsOf (viewOf c w) k = None"
    and df: "df \<longleftrightarrow> depsOf (viewOf c w) k \<noteq> None"
  shows "\<exists>r w' cms' svcs' deps'. createAll p L c nf x sf df configs w = (r, w')
    \<and> viewOf c w' = (viewOf c w)\<lparr>cmsOf := cms', svcsOf := svcs', depsOf := deps'\<rparr>
    \<and> filled k (cmsOf (viewOf c w)) cms' \<and> filled k (svcsOf (viewOf c w)) svcs'
    \<and> (deps' = depsOf (viewOf c w) \<or> (\<exists>cm. cms' k = Some cm
         \<and> deployed k (ResourceVersion (cm_Meta cm)) (depsOf (viewOf c w)) deps'))"
proof (cases configs)
  case (Ret refs)
  obtain out w1 cms' where 1: "ensureConfigMap L c nf (configMap_of p L nf refs) (fst x) (snd x) w = (out, w1)"
    "viewOf c w1 = (viewOf c w)\<lparr>cmsOf := cms'\<rparr>" "filled k (cmsOf (viewOf c w)) cms'"
    "\<And>v. out = Continue v \<Longrightarrow> \<exists>cm. cms' k = Some cm \<and> v = ResourceVersion (cm_Meta cm)"
    using api_server.ensureConfigMap_effect [OF api L _ cm, of "configMap_of p L nf refs" nf] configMap_of_key k by blast
  show ?thesis
  proof (cases out)
    case (Return r)
    with Ret 1 show ?thesis
      by (intro exI [of _ r] exI [of _ w1] exI [of _ cms'] exI [of _ "svcsOf (viewOf c w)"] exI [of _ "depsOf (viewOf c w)"])
        (simp add: createAll_def)
  next
    case (Continue v)
    obtain r w2 svcs' deps' where 2: "createRest p L c nf sf df v w1 = (r, w2)"
      "viewOf c w2 = (viewOf c w1)\<lparr>svcsOf := svcs', depsOf := deps'\<rparr>"
      "filled k (svcsOf (viewOf c w1)) svcs'" "deployed k v (depsOf (viewOf c w1)) deps'"
      using createRest_effect [OF api L k, of sf w1 df v] sf df by (auto simp: 1(2))
    have "createAll p L c nf x sf df configs w = (r, w2)"
      using Ret 1(1) Continue 2(1) by (simp add: createAll_def)
    moreover have "viewOf c w2 = (viewOf c w)\<lparr>cmsOf := cms', svcsOf := svcs', depsOf := deps'\<rparr>"
      by (simp add: 1(2) 2(2))
    moreover obtain cm where "cms' k = Some cm" "v = ResourceVersion (cm_Meta cm)"
      using 1(4) Continue by blast
    ultimately show ?thesis
      using 1(3) 2(3,4) by (auto simp: 1(2))
  qed
qed (auto simp: createAll_def intro!: exI [of _ w] exI [of _ "cmsOf (viewOf c w)"] exI [of _ "svcsOf (viewOf c w)"]
  exI [of _ "depsOf (viewOf c w)"])

lemma effectI:
  assumes "viewOf c w' = (viewOf c w)\<lparr>nfsOf := nfs', cmsOf := cms', svcsOf := svcs', depsOf := deps'\<rparr>"
    and "keyOf (nf_Meta nf) = k" "statusWritten create now nf (viewOf c w) nfs'"
    and "filled k (cmsOf (viewOf c w)) cms'" "filled k (svcsOf (viewOf c w)) svcs'"
    and deps: "deps' = depsOf (viewOf c w) \<or> deployed k (snd x) (depsOf (viewOf c w)) deps' \<and> depsOf (viewOf c w) k \<noteq> None \<and> cms' = cmsOf (viewOf c w)
      \<or> (\<exists>cm. cms' k = Some cm \<and> deployed k (ResourceVersion (cm_Meta cm)) (depsOf (viewOf c w)) deps')"
    and seen: "seenConfigMap x (cmsOf (viewOf c w) k)"
  shows "effect create now nf (viewOf c w) (viewOf c w')"
proof -
  have "agrees (viewOf c w') k" if ag: "agrees (viewOf c w) k"
  proof (rule agrees_kept [OF ag])
    show "depsOf (viewOf c w') = depsOf (viewOf c w) \<or> (\<exists>cm. cmsOf (viewOf c w') k = Some cm
      \<and> deployed k (ResourceVersion (cm_Meta cm)) (depsOf (viewOf c w)) (depsOf (viewOf c w')))"
      using deps ag seen by (auto simp: assms(1) agrees_def seenConfigMap_def)
  qed (simp add: assms(1,4))
  moreover have "written k (depsOf (viewOf c w)) deps'"
    using deps by (auto intro: deployed_written)
  ultimately show ?thesis
    using assms(1-5) by (simp add: effect_def Let_def)
qed

lemma reconcileNF_effect:
  assumes api: "api_server c" and L: "ownerRefsOnly L"
    and nf: "nfsOf (viewOf c w) k = Some nf" "keyOf (nf_Meta nf) = k"
    and keyed: "\<And>d. depsOf (viewOf c w) k = Some d \<Longrightarrow> keyOf (dep_Meta d) = k"
  shows "effect (create_of p) (Now c w) nf (viewOf c w) (viewOf c (snd (reconcileNF p L c nf ns w)))"
proof -
  obtain x where x: "findConfigMap c k w = (x, w)" and seen: "seenConfigMap x (cmsOf (viewOf c w) k)"
    using api_server.findConfigMap_seen [OF api] by blast
  obtain sf where sf: "findServiceOf p c k w = (sf, w)" "sf \<or> service_of p = None \<or> svcsOf (viewOf c w) k = None"
    using api_server.findServiceOf_view [OF api, of p] by (cases "service_of p"; cases "svcsOf (viewOf c w) k") auto
  note found = x sf(1) api_server.findDeployment_seen [OF api, of k w] nf(2)
  obtain out w1 nfs' deps1 where 1: "syncAndRoll (syncStatusWith (create_of p)) c nf (depsOf (viewOf c w) k) (snd x) w = (out, w1)"
    "viewOf c w1 = (viewOf c w)\<lparr>nfsOf := nfs', depsOf := deps1\<rparr>" "statusWritten (create_of p) (Now c w) nf (viewOf c w) nfs'"
    "deployed k (snd x) (depsOf (viewOf c w)) deps1"
    "goes_on out \<or> depsOf (viewOf c w) k = None \<longrightarrow> deps1 = depsOf (viewOf c w)"
    using api_server.syncAndRoll_effect [OF api nf refl keyed] by blast
  show ?thesis
  proof (cases out)
    case (Return r)
    then have "snd (reconcileNF p L c nf ns w) = w1"
      using 1(1) found by (simp add: reconcileNF_def)
    with 1 nf(2) seen show ?thesis
      by (intro effectI [where cms' = "cmsOf (viewOf c w)" and svcs' = "svcsOf (viewOf c w)"]) auto
  next
    case (Continue u)
    then have v1: "viewOf c w1 = (viewOf c w)\<lparr>nfsOf := nfs'\<rparr>"
      using 1(2,5) by simp
    obtain configs where configs: "smf_collectConfigRefs c ns (refs_of p nf) [] w1 = (configs, w1)"
      using api_server.collect_stays [OF api] by (metis prod.collapse)
    have same: "cmsOf (viewOf c w1) = cmsOf (viewOf c w)" "svcsOf (viewOf c w1) = svcsOf (viewOf c w)" "depsOf (viewOf c w1) = depsOf (viewOf c w)"
      by (simp_all add: v1)
    obtain r w2 cms' svcs' deps' where 2: "createAll p L c nf x sf (depsOf (viewOf c w) k \<noteq> None) configs w1 = (r, w2)"
      "viewOf c w2 = (viewOf c w1)\<lparr>cmsOf := cms', svcsOf := svcs', depsOf := deps'\<rparr>"
      "filled k (cmsOf (viewOf c w)) cms'" "filled k (svcsOf (viewOf c w)) svcs'"
      "deps' = depsOf (viewOf c w) \<or> (\<exists>cm. cms' k = Some cm \<and> deployed k (ResourceVersion (cm_Meta cm)) (depsOf (viewOf c w)) deps')"
      using createAll_effect [OF api L nf(2) [symmetric], of x w1 sf "depsOf (viewOf c w) k \<noteq> None" configs, unfolded same, OF seen sf(2) refl]
      by blast
    have "snd (reconcileNF p L c nf ns w) = w2"
      using 1(1) found Continue configs 2(1) by (simp add: reconcileNF_def)
    with 1(3) 2 nf(2) seen v1 show ?thesis
      by (intro effectI) auto
  qed
qed

end

end
