(* ===== verification/AMF_Status.thy ===== *)
theory AMF_Status
  imports StatusSync
begin

text \<open>
  \<open>controllers/nf/amf/status.go\<close>: the next status of an NFDeployment from the state of its
  deployment, and \<open>syncStatus\<close> of the AMF reconciler.
\<close>

definition amf_createNfDeploymentStatus :: createStatus where
  "amf_createNfDeploymentStatus now deployment nfDeployment =
     (let old = Conditions (nf_Status nfDeployment);
          status = (\<lambda>cs. \<lparr>ObservedGeneration = observedGeneration (Generation (dep_Meta deployment)),
            Conditions = cs\<rparr>);
          starting = mkCondition Reconciling ConditionFalse ''MinimumReplicasNotAvailable''
            ''NFDeployment pod(s) is(are) starting.'' now in
      if old = [] then (status (old @ [starting]), True)
      else (case dep_Conditions deployment of
          [] \<Rightarrow> (status old, False)
        | first # _ \<Rightarrow>
            if dc_Type first = DeploymentProgressing \<and> cond_Type (last old) = Reconciling
            then (status old, False)
            else if dc_Type first = cond_Type (last old) then (status old, False)
            else if dc_Type first = DeploymentAvailable
            then (status (old @ [mkCondition Available ConditionTrue ''MinimumReplicasAvailable''
                    ''NFDeployment pods are available.'' now]), True)
            else if dc_Type first = DeploymentProgressing then (status (old @ [starting]), True)
            else if dc_Type first = DeploymentReplicaFailure
            then (status (old @ [mkCondition Stalled ConditionFalse ''MinimumReplicasNotAvailable''
                    ''NFDeployment pod(s) is(are) failing.'' now]), True)
            else (status old, True)))"

definition amf_syncStatus :: "'w client \<Rightarrow> Deployment \<Rightarrow> NFDeployment \<Rightarrow> 'w \<Rightarrow> error option \<times> 'w" where
  "amf_syncStatus c deployment amfDeployment w =
     (case amf_createNfDeploymentStatus (Now c w) deployment amfDeployment of (status, update) \<Rightarrow>
        if update then
          (case UpdateStatus c (amfDeployment\<lparr>nf_Status := status\<rparr>) w of
             (Inl err, w') \<Rightarrow> (Some err, w')
           | (Inr _, w') \<Rightarrow> (None, w'))
        else (None, w))"

interpretation amf_status: status_creator amf_createNfDeploymentStatus "''NFDeployment''"
proof
  fix now d nf st update
  assume *: "amf_createNfDeploymentStatus now d nf = (st, update)"
  show "(map cond_Type (Conditions st), update) = nextHistory (history nf) (observed d)"
  proof (cases "Conditions (nf_Status nf)")
    case Nil
    with * show ?thesis
      by (auto simp: amf_createNfDeploymentStatus_def history_def Let_def)
  next
    case (Cons c cs)
    with * show ?thesis
      by (cases "dep_Conditions d")
        (auto simp: amf_createNfDeploymentStatus_def history_def observed_def samePhase_def phaseOf_def
          Let_def last_map split: if_splits)
  qed
  show "\<exists>cs. Conditions st = Conditions (nf_Status nf) @ cs \<and> set cs \<subseteq> vocabulary ''NFDeployment'' now"
    using * by (auto simp: amf_createNfDeploymentStatus_def vocabulary_def Let_def split: if_splits list.splits)
  show "ObservedGeneration st = observedGeneration (Generation (dep_Meta d))"
    using * by (auto simp: amf_createNfDeploymentStatus_def Let_def split: if_splits list.splits)
qed

section \<open>Properties\<close>

text \<open>
  The AMF status refines the abstract step on condition types: an empty history gets the
  starting condition, an unchanged phase writes nothing, a new phase is appended with the
  condition text for it, and the observed generation is the deployment's.
\<close>

theorem amf_status_refines:
  "case amf_createNfDeploymentStatus now d nf of (st, update) \<Rightarrow>
     (map cond_Type (Conditions st), update) = nextHistory (history nf) (observed d)
     \<and> (\<exists>cs. Conditions st = Conditions (nf_Status nf) @ cs \<and> set cs \<subseteq> vocabulary ''NFDeployment'' now)
     \<and> ObservedGeneration st = observedGeneration (Generation (dep_Meta d))"
proof (cases "amf_createNfDeploymentStatus now d nf")
  case (Pair st update)
  show ?thesis
    using amf_status.refines [OF Pair] amf_status.extends [OF Pair] amf_status.generation [OF Pair]
    by (simp add: Pair)
qed

text \<open>
  C20: a replica failure is never recognised as already reported, since the deployment calls it
  \<open>ReplicaFailure\<close> and the NFDeployment \<open>Stalled\<close>: every synchronisation against a failing
  deployment appends another condition and writes the status, without bound.
\<close>

theorem amf_replica_failure_grows:
  assumes "\<forall>td \<in> set tds. observed (snd td) = Some DeploymentReplicaFailure"
    and "operatorTypes (history nf)" and "history nf \<noteq> []"
  shows "history (syncRun amf_createNfDeploymentStatus nf tds) = history nf @ replicate (length tds) Stalled"
  by (rule amf_status.replica_failure_grows [OF assms])

theorem amf_replica_failure_grows_witness:
  "history (syncRun amf_createNfDeploymentStatus (startedNF ''nf'')
     [(1, seenDeployment DeploymentReplicaFailure), (2, seenDeployment DeploymentReplicaFailure)])
   = [Reconciling, Stalled, Stalled]"
  by (subst amf_replica_failure_grows) (simp_all add: operatorTypes_def numeral_2_eq_2)

end
