(* ===== verification/GoTemplate.thy ===== *)
theory GoTemplate
  imports ApiTypes
begin

text \<open>
  The part of \<open>text/template\<close> that the configuration templates use: text, fields, variables,
  \<open>index\<close>, \<open>range\<close> and the left trim marker \<open>{{-\<close>.  A template is the syntax tree of its
  source; \<open>trim\<close> is the parser's treatment of the markers and \<open>Execute\<close> the evaluation,
  which fails as a whole when one action fails.
\<close>

section \<open>Syntax\<close>

text \<open>
  \<open>.\<close>, \<open>$\<close>, \<open>$x\<close>, \<open>e.Field\<close> and \<open>(index e n)\<close>; text, \<open>{{e}}\<close>, and
  \<open>{{range $xs := e}} body {{end}}\<close>, whose two flags say that \<open>range\<close> and \<open>end\<close> carry a
  left trim marker.  With two variables the first one is the index.
\<close>

datatype expr = Dot | Root | Var string | Field expr string | Index expr nat

datatype node =
    Text string
  | Action expr
  | RangeNode bool "string list" expr "node list" bool

definition is_space :: "char \<Rightarrow> bool" where
  "is_space c \<longleftrightarrow> c = CHR '' '' \<or> c = char_of (9 :: nat) \<or> c = char_of (13 :: nat) \<or> c = nl"

definition trimRight :: "string \<Rightarrow> string" where
  "trimRight s = rev (dropWhile is_space (rev s))"

lemma trimRight_blanks [simp]:
  "trimRight [nl] = []" "trimRight (nl # ''  '') = []" "trimRight (nl # ''    '') = []"
  by (simp_all add: trimRight_def is_space_def nl_def)

fun opensTrimmed :: "node \<Rightarrow> bool" where
  "opensTrimmed (RangeNode b xs e body b') = b"
| "opensTrimmed _ = False"

text \<open>A marker removes the white space at the end of the text just before its action.\<close>

fun trim :: "node list \<Rightarrow> bool \<Rightarrow> node list" where
  "trim [] b = []"
| "trim (Text s # ns) b =
     Text (if (case ns of [] \<Rightarrow> b | n # _ \<Rightarrow> opensTrimmed n) then trimRight s else s) # trim ns b"
| "trim (Action e # ns) b = Action e # trim ns b"
| "trim (RangeNode o' xs e body b' # ns) b = RangeNode o' xs e (trim body b') b' # trim ns b"

section \<open>Evaluation\<close>

text \<open>
  The values a template sees: Go strings and integers, nil pointers (a non-nil pointer is
  followed, so it is the value itself), slices and structs.
\<close>

datatype "value" =
    VString string
  | VInt nat
  | VNil
  | VList "value list"
  | VStruct "(string \<times> value) list"

record env =
  dot :: "value"
  root :: "value"
  vars :: "(string \<times> value) list"

fun fieldOf :: "value \<Rightarrow> string \<Rightarrow> value go" where
  "fieldOf (VStruct fs) k = (case map_of fs k of None \<Rightarrow> Err TemplateError | Some v \<Rightarrow> Ret v)"
| "fieldOf _ k = Err TemplateError"

fun indexOf :: "value \<Rightarrow> nat \<Rightarrow> value go" where
  "indexOf (VList vs) i = (if i < length vs then Ret (vs ! i) else Err (IndexOutOfRange i))"
| "indexOf _ i = Err TemplateError"

fun eval :: "env \<Rightarrow> expr \<Rightarrow> value go" where
  "eval E Dot = Ret (dot E)"
| "eval E Root = Ret (root E)"
| "eval E (Var x) = (case map_of (vars E) x of None \<Rightarrow> Err TemplateError | Some v \<Rightarrow> Ret v)"
| "eval E (Field e k) = bind_go (eval E e) (\<lambda>v. fieldOf v k)"
| "eval E (Index e i) = bind_go (eval E e) (\<lambda>v. indexOf v i)"

text \<open>
  Printing: a nil pointer shows as \<open><nil>\<close>.  Slices and structs would be printed too, in a
  form no template here uses; the model leaves them out as a failure.
\<close>

fun printValue :: "value \<Rightarrow> string go" where
  "printValue (VString s) = Ret s"
| "printValue (VInt n) = Ret (itoa n)"
| "printValue VNil = Ret ''<nil>''"
| "printValue _ = Err TemplateError"

fun elements :: "value \<Rightarrow> value list go" where
  "elements (VList vs) = Ret vs"
| "elements _ = Err TemplateError"

text \<open>The variables of a \<open>range\<close> in one iteration; the element is also the new dot.\<close>

fun bindVars :: "string list \<Rightarrow> nat \<Rightarrow> value \<Rightarrow> env \<Rightarrow> env" where
  "bindVars [x] i v E = E\<lparr>dot := v, vars := (x, v) # vars E\<rparr>"
| "bindVars [k, x] i v E = E\<lparr>dot := v, vars := (x, v) # (k, VInt i) # vars E\<rparr>"
| "bindVars _ i v E = E\<lparr>dot := v\<rparr>"

fun execNodes :: "env \<Rightarrow> node list \<Rightarrow> string go" where
  "execNodes E [] = Ret []"
| "execNodes E (Text s # ns) = bind_go (execNodes E ns) (\<lambda>t. Ret (s @ t))"
| "execNodes E (Action e # ns) =
     bind_go (bind_go (eval E e) printValue) (\<lambda>s. bind_go (execNodes E ns) (\<lambda>t. Ret (s @ t)))"
| "execNodes E (RangeNode o' xs e body b' # ns) =
     bind_go (bind_go (eval E e) elements) (\<lambda>vs.
       bind_go (map_go (\<lambda>(i, v). execNodes (bindVars xs i v E) body) (enumerate 0 vs)) (\<lambda>ss.
         bind_go (execNodes E ns) (\<lambda>t. Ret (concat ss @ t))))"

text \<open>\<open>template.Must(template.New(..).Parse(source))\<close> followed by \<open>Execute(&buffer, values)\<close>.\<close>

definition Execute :: "node list \<Rightarrow> value \<Rightarrow> string go" where
  "Execute ns v = execNodes \<lparr>dot = v, root = v, vars = []\<rparr> (trim ns False)"

section \<open>When a template succeeds\<close>

definition succeeds :: "'a go \<Rightarrow> bool" where
  "succeeds g \<longleftrightarrow> (\<exists>x. g = Ret x)"

named_theorems succ_simps \<open>success of the evaluation, action by action\<close>

lemma succeeds_Ret [succ_simps, simp]: "succeeds (Ret x)"
  and succeeds_Err [succ_simps, simp]: "\<not> succeeds (Err e)"
  and succeeds_Panic [succ_simps, simp]: "\<not> succeeds (Panic p)"
  by (simp_all add: succeeds_def)

lemma succeeds_bind: "succeeds (bind_go m f) \<longleftrightarrow> (\<exists>x. m = Ret x \<and> succeeds (f x))"
  by (auto simp: succeeds_def go_inv)

lemma succeeds_bind_Ret [succ_simps]: "succeeds (bind_go m (\<lambda>x. Ret (f x))) \<longleftrightarrow> succeeds m"
  by (cases m) simp_all

lemma succeeds_map_go [succ_simps]: "succeeds (map_go f xs) \<longleftrightarrow> (\<forall>x\<in>set xs. succeeds (f x))"
  unfolding succeeds_def by (rule map_go_Ret_iff)

lemma succeeds_nodes [succ_simps]:
  "succeeds (execNodes E [])"
  "succeeds (execNodes E (Text s # ns)) \<longleftrightarrow> succeeds (execNodes E ns)"
  "succeeds (execNodes E (Action e # ns)) \<longleftrightarrow>
     succeeds (bind_go (eval E e) printValue) \<and> succeeds (execNodes E ns)"
  by (auto simp: succeeds_def go_inv)

lemma succeeds_range [succ_simps]:
  "succeeds (execNodes E (RangeNode o' xs e body b' # ns)) \<longleftrightarrow>
     (\<exists>vs. eval E e = Ret (VList vs)
       \<and> (\<forall>i < length vs. succeeds (execNodes (bindVars xs i (vs ! i) E) body)))
     \<and> succeeds (execNodes E ns)"
proof -
  have el: "bind_go m elements = Ret vs \<longleftrightarrow> m = Ret (VList vs)" for m vs
    by (cases m; simp; cases "case m of Ret v \<Rightarrow> v" rule: elements.cases) auto
  have all: "(\<forall>p\<in>set (enumerate 0 vs). succeeds (case p of (i, v) \<Rightarrow> execNodes (bindVars xs i v E) body))
    \<longleftrightarrow> (\<forall>i < length vs. succeeds (execNodes (bindVars xs i (vs ! i) E) body))" for vs
    by (simp add: all_set_conv_all_nth nth_enumerate_eq)
  have rest: "succeeds (bind_go m (\<lambda>ss. bind_go (execNodes E ns) (\<lambda>t. Ret (concat ss @ t))))
    \<longleftrightarrow> succeeds m \<and> succeeds (execNodes E ns)" for m
    by (cases m) (simp_all add: succ_simps)
  show ?thesis
    by (auto simp: succeeds_bind [of "bind_go (eval E e) elements"] el rest succeeds_map_go all)
qed

text \<open>A loop whose body succeeds on every element: the concatenation of the bodies' texts.\<close>

lemma execNodes_range_indexed:
  assumes "eval E e = Ret (VList (map g xs))"
    and "\<And>i x. x \<in> set xs \<Longrightarrow> execNodes (bindVars vs i (g x) E) body = Ret (f i x)"
  shows "execNodes E (RangeNode b vs e body b' # ns) =
    bind_go (execNodes E ns) (\<lambda>t. Ret (concat (map (case_prod f) (enumerate 0 xs)) @ t))"
proof -
  have "map_go (\<lambda>(i, v). execNodes (bindVars vs i v E) body) (enumerate k (map g xs)) = Ret (map (case_prod f) (enumerate k xs))" for k
    using assms(2) by (induction xs arbitrary: k) auto
  then show ?thesis
    by (simp add: assms(1))
qed

lemma execNodes_range:
  assumes "eval E e = Ret (VList (map g xs))"
    and "\<And>i x. x \<in> set xs \<Longrightarrow> execNodes (bindVars vs i (g x) E) body = Ret (f x)"
  shows "execNodes E (RangeNode b vs e body b' # ns) =
    bind_go (execNodes E ns) (\<lambda>t. Ret (concat (map f xs) @ t))"
proof -
  have "map (\<lambda>(i, y). f y) (enumerate k xs) = map f xs" for k
    by (induction xs arbitrary: k) simp_all
  then show ?thesis
    using execNodes_range_indexed [of E e g xs vs body "\<lambda>i. f"] assms by simp
qed

lemma execNodes_not_Panic: "execNodes E ns \<noteq> Panic p"
proof -
  have ev: "eval E e \<noteq> Panic p" for E e
  proof (induction e)
    case (Field e k)
    have "fieldOf v k \<noteq> Panic p" for v
      by (cases v) (auto split: option.splits)
    with Field show ?case by (auto simp: go_inv)
  next
    case (Index e i)
    have "indexOf v i \<noteq> Panic p" for v
      by (cases v) auto
    with Index show ?case by (auto simp: go_inv)
  qed (auto split: option.splits)
  have pr: "printValue v \<noteq> Panic p" and el: "elements v \<noteq> Panic p" for v
    by (cases v; simp)+
  show ?thesis
  proof (induction E ns rule: execNodes.induct)
    case (4 E o' xs e body b' ns)
    then show ?case by (auto simp: go_inv ev el dest!: map_go_Panic)
  qed (auto simp: go_inv ev pr)
qed

lemma Execute_not_Panic: "Execute ns v \<noteq> Panic p"
  by (simp add: Execute_def execNodes_not_Panic)

section \<open>The API objects as template values\<close>

definition poolValue :: "Pool \<Rightarrow> value" where
  "poolValue p = VStruct [(''Prefix'', VString (Prefix p))]"

definition dataNetworkValue :: "DataNetwork \<Rightarrow> value" where
  "dataNetworkValue d = VStruct
     [(''Name'', (case dn_Name d of None \<Rightarrow> VNil | Some s \<Rightarrow> VString s)),
      (''Pool'', VList (map poolValue (dn_Pool d)))]"

definition networkInstanceValue :: "NetworkInstance \<Rightarrow> value" where
  "networkInstanceValue n = VStruct
     [(''Name'', VString (ni_Name n)),
      (''Interfaces'', VList (map VString (ni_Interfaces n))),
      (''DataNetworks'', VList (map dataNetworkValue (DataNetworks n)))]"

lemma fieldOf_values [simp]:
  "fieldOf (poolValue p) ''Prefix'' = Ret (VString (Prefix p))"
  "fieldOf (dataNetworkValue d) ''Name'' = Ret (case dn_Name d of None \<Rightarrow> VNil | Some s \<Rightarrow> VString s)"
  "fieldOf (dataNetworkValue d) ''Pool'' = Ret (VList (map poolValue (dn_Pool d)))"
  "fieldOf (networkInstanceValue n) ''Interfaces'' = Ret (VList (map VString (ni_Interfaces n)))"
  "fieldOf (networkInstanceValue n) ''DataNetworks'' = Ret (VList (map dataNetworkValue (DataNetworks n)))"
  by (simp_all add: poolValue_def dataNetworkValue_def networkInstanceValue_def)

lemma printValue_name [succ_simps]:
  "succeeds (printValue (case x of None \<Rightarrow> VNil | Some s \<Rightarrow> VString s))"
  by (cases x) simp_all

declare indexOf.simps [simp del]

lemma indexOf_map [simp]: "xs \<noteq> [] \<Longrightarrow> indexOf (VList (map g xs)) 0 = Ret (g (hd xs))"
  by (simp add: indexOf.simps hd_conv_nth)

lemma succeeds_index [succ_simps]:
  "succeeds (bind_go (bind_go (indexOf (VList (map poolValue ps)) i) (\<lambda>v. fieldOf v ''Prefix'')) printValue)
     \<longleftrightarrow> i < length ps"
  "succeeds (bind_go (indexOf (VList (map VString xs)) i) printValue) \<longleftrightarrow> i < length xs"
  by (simp_all add: indexOf.simps)

text \<open>A network instance with one data network, for the witnesses.\<close>

definition exampleInstance :: "string list \<Rightarrow> NetworkInstance" where
  "exampleInstance pools = \<lparr>ni_Name = ''vpc-internet'', ni_Interfaces = [''n6''],
     DataNetworks = [\<lparr>dn_Name = Some ''internet'', dn_Pool = map (\<lambda>p. \<lparr>Prefix = p\<rparr>) pools\<rparr>]\<rparr>"

lemma exampleInstance_sel [simp]:
  "ni_Interfaces (exampleInstance pools) = [''n6'']"
  "DataNetworks (exampleInstance pools) =
    [\<lparr>dn_Name = Some ''internet'', dn_Pool = map (\<lambda>p. \<lparr>Prefix = p\<rparr>) pools\<rparr>]"
  by (simp_all add: exampleInstance_def)

end
