(* ===== verification/AMF_Templates.thy ===== *)
theory AMF_Templates
  imports GoTemplate
begin

text \<open>
  \<open>controllers/nf/amf/templates.go\<close>: the AMF configuration template and its rendering.
\<close>

section \<open>The template\<close>

definition amf_configurationTemplate_text1 :: string where
  "amf_configurationTemplate_text1 =
     lines [
      '''',
      ''info:'',
      '''',
      ''  version: 1.0.9'',
      ''  description: AMF initial local configuration'',
      '''',
      ''configuration:'',
      '''',
      ''  ngapIpList:''] @ ''    - ''"

definition amf_configurationTemplate_text2 :: string where
  "amf_configurationTemplate_text2 =
     lines [
      '''',
      ''    bindingIPv4: 0.0.0.0  # IP used to bind the service'',
      ''    port: 80'',
      ''    tls:'',
      ''      key: cert/amf.key'',
      ''      pem: cert/amf.pem'',
      '''',
      ''  nrfUri: http://nrf-nnrf:8000'',
      ''  nrfCertPem: cert/nrf.pem'',
      '''',
      ''  amfName: AMF'',
      '''',
      ''  serviceNameList:'',
      ''  - namf-comm'',
      ''  - namf-evts'',
      ''  - namf-mt'',
      ''  - namf-loc'',
      ''  - namf-oam'',
      '''',
      ''  servedGuamiList:'',
      ''  - plmnId:'',
      ''      mcc: 208'',
      ''      mnc: 93'',
      ''    amfId: cafe00'',
      '''',
      ''  supportTaiList:'',
      ''  - plmnId:'',
      ''      mcc: 208'',
      ''      mnc: 93'',
      ''    tac: 000001'',
      '''',
      ''  plmnSupportList:'',
      ''  - plmnId:'',
      ''      mcc: 208'',
      ''      mnc: 93'',
      ''    snssaiList:'',
      ''    - sst: 1'',
      ''      sd: 010203'',
      ''    - sst: 1'',
      ''      sd: 112233'',
      '''',
      ''  supportDnnList:'',
      ''  - internet'',
      '''',
      ''  security:'',
      ''    integrityOrder:'',
      ''    - NIA2'',
      ''    cipheringOrder:'',
      ''    - NEA0'',
      '''',
      ''  networkName:'',
      ''    full: free5GC'',
      ''    short: free'',
      '''',
      ''  locality: area1 # Name of the location where a set of AMF, SMF and UPFs are located'',
      '''',
      ''  ngapIE: # Optional NGAP IEs'',
      ''    mobilityRestrictionList: # Mobility Restriction List IE, refer to TS 38.413'',
      ''      enable: true # append this IE in related message or not'',
      ''    maskedIMEISV: # Masked IMEISV IE, refer to TS 38.413'',
      ''      enable: true # append this IE in related message or not'',
      ''    redirectionVoiceFallback: # Redirection Voice Fallback IE, refer to TS 38.413'',
      ''      enable: false # append this IE in related message or not'',
      ''  '',
      ''  nasIE: # Optional NAS IEs'',
      ''    networkFeatureSupport5GS: # 5gs Network Feature Support IE, refer to TS 24.501'',
      ''      enable: true # append this IE in Registration accept or not'',
      ''      length: 1 # IE content length (uinteger, range: 1~3)'',
      ''      imsVoPS: 0 # IMS voice over PS session indicator (uinteger, range: 0~1)'',
      ''      emc: 0 # Emergency service support indicator for 3GPP access (uinteger, range: 0~3)'',
      ''      emf: 0 # Emergency service fallback indicator for 3GPP access (uinteger, range: 0~3)'',
      ''      iwkN26: 0 # Interworking without N26 interface indicator (uinteger, range: 0~1)'',
      ''      mpsi: 0 # MPS indicator (uinteger, range: 0~1)'',
      ''      emcN3: 0 # Emergency service support indicator for Non-3GPP access (uinteger, range: 0~1)'',
      ''      mcsi: 0 # MCS indicator (uinteger, range: 0~1)'',
      '''',
      ''  t3502Value: 720'',
      ''  t3512Value: 3600'',
      ''  non3gppDeregistrationTimerValue: 3240'',
      '''',
      ''  # retransmission timer for paging message'',
      ''  t3513:'',
      ''    enable: true     # true or false'',
      ''    expireTime: 6s   # default is 6 seconds'',
      ''    maxRetryTimes: 4 # the max number of retransmission'',
      '''',
      ''  # retransmission timer for NAS Registration Accept message'',
      ''  t3522:'',
      ''    enable: true     # true or false'',
      ''    expireTime: 6s   # default is 6 seconds'',
      ''    maxRetryTimes: 4 # the max number of retransmission'',
      '''',
      ''  # retransmission timer for NAS Registration Accept message'',
      ''  t3550:'',
      ''    enable: true     # true or false'',
      ''    expireTime: 6s   # default is 6 seconds'',
      ''    maxRetryTimes: 4 # the max number of retransmission'',
      '''',
      ''  # retransmission timer for NAS Configuration Update Command message'',
      ''  t3555:'',
      ''    enable: true     # true or false'',
      ''    expireTime: 6s   # default is 6 seconds'',
      ''    maxRetryTimes: 4 # the max number of retransmission'',
      '''',
      ''  # retransmission timer for NAS Authentication Request/Security Mode Command message'',
      ''  t3560:'',
      ''    enable: true     # true or false'',
      ''    expireTime: 6s   # default is 6 seconds'',
      ''    maxRetryTimes: 4 # the max number of retransmission'',
      '''',
      ''  # retransmission timer for NAS Notification message'',
      ''  t3565:'',
      ''    enable: true     # true or false'',
      ''    expireTime: 6s   # default is 6 seconds'',
      ''    maxRetryTimes: 4 # the max number of retransmission'',
      '''',
      ''  t3570:'',
      ''    enable: true     # true or false'',
      ''    expireTime: 6s   # default is 6 seconds'',
      ''    maxRetryTimes: 4 # the max number of retransmission'',
      '''',
      ''  sctp: # set the sctp server setting <optinal>, once this field is set, please also add maxInputStream, maxOsStream, maxAttempts, maxInitTimeOut'',
      ''    numOstreams: 3 # the maximum out streams of each sctp connection'',
      ''    maxInstreams: 5 # the maximum in streams of each sctp connection'',
      ''    maxAttempts: 2 # the maximum attempts of each sctp connection'',
      ''    maxInitTimeout: 2 # the maximum init timeout of each sctp connection'',
      ''  defaultUECtxReq: false # the default value of UE Context Request to decide when triggering Initial Context Setup procedure'',
      '''',
      ''  # Metrics configuration'',
      ''  # If using the same bindingIPv4 as the sbi server, make sure that the ports are different'',
      ''  metrics:'',
      ''    enable: false # (Optional, default false)'',
      ''    scheme: http # (Required) the protocol for metrics (http or https, default https)''] @ ''    bindingIPv4: ''"

definition amf_configurationTemplate_text3 :: string where
  "amf_configurationTemplate_text3 =
     lines [
      '' # (Required) IP used to bind the metrics endpoint (default 0.0.0.0)'',
      ''    port: 9091 # (Optional, default 9091) port used to bind the service'',
      ''    tls: # (Optional) the local path of TLS key (Could be the same as the sbi ones)'',
      ''      pem: cert/amf.pem # AMF TLS Certificate'',
      ''      key: cert/amf.key # AMF TLS Private key'',
      ''    namespace: free5gc # (Optional, default free5gc)'',
      '''',
      ''logger: # log output setting'',
      ''  enable: true # true or false'',
      ''  level: info # how detailed to output, value: trace, debug, info, warn, error, fatal, panic'',
      ''  reportCaller: false # enable the caller report or not, value: true or false'',
      ''''] @ '' ''"

definition amf_configurationTemplate :: "node list" where
  "amf_configurationTemplate = [
    Text amf_configurationTemplate_text1,
    Action (Field Dot ''N2_IP''),
    Text (lines ['''', ''  '', ''  ngapPort: 38412'', '''', ''  sbi:'', ''    scheme: http''] @ ''    registerIPv4: ''),
    Action (Field Dot ''SVC_NAME''),
    Text amf_configurationTemplate_text2,
    Action (Field Dot ''N2_IP''),
    Text amf_configurationTemplate_text3]"

section \<open>Rendering\<close>

record amf_templateValues =
  amf_SVC_NAME :: string
  amf_N2_IP :: string

definition amf_values :: "amf_templateValues \<Rightarrow> value" where
  "amf_values v = VStruct [(''SVC_NAME'', VString (amf_SVC_NAME v)), (''N2_IP'', VString (amf_N2_IP v))]"

definition amf_renderConfigurationTemplate :: "amf_templateValues \<Rightarrow> string go" where
  "amf_renderConfigurationTemplate v = Execute amf_configurationTemplate (amf_values v)"

text \<open>
  The text it renders: the N2 address in the NGAP list and in the metrics binding, the
  instance name as the address the SBI is registered under.
\<close>

definition amf_configuration :: "string \<Rightarrow> string \<Rightarrow> string" where
  "amf_configuration name n2ip =
     amf_configurationTemplate_text1 @ n2ip @
     lines ['''', ''  '', ''  ngapPort: 38412'', '''', ''  sbi:'', ''    scheme: http''] @ ''    registerIPv4: '' @ name @
     amf_configurationTemplate_text2 @ n2ip @
     amf_configurationTemplate_text3"

lemma amf_render_text:
  "amf_renderConfigurationTemplate v = Ret (amf_configuration (amf_SVC_NAME v) (amf_N2_IP v))"
  by (simp add: amf_renderConfigurationTemplate_def Execute_def amf_configurationTemplate_def amf_values_def
      amf_configuration_def)

end
