(* ===== verification/AMF_Resources.thy ===== *)
theory AMF_Resources
  imports AMF_Templates NetworkFunction StatusSync StatusSync StatusSync
begin

text \<open>
  \<open>controllers/nf/amf/resources.go\<close>: the ConfigMap, Service and Deployment of an AMF.
\<close>

section \<open>Definitions\<close>

definition amf_createResourceRequirements ::
  "NFDeploymentSpec \<Rightarrow> (int \<times> ResourceRequirements) go" where
  "amf_createResourceRequirements spec =
     bind_go (deref (Capacity spec)) (\<lambda>capacity.
       let (cpuLimit, memoryLimit, cpuRequest, memoryRequest) =
             (if MaxSubscribers capacity > 1000
              then (''300m'', ''256Mi'', ''300m'', ''256Mi'')
              else (''150m'', ''128Mi'', ''150m'', ''128Mi'')) in
       Ret (1, \<lparr>
         Limits = [''cpu'' \<mapsto> MustParse cpuLimit, ''memory'' \<mapsto> MustParse memoryLimit],
         Requests = [''cpu'' \<mapsto> MustParse cpuRequest, ''memory'' \<mapsto> MustParse memoryRequest]\<rparr>))"

definition amf_createNetworkAttachmentDefinitionNetworks ::
  "lib \<Rightarrow> string \<Rightarrow> NFDeploymentSpec \<Rightarrow> string go" where
  "amf_createNetworkAttachmentDefinitionNetworks L templateName spec =
     CreateNetworkAttachmentDefinitionNetworks L templateName
       [(''n2'', GetInterfaceConfigs (Interfaces spec) ''n2'')]"

definition amf_createDeployment :: "lib \<Rightarrow> string \<Rightarrow> NFDeployment \<Rightarrow> Deployment go" where
  "amf_createDeployment L configMapVersion amfDeployment =
     (let namespace = Namespace (nf_Meta amfDeployment);
          instanceName = Name (nf_Meta amfDeployment);
          spec = nf_Spec amfDeployment in
      bind_go (amf_createResourceRequirements spec) (\<lambda>(replicas, resourceRequirements).
      bind_go (amf_createNetworkAttachmentDefinitionNetworks L instanceName spec) (\<lambda>networks.
      Ret \<lparr>
        dep_Meta = zeroMeta\<lparr>Name := instanceName, Namespace := namespace\<rparr>,
        dep_Spec = \<lparr>
          Replicas = replicas,
          MatchLabels = [''name'' \<mapsto> instanceName],
          Template = \<lparr>
            pod_Meta = zeroMeta\<lparr>
              Annotations := Some [ConfigMapVersionAnnotation \<mapsto> configMapVersion,
                NetworksAnnotation \<mapsto> networks],
              Labels := Some [''name'' \<mapsto> instanceName]\<rparr>,
            pod_Spec = \<lparr>
              Containers = [\<lparr>
                c_Name = ''amf'',
                Image = AMFImage,
                ImagePullPolicy = ''Always'',
                CapabilitiesAdd = [''NET_ADMIN''],
                c_Ports = [\<lparr>port_Name = ''n2'', port_Protocol = ''UDP'', port_ContainerPort = 8805\<rparr>],
                Command = [''./amf''],
                Args = [''-c'', ''./config/amfcfg.yaml''],
                VolumeMounts = [\<lparr>MountPath = ''/free5gc/config/'', vm_Name = ''amf-volume''\<rparr>],
                Resources = resourceRequirements\<rparr>],
              DNSPolicy = ''ClusterFirst'',
              RestartPolicy = ''Always'',
              Volumes = [\<lparr>
                vol_Name = ''amf-volume'',
                ProjectedSources = [\<lparr>
                  proj_Name = instanceName,
                  Items = [
                    \<lparr>ktp_Key = ''amfcfg.yaml'', ktp_Path = ''amfcfg.yaml'', ktp_Mode = None\<rparr>]\<rparr>]\<rparr>]\<rparr>\<rparr>\<rparr>,
        dep_Conditions = []\<rparr>)))"

definition amf_createService :: "NFDeployment \<Rightarrow> Service" where
  "amf_createService amfDeployment =
     (let namespace = Namespace (nf_Meta amfDeployment);
          instanceName = Name (nf_Meta amfDeployment);
          labels = [''name'' \<mapsto> instanceName] in
      \<lparr>svc_Meta = zeroMeta\<lparr>Name := instanceName, Namespace := namespace\<rparr>,
       svc_Selector = labels,
       svc_Ports = [\<lparr>sp_Name = ''http'', sp_Protocol = ''TCP'', sp_Port = 80, sp_TargetPort = 80\<rparr>],
       svc_Type = ''ClusterIP''\<rparr>)"

definition amf_createConfigMap :: "NFDeployment \<Rightarrow> ConfigMap go" where
  "amf_createConfigMap amfDeployment =
     (let namespace = Namespace (nf_Meta amfDeployment);
          instanceName = Name (nf_Meta amfDeployment) in
      bind_go (GetFirstInterfaceConfigIPv4 (Interfaces (nf_Spec amfDeployment)) ''n2'') (\<lambda>n2ip.
      bind_go (amf_renderConfigurationTemplate \<lparr>amf_SVC_NAME = instanceName, amf_N2_IP = n2ip\<rparr>) (\<lambda>configuration.
      Ret \<lparr>cm_APIVersion = ''v1'', cm_Kind = ''ConfigMap'',
        cm_Meta = zeroMeta\<lparr>Namespace := namespace, Name := instanceName\<rparr>,
        Data = [''amfcfg.yaml'' \<mapsto> configuration]\<rparr>)))"

section \<open>The contract of the resources\<close>

lemma amf_networks_eq:
  "amf_createNetworkAttachmentDefinitionNetworks L (Name (nf_Meta nf)) (nf_Spec nf) =
     CreateNetworkAttachmentDefinitionNetworks L (Name (nf_Meta nf)) (networksOf [''n2''] nf)"
  by (simp add: amf_createNetworkAttachmentDefinitionNetworks_def networksOf_def)

lemma amf_requirements_shape:
  "amf_createResourceRequirements spec = Ret (n, r) \<Longrightarrow> n = 1 \<and> (\<exists>cpu memory. r =
     \<lparr>Limits = [''cpu'' \<mapsto> cpu, ''memory'' \<mapsto> memory],
      Requests = [''cpu'' \<mapsto> cpu, ''memory'' \<mapsto> memory]\<rparr>)"
  by (cases "Capacity spec") (auto simp: amf_createResourceRequirements_def Let_def split: if_splits)

lemma amf_requirements_Ret:
  assumes "amf_createResourceRequirements spec = Ret (n, r)"
  shows "n = 1 \<and> Limits r = Requests r \<and> dom (Limits r) = {''cpu'', ''memory''}"
proof -
  from amf_requirements_shape [OF assms] obtain cpu memory where "n = 1"
    and r: "r = \<lparr>Limits = [''cpu'' \<mapsto> cpu, ''memory'' \<mapsto> memory],
      Requests = [''cpu'' \<mapsto> cpu, ''memory'' \<mapsto> memory]\<rparr>" by blast
  then show ?thesis by (simp only: r ResourceRequirements.simps resources_dom)
qed

lemma amf_requirements_succeeds: "(\<exists>r. amf_createResourceRequirements spec = Ret r) \<longleftrightarrow> Capacity spec \<noteq> None"
  by (cases "Capacity spec") (auto simp: amf_createResourceRequirements_def Let_def split: if_splits)

interpretation amf_resources: network_function
  "\<lambda>_ :: lib \<times> Config list. amf_createConfigMap" amf_createDeployment "[''n2'']"
proof
  fix nf cm x L v d e
  show "amf_createConfigMap nf = Ret cm \<Longrightarrow> namedLike nf (cm_Meta cm)"
    by (auto simp: amf_createConfigMap_def namedLike_def zeroMeta_def go_inv Let_def split: if_splits prod.splits)
  show "amf_createDeployment L v nf = Ret d \<Longrightarrow> namedLike nf (dep_Meta d) \<and> dep_Conditions d = []"
    by (auto simp: amf_createDeployment_def namedLike_def zeroMeta_def go_inv Let_def split: prod.splits)
  show "amf_createDeployment L v nf = Ret d \<Longrightarrow> \<exists>annot.
      CreateNetworkAttachmentDefinitionNetworks L (Name (nf_Meta nf)) (networksOf [''n2''] nf) = Ret annot
      \<and> templateAnnotations d = Some [ConfigMapVersionAnnotation \<mapsto> v, NetworksAnnotation \<mapsto> annot]"
    by (auto simp: amf_createDeployment_def amf_networks_eq templateAnnotations_def go_inv Let_def split: prod.splits)
  show "selectsOwnPods d \<and> guaranteed d" if made: "amf_createDeployment L v nf = Ret d"
  proof
    from made obtain n r where req: "amf_createResourceRequirements (nf_Spec nf) = Ret (n, r)"
      and res: "\<forall>container \<in> set (Containers (pod_Spec (Template (dep_Spec d)))). Resources container = r"
      by (auto simp: amf_createDeployment_def go_inv Let_def)
    show "guaranteed d"
      using amf_requirements_Ret [OF req] res unfolding guaranteed_def by metis
    show "selectsOwnPods d"
      using made by (auto simp: amf_createDeployment_def selectsOwnPods_def go_inv Let_def split: prod.splits)
  qed
  show "amf_createDeployment L v nf = Ret d \<Longrightarrow> amf_createConfigMap nf = Ret cm \<Longrightarrow> volumesResolve d cm"
    by (auto simp: amf_createDeployment_def amf_createConfigMap_def volumesResolve_def go_inv Let_def
        split: prod.splits if_splits)
  show "amf_createDeployment L v nf \<noteq> Err e \<or> (\<exists>n. e = MissingGateway n)"
    using Create_Err [of L "Name (nf_Meta nf)" "networksOf [''n2''] nf" e]
    by (cases "Capacity (nf_Spec nf)")
      (auto simp: amf_createDeployment_def amf_networks_eq amf_createResourceRequirements_def go_inv Let_def
        split: prod.splits if_splits)
  show "(\<exists>d. amf_createDeployment L v nf = Ret d) \<longleftrightarrow>
      Capacity (nf_Spec nf) \<noteq> None \<and> attachable [''n2''] nf"
    using amf_requirements_succeeds [of "nf_Spec nf"]
      Create_Ret_iff [of L "Name (nf_Meta nf)" "networksOf [''n2''] nf"]
    by (auto simp: amf_createDeployment_def amf_networks_eq allHaveGateways_networksOf go_inv Let_def
        split: prod.splits)
qed

section \<open>Properties\<close>




end
