(* ===== verification/AMF_Reconciler.thy ===== *)
theory AMF_Reconciler
  imports Creation AMF_Status AMF_Resources
begin

text \<open>
  \<open>controllers/nf/amf/reconciler.go\<close>: one reconcile of an AMF.
\<close>

section \<open>Definitions\<close>

definition amf_Reconcile :: "lib \<Rightarrow> 'w client \<Rightarrow> NamespacedName \<Rightarrow> 'w \<Rightarrow> Result go \<times> 'w" where
  "amf_Reconcile L c req w =
     (case GetNFDeployment c req w of
        (Inl err, w0) \<Rightarrow> (if IsNotFound err then Ret emptyResult else Err err, w0)
      | (Inr amfDeployment, w0) \<Rightarrow>
          (let namespace = Namespace (nf_Meta amfDeployment);
               name = Name (nf_Meta amfDeployment) in
           case findConfigMap c (namespace, name) w0 of ((configMapFound, configMapVersion), w1) \<Rightarrow>
           case findService c (namespace, name) w1 of (serviceFound, w2) \<Rightarrow>
           case findDeployment c (namespace, name) w2 of (currentDeployment, w3) \<Rightarrow>
           andThen (syncAndRoll amf_syncStatus c amfDeployment currentDeployment configMapVersion w3) (\<lambda>_ w4.
           andThen (ensureConfigMap L c amfDeployment (amf_createConfigMap amfDeployment)
             configMapFound configMapVersion w4) (\<lambda>configMapVersion w5.
           andThen (ensureService L c amfDeployment (amf_createService amfDeployment) serviceFound w5) (\<lambda>_ w6.
           ensureDeployment L c amfDeployment (amf_createDeployment L configMapVersion amfDeployment)
             (currentDeployment \<noteq> None) (\<lambda>deployment w. w) w6)))))"

section \<open>The shared reconcile\<close>

text \<open>The AMF's parts: no config references, a Service, and a found Deployment is left alone.\<close>

definition amf_parts :: parts where
  "amf_parts = \<lparr>create_of = amf_createNfDeploymentStatus, refs_of = (\<lambda>nf. []),
     configMap_of = (\<lambda>L nf refs. amf_createConfigMap nf), service_of = Some amf_createService,
     deployment_of = amf_createDeployment, overwrites = False\<rparr>"

lemma amf_parts_sel [simp]:
  "create_of amf_parts = amf_createNfDeploymentStatus" "refs_of amf_parts nf = []"
  "configMap_of amf_parts = (\<lambda>L nf refs. amf_createConfigMap nf)" "service_of amf_parts = Some amf_createService"
  "deployment_of amf_parts = amf_createDeployment" "overwrites amf_parts = False"
  by (simp_all add: amf_parts_def)

lemma amf_syncStatus_with: "amf_syncStatus = syncStatusWith amf_createNfDeploymentStatus"
  by (intro ext) (simp add: amf_syncStatus_def syncStatusWith_def)

lemma amf_Reconcile_with: "amf_Reconcile = reconcileWith amf_parts"
  by (intro ext)
    (simp add: amf_Reconcile_def reconcileWith_def reconcileNF_def createAll_def createRest_def [abs_def] findServiceOf_def
      ensureServiceOf_def [abs_def] whenFound_def [abs_def] amf_syncStatus_with keyOf_def Let_def case_prod_beta
      cong: sum.case_cong)

interpretation amf_reconciler: reconciler amf_parts "[''n2'']"
proof (rule reconciler.intro)
  show "network_function (\<lambda>x nf. configMap_of amf_parts (fst x) nf (snd x)) (deployment_of amf_parts) [''n2'']"
    using amf_resources.network_function_axioms by simp
  show "reconciler_axioms amf_parts"
    by unfold_locales (auto simp: amf_createService_def namedLike_def Let_def)
qed

section \<open>An example\<close>

text \<open>An AMF with one N2 interface, alone in a cluster that has its network.\<close>

definition exampleAMF :: NFDeployment where
  "exampleAMF = exampleNF ''amf.free5gc.io'' [exampleInterface ''n2''] []"

definition exampleAMFStore :: store where
  "exampleAMFStore = emptyStore\<lparr>nfs := [(''ns'', ''nf'') \<mapsto> exampleAMF], nads := (\<lambda>k. k = (''ns'', ''nf-n2''))\<rparr>"

lemma exampleAMF_sel [simp]:
  "keyOf (nf_Meta exampleAMF) = (''ns'', ''nf'')" "Name (nf_Meta exampleAMF) = ''nf''"
  "Namespace (nf_Meta exampleAMF) = ''ns''" "Interfaces (nf_Spec exampleAMF) = [exampleInterface ''n2'']"
  "\<exists>y. Capacity (nf_Spec exampleAMF) = Some y" "nf_Status exampleAMF = \<lparr>ObservedGeneration = 0, Conditions = []\<rparr>"
  by (simp_all add: exampleAMF_def exampleNF_def keyOf_def)

lemma exampleAMF_attachable: "attachable [''n2''] exampleAMF"
  by (simp add: attachable_def)

lemma exampleAMF_networks: "networksOf [''n2''] exampleAMF = [(''n2'', [exampleInterface ''n2''])]"
  by (simp add: networksOf_def)

lemma exampleAMF_plain: "plainNetworks ''nf'' (networksOf [''n2''] exampleAMF)"
  by (simp add: exampleAMF_networks plainNetworks_def)

lemma exampleAMF_expected:
  "expectedNetworks ''nf'' (networksOf [''n2''] exampleAMF) =
     [\<lparr>net_Name = ''nf-n2'', net_Interface = ''n2'', net_IP = '''', net_Gateway = ''''\<rparr>]"
  by (simp add: exampleAMF_networks expectedNetworks_def mapSlice_def CreateNetworkAttachmentDefinitionName_def)

lemma exampleAMF_configMap: "\<exists>cm. amf_createConfigMap exampleAMF = Ret cm"
  by (simp add: amf_createConfigMap_def GetFirstInterfaceConfigIPv4_def ParseCIDR_example IPString_example
      Let_def amf_render_text del: As16.simps)

lemma exampleAMFStore_sel [simp]:
  "nfs exampleAMFStore = [(''ns'', ''nf'') \<mapsto> exampleAMF]" "cms exampleAMFStore = Map.empty"
  "svcs exampleAMFStore = Map.empty" "deps exampleAMFStore = Map.empty"
  "nads exampleAMFStore = (\<lambda>k. k = (''ns'', ''nf-n2''))"
  by (simp_all add: exampleAMFStore_def emptyStore_def)

text \<open>The run of this example, call by call.\<close>

lemma exampleAMF_run:
  "\<exists>d w' tr. amf_Reconcile (exampleLib undefined) (logged storeClient) (''ns'', ''nf'') (exampleAMFStore, [])
      = (Ret \<lparr>Requeue = False, RequeueAfter = 30 * Second\<rparr>, (w', tr)) \<and> DidCreateDeployment d True \<in> set tr"
proof -
  let ?L = "exampleLib undefined"
  obtain cm where cm: "amf_createConfigMap exampleAMF = Ret cm"
    using exampleAMF_configMap by blast
  have "\<forall>v. \<exists>d. amf_createDeployment ?L v exampleAMF = Ret d"
    using amf_resources.deployment_succeeds exampleAMF_attachable by simp
  then obtain d where d: "\<And>v. amf_createDeployment ?L v exampleAMF = Ret (d v)"
    by metis
  have keys: "keyOf (cm_Meta cm) = (''ns'', ''nf'')" "\<And>v. keyOf (dep_Meta (d v)) = (''ns'', ''nf'')"
    "keyOf (svc_Meta (amf_createService exampleAMF)) = (''ns'', ''nf'')"
    using amf_resources.configMap_key [OF cm] amf_resources.deployment_unowned [OF d]
    by (simp_all add: amf_createService_def keyOf_def Let_def)
  have val: "ValidateNetworkAttachmentDefinitions (logged storeClient) (d v) s =
      validateNetworks (logged storeClient) ''ns''
        [\<lparr>net_Name = ''nf-n2'', net_Interface = ''n2'', net_IP = '''', net_Gateway = ''''\<rparr>] s" for v s
    using amf_resources.deployment_validate [OF d, where c = "logged storeClient" and w = s] exampleAMF_plain
    by (simp add: exampleAMF_expected)
  show ?thesis
    by (simp add: amf_Reconcile_def findConfigMap_def findService_def findDeployment_def syncAndRoll_def
        ensureConfigMap_def ensureService_def ensureDeployment_def record_call_def cm d val keys
        storeCreateConfigMap_def storeCreateService_def storeCreateDeployment_def Let_def)
qed

section \<open>Properties\<close>

text \<open>
  The write discipline of an AMF reconcile, whatever the client answers: at most one write
  each of the status, the ConfigMap, the Service and the Deployment, in this order, none after
  a refused one, and nothing is written but the NFDeployment's status, the objects its
  resource functions make, and a found deployment with a new ConfigMap version.
\<close>

theorem amf_write_discipline:
  assumes "amf_Reconcile L (logged c) req (w, []) = (r, (w', tr))"
    and "GetNFDeployment c req w = (Inr nf, w0)"
  shows "orderedWrites 0 4 tr \<and> (\<forall>e \<in> set tr. permitted L nf
    (\<lambda>cm. amf_createConfigMap nf = Ret cm) (\<lambda>s. s = amf_createService nf)
    (\<lambda>d. \<exists>v. amf_createDeployment L v nf = Ret d) False e)"
proof -
  have "stepped 0 4 (permitted L nf (\<lambda>cm. amf_createConfigMap nf = Ret cm) (\<lambda>s. s = amf_createService nf)
      (\<lambda>d. \<exists>v. amf_createDeployment L v nf = Ret d) False) False [] tr"
    by (rule reconcile_stepped [OF assms(1) [unfolded amf_Reconcile_with] assms(2)]) (simp add: lawful_permitted)
  then show ?thesis by (rule stepped_Nil)
qed

theorem amf_write_discipline_witness:
  "\<exists>r w' tr. amf_Reconcile (exampleLib undefined) (logged storeClient) (''ns'', ''nf'') (exampleAMFStore, []) = (r, (w', tr))
    \<and> orderedWrites 0 4 tr"
proof -
  obtain r w' tr where run: "amf_Reconcile (exampleLib undefined) (logged storeClient) (''ns'', ''nf'')
      (exampleAMFStore, []) = (r, (w', tr))"
    by (metis prod.collapse)
  have "GetNFDeployment storeClient (''ns'', ''nf'') exampleAMFStore = (Inr exampleAMF, exampleAMFStore)"
    by simp
  with run show ?thesis
    using amf_write_discipline [OF run] by blast
qed

text \<open>
  C4: an AMF Deployment is only ever created right after every NetworkAttachmentDefinition of
  its interfaces was read and found, in the NFDeployment's namespace, and that is the last
  call of the reconcile.
\<close>

theorem amf_deployment_after_networks:
  assumes "amf_Reconcile L (logged c) req (w, []) = (r, (w', tr))"
    and "GetNFDeployment c req w = (Inr nf, w0)"
    and "plainNetworks (Name (nf_Meta nf)) (networksOf [''n2''] nf)"
    and "DidCreateDeployment d b \<in> set tr"
  shows "\<exists>earlier. (\<forall>e \<in> set earlier. noDeployment e) \<and> tr = earlier
      @ map (\<lambda>n. DidGetNAD (Namespace (nf_Meta nf), net_Name n) True)
          (expectedNetworks (Name (nf_Meta nf)) (networksOf [''n2''] nf))
      @ [DidCreateDeployment d b]"
  by (rule amf_reconciler.reconcile_create [OF assms(1) [unfolded amf_Reconcile_with] assms(2-4)])

theorem amf_deployment_after_networks_witness:
  "\<exists>earlier d r w'. amf_Reconcile (exampleLib undefined) (logged storeClient) (''ns'', ''nf'') (exampleAMFStore, []) =
     (r, (w', earlier @ [DidGetNAD (''ns'', ''nf-n2'') True] @ [DidCreateDeployment d True]))"
proof -
  obtain d w' tr where run: "amf_Reconcile (exampleLib undefined) (logged storeClient) (''ns'', ''nf'') (exampleAMFStore, [])
      = (Ret \<lparr>Requeue = False, RequeueAfter = 30 * Second\<rparr>, (w', tr))" and d: "DidCreateDeployment d True \<in> set tr"
    using exampleAMF_run by blast
  have get: "GetNFDeployment storeClient (''ns'', ''nf'') exampleAMFStore = (Inr exampleAMF, exampleAMFStore)"
    by simp
  have plain: "plainNetworks (Name (nf_Meta exampleAMF)) (networksOf [''n2''] exampleAMF)"
    using exampleAMF_plain by simp
  show ?thesis
    using amf_deployment_after_networks [OF run get plain d] run
    by (auto simp: exampleAMF_expected)
qed

text \<open>
  C1: convergence of an AMF: on a server that has the NFDeployment and its networks but none of
  its objects, one reconcile creates the ConfigMap, the Service and the Deployment, the
  Deployment carries the version of the ConfigMap it was created for, and the reconcile asks to
  be run again after 30 seconds.
\<close>

theorem amf_first_reconcile:
  assumes api: "api_server c" and L: "ownerRefsOnly L"
    and nf: "nfsOf (viewOf c w) req = Some nf" "keyOf (nf_Meta nf) = req"
    and fresh: "cmsOf (viewOf c w) req = None" "svcsOf (viewOf c w) req = None" "depsOf (viewOf c w) req = None"
    and cm: "amf_createConfigMap nf = Ret cm"
    and dep: "Capacity (nf_Spec nf) \<noteq> None" "attachable [''n2''] nf"
    and plain: "plainNetworks (Name (nf_Meta nf)) (networksOf [''n2''] nf)"
    and nads: "\<forall>n \<in> set (expectedNetworks (Name (nf_Meta nf)) (networksOf [''n2''] nf)).
      nadsOf (viewOf c w) (Namespace (nf_Meta nf), net_Name n)"
  shows "\<exists>w' cm' d. amf_Reconcile L c req w = (Ret \<lparr>Requeue = False, RequeueAfter = 30 * Second\<rparr>, w')
    \<and> cmsOf (viewOf c w') req = Some cm' \<and> Data cm' = Data cm
    \<and> svcsOf (viewOf c w') req \<noteq> None
    \<and> depsOf (viewOf c w') req = Some d
    \<and> mapGet (templateAnnotations d) ConfigMapVersionAnnotation = ResourceVersion (cm_Meta cm')
    \<and> ResourceVersion (cm_Meta cm') \<noteq> ''''"
  using amf_reconciler.first_reconcile [OF api L nf fresh(1,3) _ _ dep plain nads, of "[]" cm] cm
  by (auto simp: amf_Reconcile_with)

theorem amf_first_reconcile_witness:
  "\<exists>w' d. amf_Reconcile (exampleLib undefined) storeClient (''ns'', ''nf'') exampleAMFStore =
      (Ret \<lparr>Requeue = False, RequeueAfter = 30 * Second\<rparr>, w') \<and> deps w' (''ns'', ''nf'') = Some d"
proof -
  obtain cm where cm: "amf_createConfigMap exampleAMF = Ret cm"
    using exampleAMF_configMap by blast
  have "\<exists>w' cm' d. amf_Reconcile (exampleLib undefined) storeClient (''ns'', ''nf'') exampleAMFStore =
        (Ret \<lparr>Requeue = False, RequeueAfter = 30 * Second\<rparr>, w')
    \<and> cmsOf (viewOf storeClient w') (''ns'', ''nf'') = Some cm' \<and> Data cm' = Data cm
    \<and> svcsOf (viewOf storeClient w') (''ns'', ''nf'') \<noteq> None
    \<and> depsOf (viewOf storeClient w') (''ns'', ''nf'') = Some d
    \<and> mapGet (templateAnnotations d) ConfigMapVersionAnnotation = ResourceVersion (cm_Meta cm')
    \<and> ResourceVersion (cm_Meta cm') \<noteq> ''''"
    by (rule amf_first_reconcile [OF store.api_server_axioms _ _ _ _ _ _ cm])
      (use exampleAMF_attachable exampleAMF_plain in \<open>simp_all add: exampleAMF_expected\<close>)
  then show ?thesis by auto
qed

text \<open>
  C18: a settled AMF is a fixed point: when its objects exist, the Deployment carries the present
  version of the ConfigMap and the status is up to date, a reconcile writes nothing.  That
  holds whatever the specification now says, so a changed specification of a running AMF
  reaches neither its ConfigMap nor its Deployment.
\<close>

theorem amf_settled:
  assumes api: "api_server c"
    and nf: "nfsOf (viewOf c w) req = Some nf" "keyOf (nf_Meta nf) = req"
    and found: "cmsOf (viewOf c w) req = Some cm" "depsOf (viewOf c w) req = Some d" "svcsOf (viewOf c w) req \<noteq> None"
    and fresh: "mapGet (templateAnnotations d) ConfigMapVersionAnnotation = ResourceVersion (cm_Meta cm)"
    and quiet: "\<not> updates amf_createNfDeploymentStatus nf (Now c w, d) \<or> DeletionTimestamp (dep_Meta d) \<noteq> None"
    and made: "amf_createConfigMap nf = Ret cm'" "Capacity (nf_Spec nf) \<noteq> None" "attachable [''n2''] nf"
  shows "amf_Reconcile L c req w = (Ret emptyResult, w)"
proof -
  obtain d' where "amf_createDeployment L (ResourceVersion (cm_Meta cm)) nf = Ret d'"
    using amf_resources.deployment_succeeds made(2,3) by blast
  with api_server.reconcile_settled [OF api nf found(1,2) _ fresh, of amf_parts "[]" L cm' d'] found(3) quiet made(1)
  show ?thesis by (simp add: amf_Reconcile_with whenFound_def)
qed

theorem amf_settled_witness:
  "amf_Reconcile (exampleLib undefined) storeClient (''ns'', ''nf'')
     (runningStore exampleAMF (Some (amf_createService exampleAMF)) (Some [ConfigMapVersionAnnotation \<mapsto> ''7''])) =
   (Ret emptyResult, runningStore exampleAMF (Some (amf_createService exampleAMF)) (Some [ConfigMapVersionAnnotation \<mapsto> ''7'']))"
proof -
  obtain cm where cm: "amf_createConfigMap (running exampleAMF) = Ret cm"
    using exampleAMF_configMap by (auto simp: amf_createConfigMap_def)
  show ?thesis
    by (rule amf_settled [OF store.api_server_axioms _ _ _ _ _ _ _ cm,
          where cm = runningConfigMap and d = "runningDeployment (Some [ConfigMapVersionAnnotation \<mapsto> ''7''])"])
      (simp_all add: amf_status.updates_eq mapGet_def samePhase_def attachable_def)
qed



text \<open>
  C8: the control loop of an AMF terminates: from the state of a first reconcile on, two
  reconciles (the objects, then the first condition) reach a state in which every further
  reconcile writes nothing, as long as nobody else writes.
\<close>

theorem amf_quiesces:
  assumes api: "api_server c" and L: "ownerRefsOnly L"
    and nf: "nfsOf (viewOf c w) req = Some nf" "keyOf (nf_Meta nf) = req"
    and fresh: "cmsOf (viewOf c w) req = None" "svcsOf (viewOf c w) req = None" "depsOf (viewOf c w) req = None"
    and cm: "amf_createConfigMap nf = Ret cm"
    and dep: "Capacity (nf_Spec nf) \<noteq> None" "attachable [''n2''] nf"
    and plain: "plainNetworks (Name (nf_Meta nf)) (networksOf [''n2''] nf)"
    and nads: "\<forall>n \<in> set (expectedNetworks (Name (nf_Meta nf)) (networksOf [''n2''] nf)).
      nadsOf (viewOf c w) (Namespace (nf_Meta nf), net_Name n)"
  shows "\<exists>quiet. ((\<lambda>w. snd (amf_Reconcile L c req w)) ^^ 2) w = quiet \<and> amf_Reconcile L c req quiet = (Ret emptyResult, quiet)"
proof -
  obtain w1 cm1 d where 1: "amf_Reconcile L c req w = (Ret \<lparr>Requeue = False, RequeueAfter = 30 * Second\<rparr>, w1)"
    "cmsOf (viewOf c w1) req = Some cm1" "svcsOf (viewOf c w1) req \<noteq> None" "depsOf (viewOf c w1) req = Some d"
    "mapGet (templateAnnotations d) ConfigMapVersionAnnotation = ResourceVersion (cm_Meta cm1)"
    "dep_Conditions d = []" "DeletionTimestamp (dep_Meta d) = None" "nfsOf (viewOf c w1) = nfsOf (viewOf c w)"
    using amf_reconciler.first_reconcile [OF api L nf fresh(1,3) _ _ dep plain nads, of "[]" cm] cm
    by (auto simp: amf_Reconcile_with)
  obtain d' where d': "amf_createDeployment L (ResourceVersion (cm_Meta cm1)) nf = Ret d'"
    using amf_resources.deployment_succeeds dep by blast
  obtain w2 nf' where 2: "amf_Reconcile L c req w1 = (Ret emptyResult, w2)" "synced amf_createNfDeploymentStatus nf (Now c w1, d) nf'"
    "viewOf c w2 = (viewOf c w1)\<lparr>nfsOf := (nfsOf (viewOf c w1))(req \<mapsto> nf')\<rparr>"
    using api_server.reconcile_up_to_date [OF api _ nf(2) 1(2,4) _ 1(5,7), of amf_parts "[]" L cm d'] 1(3,8) nf(1) cm d'
    by (auto simp: amf_Reconcile_with whenFound_def)
  obtain v where nf': "nf' = (syncOnce amf_createNfDeploymentStatus nf (Now c w1, d))\<lparr>nf_Meta := versioned v (nf_Meta nf)\<rparr>"
    using 2(2) by (auto simp: synced_def)
  have spec: "nf_Spec nf' = nf_Spec nf" "keyOf (nf_Meta nf') = req" "Interfaces (nf_Spec nf') = Interfaces (nf_Spec nf)"
    "Name (nf_Meta nf') = Name (nf_Meta nf)" "Namespace (nf_Meta nf') = Namespace (nf_Meta nf)"
    using nf(2) by (simp_all add: nf' syncOnce_def split: prod.split)
  have "history nf' \<noteq> []"
    using amf_status.syncOnce_not_Nil [of nf "(Now c w1, d)"] by (simp add: nf' history_def)
  then have quiet: "\<not> updates amf_createNfDeploymentStatus nf' (Now c w2, d)"
    using 1(6) by (cases "history nf'") (auto simp: amf_status.updates_eq observed_def)
  have made: "amf_createConfigMap nf' = Ret cm" "\<exists>d''. amf_createDeployment L (ResourceVersion (cm_Meta cm1)) nf' = Ret d''"
    using cm dep spec by (simp_all add: amf_createConfigMap_def amf_resources.deployment_succeeds attachable_def)
  then obtain d'' where d'': "amf_createDeployment L (ResourceVersion (cm_Meta cm1)) nf' = Ret d''" by blast
  have "reconcileWith amf_parts L c req w2 = (Ret emptyResult, whenFound amf_parts c d'' w2)"
    by (rule api_server.reconcile_settled [OF api _ spec(2), where refs = "[]" and cm = cm1 and d = d and cm' = cm])
      (use 1 2(3) quiet made(1) d'' in simp_all)
  then have "amf_Reconcile L c req w2 = (Ret emptyResult, w2)"
    by (simp add: amf_Reconcile_with whenFound_def)
  with 1(1) 2(1) show ?thesis
    by (simp add: numeral_2_eq_2)
qed

theorem amf_quiesces_witness:
  "\<exists>quiet. ((\<lambda>w. snd (amf_Reconcile (exampleLib undefined) storeClient (''ns'', ''nf'') w)) ^^ 2) exampleAMFStore = quiet
    \<and> amf_Reconcile (exampleLib undefined) storeClient (''ns'', ''nf'') quiet = (Ret emptyResult, quiet)"
proof -
  obtain cm where cm: "amf_createConfigMap exampleAMF = Ret cm"
    using exampleAMF_configMap by blast
  show ?thesis
    by (rule amf_quiesces [OF store.api_server_axioms _ _ _ _ _ _ cm])
      (use exampleAMF_attachable exampleAMF_plain in \<open>simp_all add: exampleAMF_expected\<close>)
qed

end
