(* ===== verification/SMF_Status.thy ===== *)
theory SMF_Status
  imports StatusSync
begin

text \<open>
  \<open>controllers/nf/smf/status.go\<close>: the next status of an NFDeployment from the state of its
  deployment, and \<open>syncStatus\<close> of the SMF reconciler.
\<close>

definition smf_createNfDeploymentStatus :: createStatus where
  "smf_createNfDeploymentStatus now deployment smfDeployment =
     (let old = Conditions (nf_Status smfDeployment);
          status = (\<lambda>cs. \<lparr>ObservedGeneration = observedGeneration (Generation (dep_Meta deployment)),
            Conditions = cs\<rparr>);
          starting = mkCondition Reconciling ConditionFalse ''MinimumReplicasNotAvailable''
            ''SMFDeployment pod(s) is(are) starting.'' now in
      if old = [] then (status (old @ [starting]), True)
      else (case dep_Conditions deployment of
          [] \<Rightarrow> (status old, False)
        | first # _ \<Rightarrow>
            if dc_Type first = DeploymentProgressing \<and> cond_Type (last old) = Reconciling
            then (status old, False)
            else if dc_Type first = cond_Type (last old) then (status old, False)
            else if dc_Type first = DeploymentAvailable
            then (status (old @ [mkCondition Available ConditionTrue ''MinimumReplicasAvailable''
                    ''SMFDeployment pods are available.'' now]), True)
            else if dc_Type first = DeploymentProgressing then (status (old @ [starting]), True)
            else if dc_Type first = DeploymentReplicaFailure
            then (status (old @ [mkCondition Stalled ConditionFalse ''MinimumReplicasNotAvailable''
                    ''SMFDeployment pod(s) is(are) failing.'' now]), True)
            else (status old, True)))"

definition smf_syncStatus :: "'w client \<Rightarrow> Deployment \<Rightarrow> NFDeployment \<Rightarrow> 'w \<Rightarrow> error option \<times> 'w" where
  "smf_syncStatus c deployment smfDeployment w =
     (case smf_createNfDeploymentStatus (Now c w) deployment smfDeployment of (status, update) \<Rightarrow>
        if update then
          (case UpdateStatus c (smfDeployment\<lparr>nf_Status := status\<rparr>) w of
             (Inl err, w') \<Rightarrow> (Some err, w')
           | (Inr _, w') \<Rightarrow> (None, w'))
        else (None, w))"

interpretation smf_status: status_creator smf_createNfDeploymentStatus "''SMFDeployment''"
proof
  fix now d nf st update
  assume *: "smf_createNfDeploymentStatus now d nf = (st, update)"
  show "(map cond_Type (Conditions st), update) = nextHistory (history nf) (observed d)"
  proof (cases "Conditions (nf_Status nf)")
    case Nil
    with * show ?thesis
      by (auto simp: smf_createNfDeploymentStatus_def history_def Let_def)
  next
    case (Cons c cs)
    with * show ?thesis
      by (cases "dep_Conditions d")
        (auto simp: smf_createNfDeploymentStatus_def history_def observed_def samePhase_def phaseOf_def
          Let_def last_map split: if_splits)
  qed
  show "\<exists>cs. Conditions st = Conditions (nf_Status nf) @ cs \<and> set cs \<subseteq> vocabulary ''SMFDeployment'' now"
    using * by (auto simp: smf_createNfDeploymentStatus_def vocabulary_def Let_def split: if_splits list.splits)
  show "ObservedGeneration st = observedGeneration (Generation (dep_Meta d))"
    using * by (auto simp: smf_createNfDeploymentStatus_def Let_def split: if_splits list.splits)
qed

section \<open>Properties\<close>

text \<open>
  The SMF status refines the abstract step on condition types, with the SMF's own
  messages.
\<close>

theorem smf_status_refines:
  "case smf_createNfDeploymentStatus now d nf of (st, update) \<Rightarrow>
     (map cond_Type (Conditions st), update) = nextHistory (history nf) (observed d)
     \<and> (\<exists>cs. Conditions st = Conditions (nf_Status nf) @ cs \<and> set cs \<subseteq> vocabulary ''SMFDeployment'' now)
     \<and> ObservedGeneration st = observedGeneration (Generation (dep_Meta d))"
proof (cases "smf_createNfDeploymentStatus now d nf")
  case (Pair st update)
  show ?thesis
    using smf_status.refines [OF Pair] smf_status.extends [OF Pair] smf_status.generation [OF Pair]
    by (simp add: Pair)
qed

end
