(* ===== verification/SMF_Templates.thy ===== *)
theory SMF_Templates
  imports GoTemplate
begin

text \<open>
  \<open>controllers/nf/smf/templates.go\<close>: the SMF configuration and UE routing templates and
  their rendering.
\<close>

section \<open>The templates\<close>

definition smf_configurationTemplate_text1 :: string where
  "smf_configurationTemplate_text1 =
     lines [
      '''',
      ''info:'',
      '''',
      ''  version: 1.0.7'',
      ''  description: SMF configuration'',
      '''',
      ''configuration:'',
      '''',
      ''  serviceNameList:'',
      ''  - nsmf-pdusession'',
      ''  - nsmf-event-exposure'',
      ''  - nsmf-oam'',
      '''',
      ''  sbi:'',
      ''    scheme: http''] @ ''    registerIPv4: ''"

definition smf_configurationTemplate_text2 :: string where
  "smf_configurationTemplate_text2 =
     lines [
      '''',
      ''    bindingIPv4: 0.0.0.0'',
      ''    port: 80'',
      ''    tls:'',
      ''      key: cert/smf.key'',
      ''      pem: cert/smf.pem'',
      '''',
      ''  nrfUri: http://nrf-nnrf:8000'',
      ''  nrfCertPem: cert/nrf.pem'',
      ''  pfcp:''] @ ''    nodeID: ''"

definition smf_configurationTemplate_text3 :: string where
  "smf_configurationTemplate_text3 =
     lines [
      '''',
      ''    associateFailAlertInterval: 10s'',
      ''    associateFailRetryInterval: 30s'',
      ''    heartbeatInterval: 10s'',
      ''  smfName: SMF'',
      '''',
      ''  snssaiInfos:'',
      ''  - sNssai:'',
      ''      sst: 1'',
      ''      sd: 010203'',
      ''    dnnInfos:'',
      ''    - dnn: internet'',
      ''      dns:'',
      ''        ipv4: 8.8.8.8'',
      ''        ipv6: 2001:4860:4860::8888'',
      ''  - sNssai:'',
      ''      sst: 1'',
      ''      sd: 112233'',
      ''    dnnInfos:'',
      ''    - dnn: internet'',
      ''      dns:'',
      ''        ipv4: 8.8.8.8'',
      ''        ipv6: 2001:4860:4860::8888'',
      ''  - sNssai:'',
      ''      sst: 2'',
      ''      sd: 112234'',
      ''    dnnInfos:'',
      ''    - dnn: internet'',
      ''      dns:'',
      ''        ipv4: 8.8.8.8'',
      ''        ipv6: 2001:4860:4860::8888'',
      ''  plmnList:'',
      ''  - mcc: '' @ [dquote] @ ''208'' @ [dquote],
      ''    mnc: '' @ [dquote] @ ''93'' @ [dquote],
      ''  userplaneInformation:'',
      ''    upNodes:'']"

definition smf_configurationTemplate_text4 :: string where
  "smf_configurationTemplate_text4 =
     lines [
      '''',
      ''        sNssaiUpfInfos:'',
      ''        - sNssai:'',
      ''            sst: 1'',
      ''            sd: 010203'',
      ''          dnnUpfInfoList:''] @ ''  ''"

definition smf_configurationTemplate_text5 :: string where
  "smf_configurationTemplate_text5 =
     lines [
      '''',
      ''        - sNssai:'',
      ''            sst: 1'',
      ''            sd: 112233'',
      ''          dnnUpfInfoList:''] @ ''  ''"

definition smf_configurationTemplate_text6 :: string where
  "smf_configurationTemplate_text6 =
     lines [
      '''',
      ''        - sNssai:'',
      ''            sst: 2'',
      ''            sd: 112234'',
      ''          dnnUpfInfoList:''] @ ''  ''"

definition smf_configurationTemplate_text7 :: string where
  "smf_configurationTemplate_text7 =
     lines [
      '''',
      ''        interfaces:'',
      ''        - interfaceType: N3'',
      ''          endpoints:''] @ ''          - ''"

definition smf_configurationTemplate_text8 :: string where
  "smf_configurationTemplate_text8 =
     lines [
      '''',
      '''',
      ''  locality: area1'',
      ''  t3591:'',
      ''    enable: true # true or false'',
      ''    expireTime: 16s # default is 6 seconds'',
      ''    maxRetryTimes: 3 # the max number of retransmission'',
      '''',
      ''  # retransmission timer for PDU session release command'',
      ''  t3592:'',
      ''    enable: true # true or false'',
      ''    expireTime: 16s # default is 6 seconds'',
      ''    maxRetryTimes: 3 # the max number of retransmission'',
      ''  urrPeriod: 30 # default usage report period in seconds'',
      ''  urrThreshold: 500000 # default usage report threshold in bytes'',
      ''  requestedUnit: 1000'',
      '''',
      ''  # Metrics configuration'',
      ''  # If using the same bindingIPv4 as the sbi server, make sure that the ports are different'',
      ''  metrics:'',
      ''    enable: false # (Optional, default false)'',
      ''    scheme: http # (Required) the protocol for metrics (http or https, default https)''] @ ''    bindingIPv4: ''"

definition smf_configurationTemplate_text9 :: string where
  "smf_configurationTemplate_text9 =
     lines [
      '' # (Required) IP used to bind the metrics endpoint (default 0.0.0.0)'',
      ''    port: 9091 # (Optional, default 9091) port used to bind the service'',
      ''    tls: # (Optional) the local path of TLS key (Could be the same as the sbi ones)'',
      ''      pem: cert/smf.pem # SMF TLS Certificate'',
      ''      key: cert/smf.key # SMF TLS Private key'',
      ''    namespace: free5gc # (Optional, default free5gc)'',
      '''',
      ''logger:'',
      ''  enable: true # true or false'',
      ''  level: info # how detailed to output, value: trace, debug, info, warn, error, fatal, panic'',
      ''  reportCaller: false'']"

definition smf_configurationTemplate :: "node list" where
  "smf_configurationTemplate = [
    Text smf_configurationTemplate_text1,
    Action (Field Dot ''SVC_NAME''),
    Text smf_configurationTemplate_text2,
    Action (Field Dot ''PFCP_IP''),
    Text (nl # ''    listenAddr: ''),
    Action (Field Dot ''PFCP_IP''),
    Text (nl # ''    externalAddr: ''),
    Action (Field Dot ''PFCP_IP''),
    Text smf_configurationTemplate_text3,
    RangeNode True [''index'', ''upf''] (Field Dot ''UPF_LIST'') [
      Text (nl # ''      gNB''),
      Action (Var ''index''),
      Text (lines ['':'', ''        type: AN''] @ ''      ''),
      Action (Field (Var ''upf'') ''Name''),
      Text (lines ['':'', ''        type: UPF''] @ ''        nodeID: ''),
      Action (Field (Var ''upf'') ''N4IP''),
      Text (nl # ''        addr: ''),
      Action (Field (Var ''upf'') ''N4IP''),
      Text smf_configurationTemplate_text4,
      RangeNode True [''n6Instances''] (Field (Var ''upf'') ''N6Cfg'') [
        Text (nl # ''    ''),
        RangeNode True [''dnn''] (Field (Var ''n6Instances'') ''DataNetworks'') [
          Text (nl # ''            - dnn: ''),
          Action (Field (Var ''dnn'') ''Name''),
          Text (lines ['''', ''              pools:''] @ ''              - cidr: ''),
          Action (Field (Index (Field (Var ''dnn'') ''Pool'') 0) ''Prefix''),
          Text (nl # ''    '')] True,
        Text (nl # ''  '')] True,
      Text smf_configurationTemplate_text5,
      RangeNode True [''n6Instances''] (Field (Var ''upf'') ''N6Cfg'') [
        Text (nl # ''    ''),
        RangeNode True [''dnn''] (Field (Var ''n6Instances'') ''DataNetworks'') [
          Text (nl # ''            - dnn: ''),
          Action (Field (Var ''dnn'') ''Name''),
          Text (lines ['''', ''              pools:''] @ ''              - cidr: ''),
          Action (Field (Index (Field (Var ''dnn'') ''Pool'') 1) ''Prefix''),
          Text (nl # ''    '')] True,
        Text (nl # ''  '')] True,
      Text smf_configurationTemplate_text6,
      RangeNode True [''n6Instances''] (Field (Var ''upf'') ''N6Cfg'') [
        Text (nl # ''    ''),
        RangeNode True [''dnn''] (Field (Var ''n6Instances'') ''DataNetworks'') [
          Text (nl # ''            - dnn: ''),
          Action (Field (Var ''dnn'') ''Name''),
          Text (lines ['''', ''              pools:''] @ ''              - cidr: ''),
          Action (Field (Index (Field (Var ''dnn'') ''Pool'') 2) ''Prefix''),
          Text (nl # ''    '')] True,
        Text (nl # ''  '')] True,
      Text smf_configurationTemplate_text7,
      Action (Field (Var ''upf'') ''N3IP''),
      Text (lines ['''', ''          networkInstances:'', ''          - internet''])] True,
    Text (lines ['''', ''    links:'']),
    RangeNode True [''index'', ''upf''] (Field Dot ''UPF_LIST'') [
      Text (nl # ''    - A: gNB''),
      Action (Var ''index''),
      Text (nl # ''      B: ''),
      Action (Field (Var ''upf'') ''Name''),
      Text [nl]] True,
    Text smf_configurationTemplate_text8,
    Action (Field Dot ''SVC_NAME''),
    Text smf_configurationTemplate_text9]"

definition smf_ueRoutingConfigurationTemplate_text1 :: string where
  "smf_ueRoutingConfigurationTemplate_text1 =
     lines [
      '''',
      ''info:'',
      '''',
      ''  version: 1.0.7'',
      ''  description: Routing information for UE'',
      '''',
      ''ueRoutingInfo:'',
      '''',
      ''  UE1:'',
      ''    members:'',
      ''    - imsi-208930000000003'',
      ''    topology:'',
      ''    - A: gNB1'',
      ''      B: BranchingUPF'',
      ''    - A: BranchingUPF'',
      ''      B: AnchorUPF1'',
      ''    specificPath:'',
      ''    - dest: 10.100.100.26/32'',
      ''      path: [BranchingUPF, AnchorUPF2]'',
      '''',
      ''  UE2:'',
      ''    members:'',
      ''    - imsi-208930000000004'',
      ''    topology:'',
      ''    - A: gNB1'',
      ''      B: BranchingUPF'',
      ''    - A: BranchingUPF'',
      ''      B: AnchorUPF1'',
      ''    specificPath:'',
      ''    - dest: 10.100.100.16/32'',
      ''      path: [BranchingUPF, AnchorUPF2]'',
      '''',
      ''routeProfile: # Maintains the mapping between RouteProfileID and ForwardingPolicyID of UPF'',
      ''  MEC1: # Route Profile identifier'',
      ''    forwardingPolicyID: 10 # Forwarding Policy ID of the route profile'',
      '''',
      ''pfdDataForApp: # PFDs for an Application'',
      ''  - applicationId: edge # Application identifier'',
      ''    pfds: # PFDs for the Application'',
      ''      - pfdID: pfd1 # PFD identifier'',
      ''        flowDescriptions: # Represents a 3-tuple with protocol, server ip and server port for UL/DL application traffic'',
      ''          - permit out ip from 10.100.100.1 80 to any'']"

definition smf_ueRoutingConfigurationTemplate :: "node list" where
  "smf_ueRoutingConfigurationTemplate = [
    Text smf_ueRoutingConfigurationTemplate_text1]"

section \<open>Rendering\<close>

record UpfPeerConfigTemplate =
  peer_Name :: string
  N3IP :: string
  N4IP :: string
  N6Cfg :: "NetworkInstance list"

record smf_templateValues =
  smf_SVC_NAME :: string
  smf_PFCP_IP :: string
  UPF_LIST :: "UpfPeerConfigTemplate list"

definition peerValue :: "UpfPeerConfigTemplate \<Rightarrow> value" where
  "peerValue u = VStruct
     [(''Name'', VString (peer_Name u)), (''N3IP'', VString (N3IP u)), (''N4IP'', VString (N4IP u)),
      (''N6Cfg'', VList (map networkInstanceValue (N6Cfg u)))]"

definition smf_values :: "smf_templateValues \<Rightarrow> value" where
  "smf_values v = VStruct
     [(''SVC_NAME'', VString (smf_SVC_NAME v)), (''PFCP_IP'', VString (smf_PFCP_IP v)),
      (''UPF_LIST'', VList (map peerValue (UPF_LIST v)))]"

definition smf_renderConfigurationTemplate :: "smf_templateValues \<Rightarrow> string go" where
  "smf_renderConfigurationTemplate v = Execute smf_configurationTemplate (smf_values v)"

definition smf_renderUeRoutingConfigurationTemplate :: "smf_templateValues \<Rightarrow> string go" where
  "smf_renderUeRoutingConfigurationTemplate v = Execute smf_ueRoutingConfigurationTemplate (smf_values v)"

lemma fieldOf_peer [simp]:
  "fieldOf (peerValue u) ''Name'' = Ret (VString (peer_Name u))"
  "fieldOf (peerValue u) ''N3IP'' = Ret (VString (N3IP u))"
  "fieldOf (peerValue u) ''N4IP'' = Ret (VString (N4IP u))"
  "fieldOf (peerValue u) ''N6Cfg'' = Ret (VList (map networkInstanceValue (N6Cfg u)))"
  by (simp_all add: peerValue_def)

lemma fieldOf_smf [simp]:
  "fieldOf (smf_values v) ''SVC_NAME'' = Ret (VString (smf_SVC_NAME v))"
  "fieldOf (smf_values v) ''PFCP_IP'' = Ret (VString (smf_PFCP_IP v))"
  "fieldOf (smf_values v) ''UPF_LIST'' = Ret (VList (map peerValue (UPF_LIST v)))"
  by (simp_all add: smf_values_def)

lemma three_pools: "3 \<le> length ps \<longleftrightarrow> ps \<noteq> [] \<and> Suc 0 < length ps \<and> 2 < length ps"
  by auto

text \<open>What the template asks of the peers: pools 0, 1 and 2 of every data network.\<close>

definition enoughPools :: "UpfPeerConfigTemplate list \<Rightarrow> bool" where
  "enoughPools us \<longleftrightarrow> (\<forall>u\<in>set us. \<forall>n\<in>set (N6Cfg u). \<forall>d\<in>set (DataNetworks n). 3 \<le> length (dn_Pool d))"

lemma smf_render_succeeds:
  "(\<exists>s. smf_renderConfigurationTemplate v = Ret s) \<longleftrightarrow> enoughPools (UPF_LIST v)"
  unfolding succeeds_def [symmetric] smf_renderConfigurationTemplate_def Execute_def smf_configurationTemplate_def
    enoughPools_def
  by (simp add: succ_simps all_set_conv_all_nth three_pools del: execNodes.simps) blast

text \<open>The UE routing configuration is a constant.\<close>

lemma smf_ue_routing_text:
  "smf_renderUeRoutingConfigurationTemplate v = Ret smf_ueRoutingConfigurationTemplate_text1"
  by (simp add: smf_renderUeRoutingConfigurationTemplate_def Execute_def smf_ueRoutingConfigurationTemplate_def)

text \<open>The entries of the rendered configuration: a data network with one of its pools, a UPF, a link.\<close>

definition poolEntry :: "nat \<Rightarrow> DataNetwork \<Rightarrow> string" where
  "poolEntry i d =
     nl # ''            - dnn: '' @ (case dn_Name d of None \<Rightarrow> ''<nil>'' | Some s \<Rightarrow> s) @
     lines ['''', ''              pools:''] @ ''              - cidr: '' @ Prefix (dn_Pool d ! i)"

definition slice :: "nat \<Rightarrow> UpfPeerConfigTemplate \<Rightarrow> string" where
  "slice i u = concat (map (\<lambda>n. concat (map (poolEntry i) (DataNetworks n))) (N6Cfg u))"

definition upfEntry :: "nat \<Rightarrow> UpfPeerConfigTemplate \<Rightarrow> string" where
  "upfEntry k u =
     nl # ''      gNB'' @ itoa k @ lines ['':'', ''        type: AN''] @ ''      '' @ peer_Name u @
     lines ['':'', ''        type: UPF''] @ ''        nodeID: '' @ N4IP u @ nl # ''        addr: '' @ N4IP u @
     trimRight smf_configurationTemplate_text4 @ slice 0 u @
     trimRight smf_configurationTemplate_text5 @ slice 1 u @
     trimRight smf_configurationTemplate_text6 @ slice 2 u @
     smf_configurationTemplate_text7 @ N3IP u @ trimRight (lines ['''', ''          networkInstances:'', ''          - internet''])"

definition linkEntry :: "nat \<Rightarrow> UpfPeerConfigTemplate \<Rightarrow> string" where
  "linkEntry k u = nl # ''    - A: gNB'' @ itoa k @ nl # ''      B: '' @ peer_Name u"

lemma indexOf_pool: "i < length ps \<Longrightarrow> indexOf (VList (map poolValue ps)) i = Ret (poolValue (ps ! i))"
  by (simp add: indexOf.simps)

lemma printValue_optional: "printValue (case x of None \<Rightarrow> VNil | Some s \<Rightarrow> VString s) = Ret (case x of None \<Rightarrow> ''<nil>'' | Some s \<Rightarrow> s)"
  by (cases x) simp_all

lemma slice_range:
  assumes "map_of (vars E) ''upf'' = Some (peerValue u)"
    and "\<forall>n\<in>set (N6Cfg u). \<forall>d\<in>set (DataNetworks n). i < length (dn_Pool d)"
  shows "execNodes E (RangeNode True [''n6Instances''] (Field (Var ''upf'') ''N6Cfg'') [
        Text [],
        RangeNode True [''dnn''] (Field (Var ''n6Instances'') ''DataNetworks'') [
          Text (nl # ''            - dnn: ''),
          Action (Field (Var ''dnn'') ''Name''),
          Text (lines ['''', ''              pools:''] @ ''              - cidr: ''),
          Action (Field (Index (Field (Var ''dnn'') ''Pool'') i) ''Prefix''),
          Text []] True,
        Text []] True # ns) = bind_go (execNodes E ns) (\<lambda>t. Ret (slice i u @ t))"
  unfolding slice_def
proof (rule execNodes_range [where g = networkInstanceValue])
  show "eval E (Field (Var ''upf'') ''N6Cfg'') = Ret (VList (map networkInstanceValue (N6Cfg u)))"
    using assms(1) by simp
  fix k n
  assume n: "n \<in> set (N6Cfg u)"
  let ?E = "bindVars [''n6Instances''] k (networkInstanceValue n) E"
  have "execNodes ?E (RangeNode True [''dnn''] (Field (Var ''n6Instances'') ''DataNetworks'') [
          Text (nl # ''            - dnn: ''),
          Action (Field (Var ''dnn'') ''Name''),
          Text (lines ['''', ''              pools:''] @ ''              - cidr: ''),
          Action (Field (Index (Field (Var ''dnn'') ''Pool'') i) ''Prefix''),
          Text []] True # ns') = bind_go (execNodes ?E ns') (\<lambda>t. Ret (concat (map (poolEntry i) (DataNetworks n)) @ t))" for ns'
    by (rule execNodes_range [where g = dataNetworkValue])
      (use assms(2) n in \<open>simp_all add: poolEntry_def indexOf_pool printValue_optional\<close>)
  then show "execNodes ?E [Text [], RangeNode True [''dnn''] (Field (Var ''n6Instances'') ''DataNetworks'') [
          Text (nl # ''            - dnn: ''),
          Action (Field (Var ''dnn'') ''Name''),
          Text (lines ['''', ''              pools:''] @ ''              - cidr: ''),
          Action (Field (Index (Field (Var ''dnn'') ''Pool'') i) ''Prefix''),
          Text []] True, Text []] = Ret (concat (map (poolEntry i) (DataNetworks n)))"
    by (simp del: execNodes.simps(4))
qed

section \<open>Properties\<close>

text \<open>
  C34: the text of the SMF configuration: an entry per peer UPF, numbered in order, with its N4
  address and, for each of the three slices, every data network with the pool of that slice's
  number; the N3 address; and a link from each numbered gNB to its UPF.
\<close>

theorem smf_render_text:
  assumes "enoughPools (UPF_LIST v)"
  shows "smf_renderConfigurationTemplate v = Ret (
    smf_configurationTemplate_text1 @ smf_SVC_NAME v @ smf_configurationTemplate_text2 @
    smf_PFCP_IP v @ nl # ''    listenAddr: '' @ smf_PFCP_IP v @ nl # ''    externalAddr: '' @ smf_PFCP_IP v @
    trimRight smf_configurationTemplate_text3 @
    concat (map (\<lambda>(k, u). upfEntry k u) (enumerate 0 (UPF_LIST v))) @
    trimRight (lines ['''', ''    links:'']) @
    concat (map (\<lambda>(k, u). linkEntry k u) (enumerate 0 (UPF_LIST v))) @
    smf_configurationTemplate_text8 @ smf_SVC_NAME v @ smf_configurationTemplate_text9)"
proof -
  have pools: "\<forall>n\<in>set (N6Cfg u). \<forall>d\<in>set (DataNetworks n). i < length (dn_Pool d)"
    if "u \<in> set (UPF_LIST v)" "i < 3" for u i
    using assms that unfolding enoughPools_def by fastforce
  show ?thesis
    unfolding smf_renderConfigurationTemplate_def Execute_def smf_configurationTemplate_def
    apply (simp del: execNodes.simps(4))
    apply (subst execNodes_range_indexed [where g = peerValue and xs = "UPF_LIST v" and f = upfEntry])
      apply simp
    subgoal for i u
      using pools [of u 0] pools [of u 1] pools [of u 2]
      by (simp add: slice_range upfEntry_def del: execNodes.simps(4))
    apply (simp del: execNodes.simps(4))
    apply (subst execNodes_range_indexed [where g = peerValue and xs = "UPF_LIST v" and f = linkEntry])
      apply simp
     apply (simp add: linkEntry_def)
    apply simp
    done
qed

definition examplePeer :: UpfPeerConfigTemplate where
  "examplePeer = \<lparr>peer_Name = ''upf'', N3IP = ''10.10.13.10'', N4IP = ''10.10.12.10'',
     N6Cfg = [exampleInstance [''10.1.0.0/24'', ''10.2.0.0/24'', ''10.3.0.0/24'']]\<rparr>"

theorem smf_render_text_witness:
  "smf_renderConfigurationTemplate \<lparr>smf_SVC_NAME = ''smf'', smf_PFCP_IP = ''10.10.12.9'', UPF_LIST = [examplePeer]\<rparr> = Ret (
    smf_configurationTemplate_text1 @ ''smf'' @ smf_configurationTemplate_text2 @
    ''10.10.12.9'' @ nl # ''    listenAddr: 10.10.12.9'' @ nl # ''    externalAddr: 10.10.12.9'' @
    trimRight smf_configurationTemplate_text3 @ upfEntry 0 examplePeer @
    trimRight (lines ['''', ''    links:'']) @ nl # ''    - A: gNB0'' @ nl # ''      B: upf'' @
    smf_configurationTemplate_text8 @ ''smf'' @ smf_configurationTemplate_text9)
   \<and> slice 2 examplePeer = nl # ''            - dnn: internet'' @ lines ['''', ''              pools:''] @ ''              - cidr: 10.3.0.0/24''"
proof
  have enough: "enoughPools (UPF_LIST \<lparr>smf_SVC_NAME = ''smf'', smf_PFCP_IP = ''10.10.12.9'', UPF_LIST = [examplePeer]\<rparr>)"
    by (simp add: enoughPools_def examplePeer_def)
  show "smf_renderConfigurationTemplate \<lparr>smf_SVC_NAME = ''smf'', smf_PFCP_IP = ''10.10.12.9'', UPF_LIST = [examplePeer]\<rparr> = Ret (
    smf_configurationTemplate_text1 @ ''smf'' @ smf_configurationTemplate_text2 @
    ''10.10.12.9'' @ nl # ''    listenAddr: 10.10.12.9'' @ nl # ''    externalAddr: 10.10.12.9'' @
    trimRight smf_configurationTemplate_text3 @ upfEntry 0 examplePeer @
    trimRight (lines ['''', ''    links:'']) @ nl # ''    - A: gNB0'' @ nl # ''      B: upf'' @
    smf_configurationTemplate_text8 @ ''smf'' @ smf_configurationTemplate_text9)"
    unfolding smf_render_text [OF enough] by (simp add: linkEntry_def) (simp add: examplePeer_def itoa.simps digit_def char_of_def bit_0)
  show "slice 2 examplePeer = nl # ''            - dnn: internet'' @ lines ['''', ''              pools:''] @ ''              - cidr: 10.3.0.0/24''"
    by (simp add: slice_def poolEntry_def examplePeer_def)
qed

end
