(* ===== verification/SMF_Resources.thy ===== *)
theory SMF_Resources
  imports SMF_Templates NetworkFunction StatusSync
begin

text \<open>
  \<open>controllers/nf/smf/resources.go\<close>: the ConfigMap, Service and Deployment of an SMF, with the
  peer UPFs read from the configs it refers to.
\<close>

section \<open>Definitions\<close>

definition smf_createResourceRequirements ::
  "NFDeploymentSpec \<Rightarrow> (int \<times> ResourceRequirements) go" where
  "smf_createResourceRequirements spec =
     bind_go (deref (Capacity spec)) (\<lambda>capacity.
       let (cpuLimit, memoryLimit, cpuRequest, memoryRequest) =
             (if MaxSessions capacity < 1000 \<and> MaxNFConnections capacity < 10
              then (''100m'', ''128Mi'', ''100m'', ''128Mi'')
              else (''500m'', ''512Mi'', ''500m'', ''512Mi'')) in
       Ret (1, \<lparr>
         Limits = [''cpu'' \<mapsto> MustParse cpuLimit, ''memory'' \<mapsto> MustParse memoryLimit],
         Requests = [''cpu'' \<mapsto> MustParse cpuRequest, ''memory'' \<mapsto> MustParse memoryRequest]\<rparr>))"

definition smf_createNetworkAttachmentDefinitionNetworks ::
  "lib \<Rightarrow> string \<Rightarrow> NFDeploymentSpec \<Rightarrow> string go" where
  "smf_createNetworkAttachmentDefinitionNetworks L templateName spec =
     CreateNetworkAttachmentDefinitionNetworks L templateName
       [(''n4'', GetInterfaceConfigs (Interfaces spec) ''n4'')]"

definition smf_createDeployment :: "lib \<Rightarrow> string \<Rightarrow> NFDeployment \<Rightarrow> Deployment go" where
  "smf_createDeployment L configMapVersion smfDeployment =
     (let namespace = Namespace (nf_Meta smfDeployment);
          instanceName = Name (nf_Meta smfDeployment);
          spec = nf_Spec smfDeployment in
      bind_go (smf_createResourceRequirements spec) (\<lambda>(replicas, resourceRequirements).
      bind_go (smf_createNetworkAttachmentDefinitionNetworks L instanceName spec) (\<lambda>networks.
      Ret \<lparr>
        dep_Meta = zeroMeta\<lparr>Name := instanceName, Namespace := namespace\<rparr>,
        dep_Spec = \<lparr>
          Replicas = replicas,
          MatchLabels = [''name'' \<mapsto> instanceName],
          Template = \<lparr>
            pod_Meta = zeroMeta\<lparr>
              Annotations := Some [ConfigMapVersionAnnotation \<mapsto> configMapVersion,
                NetworksAnnotation \<mapsto> networks],
              Labels := Some [''name'' \<mapsto> instanceName]\<rparr>,
            pod_Spec = \<lparr>
              Containers = [\<lparr>
                c_Name = ''smf'',
                Image = SMFImage,
                ImagePullPolicy = ''Always'',
                CapabilitiesAdd = [''NET_ADMIN''],
                c_Ports = [\<lparr>port_Name = ''n4'', port_Protocol = ''UDP'', port_ContainerPort = 8805\<rparr>],
                Command = [''./smf''],
                Args = [''-c'', ''./config/smfcfg.yaml'', ''-u'', ''./config/uerouting.yaml''],
                VolumeMounts = [\<lparr>MountPath = ''/free5gc/config/'', vm_Name = ''smf-volume''\<rparr>],
                Resources = resourceRequirements\<rparr>],
              DNSPolicy = ''ClusterFirst'',
              RestartPolicy = ''Always'',
              Volumes = [\<lparr>
                vol_Name = ''smf-volume'',
                ProjectedSources = [\<lparr>
                  proj_Name = instanceName,
                  Items = [
                    \<lparr>ktp_Key = ''smfcfg.yaml'', ktp_Path = ''smfcfg.yaml'', ktp_Mode = None\<rparr>,
                    \<lparr>ktp_Key = ''uerouting.yaml'', ktp_Path = ''uerouting.yaml'', ktp_Mode = None\<rparr>]\<rparr>]\<rparr>]\<rparr>\<rparr>\<rparr>,
        dep_Conditions = []\<rparr>)))"

definition smf_createService :: "NFDeployment \<Rightarrow> Service" where
  "smf_createService smfDeployment =
     (let namespace = Namespace (nf_Meta smfDeployment);
          instanceName = Name (nf_Meta smfDeployment);
          labels = [''name'' \<mapsto> instanceName] in
      \<lparr>svc_Meta = zeroMeta\<lparr>Name := instanceName, Namespace := namespace\<rparr>,
       svc_Selector = labels,
       svc_Ports = [\<lparr>sp_Name = ''http'', sp_Protocol = ''TCP'', sp_Port = 80, sp_TargetPort = 80\<rparr>],
       svc_Type = ''ClusterIP''\<rparr>)"

text \<open>An instance is appended once for each of its interfaces that has the name.\<close>

definition smf_getNetworkInstances :: "NFDeploymentSpec \<Rightarrow> string \<Rightarrow> NetworkInstance list \<times> bool" where
  "smf_getNetworkInstances spec interfaceName =
     (let networkInstances = concat (map (\<lambda>networkInstance.
            map (\<lambda>_. networkInstance) (filter (\<lambda>interface. interface = interfaceName) (ni_Interfaces networkInstance)))
            (NetworkInstances spec)) in
      (networkInstances, length networkInstances \<noteq> 0))"

text \<open>
  A config whose object was decoded takes part only when that object is an NFDeployment, and
  is then marshalled again; a config with no decoded object takes part with its raw text.
\<close>

fun smf_extractConfigRefUPFDeployments :: "lib \<Rightarrow> Config list \<Rightarrow> NFDeployment list go" where
  "smf_extractConfigRefUPFDeployments L [] = Ret []"
| "smf_extractConfigRefUPFDeployments L (configRef # rest) =
     (case (case Object (cfg_Config configRef) of
              None \<Rightarrow> Some (Ret (Raw (cfg_Config configRef)))
            | Some object \<Rightarrow>
                if objectGVK object = NFDeploymentGVK L then Some (of_sum (marshalObject L object))
                else None) of
        None \<Rightarrow> smf_extractConfigRefUPFDeployments L rest
      | Some raw \<Rightarrow>
          bind_go raw (\<lambda>raw.
          bind_go (of_sum (unmarshalNFDeployment L raw)) (\<lambda>upfDeployment.
          bind_go (smf_extractConfigRefUPFDeployments L rest) (\<lambda>upfDeployments.
          Ret (upfDeployment # upfDeployments)))))"

text \<open>The loop body of \<open>createConfigMap\<close> over the UPF deployments.\<close>

definition smf_upfPeer :: "NFDeployment \<Rightarrow> UpfPeerConfigTemplate go" where
  "smf_upfPeer upfDeployment =
     bind_go (GetFirstInterfaceConfigIPv4 (Interfaces (nf_Spec upfDeployment)) ''n4'') (\<lambda>upfN4Ip.
     bind_go (GetFirstInterfaceConfigIPv4 (Interfaces (nf_Spec upfDeployment)) ''n3'') (\<lambda>upfN3Ip.
     case smf_getNetworkInstances (nf_Spec upfDeployment) ''n6'' of (upfN6Cfg, ok) \<Rightarrow>
       if \<not> ok then Err NoN6Interfaces
       else Ret \<lparr>peer_Name = Name (nf_Meta upfDeployment), N3IP = upfN3Ip, N4IP = upfN4Ip, N6Cfg = upfN6Cfg\<rparr>))"

definition smf_createConfigMap :: "lib \<Rightarrow> NFDeployment \<Rightarrow> Config list \<Rightarrow> ConfigMap go" where
  "smf_createConfigMap L smfDeployment smfConfigRefs =
     (let namespace = Namespace (nf_Meta smfDeployment);
          instanceName = Name (nf_Meta smfDeployment) in
      bind_go (GetFirstInterfaceConfigIPv4 (Interfaces (nf_Spec smfDeployment)) ''n4'') (\<lambda>n4ip.
      bind_go (smf_extractConfigRefUPFDeployments L smfConfigRefs) (\<lambda>upfDeployments.
      bind_go (map_go smf_upfPeer upfDeployments) (\<lambda>upfList.
      let templateValues = \<lparr>smf_SVC_NAME = instanceName, smf_PFCP_IP = n4ip, UPF_LIST = upfList\<rparr> in
      bind_go (smf_renderConfigurationTemplate templateValues) (\<lambda>configuration.
      bind_go (smf_renderUeRoutingConfigurationTemplate templateValues) (\<lambda>ueRoutingConfiguration.
      Ret \<lparr>cm_APIVersion = ''v1'', cm_Kind = ''ConfigMap'',
        cm_Meta = zeroMeta\<lparr>Namespace := namespace, Name := instanceName\<rparr>,
        Data = [''smfcfg.yaml'' \<mapsto> configuration, ''uerouting.yaml'' \<mapsto> ueRoutingConfiguration]\<rparr>))))))"

section \<open>The contract of the resources\<close>

lemma smf_networks_eq:
  "smf_createNetworkAttachmentDefinitionNetworks L (Name (nf_Meta nf)) (nf_Spec nf) =
     CreateNetworkAttachmentDefinitionNetworks L (Name (nf_Meta nf)) (networksOf [''n4''] nf)"
  by (simp add: smf_createNetworkAttachmentDefinitionNetworks_def networksOf_def)

lemma smf_requirements_shape:
  "smf_createResourceRequirements spec = Ret (n, r) \<Longrightarrow> n = 1 \<and> (\<exists>cpu memory. r =
     \<lparr>Limits = [''cpu'' \<mapsto> cpu, ''memory'' \<mapsto> memory],
      Requests = [''cpu'' \<mapsto> cpu, ''memory'' \<mapsto> memory]\<rparr>)"
  by (cases "Capacity spec") (auto simp: smf_createResourceRequirements_def Let_def split: if_splits)

lemma smf_requirements_Ret:
  assumes "smf_createResourceRequirements spec = Ret (n, r)"
  shows "n = 1 \<and> Limits r = Requests r \<and> dom (Limits r) = {''cpu'', ''memory''}"
proof -
  from smf_requirements_shape [OF assms] obtain cpu memory where "n = 1"
    and r: "r = \<lparr>Limits = [''cpu'' \<mapsto> cpu, ''memory'' \<mapsto> memory],
      Requests = [''cpu'' \<mapsto> cpu, ''memory'' \<mapsto> memory]\<rparr>" by blast
  then show ?thesis by (simp only: r ResourceRequirements.simps resources_dom)
qed

lemma smf_requirements_succeeds: "(\<exists>r. smf_createResourceRequirements spec = Ret r) \<longleftrightarrow> Capacity spec \<noteq> None"
  by (cases "Capacity spec") (auto simp: smf_createResourceRequirements_def Let_def split: if_splits)

interpretation smf_resources: network_function
  "\<lambda>x nf. smf_createConfigMap (fst x) nf (snd x)" smf_createDeployment "[''n4'']"
proof
  fix nf cm x L v d e
  show "smf_createConfigMap (fst x) nf (snd x) = Ret cm \<Longrightarrow> namedLike nf (cm_Meta cm)"
    by (auto simp: smf_createConfigMap_def namedLike_def zeroMeta_def go_inv Let_def split: if_splits prod.splits)
  show "smf_createDeployment L v nf = Ret d \<Longrightarrow> namedLike nf (dep_Meta d) \<and> dep_Conditions d = []"
    by (auto simp: smf_createDeployment_def namedLike_def zeroMeta_def go_inv Let_def split: prod.splits)
  show "smf_createDeployment L v nf = Ret d \<Longrightarrow> \<exists>annot.
      CreateNetworkAttachmentDefinitionNetworks L (Name (nf_Meta nf)) (networksOf [''n4''] nf) = Ret annot
      \<and> templateAnnotations d = Some [ConfigMapVersionAnnotation \<mapsto> v, NetworksAnnotation \<mapsto> annot]"
    by (auto simp: smf_createDeployment_def smf_networks_eq templateAnnotations_def go_inv Let_def split: prod.splits)
  show "selectsOwnPods d \<and> guaranteed d" if made: "smf_createDeployment L v nf = Ret d"
  proof
    from made obtain n r where req: "smf_createResourceRequirements (nf_Spec nf) = Ret (n, r)"
      and res: "\<forall>container \<in> set (Containers (pod_Spec (Template (dep_Spec d)))). Resources container = r"
      by (auto simp: smf_createDeployment_def go_inv Let_def)
    show "guaranteed d"
      using smf_requirements_Ret [OF req] res unfolding guaranteed_def by metis
    show "selectsOwnPods d"
      using made by (auto simp: smf_createDeployment_def selectsOwnPods_def go_inv Let_def split: prod.splits)
  qed
  show "smf_createDeployment L v nf = Ret d \<Longrightarrow> smf_createConfigMap (fst x) nf (snd x) = Ret cm \<Longrightarrow> volumesResolve d cm"
    by (auto simp: smf_createDeployment_def smf_createConfigMap_def volumesResolve_def go_inv Let_def
        split: prod.splits if_splits)
  show "smf_createDeployment L v nf \<noteq> Err e \<or> (\<exists>n. e = MissingGateway n)"
    using Create_Err [of L "Name (nf_Meta nf)" "networksOf [''n4''] nf" e]
    by (cases "Capacity (nf_Spec nf)")
      (auto simp: smf_createDeployment_def smf_networks_eq smf_createResourceRequirements_def go_inv Let_def
        split: prod.splits if_splits)
  show "(\<exists>d. smf_createDeployment L v nf = Ret d) \<longleftrightarrow>
      Capacity (nf_Spec nf) \<noteq> None \<and> attachable [''n4''] nf"
    using smf_requirements_succeeds [of "nf_Spec nf"]
      Create_Ret_iff [of L "Name (nf_Meta nf)" "networksOf [''n4''] nf"]
    by (auto simp: smf_createDeployment_def smf_networks_eq allHaveGateways_networksOf go_inv Let_def
        split: prod.splits)
qed

section \<open>Properties\<close>

text \<open>
  Which configs take part, and the text each one gives: configs of another kind are left out,
  configs with raw text are read whatever their kind.
\<close>

definition takesPart :: "lib \<Rightarrow> Config \<Rightarrow> bool" where
  "takesPart L cfg \<longleftrightarrow> (case Object (cfg_Config cfg) of None \<Rightarrow> True | Some x \<Rightarrow> objectGVK x = NFDeploymentGVK L)"

definition readConfig :: "lib \<Rightarrow> Config \<Rightarrow> NFDeployment go" where
  "readConfig L cfg =
     bind_go (case Object (cfg_Config cfg) of
        None \<Rightarrow> Ret (Raw (cfg_Config cfg)) | Some x \<Rightarrow> of_sum (marshalObject L x))
       (\<lambda>raw. of_sum (unmarshalNFDeployment L raw))"

lemma smf_extract_eq:
  "smf_extractConfigRefUPFDeployments L configRefs = map_go (readConfig L) (filter (takesPart L) configRefs)"
proof (induction configRefs)
  case Nil
  then show ?case by simp
next
  case (Cons cfg rest)
  then show ?case
    by (cases "Object (cfg_Config cfg)") (simp_all add: takesPart_def readConfig_def bind_go_assoc)
qed

definition rawConfig :: "string \<Rightarrow> Config" where
  "rawConfig raw = \<lparr>cfg_Meta = zeroMeta\<lparr>Name := raw\<rparr>, cfg_Config = \<lparr>Raw = raw, Object = None\<rparr>\<rparr>"

lemma smf_configMap_Ret_iff:
  "(\<exists>cm. smf_createConfigMap L nf configRefs = Ret cm) \<longleftrightarrow>
     (\<exists>n4ip. GetFirstInterfaceConfigIPv4 (Interfaces (nf_Spec nf)) ''n4'' = Ret n4ip)
     \<and> (\<exists>upfs peers. smf_extractConfigRefUPFDeployments L configRefs = Ret upfs
          \<and> map_go smf_upfPeer upfs = Ret peers \<and> enoughPools peers)"
proof -
  have "(\<exists>s. smf_renderConfigurationTemplate \<lparr>smf_SVC_NAME = a, smf_PFCP_IP = b, UPF_LIST = peers\<rparr> = Ret s)
      \<longleftrightarrow> enoughPools peers" for a b peers
    by (simp add: smf_render_succeeds)
  then show ?thesis
    by (simp add: smf_createConfigMap_def go_inv Let_def smf_ue_routing_text) blast
qed


lemma smf_getNetworkInstances_set:
  "set (fst (smf_getNetworkInstances spec name)) = {ni \<in> set (NetworkInstances spec). name \<in> set (ni_Interfaces ni)}"
  by (auto simp: smf_getNetworkInstances_def Let_def)

lemma smf_upfPeer_N6Cfg:
  "smf_upfPeer upf = Ret peer \<Longrightarrow> N6Cfg peer = fst (smf_getNetworkInstances (nf_Spec upf) ''n6'')"
  by (cases "smf_getNetworkInstances (nf_Spec upf) ''n6''")
    (auto simp: smf_upfPeer_def go_inv split: if_splits)

text \<open>
  C29: one peer UPF with a data network of fewer than three pools on N6 is enough to leave the
  SMF without a configuration: no ConfigMap can be made, whatever the rest looks like.
\<close>

theorem smf_blocked_by_few_pools:
  assumes "smf_extractConfigRefUPFDeployments L configRefs = Ret upfs" and "upf \<in> set upfs"
    and "ni \<in> set (NetworkInstances (nf_Spec upf))" and "''n6'' \<in> set (ni_Interfaces ni)"
    and "dn \<in> set (DataNetworks ni)" and "length (dn_Pool dn) < 3"
  shows "smf_createConfigMap L nf configRefs \<noteq> Ret cm"
proof
  assume "smf_createConfigMap L nf configRefs = Ret cm"
  with assms(1) smf_configMap_Ret_iff [of L nf configRefs] obtain peers
    where peers: "map_go smf_upfPeer upfs = Ret peers" "enoughPools peers" by auto
  from assms(2) obtain i where i: "i < length upfs" "upf = upfs ! i" by (auto simp: in_set_conv_nth)
  with peers(1) have peer: "peers ! i \<in> set peers" "smf_upfPeer upf = Ret (peers ! i)"
    by (auto simp: map_go_eq_Ret list_all2_conv_all_nth)
  with assms(3,4) have "ni \<in> set (N6Cfg (peers ! i))"
    by (simp add: smf_upfPeer_N6Cfg smf_getNetworkInstances_set)
  with peers(2) peer(1) assms(5,6) show False
    unfolding enoughPools_def by fastforce
qed

definition onePoolUPF :: NFDeployment where
  "onePoolUPF = exampleNF ''upf.free5gc.io'' [exampleInterface ''n3'', exampleInterface ''n4'', exampleInterface ''n6'']
     [exampleInstance [''10.1.0.0/24'']]"

lemma onePoolUPF_read: "smf_extractConfigRefUPFDeployments (exampleLib onePoolUPF) [rawConfig ''nf''] = Ret [onePoolUPF]"
  by (simp add: rawConfig_def exampleLib_def onePoolUPF_def exampleNF_def)

theorem smf_blocked_by_few_pools_witness:
  "\<exists>upfs. smf_extractConfigRefUPFDeployments (exampleLib onePoolUPF) [rawConfig ''nf''] = Ret upfs \<and> onePoolUPF \<in> set upfs
    \<and> (\<forall>cm. smf_createConfigMap (exampleLib onePoolUPF) (exampleNF ''smf.free5gc.io'' [exampleInterface ''n4''] [])
          [rawConfig ''nf''] \<noteq> Ret cm)"
proof -
  have "smf_createConfigMap (exampleLib onePoolUPF) (exampleNF ''smf.free5gc.io'' [exampleInterface ''n4''] [])
      [rawConfig ''nf''] \<noteq> Ret cm" for cm
    by (rule smf_blocked_by_few_pools [OF onePoolUPF_read, where upf = onePoolUPF and ni = "exampleInstance [''10.1.0.0/24'']"
          and dn = "\<lparr>dn_Name = Some ''internet'', dn_Pool = [\<lparr>Prefix = ''10.1.0.0/24''\<rparr>]\<rparr>"])
      (simp_all add: onePoolUPF_def)
  then show ?thesis using onePoolUPF_read by simp
qed

end
