(* ===== verification/SMF_Reconciler.thy ===== *)
theory SMF_Reconciler
  imports Creation SMF_Status SMF_Resources
begin

text \<open>
  \<open>controllers/nf/smf/reconciler.go\<close>: one reconcile of an SMF, which first fetches the
  configs it refers to.
\<close>

section \<open>Definitions\<close>

definition smf_Reconcile :: "lib \<Rightarrow> 'w client \<Rightarrow> NamespacedName \<Rightarrow> 'w \<Rightarrow> Result go \<times> 'w" where
  "smf_Reconcile L c req w =
     (case GetNFDeployment c req w of
        (Inl err, w0) \<Rightarrow> (if IsNotFound err then Ret emptyResult else Err err, w0)
      | (Inr smfDeployment, w0) \<Rightarrow>
          (let namespace = Namespace (nf_Meta smfDeployment);
               name = Name (nf_Meta smfDeployment) in
           case findConfigMap c (namespace, name) w0 of ((configMapFound, configMapVersion), w1) \<Rightarrow>
           case findService c (namespace, name) w1 of (serviceFound, w2) \<Rightarrow>
           case findDeployment c (namespace, name) w2 of (currentDeployment, w3) \<Rightarrow>
           andThen (syncAndRoll smf_syncStatus c smfDeployment currentDeployment configMapVersion w3) (\<lambda>_ w4.
           case smf_GetAllConfigRefs c smfDeployment req w4 of
             (Panic p, w5) \<Rightarrow> (Panic p, w5)
           | (Err err, w5) \<Rightarrow> (Err err, w5)
           | (Ret smfConfigRefs, w5) \<Rightarrow>
           andThen (ensureConfigMap L c smfDeployment (smf_createConfigMap L smfDeployment smfConfigRefs)
             configMapFound configMapVersion w5) (\<lambda>configMapVersion w6.
           andThen (ensureService L c smfDeployment (smf_createService smfDeployment) serviceFound w6) (\<lambda>_ w7.
           ensureDeployment L c smfDeployment (smf_createDeployment L configMapVersion smfDeployment)
             (currentDeployment \<noteq> None) (updateFound c) w7)))))"

section \<open>The shared reconcile\<close>

text \<open>The SMF's parts: it has config references and a Service, and overwrites a found Deployment.\<close>

definition smf_parts :: parts where
  "smf_parts = \<lparr>create_of = smf_createNfDeploymentStatus, refs_of = (\<lambda>nf. ParametersRefs (nf_Spec nf)),
     configMap_of = smf_createConfigMap, service_of = Some smf_createService,
     deployment_of = smf_createDeployment, overwrites = True\<rparr>"

lemma smf_parts_sel [simp]:
  "create_of smf_parts = smf_createNfDeploymentStatus" "refs_of smf_parts = (\<lambda>nf. ParametersRefs (nf_Spec nf))"
  "configMap_of smf_parts = smf_createConfigMap" "service_of smf_parts = Some smf_createService"
  "deployment_of smf_parts = smf_createDeployment" "overwrites smf_parts = True"
  by (simp_all add: smf_parts_def)

lemma smf_syncStatus_with: "smf_syncStatus = syncStatusWith smf_createNfDeploymentStatus"
  by (intro ext) (simp add: smf_syncStatus_def syncStatusWith_def)

lemma smf_Reconcile_with: "smf_Reconcile = reconcileWith smf_parts"
  by (intro ext)
    (simp add: smf_Reconcile_def reconcileWith_def reconcileNF_def createAll_def createRest_def [abs_def] findServiceOf_def
      ensureServiceOf_def [abs_def] whenFound_def [abs_def] smf_syncStatus_with keyOf_def Let_def case_prod_beta smf_GetAllConfigRefs_def
      cong: sum.case_cong go.case_cong)

interpretation smf_reconciler: reconciler smf_parts "[''n4'']"
proof (rule reconciler.intro)
  show "network_function (\<lambda>x nf. configMap_of smf_parts (fst x) nf (snd x)) (deployment_of smf_parts) [''n4'']"
    using smf_resources.network_function_axioms by simp
  show "reconciler_axioms smf_parts"
    by unfold_locales (auto simp: smf_createService_def namedLike_def Let_def)
qed

section \<open>An example\<close>

text \<open>
  An SMF that refers to the same config twice; the config is of a UPF whose data network has
  three pools.
\<close>

definition threePoolUPF :: NFDeployment where
  "threePoolUPF = exampleNF ''upf.free5gc.io'' [exampleInterface ''n3'', exampleInterface ''n4'', exampleInterface ''n6'']
     [exampleInstance [''10.1.0.0/24'', ''10.2.0.0/24'', ''10.3.0.0/24'']]"

definition exampleConfig :: Config where
  "exampleConfig = \<lparr>cfg_Meta = zeroMeta\<lparr>Name := ''cfg'', Namespace := ''ns''\<rparr>, cfg_Config = \<lparr>Raw = ''nf'', Object = None\<rparr>\<rparr>"

definition exampleSMF :: NFDeployment where
  "exampleSMF = (exampleNF ''smf.free5gc.io'' [exampleInterface ''n4''] [])\<lparr>nf_Spec :=
     (nf_Spec (exampleNF ''smf.free5gc.io'' [exampleInterface ''n4''] []))\<lparr>ParametersRefs :=
       map (\<lambda>name. \<lparr>ref_Name = Some name\<rparr>) [''cfg'', ''cfg'']\<rparr>\<rparr>"

definition exampleSMFStore :: store where
  "exampleSMFStore = emptyStore\<lparr>nfs := [(''ns'', ''nf'') \<mapsto> exampleSMF], cfgs := [(''ns'', ''cfg'') \<mapsto> exampleConfig],
     nads := (\<lambda>k. k = (''ns'', ''nf-n4''))\<rparr>"

lemma exampleSMF_sel [simp]:
  "keyOf (nf_Meta exampleSMF) = (''ns'', ''nf'')" "Name (nf_Meta exampleSMF) = ''nf''" "Namespace (nf_Meta exampleSMF) = ''ns''"
  "Interfaces (nf_Spec exampleSMF) = [exampleInterface ''n4'']" "\<exists>y. Capacity (nf_Spec exampleSMF) = Some y"
  "ParametersRefs (nf_Spec exampleSMF) = map (\<lambda>name. \<lparr>ref_Name = Some name\<rparr>) [''cfg'', ''cfg'']"
  "keyOf (cfg_Meta exampleConfig) = (''ns'', ''cfg'')" "attachable [''n4''] exampleSMF"
  by (simp_all add: exampleSMF_def exampleNF_def exampleConfig_def keyOf_def attachable_def)

lemma exampleSMFStore_sel [simp]:
  "nfs exampleSMFStore = [(''ns'', ''nf'') \<mapsto> exampleSMF]" "cms exampleSMFStore = Map.empty"
  "svcs exampleSMFStore = Map.empty" "deps exampleSMFStore = Map.empty"
  "cfgs exampleSMFStore = [(''ns'', ''cfg'') \<mapsto> exampleConfig]" "nads exampleSMFStore = (\<lambda>k. k = (''ns'', ''nf-n4''))"
  by (simp_all add: exampleSMFStore_def emptyStore_def)

lemma exampleSMF_networks: "networksOf [''n4''] exampleSMF = [(''n4'', [exampleInterface ''n4''])]"
  by (simp add: networksOf_def)

lemma exampleSMF_expected:
  "plainNetworks ''nf'' (networksOf [''n4''] exampleSMF)"
  "expectedNetworks ''nf'' (networksOf [''n4''] exampleSMF) =
     [\<lparr>net_Name = ''nf-n4'', net_Interface = ''n4'', net_IP = '''', net_Gateway = ''''\<rparr>]"
  by (simp_all add: exampleSMF_networks plainNetworks_def expectedNetworks_def mapSlice_def CreateNetworkAttachmentDefinitionName_def)

lemma threePool_peer: "\<exists>peer. smf_upfPeer threePoolUPF = Ret peer"
  by (simp add: smf_upfPeer_def threePoolUPF_def GetFirstInterfaceConfigIPv4_def ParseCIDR_example IPString_example
      smf_getNetworkInstances_def Let_def del: As16.simps)

lemma exampleSMF_configMap: "\<exists>cm. smf_createConfigMap (exampleLib threePoolUPF) exampleSMF [exampleConfig] = Ret cm"
proof -
  obtain peer where peer: "smf_upfPeer threePoolUPF = Ret peer" using threePool_peer by blast
  have "smf_extractConfigRefUPFDeployments (exampleLib threePoolUPF) [exampleConfig] = Ret [threePoolUPF]"
    by (simp add: exampleConfig_def exampleLib_def threePoolUPF_def)
  moreover have "map_go smf_upfPeer [threePoolUPF] = Ret [peer]"
    by (simp add: peer)
  moreover have "enoughPools [peer]"
    using smf_upfPeer_N6Cfg [OF peer]
    by (simp add: enoughPools_def threePoolUPF_def smf_getNetworkInstances_def Let_def)
  moreover have "\<exists>ip. GetFirstInterfaceConfigIPv4 (Interfaces (nf_Spec exampleSMF)) ''n4'' = Ret ip"
    by (simp add: GetFirstInterfaceConfigIPv4_def ParseCIDR_example IPString_example del: As16.simps)
  ultimately show ?thesis
    unfolding smf_configMap_Ret_iff by blast
qed

section \<open>Properties\<close>


text \<open>
  C2: convergence of an SMF: on a server that has the NFDeployment, its networks and the configs
  it refers to (each under its own name), but none of its objects, one reconcile creates the
  ConfigMap for exactly one config per referenced name, in the order of the first references,
  then the Service and the Deployment for that ConfigMap.
\<close>

theorem smf_first_reconcile:
  assumes api: "api_server c" and L: "ownerRefsOnly L"
    and nf: "nfsOf (viewOf c w) req = Some nf" "keyOf (nf_Meta nf) = req"
    and fresh: "cmsOf (viewOf c w) req = None" "svcsOf (viewOf c w) req = None" "depsOf (viewOf c w) req = None"
    and refs: "ParametersRefs (nf_Spec nf) = map (\<lambda>name. \<lparr>ref_Name = Some name\<rparr>) names"
    and configs: "\<forall>name \<in> set names. cfgsOf (viewOf c w) (fst req, name) = Some (cfg name)
      \<and> keyOf (cfg_Meta (cfg name)) = (fst req, name)"
    and cm: "smf_createConfigMap L nf (map cfg (firsts names)) = Ret cm"
    and dep: "Capacity (nf_Spec nf) \<noteq> None" "attachable [''n4''] nf"
    and plain: "plainNetworks (Name (nf_Meta nf)) (networksOf [''n4''] nf)"
    and nads: "\<forall>n \<in> set (expectedNetworks (Name (nf_Meta nf)) (networksOf [''n4''] nf)).
      nadsOf (viewOf c w) (Namespace (nf_Meta nf), net_Name n)"
  shows "\<exists>w' cm' d. smf_Reconcile L c req w = (Ret \<lparr>Requeue = False, RequeueAfter = 30 * Second\<rparr>, w')
    \<and> cmsOf (viewOf c w') req = Some cm' \<and> Data cm' = Data cm
    \<and> svcsOf (viewOf c w') req \<noteq> None
    \<and> depsOf (viewOf c w') req = Some d
    \<and> mapGet (templateAnnotations d) ConfigMapVersionAnnotation = ResourceVersion (cm_Meta cm')"
proof -
  have "fst (smf_collectConfigRefs c (fst req) (ParametersRefs (nf_Spec nf)) [] w) = Ret (map cfg (firsts names))"
    using api_server.collect_firsts [OF api, of "[]" names w "fst req" cfg] configs by (simp add: refs)
  with smf_reconciler.first_reconcile [OF api L nf fresh(1,3) _ _ dep plain nads, of "map cfg (firsts names)" cm] cm
  show ?thesis by (auto simp: smf_Reconcile_with)
qed

theorem smf_first_reconcile_witness:
  "\<exists>w' d. smf_Reconcile (exampleLib threePoolUPF) storeClient (''ns'', ''nf'') exampleSMFStore =
      (Ret \<lparr>Requeue = False, RequeueAfter = 30 * Second\<rparr>, w') \<and> deps w' (''ns'', ''nf'') = Some d"
proof -
  obtain cm where "smf_createConfigMap (exampleLib threePoolUPF) exampleSMF [exampleConfig] = Ret cm"
    using exampleSMF_configMap by blast
  then have cm: "smf_createConfigMap (exampleLib threePoolUPF) exampleSMF (map (\<lambda>_. exampleConfig) (firsts [''cfg'', ''cfg''])) = Ret cm"
    by (simp add: firsts_def)
  have "\<exists>w' cm' d. smf_Reconcile (exampleLib threePoolUPF) storeClient (''ns'', ''nf'') exampleSMFStore =
        (Ret \<lparr>Requeue = False, RequeueAfter = 30 * Second\<rparr>, w')
    \<and> cmsOf (viewOf storeClient w') (''ns'', ''nf'') = Some cm' \<and> Data cm' = Data cm
    \<and> svcsOf (viewOf storeClient w') (''ns'', ''nf'') \<noteq> None
    \<and> depsOf (viewOf storeClient w') (''ns'', ''nf'') = Some d
    \<and> mapGet (templateAnnotations d) ConfigMapVersionAnnotation = ResourceVersion (cm_Meta cm')"
    by (rule smf_first_reconcile [OF store.api_server_axioms _ _ _ _ _ _ _ _ cm])
      (simp_all add: exampleSMF_expected)
  then show ?thesis by auto
qed

text \<open>
  The write discipline of an SMF reconcile, whatever the client answers: at most one write
  each of the status, the ConfigMap, the Service and the Deployment, in this order and none
  after a refused one; and only the SMF's own objects are
  written.
\<close>

theorem smf_write_discipline:
  assumes "smf_Reconcile L (logged c) req (w, []) = (r, (w', tr))"
    and "GetNFDeployment c req w = (Inr nf, w0)"
  shows "orderedWrites 0 4 tr \<and> (\<forall>e \<in> set tr. permitted L nf
    (\<lambda>cm. \<exists>configs. smf_createConfigMap L nf configs = Ret cm) (\<lambda>s. s = smf_createService nf)
    (\<lambda>d. \<exists>v. smf_createDeployment L v nf = Ret d) True e)"
proof -
  have "stepped 0 4 (permitted L nf (\<lambda>cm. \<exists>configs. smf_createConfigMap L nf configs = Ret cm) (\<lambda>s. s = smf_createService nf)
      (\<lambda>d. \<exists>v. smf_createDeployment L v nf = Ret d) True) False [] tr"
    by (rule reconcile_stepped [OF assms(1) [unfolded smf_Reconcile_with] assms(2)]) (simp add: lawful_permitted)
  then show ?thesis by (rule stepped_Nil)
qed

theorem smf_write_discipline_witness:
  "\<exists>r w' tr. smf_Reconcile (exampleLib threePoolUPF) (logged storeClient) (''ns'', ''nf'') (exampleSMFStore, []) = (r, (w', tr))
    \<and> orderedWrites 0 4 tr"
proof -
  obtain r w' tr where run: "smf_Reconcile (exampleLib threePoolUPF) (logged storeClient) (''ns'', ''nf'')
      (exampleSMFStore, []) = (r, (w', tr))"
    by (metis prod.collapse)
  have "GetNFDeployment storeClient (''ns'', ''nf'') exampleSMFStore = (Inr exampleSMF, exampleSMFStore)"
    by simp
  with run show ?thesis
    using smf_write_discipline [OF run] by blast
qed

end
