(* ===== verification/UPF_Status.thy ===== *)
theory UPF_Status
  imports StatusSync
begin

text \<open>
  \<open>controllers/nf/upf/status.go\<close>: the next status of an NFDeployment from the state of its
  deployment, and \<open>syncStatus\<close> of the UPF reconciler.
\<close>

definition upf_createNfDeploymentStatus :: createStatus where
  "upf_createNfDeploymentStatus now deployment nfDeployment =
     (let old = Conditions (nf_Status nfDeployment);
          status = (\<lambda>cs. \<lparr>ObservedGeneration = observedGeneration (Generation (dep_Meta deployment)),
            Conditions = cs\<rparr>);
          starting = mkCondition Reconciling ConditionFalse ''MinimumReplicasNotAvailable''
            ''NFDeployment pod(s) is(are) starting.'' now in
      if old = [] then (status (old @ [starting]), True)
      else (case dep_Conditions deployment of
          [] \<Rightarrow> (status old, False)
        | first # _ \<Rightarrow>
            if dc_Type first = DeploymentProgressing \<and> cond_Type (last old) = Reconciling
            then (status old, False)
            else if dc_Type first = cond_Type (last old) then (status old, False)
            else if dc_Type first = DeploymentAvailable
            then (status (old @ [mkCondition Available ConditionTrue ''MinimumReplicasAvailable''
                    ''NFDeployment pods are available.'' now]), True)
            else if dc_Type first = DeploymentProgressing then (status (old @ [starting]), True)
            else if dc_Type first = DeploymentReplicaFailure
            then (status (old @ [mkCondition Stalled ConditionFalse ''MinimumReplicasNotAvailable''
                    ''NFDeployment pod(s) is(are) failing.'' now]), True)
            else (status old, True)))"

definition upf_syncStatus :: "'w client \<Rightarrow> Deployment \<Rightarrow> NFDeployment \<Rightarrow> 'w \<Rightarrow> error option \<times> 'w" where
  "upf_syncStatus c deployment upfDeployment w =
     (case upf_createNfDeploymentStatus (Now c w) deployment upfDeployment of (status, update) \<Rightarrow>
        if update then
          (case UpdateStatus c (upfDeployment\<lparr>nf_Status := status\<rparr>) w of
             (Inl err, w') \<Rightarrow> (Some err, w')
           | (Inr _, w') \<Rightarrow> (None, w'))
        else (None, w))"

interpretation upf_status: status_creator upf_createNfDeploymentStatus "''NFDeployment''"
proof
  fix now d nf st update
  assume *: "upf_createNfDeploymentStatus now d nf = (st, update)"
  show "(map cond_Type (Conditions st), update) = nextHistory (history nf) (observed d)"
  proof (cases "Conditions (nf_Status nf)")
    case Nil
    with * show ?thesis
      by (auto simp: upf_createNfDeploymentStatus_def history_def Let_def)
  next
    case (Cons c cs)
    with * show ?thesis
      by (cases "dep_Conditions d")
        (auto simp: upf_createNfDeploymentStatus_def history_def observed_def samePhase_def phaseOf_def
          Let_def last_map split: if_splits)
  qed
  show "\<exists>cs. Conditions st = Conditions (nf_Status nf) @ cs \<and> set cs \<subseteq> vocabulary ''NFDeployment'' now"
    using * by (auto simp: upf_createNfDeploymentStatus_def vocabulary_def Let_def split: if_splits list.splits)
  show "ObservedGeneration st = observedGeneration (Generation (dep_Meta d))"
    using * by (auto simp: upf_createNfDeploymentStatus_def Let_def split: if_splits list.splits)
qed

section \<open>Properties\<close>

text \<open>
  The UPF status refines the abstract step on condition types.
\<close>

theorem upf_status_refines:
  "case upf_createNfDeploymentStatus now d nf of (st, update) \<Rightarrow>
     (map cond_Type (Conditions st), update) = nextHistory (history nf) (observed d)
     \<and> (\<exists>cs. Conditions st = Conditions (nf_Status nf) @ cs \<and> set cs \<subseteq> vocabulary ''NFDeployment'' now)
     \<and> ObservedGeneration st = observedGeneration (Generation (dep_Meta d))"
proof (cases "upf_createNfDeploymentStatus now d nf")
  case (Pair st update)
  show ?thesis
    using upf_status.refines [OF Pair] upf_status.extends [OF Pair] upf_status.generation [OF Pair]
    by (simp add: Pair)
qed

text \<open>
  C19: the observed generation is the deployment's generation, cut off at the largest 32-bit
  value; the conversion never wraps for a generation the API server can assign.
\<close>

theorem upf_observed_generation:
  assumes "0 \<le> sint (Generation (dep_Meta d))"
  shows "sint (ObservedGeneration (fst (upf_createNfDeploymentStatus now d nf))) =
    min (sint (Generation (dep_Meta d))) 2147483647"
proof (cases "upf_createNfDeploymentStatus now d nf")
  case (Pair st update)
  with upf_status.generation [OF Pair] sint_observedGeneration [OF assms] show ?thesis by simp
qed

theorem upf_observed_generation_witness:
  "sint (ObservedGeneration (fst (upf_createNfDeploymentStatus 0
     ((seenDeployment DeploymentAvailable)\<lparr>dep_Meta := zeroMeta\<lparr>Generation := 4294967296\<rparr>\<rparr>) (startedNF ''nf''))))
   = 2147483647"
  by (subst upf_observed_generation) simp_all

end
