(* ===== verification/UPF_Templates.thy ===== *)
theory UPF_Templates
  imports GoTemplate
begin

text \<open>
  \<open>controllers/nf/upf/templates.go\<close>: the UPF configuration and wrapper script templates
  and their rendering.
\<close>

section \<open>The templates\<close>

definition upf_configurationTemplate_text1 :: string where
  "upf_configurationTemplate_text1 =
     lines [
      '''',
      ''version: 1.0.3'',
      ''description: UPF configuration'',
      '''',
      ''logger:'',
      ''  reportCaller: false'',
      ''  level: info'',
      ''  enable: true'',
      '''',
      ''dnnList:'']"

definition upf_configurationTemplate_text2 :: string where
  "upf_configurationTemplate_text2 =
     lines [
      '' # External IP or FQDN can be reached'',
      ''  retransTimeout: 1s # retransmission timeout'',
      ''  maxRetrans: 3 # the max number of retransmission'',
      '''',
      ''gtpu:'',
      ''  forwarder: gtp5g'',
      ''  ifList:''] @ ''  - addr: ''"

definition upf_configurationTemplate :: "node list" where
  "upf_configurationTemplate = [
    Text upf_configurationTemplate_text1,
    RangeNode True [''netInstance''] (Field Dot ''N6cfg'') [
      Text (nl # ''  ''),
      RangeNode True [''dnn''] (Field (Var ''netInstance'') ''DataNetworks'') [
        Text (nl # ''  - cidr: ''),
        Action (Field (Index (Field (Var ''dnn'') ''Pool'') 0) ''Prefix''),
        Text (nl # ''    dnn: ''),
        Action (Field (Var ''dnn'') ''Name''),
        Text (nl # ''    natifname: ''),
        Action (Index (Field (Var ''netInstance'') ''Interfaces'') 0),
        Text (nl # ''  '')] True,
      Text [nl]] True,
    Text (lines ['''', '''', ''pfcp:''] @ ''  addr: ''),
    Action (Field Dot ''PFCP_IP''),
    Text (nl # ''  nodeID: ''),
    Action (Field Dot ''PFCP_IP''),
    Text upf_configurationTemplate_text2,
    Action (Field Dot ''GTPU_IP''),
    Text (lines ['''', ''    type: N3''])]"

definition upf_wrapperScriptTemplate_text1 :: string where
  "upf_wrapperScriptTemplate_text1 =
     lines [
      '' -j MASQUERADE  # route traffic comming from the UE  SUBNET to the interface N6''] @ ''  ''"

definition upf_wrapperScriptTemplate_text2 :: string where
  "upf_wrapperScriptTemplate_text2 =
     lines [
      '''',
      ''echo '' @ [dquote] @ ''1200 n6if'' @ [dquote] @ '' >> /etc/iproute2/rt_tables # create a routing table for the interface N6'']"

definition upf_wrapperScriptTemplate_text3 :: string where
  "upf_wrapperScriptTemplate_text3 =
     lines [
      '' table n6if   # use the created ip table to route the traffic comming from  the UE SUBNET''] @ ''ip route add default via ''"

definition upf_wrapperScriptTemplate_text4 :: string where
  "upf_wrapperScriptTemplate_text4 =
     lines [
      '' table n6if  # add a default route in the created table so  that all UEs will use this gateway for external communications (target IP not in the Data Network attached  to the interface N6) and then the Data Network will manage to route the traffic''] @ ''  ''"

definition upf_wrapperScriptTemplate :: "node list" where
  "upf_wrapperScriptTemplate = [
    Text (lines [''#!/bin/sh'', '''', ''### Implement networking rules'', ''iptables -A FORWARD -j ACCEPT'']),
    RangeNode True [''netInstance''] (Field Dot ''N6cfg'') [
      Text (nl # ''  ''),
      RangeNode True [''dnn''] (Field (Var ''netInstance'') ''DataNetworks'') [
        Text (nl # ''iptables -t nat -A POSTROUTING -s ''),
        Action (Field (Index (Field (Var ''dnn'') ''Pool'') 0) ''Prefix''),
        Text '' -o '',
        Action (Index (Field (Var ''netInstance'') ''Interfaces'') 0),
        Text upf_wrapperScriptTemplate_text1] True,
      Text [nl]] True,
    Text upf_wrapperScriptTemplate_text2,
    RangeNode True [''netInstance''] (Field Dot ''N6cfg'') [
      Text (nl # ''  ''),
      RangeNode True [''dnn''] (Field (Var ''netInstance'') ''DataNetworks'') [
        Text (nl # ''ip rule add from ''),
        Action (Field (Index (Field (Var ''dnn'') ''Pool'') 0) ''Prefix''),
        Text upf_wrapperScriptTemplate_text3,
        Action (Field Root ''N6gw''),
        Text '' dev '',
        Action (Index (Field (Var ''netInstance'') ''Interfaces'') 0),
        Text upf_wrapperScriptTemplate_text4] True,
      Text [nl]] True,
    Text (lines ['''', '''', ''/free5gc/upf -c /free5gc/config/upfcfg.yaml''])]"

section \<open>Rendering\<close>

record upf_templateValues =
  upf_PFCP_IP :: string
  upf_GTPU_IP :: string
  upf_N6cfg :: "NetworkInstance list"
  upf_N6gw :: string

definition upf_values :: "upf_templateValues \<Rightarrow> value" where
  "upf_values v = VStruct
     [(''PFCP_IP'', VString (upf_PFCP_IP v)), (''GTPU_IP'', VString (upf_GTPU_IP v)),
      (''N6cfg'', VList (map networkInstanceValue (upf_N6cfg v))), (''N6gw'', VString (upf_N6gw v))]"

definition upf_renderConfigurationTemplate :: "upf_templateValues \<Rightarrow> string go" where
  "upf_renderConfigurationTemplate v = Execute upf_configurationTemplate (upf_values v)"

definition upf_renderWrapperScriptTemplate :: "upf_templateValues \<Rightarrow> string go" where
  "upf_renderWrapperScriptTemplate v = Execute upf_wrapperScriptTemplate (upf_values v)"

lemma fieldOf_upf [simp]:
  "fieldOf (upf_values v) ''PFCP_IP'' = Ret (VString (upf_PFCP_IP v))"
  "fieldOf (upf_values v) ''GTPU_IP'' = Ret (VString (upf_GTPU_IP v))"
  "fieldOf (upf_values v) ''N6cfg'' = Ret (VList (map networkInstanceValue (upf_N6cfg v)))"
  "fieldOf (upf_values v) ''N6gw'' = Ret (VString (upf_N6gw v))"
  by (simp_all add: upf_values_def)

text \<open>The condition under which both templates render.\<close>

definition renderable :: "NetworkInstance list \<Rightarrow> bool" where
  "renderable ns \<longleftrightarrow> (\<forall>n\<in>set ns. \<forall>d\<in>set (DataNetworks n). dn_Pool d \<noteq> [] \<and> ni_Interfaces n \<noteq> [])"

lemma upf_wrapper_iff:
  "(\<exists>s. upf_renderWrapperScriptTemplate v = Ret s) \<longleftrightarrow> renderable (upf_N6cfg v)"
  unfolding succeeds_def [symmetric] upf_renderWrapperScriptTemplate_def Execute_def
    upf_wrapperScriptTemplate_def renderable_def
  by (simp add: succ_simps all_set_conv_all_nth del: execNodes.simps)

lemma upf_render_succeeds:
  "(\<exists>s. upf_renderConfigurationTemplate v = Ret s) \<longleftrightarrow> renderable (upf_N6cfg v)"
  unfolding succeeds_def [symmetric] upf_renderConfigurationTemplate_def Execute_def
    upf_configurationTemplate_def renderable_def
  by (simp add: succ_simps all_set_conv_all_nth del: execNodes.simps)

text \<open>The entry of one data network in the configuration.\<close>

definition dnnEntry :: "NetworkInstance \<Rightarrow> DataNetwork \<Rightarrow> string" where
  "dnnEntry n d =
     nl # ''  - cidr: '' @ Prefix (hd (dn_Pool d)) @
     nl # ''    dnn: '' @ (case dn_Name d of None \<Rightarrow> ''<nil>'' | Some s \<Rightarrow> s) @
     nl # ''    natifname: '' @ hd (ni_Interfaces n)"

text \<open>
  C35: the text of the UPF configuration: one entry per data network of the N6 instances, in
  order, with its first pool, its name and the first interface of its instance; then the N4
  address for PFCP and the N3 address for GTP-U.
\<close>

theorem upf_render_text:
  assumes "renderable (upf_N6cfg v)"
  shows "upf_renderConfigurationTemplate v = Ret (
    trimRight upf_configurationTemplate_text1 @
    concat (map (\<lambda>n. concat (map (dnnEntry n) (DataNetworks n))) (upf_N6cfg v)) @
    lines ['''', '''', ''pfcp:''] @ ''  addr: '' @ upf_PFCP_IP v @
    nl # ''  nodeID: '' @ upf_PFCP_IP v @ upf_configurationTemplate_text2 @
    upf_GTPU_IP v @ lines ['''', ''    type: N3''])"
proof -
  have entry: "printValue (case dn_Name d of None \<Rightarrow> VNil | Some s \<Rightarrow> VString s) =
      Ret (case dn_Name d of None \<Rightarrow> ''<nil>'' | Some s \<Rightarrow> s)" for d
    by (cases "dn_Name d") simp_all
  show ?thesis
    unfolding upf_renderConfigurationTemplate_def Execute_def upf_configurationTemplate_def
    using assms
    apply (simp del: execNodes.simps(4))
    apply (subst execNodes_range [where g = networkInstanceValue and xs = "upf_N6cfg v"
          and f = "\<lambda>n. concat (map (dnnEntry n) (DataNetworks n))"])
      apply simp
    subgoal for i n
      apply (simp del: execNodes.simps(4))
      apply (subst execNodes_range [where g = dataNetworkValue and xs = "DataNetworks n" and f = "dnnEntry n"])
        apply simp
       apply (simp add: renderable_def entry dnnEntry_def)
      apply simp
      done
    apply simp
    done
qed

definition exampleUpfValues :: upf_templateValues where
  "exampleUpfValues = \<lparr>upf_PFCP_IP = ''10.10.12.10'', upf_GTPU_IP = ''10.10.13.10'',
     upf_N6cfg = [exampleInstance [''10.1.0.0/24'']], upf_N6gw = ''10.10.14.1''\<rparr>"

theorem upf_render_text_witness:
  "renderable (upf_N6cfg exampleUpfValues) \<and>
   upf_renderConfigurationTemplate exampleUpfValues = Ret (
    trimRight upf_configurationTemplate_text1 @
    (nl # ''  - cidr: 10.1.0.0/24'' @ nl # ''    dnn: internet'' @ nl # ''    natifname: n6'') @
    lines ['''', '''', ''pfcp:''] @ ''  addr: 10.10.12.10'' @
    nl # ''  nodeID: 10.10.12.10'' @ upf_configurationTemplate_text2 @
    ''10.10.13.10'' @ lines ['''', ''    type: N3''])"
proof
  show r: "renderable (upf_N6cfg exampleUpfValues)"
    by (simp add: renderable_def exampleUpfValues_def)
  show "upf_renderConfigurationTemplate exampleUpfValues = Ret (
    trimRight upf_configurationTemplate_text1 @
    (nl # ''  - cidr: 10.1.0.0/24'' @ nl # ''    dnn: internet'' @ nl # ''    natifname: n6'') @
    lines ['''', '''', ''pfcp:''] @ ''  addr: 10.10.12.10'' @
    nl # ''  nodeID: 10.10.12.10'' @ upf_configurationTemplate_text2 @
    ''10.10.13.10'' @ lines ['''', ''    type: N3''])"
    unfolding upf_render_text [OF r] by (simp add: exampleUpfValues_def dnnEntry_def)
qed

end
