(* ===== verification/UPF_Resources.thy ===== *)
theory UPF_Resources
  imports UPF_Templates NetworkFunction
begin

text \<open>
  \<open>controllers/nf/upf/resources.go\<close>: the ConfigMap and Deployment of a UPF.
\<close>

section \<open>Definitions\<close>

definition upf_createResourceRequirements ::
  "lib \<Rightarrow> NFDeploymentSpec \<Rightarrow> (int \<times> ResourceRequirements) go" where
  "upf_createResourceRequirements L spec =
     bind_go (deref (Capacity spec)) (\<lambda>capacity.
       let (cpuLimit, memoryLimit, cpuRequest, memoryRequest) =
             (if quantityValue L (MaxDownlinkThroughput capacity) > quantityValue L (MustParse ''5G'')
              then (''1000m'', ''1Gi'', ''1000m'', ''1Gi'')
              else (''500m'', ''512Mi'', ''500m'', ''512Mi'')) in
       Ret (1, \<lparr>
         Limits = [''cpu'' \<mapsto> MustParse cpuLimit, ''memory'' \<mapsto> MustParse memoryLimit],
         Requests = [''cpu'' \<mapsto> MustParse cpuRequest, ''memory'' \<mapsto> MustParse memoryRequest]\<rparr>))"

definition upf_createNetworkAttachmentDefinitionNetworks ::
  "lib \<Rightarrow> string \<Rightarrow> NFDeploymentSpec \<Rightarrow> string go" where
  "upf_createNetworkAttachmentDefinitionNetworks L templateName spec =
     CreateNetworkAttachmentDefinitionNetworks L templateName
       [(''n3'', GetInterfaceConfigs (Interfaces spec) ''n3''),
        (''n4'', GetInterfaceConfigs (Interfaces spec) ''n4''),
        (''n6'', GetInterfaceConfigs (Interfaces spec) ''n6''),
        (''n9'', GetInterfaceConfigs (Interfaces spec) ''n9'')]"

definition upf_createDeployment :: "lib \<Rightarrow> string \<Rightarrow> NFDeployment \<Rightarrow> Deployment go" where
  "upf_createDeployment L configMapVersion upfDeployment =
     (let namespace = Namespace (nf_Meta upfDeployment);
          instanceName = Name (nf_Meta upfDeployment);
          spec = nf_Spec upfDeployment in
      bind_go (upf_createResourceRequirements L spec) (\<lambda>(replicas, resourceRequirements).
      bind_go (upf_createNetworkAttachmentDefinitionNetworks L instanceName spec) (\<lambda>networks.
      Ret \<lparr>
        dep_Meta = zeroMeta\<lparr>Name := instanceName, Namespace := namespace\<rparr>,
        dep_Spec = \<lparr>
          Replicas = replicas,
          MatchLabels = [''name'' \<mapsto> instanceName],
          Template = \<lparr>
            pod_Meta = zeroMeta\<lparr>
              Annotations := Some [ConfigMapVersionAnnotation \<mapsto> configMapVersion,
                NetworksAnnotation \<mapsto> networks],
              Labels := Some [''name'' \<mapsto> instanceName]\<rparr>,
            pod_Spec = \<lparr>
              Containers = [\<lparr>
                c_Name = ''upf'',
                Image = UPFImage,
                ImagePullPolicy = ''Always'',
                CapabilitiesAdd = [''NET_ADMIN''],
                c_Ports = [\<lparr>port_Name = ''n4'', port_Protocol = ''UDP'', port_ContainerPort = 8805\<rparr>],
                Command = [''/free5gc/config//wrapper.sh''],
                Args = [],
                VolumeMounts = [\<lparr>MountPath = ''/free5gc/config/'', vm_Name = ''upf-volume''\<rparr>],
                Resources = resourceRequirements\<rparr>],
              DNSPolicy = ''ClusterFirst'',
              RestartPolicy = ''Always'',
              Volumes = [\<lparr>
                vol_Name = ''upf-volume'',
                ProjectedSources = [\<lparr>
                  proj_Name = instanceName,
                  Items = [
                    \<lparr>ktp_Key = ''upfcfg.yaml'', ktp_Path = ''upfcfg.yaml'', ktp_Mode = None\<rparr>,
                    \<lparr>ktp_Key = ''wrapper.sh'', ktp_Path = ''wrapper.sh'', ktp_Mode = Some 511\<rparr>]\<rparr>]\<rparr>]\<rparr>\<rparr>\<rparr>,
        dep_Conditions = []\<rparr>)))"

text \<open>An instance is appended once for each of its interfaces that has the name.\<close>

definition upf_getNetworkInstances :: "NFDeploymentSpec \<Rightarrow> string \<Rightarrow> NetworkInstance list \<times> bool" where
  "upf_getNetworkInstances spec interfaceName =
     (let networkInstances = concat (map (\<lambda>networkInstance.
            map (\<lambda>_. networkInstance) (filter (\<lambda>interface. interface = interfaceName) (ni_Interfaces networkInstance)))
            (NetworkInstances spec)) in
      if length networkInstances = 0 then (networkInstances, False) else (networkInstances, True))"

definition upf_createConfigMap :: "NFDeployment \<Rightarrow> ConfigMap go" where
  "upf_createConfigMap upfDeployment =
     (let namespace = Namespace (nf_Meta upfDeployment);
          instanceName = Name (nf_Meta upfDeployment);
          interfaces = Interfaces (nf_Spec upfDeployment) in
      bind_go (GetFirstInterfaceConfigIPv4 interfaces ''n4'') (\<lambda>n4ip.
      bind_go (GetFirstInterfaceConfigIPv4 interfaces ''n3'') (\<lambda>n3ip.
      bind_go (GetFirstInterfaceConfig interfaces ''n6'') (\<lambda>n6ip.
      bind_go (deref (IPv4 n6ip)) (\<lambda>n6ipv4.
      bind_go (deref (Gateway n6ipv4)) (\<lambda>n6gw.
      case upf_getNetworkInstances (nf_Spec upfDeployment) ''n6'' of (n6Instances, ok) \<Rightarrow>
      if \<not> ok then Err NoN6Interfaces
      else (let templateValues = \<lparr>upf_PFCP_IP = n4ip, upf_GTPU_IP = n3ip,
                  upf_N6cfg = n6Instances, upf_N6gw = n6gw\<rparr> in
      bind_go (upf_renderConfigurationTemplate templateValues) (\<lambda>configuration.
      bind_go (upf_renderWrapperScriptTemplate templateValues) (\<lambda>wrapperScript.
      Ret \<lparr>cm_APIVersion = ''v1'', cm_Kind = ''ConfigMap'',
        cm_Meta = zeroMeta\<lparr>Namespace := namespace, Name := instanceName\<rparr>,
        Data = [''upfcfg.yaml'' \<mapsto> configuration, ''wrapper.sh'' \<mapsto> wrapperScript]\<rparr>)))))))))"

section \<open>The contract of the resources\<close>

lemma upf_networks_eq:
  "upf_createNetworkAttachmentDefinitionNetworks L (Name (nf_Meta nf)) (nf_Spec nf) =
     CreateNetworkAttachmentDefinitionNetworks L (Name (nf_Meta nf)) (networksOf [''n3'', ''n4'', ''n6'', ''n9''] nf)"
  by (simp add: upf_createNetworkAttachmentDefinitionNetworks_def networksOf_def)

lemma upf_requirements_shape:
  "upf_createResourceRequirements L spec = Ret (n, r) \<Longrightarrow> n = 1 \<and> (\<exists>cpu memory. r =
     \<lparr>Limits = [''cpu'' \<mapsto> cpu, ''memory'' \<mapsto> memory],
      Requests = [''cpu'' \<mapsto> cpu, ''memory'' \<mapsto> memory]\<rparr>)"
  by (cases "Capacity spec") (auto simp: upf_createResourceRequirements_def Let_def split: if_splits)

lemma upf_requirements_Ret:
  assumes "upf_createResourceRequirements L spec = Ret (n, r)"
  shows "n = 1 \<and> Limits r = Requests r \<and> dom (Limits r) = {''cpu'', ''memory''}"
proof -
  from upf_requirements_shape [OF assms] obtain cpu memory where "n = 1"
    and r: "r = \<lparr>Limits = [''cpu'' \<mapsto> cpu, ''memory'' \<mapsto> memory],
      Requests = [''cpu'' \<mapsto> cpu, ''memory'' \<mapsto> memory]\<rparr>" by blast
  then show ?thesis by (simp only: r ResourceRequirements.simps resources_dom)
qed

lemma upf_requirements_succeeds: "(\<exists>r. upf_createResourceRequirements L spec = Ret r) \<longleftrightarrow> Capacity spec \<noteq> None"
  by (cases "Capacity spec") (auto simp: upf_createResourceRequirements_def Let_def split: if_splits)

lemma upf_configMap_shape:
  assumes "upf_createConfigMap nf = Ret cm"
  shows "\<exists>configuration wrapperScript. cm = \<lparr>cm_APIVersion = ''v1'', cm_Kind = ''ConfigMap'',
    cm_Meta = zeroMeta\<lparr>Namespace := Namespace (nf_Meta nf), Name := Name (nf_Meta nf)\<rparr>,
    Data = [''upfcfg.yaml'' \<mapsto> configuration, ''wrapper.sh'' \<mapsto> wrapperScript]\<rparr>"
  using assms
  by (cases "upf_getNetworkInstances (nf_Spec nf) ''n6''")
    (auto simp: upf_createConfigMap_def go_inv Let_def split: if_splits)

interpretation upf_resources: network_function
  "\<lambda>_ :: lib \<times> Config list. upf_createConfigMap" upf_createDeployment "[''n3'', ''n4'', ''n6'', ''n9'']"
proof
  fix nf cm x L v d e
  show "upf_createConfigMap nf = Ret cm \<Longrightarrow> namedLike nf (cm_Meta cm)"
    by (drule upf_configMap_shape) (auto simp: namedLike_def zeroMeta_def)
  show "upf_createDeployment L v nf = Ret d \<Longrightarrow> namedLike nf (dep_Meta d) \<and> dep_Conditions d = []"
    by (auto simp: upf_createDeployment_def namedLike_def zeroMeta_def go_inv Let_def split: prod.splits)
  show "upf_createDeployment L v nf = Ret d \<Longrightarrow> \<exists>annot.
      CreateNetworkAttachmentDefinitionNetworks L (Name (nf_Meta nf)) (networksOf [''n3'', ''n4'', ''n6'', ''n9''] nf) = Ret annot
      \<and> templateAnnotations d = Some [ConfigMapVersionAnnotation \<mapsto> v, NetworksAnnotation \<mapsto> annot]"
    by (auto simp: upf_createDeployment_def upf_networks_eq templateAnnotations_def go_inv Let_def split: prod.splits)
  show "selectsOwnPods d \<and> guaranteed d" if made: "upf_createDeployment L v nf = Ret d"
  proof
    from made obtain n r where req: "upf_createResourceRequirements L (nf_Spec nf) = Ret (n, r)"
      and res: "\<forall>container \<in> set (Containers (pod_Spec (Template (dep_Spec d)))). Resources container = r"
      by (auto simp: upf_createDeployment_def go_inv Let_def)
    show "guaranteed d"
      using upf_requirements_Ret [OF req] res unfolding guaranteed_def by metis
    show "selectsOwnPods d"
      using made by (auto simp: upf_createDeployment_def selectsOwnPods_def go_inv Let_def split: prod.splits)
  qed
  show "upf_createDeployment L v nf = Ret d \<Longrightarrow> upf_createConfigMap nf = Ret cm \<Longrightarrow> volumesResolve d cm"
    by (drule upf_configMap_shape)
      (auto simp: upf_createDeployment_def volumesResolve_def go_inv Let_def split: prod.splits)
  show "upf_createDeployment L v nf \<noteq> Err e \<or> (\<exists>n. e = MissingGateway n)"
    using Create_Err [of L "Name (nf_Meta nf)" "networksOf [''n3'', ''n4'', ''n6'', ''n9''] nf" e]
    by (cases "Capacity (nf_Spec nf)")
      (auto simp: upf_createDeployment_def upf_networks_eq upf_createResourceRequirements_def go_inv Let_def
        split: prod.splits if_splits)
  show "(\<exists>d. upf_createDeployment L v nf = Ret d) \<longleftrightarrow>
      Capacity (nf_Spec nf) \<noteq> None \<and> attachable [''n3'', ''n4'', ''n6'', ''n9''] nf"
    using upf_requirements_succeeds [of L "nf_Spec nf"]
      Create_Ret_iff [of L "Name (nf_Meta nf)" "networksOf [''n3'', ''n4'', ''n6'', ''n9''] nf"]
    by (auto simp: upf_createDeployment_def upf_networks_eq allHaveGateways_networksOf go_inv Let_def
        split: prod.splits)
qed

section \<open>Properties\<close>

text \<open>The instances the templates are rendered for.\<close>

definition upf_n6 :: "NFDeployment \<Rightarrow> NetworkInstance list" where
  "upf_n6 nf = fst (upf_getNetworkInstances (nf_Spec nf) ''n6'')"

lemma upf_instances_n6: "upf_getNetworkInstances (nf_Spec nf) ''n6'' = (upf_n6 nf, upf_n6 nf \<noteq> [])"
  by (auto simp: upf_n6_def upf_getNetworkInstances_def Let_def)

text \<open>
  C27: the UPF's ConfigMap exists exactly when the N4 and N3 addresses do, the first N6 interface
  has an IPv4 section with a gateway, some network instance lists N6, and each data network
  of those instances has a pool.
\<close>

theorem upf_configmap_iff:
  "(\<exists>cm. upf_createConfigMap nf = Ret cm) \<longleftrightarrow>
     (\<exists>n4ip. GetFirstInterfaceConfigIPv4 (Interfaces (nf_Spec nf)) ''n4'' = Ret n4ip)
     \<and> (\<exists>n3ip. GetFirstInterfaceConfigIPv4 (Interfaces (nf_Spec nf)) ''n3'' = Ret n3ip)
     \<and> (\<exists>c v g. GetFirstInterfaceConfig (Interfaces (nf_Spec nf)) ''n6'' = Ret c
          \<and> IPv4 c = Some v \<and> Gateway v = Some g)
     \<and> upf_n6 nf \<noteq> [] \<and> renderable (upf_n6 nf)"
proof -
  define f where "f = (\<lambda>n4ip n3ip n6gw. let templateValues = \<lparr>upf_PFCP_IP = n4ip, upf_GTPU_IP = n3ip,
      upf_N6cfg = upf_n6 nf, upf_N6gw = n6gw\<rparr> in
    bind_go (upf_renderConfigurationTemplate templateValues) (\<lambda>configuration.
    bind_go (upf_renderWrapperScriptTemplate templateValues) (\<lambda>wrapperScript.
      Ret \<lparr>cm_APIVersion = ''v1'', cm_Kind = ''ConfigMap'',
        cm_Meta = zeroMeta\<lparr>Namespace := Namespace (nf_Meta nf), Name := Name (nf_Meta nf)\<rparr>,
        Data = [''upfcfg.yaml'' \<mapsto> configuration, ''wrapper.sh'' \<mapsto> wrapperScript]\<rparr>)))"
  have f: "(\<exists>cm. f a b g = Ret cm) \<longleftrightarrow> renderable (upf_n6 nf)" for a b g
    using upf_wrapper_iff [of "\<lparr>upf_PFCP_IP = a, upf_GTPU_IP = b, upf_N6cfg = upf_n6 nf, upf_N6gw = g\<rparr>"]
      upf_render_succeeds [of "\<lparr>upf_PFCP_IP = a, upf_GTPU_IP = b, upf_N6cfg = upf_n6 nf, upf_N6gw = g\<rparr>"]
    by (auto simp: f_def go_inv Let_def)
  have "upf_createConfigMap nf =
      bind_go (GetFirstInterfaceConfigIPv4 (Interfaces (nf_Spec nf)) ''n4'') (\<lambda>n4ip.
      bind_go (GetFirstInterfaceConfigIPv4 (Interfaces (nf_Spec nf)) ''n3'') (\<lambda>n3ip.
      bind_go (GetFirstInterfaceConfig (Interfaces (nf_Spec nf)) ''n6'') (\<lambda>n6ip.
      bind_go (deref (IPv4 n6ip)) (\<lambda>n6ipv4.
      bind_go (deref (Gateway n6ipv4)) (\<lambda>n6gw.
      if upf_n6 nf = [] then Err NoN6Interfaces else f n4ip n3ip n6gw)))))"
    by (simp add: upf_createConfigMap_def upf_instances_n6 f_def Let_def cong: if_cong)
  then show ?thesis
    using f by (auto simp: go_inv split: if_splits)
qed

text \<open>
  C30: an N6 interface without an IPv4 section or without a gateway makes the operator panic
  instead of reporting the error that the annotation code has for it.
\<close>

theorem upf_missing_gateway_panics:
  assumes "GetFirstInterfaceConfigIPv4 (Interfaces (nf_Spec nf)) ''n4'' = Ret n4ip"
    and "GetFirstInterfaceConfigIPv4 (Interfaces (nf_Spec nf)) ''n3'' = Ret n3ip"
    and "GetFirstInterfaceConfig (Interfaces (nf_Spec nf)) ''n6'' = Ret c" and "\<not> hasGateway c"
  shows "upf_createConfigMap nf = Panic NilDereference"
proof (cases "IPv4 c")
  case None
  with assms show ?thesis by (simp add: upf_createConfigMap_def)
next
  case (Some v)
  with assms(4) have "Gateway v = None" by (cases "Gateway v") (auto simp: hasGateway_def)
  with Some assms(1-3) show ?thesis by (simp add: upf_createConfigMap_def)
qed

definition exampleUPF :: "InterfaceConfig \<Rightarrow> string list \<Rightarrow> NFDeployment" where
  "exampleUPF n6 pools = exampleNF ''upf.free5gc.io'' [exampleInterface ''n3'', exampleInterface ''n4'', n6]
     [exampleInstance pools]"

lemma exampleUPF_sel [simp]:
  "Interfaces (nf_Spec (exampleUPF n6 pools)) = [exampleInterface ''n3'', exampleInterface ''n4'', n6]"
  "Name (nf_Meta (exampleUPF n6 pools)) = ''nf''" "Namespace (nf_Meta (exampleUPF n6 pools)) = ''ns''"
  "NetworkInstances (nf_Spec (exampleUPF n6 pools)) = [exampleInstance pools]"
  by (simp_all add: exampleUPF_def exampleNF_def)

lemma exampleUPF_lookups:
  "GetFirstInterfaceConfigIPv4 (Interfaces (nf_Spec (exampleUPF n6 pools))) ''n4'' = Ret ''10.10.12.10''"
  "GetFirstInterfaceConfigIPv4 (Interfaces (nf_Spec (exampleUPF n6 pools))) ''n3'' = Ret ''10.10.12.10''"
  by (simp_all add: GetFirstInterfaceConfigIPv4_def ParseCIDR_example IPString_example del: As16.simps)

lemma exampleUPF_n6: "upf_n6 (exampleUPF n6 pools) = [exampleInstance pools]"
  by (simp add: upf_n6_def upf_getNetworkInstances_def)

theorem upf_missing_gateway_panics_witness:
  "upf_createConfigMap (exampleUPF \<lparr>ifc_Name = ''n6'', IPv4 = Some \<lparr>Address = ''10.10.14.10/24'', Gateway = None\<rparr>\<rparr>
     [''10.1.0.0/24'']) = Panic NilDereference"
  by (rule upf_missing_gateway_panics [OF exampleUPF_lookups, where c = "\<lparr>ifc_Name = ''n6'', IPv4 = Some \<lparr>Address = ''10.10.14.10/24'', Gateway = None\<rparr>\<rparr>"]) (simp_all add: hasGateway_def)

text \<open>
  C31: a UPF Deployment fits the ConfigMap made for the same NFDeployment: its volume projects
  that ConfigMap and only files it has, its mounts name its volumes, its selector finds its
  own pods, and requests equal limits.
\<close>

theorem upf_deployment_fits_configmap:
  assumes "upf_createDeployment L v nf = Ret d" and "upf_createConfigMap nf = Ret cm"
  shows "volumesResolve d cm \<and> selectsOwnPods d \<and> guaranteed d \<and> keyOf (cm_Meta cm) = keyOf (dep_Meta d)"
  using upf_resources.deployment_volumes [OF assms] upf_resources.deployment_pods [OF assms(1)]
    upf_resources.configMap_key [OF assms(2)] upf_resources.deployment_unowned [OF assms(1)] by simp

lemma exampleUPF_made:
  "\<exists>cm. upf_createConfigMap (exampleUPF (exampleInterface ''n6'') [''10.1.0.0/24'']) = Ret cm"
  "\<exists>d. upf_createDeployment L v (exampleUPF (exampleInterface ''n6'') [''10.1.0.0/24'']) = Ret d"
proof -
  have "renderable [exampleInstance [''10.1.0.0/24'']]" by (simp add: renderable_def)
  then have "\<exists>s. upf_renderConfigurationTemplate \<lparr>upf_PFCP_IP = ''10.10.12.10'', upf_GTPU_IP = ''10.10.12.10'',
        upf_N6cfg = [exampleInstance [''10.1.0.0/24'']], upf_N6gw = ''10.10.12.1''\<rparr> = Ret s"
    "\<exists>s. upf_renderWrapperScriptTemplate \<lparr>upf_PFCP_IP = ''10.10.12.10'', upf_GTPU_IP = ''10.10.12.10'',
        upf_N6cfg = [exampleInstance [''10.1.0.0/24'']], upf_N6gw = ''10.10.12.1''\<rparr> = Ret s"
    unfolding upf_wrapper_iff upf_render_succeeds by simp_all
  then show "\<exists>cm. upf_createConfigMap (exampleUPF (exampleInterface ''n6'') [''10.1.0.0/24'']) = Ret cm"
    by (auto simp: upf_createConfigMap_def exampleUPF_lookups [unfolded exampleUPF_sel] upf_instances_n6 exampleUPF_n6)
  show "\<exists>d. upf_createDeployment L v (exampleUPF (exampleInterface ''n6'') [''10.1.0.0/24'']) = Ret d"
    unfolding upf_resources.deployment_succeeds by (simp add: attachable_def exampleUPF_def exampleNF_def)
qed

theorem upf_deployment_fits_configmap_witness:
  "\<exists>d cm. upf_createDeployment (exampleLib undefined) ''1'' (exampleUPF (exampleInterface ''n6'') [''10.1.0.0/24'']) = Ret d
    \<and> upf_createConfigMap (exampleUPF (exampleInterface ''n6'') [''10.1.0.0/24'']) = Ret cm
    \<and> volumesResolve d cm \<and> selectsOwnPods d \<and> guaranteed d"
proof -
  obtain d cm where made: "upf_createDeployment (exampleLib undefined) ''1''
      (exampleUPF (exampleInterface ''n6'') [''10.1.0.0/24'']) = Ret d"
    "upf_createConfigMap (exampleUPF (exampleInterface ''n6'') [''10.1.0.0/24'']) = Ret cm"
    using exampleUPF_made(1) exampleUPF_made(2) [of "exampleLib undefined" "''1''"] by blast
  show ?thesis
    using upf_deployment_fits_configmap [OF made] made by blast
qed

end
