(* ===== verification/UPF_Reconciler.thy ===== *)
theory UPF_Reconciler
  imports Creation UPF_Status UPF_Resources
begin

text \<open>
  \<open>controllers/nf/upf/reconciler.go\<close>: one reconcile of a UPF, which has no Service.
\<close>

section \<open>Definitions\<close>

definition upf_Reconcile :: "lib \<Rightarrow> 'w client \<Rightarrow> NamespacedName \<Rightarrow> 'w \<Rightarrow> Result go \<times> 'w" where
  "upf_Reconcile L c req w =
     (case GetNFDeployment c req w of
        (Inl err, w0) \<Rightarrow> (if IsNotFound err then Ret emptyResult else Err err, w0)
      | (Inr nfDeployment, w0) \<Rightarrow>
          (let namespace = Namespace (nf_Meta nfDeployment);
               name = Name (nf_Meta nfDeployment) in
           case findConfigMap c (namespace, name) w0 of ((configMapFound, configMapVersion), w1) \<Rightarrow>
           case findDeployment c (namespace, name) w1 of (currentDeployment, w2) \<Rightarrow>
           andThen (syncAndRoll upf_syncStatus c nfDeployment currentDeployment configMapVersion w2) (\<lambda>_ w3.
           andThen (ensureConfigMap L c nfDeployment (upf_createConfigMap nfDeployment)
             configMapFound configMapVersion w3) (\<lambda>configMapVersion w4.
           ensureDeployment L c nfDeployment (upf_createDeployment L configMapVersion nfDeployment)
             (currentDeployment \<noteq> None) (updateFound c) w4))))"

section \<open>The shared reconcile\<close>

text \<open>The UPF's parts: no config references and no Service; a found Deployment is overwritten.\<close>

definition upf_parts :: parts where
  "upf_parts = \<lparr>create_of = upf_createNfDeploymentStatus, refs_of = (\<lambda>nf. []),
     configMap_of = (\<lambda>L nf refs. upf_createConfigMap nf), service_of = None,
     deployment_of = upf_createDeployment, overwrites = True\<rparr>"

lemma upf_parts_sel [simp]:
  "create_of upf_parts = upf_createNfDeploymentStatus" "refs_of upf_parts = (\<lambda>nf. [])"
  "configMap_of upf_parts = (\<lambda>L nf refs. upf_createConfigMap nf)" "service_of upf_parts = None"
  "deployment_of upf_parts = upf_createDeployment" "overwrites upf_parts = True"
  by (simp_all add: upf_parts_def)

lemma upf_syncStatus_with: "upf_syncStatus = syncStatusWith upf_createNfDeploymentStatus"
  by (intro ext) (simp add: upf_syncStatus_def syncStatusWith_def)

lemma upf_Reconcile_with: "upf_Reconcile = reconcileWith upf_parts"
  by (intro ext)
    (simp add: upf_Reconcile_def reconcileWith_def reconcileNF_def createAll_def createRest_def [abs_def] findServiceOf_def
      ensureServiceOf_def [abs_def] whenFound_def [abs_def] upf_syncStatus_with keyOf_def Let_def case_prod_beta
      cong: sum.case_cong go.case_cong)

interpretation upf_reconciler: reconciler upf_parts "[''n3'', ''n4'', ''n6'', ''n9'']"
proof (rule reconciler.intro)
  show "network_function (\<lambda>x nf. configMap_of upf_parts (fst x) nf (snd x)) (deployment_of upf_parts) [''n3'', ''n4'', ''n6'', ''n9'']"
    using upf_resources.network_function_axioms by simp
  show "reconciler_axioms upf_parts"
    by unfold_locales (auto)
qed

section \<open>Properties\<close>

text \<open>
  A Deployment of the UPF's name that has no pod annotations, next to its ConfigMap, makes
  the reconcile panic: the version is assigned into a nil map.
\<close>

theorem upf_nil_annotations_panic:
  assumes "api_server c"
    and "nfsOf (viewOf c w) req = Some nf" and "keyOf (nf_Meta nf) = req"
    and "cmsOf (viewOf c w) req = Some cm" and "depsOf (viewOf c w) req = Some d"
    and "templateAnnotations d = None" and "ResourceVersion (cm_Meta cm) \<noteq> ''''"
  shows "fst (upf_Reconcile L c req w) = Panic NilMapWrite"
  using api_server.reconcile_nil_annotations [OF assms(1-7)] by (simp add: upf_Reconcile_with)

theorem upf_nil_annotations_panic_witness:
  "fst (upf_Reconcile (exampleLib undefined) storeClient (''ns'', ''nf'')
     (runningStore (exampleUPF (exampleInterface ''n6'') [''10.1.0.0/24'']) None None)) = Panic NilMapWrite"
  by (rule upf_nil_annotations_panic [OF store.api_server_axioms, where cm = runningConfigMap
        and nf = "running (exampleUPF (exampleInterface ''n6'') [''10.1.0.0/24''])" and d = "runningDeployment None"])
    (simp_all add: keyOf_def)

end
