(* ===== verification/Dispatcher.thy ===== *)
theory Dispatcher
  imports Effects AMF_Reconciler SMF_Reconciler UPF_Reconciler
begin

text \<open>
  \<open>controllers/nf/reconciler.go\<close>: the reconciler of the NFDeployment kind, which hands a
  request to the network function its provider names and keeps only the result, not the error.
\<close>

section \<open>Definitions\<close>

text \<open>\<open>result, _ := r.Reconcile(ctx, req); return result, nil\<close>.\<close>

fun resultOnly :: "Result go \<times> 'w \<Rightarrow> Result go \<times> 'w" where
  "resultOnly (Ret r, w) = (Ret r, w)"
| "resultOnly (Err e, w) = (Ret emptyResult, w)"
| "resultOnly (Panic p, w) = (Panic p, w)"

definition Reconcile :: "lib \<Rightarrow> 'w client \<Rightarrow> NamespacedName \<Rightarrow> 'w \<Rightarrow> Result go \<times> 'w" where
  "Reconcile L c req w =
     (case GetNFDeployment c req w of
        (Inl err, w0) \<Rightarrow> (if IsNotFound err then Ret emptyResult else Err err, w0)
      | (Inr nfDeployment, w0) \<Rightarrow>
          if Provider (nf_Spec nfDeployment) = ''upf.free5gc.io'' then resultOnly (upf_Reconcile L c req w0)
          else if Provider (nf_Spec nfDeployment) = ''smf.free5gc.io'' then resultOnly (smf_Reconcile L c req w0)
          else if Provider (nf_Spec nfDeployment) = ''amf.free5gc.io'' then resultOnly (amf_Reconcile L c req w0)
          else (Ret emptyResult, w0))"

text \<open>
  \<open>SetupWithManager\<close>: the kind the controller reconciles and the kinds it watches as owned
  objects.  What the controller library does with that is documented: an event of an object of
  the first kind asks for its reconcile, one of an owned kind for that of the object's
  controller, and no other event asks for anything.
\<close>

record controller =
  ForKind :: string
  OwnsKinds :: "string list"

definition SetupWithManager :: controller where
  "SetupWithManager = \<lparr>ForKind = ''NFDeployment'', OwnsKinds = [''Deployment'', ''ConfigMap'']\<rparr>"

definition enqueues :: "controller \<Rightarrow> string \<Rightarrow> ObjectMeta \<Rightarrow> NamespacedName option" where
  "enqueues ctl kind m =
     (if kind = ForKind ctl then Some (keyOf m)
      else if kind \<in> set (OwnsKinds ctl)
      then map_option (\<lambda>owner. (Namespace m, owner_Name owner)) (find (\<lambda>owner. owner_Kind owner = ForKind ctl) (OwnerReferences m))
      else None)"

section \<open>Library\<close>

text \<open>The reconciler a provider names.\<close>

definition partsOf :: "string \<Rightarrow> parts option" where
  "partsOf provider =
     (if provider = ''upf.free5gc.io'' then Some upf_parts
      else if provider = ''smf.free5gc.io'' then Some smf_parts
      else if provider = ''amf.free5gc.io'' then Some amf_parts
      else None)"

lemma Reconcile_with:
  "Reconcile L c req w =
     (case GetNFDeployment c req w of
        (Inl err, w0) \<Rightarrow> (if IsNotFound err then Ret emptyResult else Err err, w0)
      | (Inr nf, w0) \<Rightarrow> (case partsOf (Provider (nf_Spec nf)) of None \<Rightarrow> (Ret emptyResult, w0)
          | Some p \<Rightarrow> resultOnly (reconcileWith p L c req w0)))"
  by (auto simp: Reconcile_def partsOf_def upf_Reconcile_with smf_Reconcile_with amf_Reconcile_with
      split: prod.splits sum.splits)

lemma partsOf_reconciler: "partsOf provider = Some p \<Longrightarrow> \<exists>networks. reconciler p networks"
  unfolding partsOf_def
  by (auto split: if_splits intro: upf_reconciler.reconciler_axioms smf_reconciler.reconciler_axioms
      amf_reconciler.reconciler_axioms)

lemma partsOf_creator: "partsOf provider = Some p \<Longrightarrow> \<exists>what. status_creator (create_of p) what"
  unfolding partsOf_def
  by (auto split: if_splits intro: upf_status.status_creator_axioms smf_status.status_creator_axioms
      amf_status.status_creator_axioms)

lemma resultOnly_eq: "resultOnly x = (case fst x of Ret r \<Rightarrow> Ret r | Err e \<Rightarrow> Ret emptyResult | Panic p \<Rightarrow> Panic p, snd x)"
  by (cases x rule: resultOnly.cases) simp_all

lemma resultOnly_sel [simp]: "snd (resultOnly x) = snd x" "fst (resultOnly x) \<noteq> Err e"
  by (simp_all add: resultOnly_eq split: go.split)

lemma resultOnly_bind: "resultOnly y = (case y of (x, s') \<Rightarrow> (fst (resultOnly (x, ())), s'))"
  by (cases y rule: resultOnly.cases) simp_all

lemma mirrors_resultOnly [mirroring]:
  "mirrors c F f \<Longrightarrow> mirrors c (\<lambda>s. resultOnly (F s)) (\<lambda>w. resultOnly (f w))"
  unfolding resultOnly_bind [where y = "F s" for s] resultOnly_bind [where y = "f w" for w]
  by (rule mirrors_bind) (simp_all add: mirrors_ret)

lemma mirrors_Reconcile [mirroring]: "mirrors c (Reconcile L (logged c) req) (Reconcile L c req)"
  unfolding Reconcile_with [abs_def] by (intro mirrors_bind mirroring)

lemma Reconcile_log:
  assumes "Reconcile L (logged c) req (w, []) = (r, (w', tr))"
  shows "Reconcile L c req w = (r, w')" "w' = fold (replay c) tr w"
  using mirrors_Reconcile [of c L req] assms unfolding mirrors_def
  by (metis append_Nil fst_conv prod.collapse snd_conv)+

lemma Reconcile_replay: "\<exists>tr. snd (Reconcile L c req w) = fold (replay c) tr w"
  using mirrors_Reconcile [of c L req] unfolding mirrors_def by blast

section \<open>The effect on an API server\<close>

lemma Reconcile_missing:
  assumes "api_server c" "nfsOf (viewOf c w) req = None"
  shows "snd (Reconcile L c req w) = w"
proof -
  obtain e where "GetNFDeployment c req w = (Inl e, w)"
    using assms api_server.reads_leave(1) [OF assms(1), of req w]
    by (cases "GetNFDeployment c req w") (auto simp: viewOf_def answer_def split: sum.splits)
  then show ?thesis by (simp add: Reconcile_def)
qed

lemma Reconcile_effect:
  assumes api: "api_server c" and L: "ownerRefsOnly L"
    and nf: "nfsOf (viewOf c w) req = Some nf" "keyOf (nf_Meta nf) = req"
    and keyed: "\<And>d. depsOf (viewOf c w) req = Some d \<Longrightarrow> keyOf (dep_Meta d) = req"
  shows "\<exists>create what. status_creator create what
    \<and> effect create (Now c w) nf (viewOf c w) (viewOf c (snd (Reconcile L c req w)))"
proof (cases "partsOf (Provider (nf_Spec nf))")
  case None
  then have "snd (Reconcile L c req w) = w"
    using api_server.reads(1) [OF api nf(1)] by (simp add: Reconcile_with)
  then show ?thesis using upf_status.status_creator_axioms effect_refl by metis
next
  case (Some p)
  obtain networks where p: "reconciler p networks" using partsOf_reconciler [OF Some] by blast
  have "snd (Reconcile L c req w) = snd (reconcileNF p L c nf (fst req) w)"
    using api_server.reads(1) [OF api nf(1)] Some by (simp add: Reconcile_with reconcileWith_def)
  with reconciler.reconcileNF_effect [OF p api L nf keyed] partsOf_creator [OF Some] show ?thesis
    by metis
qed

section \<open>Properties\<close>

text \<open>
  C16: the operator's \<open>Reconcile\<close> returns an error only when its own read of the NFDeployment
  fails: every error of the three network function reconcilers is dropped, so no failed
  reconcile is retried by the controller.
\<close>

theorem reconcile_error_iff:
  "fst (Reconcile L c req w) = Err e \<longleftrightarrow> fst (GetNFDeployment c req w) = Inl e \<and> e \<noteq> NotFound"
  by (cases "GetNFDeployment c req w" rule: prod.exhaust; cases "fst (GetNFDeployment c req w)")
    (auto simp: Reconcile_with IsNotFound_def split: option.split)

text \<open>
  C10: an SMF whose configs are not all there yet is forgotten: its reconciler does nothing and
  returns the error that is to bring it back, the operator turns that into success without a
  requeue, and the arrival of a config, which is of no watched kind, asks for nothing either.
\<close>

theorem smf_missing_config_forgotten:
  assumes api: "api_server c"
    and nf: "nfsOf (viewOf c w) req = Some nf" "keyOf (nf_Meta nf) = req"
    and smf: "Provider (nf_Spec nf) = ''smf.free5gc.io''" and none: "depsOf (viewOf c w) req = None"
    and refs: "ParametersRefs (nf_Spec nf) = map (\<lambda>name. \<lparr>ref_Name = Some name\<rparr>) names"
    and missing: "name \<in> set names" "cfgsOf (viewOf c w) (fst req, name) = None"
  shows "(\<exists>e. smf_Reconcile L c req w = (Err e, w)) \<and> Reconcile L c req w = (Ret emptyResult, w)
    \<and> enqueues SetupWithManager ''Config'' (cfg_Meta config) = None"
proof -
  obtain e where "fst (smf_collectConfigRefs c (fst req) (refs_of smf_parts nf) [] w) = Err e"
    using api_server.collect_missing [OF api missing, of "[]"] by (auto simp: refs)
  with api_server.reconcile_config_error [OF api nf none] have run: "smf_Reconcile L c req w = (Err e, w)"
    by (simp add: smf_Reconcile_with)
  with api_server.reads(1) [OF api nf(1)] smf show ?thesis
    by (simp add: Reconcile_def enqueues_def SetupWithManager_def)
qed

theorem smf_missing_config_forgotten_witness:
  "Reconcile (exampleLib threePoolUPF) storeClient (''ns'', ''nf'') (exampleSMFStore\<lparr>cfgs := Map.empty\<rparr>)
     = (Ret emptyResult, exampleSMFStore\<lparr>cfgs := Map.empty\<rparr>)
   \<and> enqueues SetupWithManager ''Config'' (cfg_Meta exampleConfig) = None"
proof -
  have "(\<exists>e. smf_Reconcile (exampleLib threePoolUPF) storeClient (''ns'', ''nf'') (exampleSMFStore\<lparr>cfgs := Map.empty\<rparr>)
      = (Err e, exampleSMFStore\<lparr>cfgs := Map.empty\<rparr>))
    \<and> Reconcile (exampleLib threePoolUPF) storeClient (''ns'', ''nf'') (exampleSMFStore\<lparr>cfgs := Map.empty\<rparr>)
      = (Ret emptyResult, exampleSMFStore\<lparr>cfgs := Map.empty\<rparr>)
    \<and> enqueues SetupWithManager ''Config'' (cfg_Meta exampleConfig) = None"
    by (rule smf_missing_config_forgotten [OF store.api_server_axioms, where nf = exampleSMF
          and names = "[''cfg'', ''cfg'']" and name = "''cfg''"])
      (simp_all, simp add: exampleSMF_def)
  then show ?thesis by blast
qed

text \<open>
  C11: the first reconcile of a settled UPF cuts its Deployment off: it writes the Deployment
  again without its controller reference, so that an event of the Deployment, which asked for
  a reconcile of the UPF before, asks for nothing afterwards.
\<close>

theorem upf_deployment_cut_off:
  assumes api: "api_server c"
    and nf: "nfsOf (viewOf c w) req = Some nf" "keyOf (nf_Meta nf) = req" "Provider (nf_Spec nf) = ''upf.free5gc.io''"
    and found: "cmsOf (viewOf c w) req = Some cm" "depsOf (viewOf c w) req = Some d"
    and owned: "enqueues SetupWithManager ''Deployment'' (dep_Meta d) = Some req"
    and fresh: "mapGet (templateAnnotations d) ConfigMapVersionAnnotation = ResourceVersion (cm_Meta cm)"
    and quiet: "\<not> updates upf_createNfDeploymentStatus nf (Now c w, d)"
    and made: "upf_createConfigMap nf = Ret cm'" "upf_createDeployment L (ResourceVersion (cm_Meta cm)) nf = Ret d'"
  shows "\<exists>w' stored. Reconcile L c req w = (Ret emptyResult, w')
    \<and> viewOf c w' = (viewOf c w)\<lparr>depsOf := (depsOf (viewOf c w))(req \<mapsto> stored)\<rparr>
    \<and> dep_Spec stored = dep_Spec d' \<and> enqueues SetupWithManager ''Deployment'' (dep_Meta stored) = None"
proof -
  have run: "reconcileWith upf_parts L c req w = (Ret emptyResult, whenFound upf_parts c d' w)"
    using api_server.reconcile_settled [OF api nf(1,2) found _ fresh, of upf_parts "[]" L cm' d'] quiet made by simp
  have d': "deployment_of upf_parts L (ResourceVersion (cm_Meta cm)) nf = Ret d'" and "overwrites upf_parts"
    using made(2) by simp_all
  from upf_reconciler.settled_overwrites [OF api run d' nf(2) found(2) this(2)]
  obtain w' rv g where "upf_Reconcile L c req w = (Ret emptyResult, w')"
    "viewOf c w' = (viewOf c w)\<lparr>depsOf := (depsOf (viewOf c w))(req \<mapsto> updatedDeployment rv g d d')\<rparr>"
    "OwnerReferences (dep_Meta (updatedDeployment rv g d d')) = []"
    unfolding upf_Reconcile_with by blast
  then show ?thesis
    using api_server.reads(1) [OF api nf(1)] nf(3)
    by (intro exI [of _ w'] exI [of _ "updatedDeployment rv g d d'"])
      (simp add: Reconcile_def enqueues_def SetupWithManager_def del: updatedDeployment_sel(3))
qed

theorem upf_deployment_cut_off_witness:
  "\<exists>w' stored. enqueues SetupWithManager ''Deployment'' (dep_Meta (runningDeployment (Some [ConfigMapVersionAnnotation \<mapsto> ''7''])))
      = Some (''ns'', ''nf'')
    \<and> Reconcile (exampleLib undefined) storeClient (''ns'', ''nf'')
        (runningStore (exampleUPF (exampleInterface ''n6'') [''10.1.0.0/24'']) None (Some [ConfigMapVersionAnnotation \<mapsto> ''7'']))
      = (Ret emptyResult, w')
    \<and> deps w' (''ns'', ''nf'') = Some stored \<and> enqueues SetupWithManager ''Deployment'' (dep_Meta stored) = None"
proof -
  let ?nf = "exampleUPF (exampleInterface ''n6'') [''10.1.0.0/24'']" and ?a = "Some [ConfigMapVersionAnnotation \<mapsto> ''7'']"
  let ?w = "runningStore ?nf None ?a" and ?d = "runningDeployment (Some [ConfigMapVersionAnnotation \<mapsto> ''7''])"
  obtain cm where cm: "upf_createConfigMap (running ?nf) = Ret cm"
    using exampleUPF_made(1) by (auto simp: upf_createConfigMap_def)
  obtain d where d: "upf_createDeployment (exampleLib undefined) (ResourceVersion (cm_Meta runningConfigMap)) (running ?nf) = Ret d"
    using exampleUPF_made(2) [of "exampleLib undefined" "''7''"] by (auto simp: upf_createDeployment_def)
  have key: "keyOf (nf_Meta ?nf) = (''ns'', ''nf'')"
    by (simp add: keyOf_def)
  have owned: "enqueues SetupWithManager ''Deployment'' (dep_Meta ?d) = Some (''ns'', ''nf'')"
    by (simp add: enqueues_def SetupWithManager_def) (simp add: runningDeployment_def)
  have "\<exists>w' stored. Reconcile (exampleLib undefined) storeClient (''ns'', ''nf'') ?w = (Ret emptyResult, w')
    \<and> viewOf storeClient w' = (viewOf storeClient ?w)\<lparr>depsOf := (depsOf (viewOf storeClient ?w))((''ns'', ''nf'') \<mapsto> stored)\<rparr>
    \<and> dep_Spec stored = dep_Spec d \<and> enqueues SetupWithManager ''Deployment'' (dep_Meta stored) = None"
    by (rule upf_deployment_cut_off [OF store.api_server_axioms _ _ _ _ _ owned _ _ cm d])
      (simp_all add: upf_status.updates_eq mapGet_def samePhase_def key, simp add: exampleUPF_def)
  with owned show ?thesis by auto
qed

text \<open>
  C5: one NFDeployment, one footprint: on an API server whose objects are under their own keys,
  a reconcile changes nothing outside the key it was asked for, neither replaces nor removes a
  ConfigMap or a Service, and never touches configs or network definitions.
\<close>

theorem reconcile_footprint:
  assumes api: "api_server c" and L: "ownerRefsOnly L"
    and keyed: "\<And>nf. nfsOf (viewOf c w) req = Some nf \<Longrightarrow> keyOf (nf_Meta nf) = req"
      "\<And>d. depsOf (viewOf c w) req = Some d \<Longrightarrow> keyOf (dep_Meta d) = req"
    and after: "v = viewOf c w" "v' = viewOf c (snd (Reconcile L c req w))"
  shows "nfsOf v' |` (- {req}) = nfsOf v |` (- {req}) \<and> depsOf v' |` (- {req}) = depsOf v |` (- {req})
    \<and> cmsOf v \<subseteq>\<^sub>m cmsOf v' \<and> cmsOf v' |` (- {req}) = cmsOf v |` (- {req})
    \<and> svcsOf v \<subseteq>\<^sub>m svcsOf v' \<and> svcsOf v' |` (- {req}) = svcsOf v |` (- {req})
    \<and> cfgsOf v' = cfgsOf v \<and> nadsOf v' = nadsOf v"
proof (cases "nfsOf (viewOf c w) req")
  case None
  with Reconcile_missing [OF api] show ?thesis by (simp add: after)
next
  case (Some nf)
  note nf = keyed(1) [OF Some]
  obtain create where "effect create (Now c w) nf v v'"
    using Reconcile_effect [OF api L Some nf keyed(2)] unfolding after by blast
  then have eff: "statusWritten create (Now c w) nf v (nfsOf v')" "filled req (cmsOf v) (cmsOf v')"
    "filled req (svcsOf v) (svcsOf v')" "written req (depsOf v) (depsOf v')" "cfgsOf v' = cfgsOf v" "nadsOf v' = nadsOf v"
    using nf by (simp_all add: effect_def Let_def)
  have filled: "m \<subseteq>\<^sub>m m' \<and> m' |` (- {req}) = m |` (- {req})" if "filled req m m'" for m m' :: "NamespacedName \<rightharpoonup> 'z"
    using that by (auto simp: filled_def map_le_def restrict_map_def)
  show ?thesis
    using eff nf filled [OF eff(2)] filled [OF eff(3)]
    by (auto simp: statusWritten_def written_def restrict_map_def fun_eq_iff)
qed

theorem reconcile_footprint_witness:
  "svcs exampleAMFStore \<subseteq>\<^sub>m svcs (snd (Reconcile (exampleLib undefined) storeClient (''ns'', ''nf'') exampleAMFStore))
    \<and> nads (snd (Reconcile (exampleLib undefined) storeClient (''ns'', ''nf'') exampleAMFStore)) = nads exampleAMFStore"
  using reconcile_footprint [OF store.api_server_axioms, where L = "exampleLib undefined" and w = exampleAMFStore
      and req = "(''ns'', ''nf'')", OF _ _ _ refl refl] by simp



text \<open>
  C12: the status of each network function refines the abstract step on condition types: an
  empty history gets the starting condition, an unchanged phase writes nothing, a new phase is
  appended with the condition text for it, and the observed generation is the deployment's.
\<close>

theorem status_refines:
  "list_all (\<lambda>(create, what). case create now d nf of (st, update) \<Rightarrow>
       (map cond_Type (Conditions st), update) = nextHistory (history nf) (observed d)
       \<and> (\<exists>cs. Conditions st = Conditions (nf_Status nf) @ cs \<and> set cs \<subseteq> vocabulary what now)
       \<and> ObservedGeneration st = observedGeneration (Generation (dep_Meta d)))
     [(amf_createNfDeploymentStatus, ''NFDeployment''), (smf_createNfDeploymentStatus, ''SMFDeployment''),
      (upf_createNfDeploymentStatus, ''NFDeployment'')]"
  using amf_status_refines [where now = now and d = d and nf = nf] smf_status_refines [where now = now and d = d and nf = nf]
    upf_status_refines [where now = now and d = d and nf = nf] by simp

end
