(* ===== verification/Runs.thy ===== *)
theory Runs
  imports Dispatcher
begin

text \<open>
  Runs of the whole system: reconciles interleaved in any order with what users, the
  Deployment controller and the rest of the cluster do to the object store.  The invariants of
  such runs are proved by induction on the run, from the effect of one reconcile.
\<close>

section \<open>The steps of a run\<close>

text \<open>
  One reconcile; a user creates an NFDeployment or edits one (never its status, which is a
  subresource); the Deployment controller reports conditions; configs and network definitions
  come and go, and time passes.
\<close>

definition applyNF :: "NFDeployment \<Rightarrow> store \<Rightarrow> store" where
  "applyNF nf s = s\<lparr>nfs := (nfs s)(keyOf (nf_Meta nf) \<mapsto> nf\<lparr>nf_Meta := versioned (nextVersion s) (nf_Meta nf),
       nf_Status := (case nfs s (keyOf (nf_Meta nf)) of None \<Rightarrow> \<lparr>ObservedGeneration = 0, Conditions = []\<rparr> | Some old \<Rightarrow> nf_Status old)\<rparr>),
     revision := Suc (revision s)\<rparr>"

definition reportConditions :: "NamespacedName \<Rightarrow> DeploymentCondition list \<Rightarrow> store \<Rightarrow> store" where
  "reportConditions k cs s =
     (case deps s k of None \<Rightarrow> s
      | Some d \<Rightarrow> s\<lparr>deps := (deps s)(k \<mapsto> d\<lparr>dep_Meta := versioned (nextVersion s) (dep_Meta d), dep_Conditions := cs\<rparr>),
          revision := Suc (revision s)\<rparr>)"

inductive step :: "lib \<Rightarrow> store \<Rightarrow> store \<Rightarrow> bool" for L where
  Reconciled: "Reconcile L storeClient req s = (r, s') \<Longrightarrow> step L s s'"
| Applied: "step L s (applyNF nf s)"
| Reported: "step L s (reportConditions k cs s)"
| Provided: "step L s (s\<lparr>cfgs := c, nads := n, clock := t\<rparr>)"

abbreviation run :: "lib \<Rightarrow> store \<Rightarrow> store \<Rightarrow> bool" where
  "run L \<equiv> (step L)\<^sup>*\<^sup>*"

inductive_cases stepE [elim]: "step L s s'"

lemma step_reconcile: "step L s (snd (Reconcile L storeClient req s))"
  by (rule step.Reconciled [OF prod.collapse [symmetric]])

lemma run_apply_reconcile: "run L s (snd (Reconcile L storeClient req (applyNF nf s)))"
  by (rule converse_rtranclp_into_rtranclp [where r = "step L" and b = "applyNF nf s"])
    (rule step.Applied, rule r_into_rtranclp [where r = "step L"], rule step_reconcile)

section \<open>Objects under their own keys\<close>

definition ownKeys :: "('a \<Rightarrow> ObjectMeta) \<Rightarrow> (NamespacedName \<rightharpoonup> 'a) \<Rightarrow> bool" where
  "ownKeys meta m \<longleftrightarrow> (\<forall>k x. m k = Some x \<longrightarrow> keyOf (meta x) = k)"

definition keyed :: "store \<Rightarrow> bool" where
  "keyed s \<longleftrightarrow> ownKeys nf_Meta (nfs s) \<and> ownKeys cm_Meta (cms s) \<and> ownKeys svc_Meta (svcs s) \<and> ownKeys dep_Meta (deps s)"

lemma ownKeys_upd [simp]: "ownKeys meta m \<Longrightarrow> keyOf (meta x) = k \<Longrightarrow> ownKeys meta (m(k \<mapsto> x))"
  by (simp add: ownKeys_def)

lemma ownKeysD: "ownKeys meta m \<Longrightarrow> m k = Some x \<Longrightarrow> keyOf (meta x) = k"
  unfolding ownKeys_def by blast

lemma keyOf_upd [simp]:
  "keyOf (m\<lparr>ResourceVersion := v\<rparr>) = keyOf m" "keyOf (m\<lparr>Generation := g\<rparr>) = keyOf m"
  "keyOf (m\<lparr>DeletionTimestamp := t\<rparr>) = keyOf m"
  by (simp_all add: keyOf_def)

lemma found_snd [simp]: "snd (found x s) = s"
  by (simp add: found_def split: option.split)

lemma keyed_replay: "keyed s \<Longrightarrow> keyed (replay storeClient e s)"
  by (cases e)
    (auto simp: keyed_def storeCreateConfigMap_def storeCreateService_def storeCreateDeployment_def
      storeUpdateDeployment_def storeUpdateStatus_def Let_def ownKeysD split: option.splits)

lemma keyed_replays: "keyed s \<Longrightarrow> keyed (fold (replay storeClient) evs s)"
  by (induction evs arbitrary: s) (auto simp: keyed_replay)

lemma keyed_step: "step L s s' \<Longrightarrow> keyed s \<Longrightarrow> keyed s'"
proof (induction rule: step.induct)
  case (Reconciled req s r s')
  obtain tr where "snd (Reconcile L storeClient req s) = fold (replay storeClient) tr s"
    using Reconcile_replay [of L storeClient req s] by blast
  with Reconciled keyed_replays [of s tr] show ?case by simp
next
  case (Applied s nf)
  then show ?case by (simp add: keyed_def applyNF_def)
next
  case (Reported s k cs)
  then show ?case by (auto simp: keyed_def reportConditions_def ownKeysD split: option.split)
qed (simp add: keyed_def)

lemma keyed_run: "run L s s' \<Longrightarrow> keyed s \<Longrightarrow> keyed s'"
  by (induction rule: rtranclp_induct) (auto intro: keyed_step)

lemma Reconciled_effect:
  assumes "Reconcile L storeClient req s = (r, s')" "ownerRefsOnly L" "keyed s"
  shows "s' = s \<or> (\<exists>nf create what. nfs s req = Some nf \<and> keyOf (nf_Meta nf) = req \<and> status_creator create what
    \<and> effect create (clock s) nf (viewOf storeClient s) (viewOf storeClient s'))"
proof (cases "nfs s req")
  case None
  with Reconcile_missing [OF store.api_server_axioms, of s req L] assms(1) show ?thesis by simp
next
  case (Some nf)
  with assms(3) have key: "keyOf (nf_Meta nf) = req" unfolding keyed_def by (blast intro: ownKeysD)
  have "\<exists>create what. status_creator create what
    \<and> effect create (Now storeClient s) nf (viewOf storeClient s) (viewOf storeClient (snd (Reconcile L storeClient req s)))"
    by (rule Reconcile_effect [OF store.api_server_axioms assms(2) _ key]) (use Some assms(3) in \<open>auto simp: keyed_def ownKeysD\<close>)
  with Some key assms(1) show ?thesis by auto
qed

text \<open>What a step does, seen by the invariants.\<close>

lemma statusWritten_at:
  assumes "status_creator create what" "statusWritten create now nf v nfs'" "nfsOf v (keyOf (nf_Meta nf)) = Some nf"
    and "nfsOf v k = Some old"
  shows "\<exists>new. nfs' k = Some new \<and> (\<exists>cs. Conditions (nf_Status new) = Conditions (nf_Status old) @ cs)
    \<and> (operatorTypes (history old) \<longrightarrow> operatorTypes (history new))"
proof (cases "nfs' k = Some old")
  case False
  with assms obtain d nf' where k: "k = keyOf (nf_Meta nf)" "nfs' k = Some nf'" and "synced create nf (now, d) nf'"
    by (auto simp: statusWritten_def split: if_splits)
  then obtain v where nf': "nf' = (syncOnce create nf (now, d))\<lparr>nf_Meta := versioned v (nf_Meta nf)\<rparr>"
    by (auto simp: synced_def)
  have "old = nf" using k assms(3,4) by simp
  moreover have "history nf' = history (syncOnce create nf (now, d))"
    by (simp add: nf' history_def)
  ultimately show ?thesis
    using k nf' status_creator.syncOnce_extends [OF assms(1), of nf "(now, d)"]
      status_creator.syncOnce_operatorTypes [OF assms(1), of nf "(now, d)"] by auto
qed auto

lemma step_status:
  assumes "step L s s'" "ownerRefsOnly L" "keyed s" "nfs s k = Some old"
  shows "\<exists>new. nfs s' k = Some new \<and> (\<exists>cs. Conditions (nf_Status new) = Conditions (nf_Status old) @ cs)
    \<and> (operatorTypes (history old) \<longrightarrow> operatorTypes (history new))"
  using assms
proof (induction rule: step.induct)
  case (Reconciled req s r s')
  from Reconciled_effect [OF Reconciled(1-3)] consider "s' = s"
    | nf create what where "nfs s req = Some nf" "keyOf (nf_Meta nf) = req" "status_creator create what"
        "effect create (clock s) nf (viewOf storeClient s) (viewOf storeClient s')"
    by blast
  then show ?case
  proof cases
    case 2
    then show ?thesis
      using statusWritten_at [of create what "clock s" nf "viewOf storeClient s" "nfs s'" k old] Reconciled(4)
      by (simp add: effect_def Let_def)
  qed (use Reconciled in auto)
next
  case (Applied s nf)
  then show ?case
    by (cases "k = keyOf (nf_Meta nf)") (auto simp: applyNF_def history_def)
next
  case (Reported s k' cs)
  then show ?case by (auto simp: reportConditions_def split: option.split)
qed auto

lemma step_new_status:
  assumes "step L s s'" "ownerRefsOnly L" "keyed s" "nfs s k = None" "nfs s' k = Some new"
  shows "history new = []"
  using assms
proof (induction rule: step.induct)
  case (Reconciled req s r s')
  from Reconciled_effect [OF Reconciled(1-3)] Reconciled(4,5) show ?case
    by (auto simp: effect_def statusWritten_def Let_def split: if_splits)
next
  case (Applied s nf)
  then show ?case by (auto simp: applyNF_def history_def split: if_splits)
next
  case (Reported s k' cs)
  then show ?case by (auto simp: reportConditions_def split: option.splits)
qed auto

lemma step_agrees:
  assumes "step L s s'" "ownerRefsOnly L" "keyed s" "agrees (viewOf storeClient s) k"
  shows "agrees (viewOf storeClient s') k"
  using assms
proof (induction rule: step.induct)
  case (Reconciled req s r s')
  from Reconciled_effect [OF Reconciled(1-3)] Reconciled(4) show ?case
    by (cases "k = req") (auto simp: effect_def agrees_def written_def filled_def Let_def)
next
  case (Applied s nf)
  then show ?case by (simp add: agrees_def applyNF_def)
next
  case (Reported s k' cs)
  then show ?case
    by (auto simp: agrees_def reportConditions_def templateAnnotations_def split: option.splits if_splits)
qed (simp add: agrees_def)

lemma step_frozen:
  assumes "step L s s'" "ownerRefsOnly L" "keyed s"
  shows "cms s \<subseteq>\<^sub>m cms s' \<and> svcs s \<subseteq>\<^sub>m svcs s' \<and> dom (deps s) \<subseteq> dom (deps s')"
  using assms
proof (induction rule: step.induct)
  case (Reconciled req s r s')
  from Reconciled_effect [OF Reconciled(1-3)] show ?case
    by (auto simp: effect_def written_def filled_def map_le_def Let_def)
next
  case (Reported s k' cs)
  then show ?case by (auto simp: reportConditions_def split: option.split)
qed (simp_all add: applyNF_def)

lemma keyed_running: "keyOf (nf_Meta nf) = (''ns'', ''nf'') \<Longrightarrow> keyed (runningStore nf None a)"
  by (simp add: keyed_def ownKeys_def runningStore_def emptyStore_def, simp add: runningConfigMap_def keyOf_def)

section \<open>Properties\<close>

text \<open>
  C15: the objects of a run stay well formed: reconciles, edits and reports in any order leave
  every object under its own key, and give an NFDeployment no conditions but the operator's
  three types.
\<close>

theorem runs_stay_wellformed:
  assumes "run L s s'" and "ownerRefsOnly L"
    and "keyed s \<and> (\<forall>nf \<in> ran (nfs s). operatorTypes (history nf))"
  shows "keyed s' \<and> (\<forall>nf \<in> ran (nfs s'). operatorTypes (history nf))"
  using assms(1)
proof (induction rule: rtranclp_induct)
  case (step t u)
  have "operatorTypes (history new)" if new: "nfs u k = Some new" for k new
  proof (cases "nfs t k")
    case None
    with step_new_status [OF step(2) assms(2) _ None new] step(3) show ?thesis by (simp add: operatorTypes_def)
  next
    case (Some old)
    with step(3) have "operatorTypes (history old)" by (blast intro: ranI)
    with step_status [OF step(2) assms(2) _ Some] step(3) new show ?thesis by auto
  qed
  with keyed_step [OF step(2)] step(3) show ?case by (auto simp: ran_def)
qed (use assms(3) in simp)

theorem runs_stay_wellformed_witness:
  "keyed (snd (Reconcile (exampleLib undefined) storeClient (''ns'', ''nf'') (applyNF exampleAMF emptyStore)))"
proof -
  let ?L = "exampleLib undefined"
  have "run ?L emptyStore (snd (Reconcile ?L storeClient (''ns'', ''nf'') (applyNF exampleAMF emptyStore)))"
    by (rule run_apply_reconcile)
  then show ?thesis
    using runs_stay_wellformed [of ?L emptyStore] by (simp add: keyed_def ownKeys_def emptyStore_def)
qed

text \<open>
  C7: a Deployment never outlives the version of its ConfigMap: if every Deployment of a
  cluster carries the version of the ConfigMap of its name, that stays so through any run, so
  the pods always run on the ConfigMap the cluster holds.
\<close>

theorem runs_keep_versions:
  assumes "run L s s'" and "ownerRefsOnly L" and "keyed s" and "\<And>k. agrees (viewOf storeClient s) k"
  shows "agrees (viewOf storeClient s') k"
proof -
  have "keyed s' \<and> (\<forall>k. agrees (viewOf storeClient s') k)"
    using assms(1)
  proof (induction rule: rtranclp_induct)
    case (step t u)
    then show ?case
      using keyed_step [OF step(2)] step_agrees [OF step(2) assms(2)] by blast
  qed (use assms(3,4) in blast)
  then show ?thesis by blast
qed

theorem runs_keep_versions_witness:
  "agrees (viewOf storeClient (snd (Reconcile (exampleLib undefined) storeClient (''ns'', ''nf'') exampleAMFStore))) (''ns'', ''nf'')"
proof -
  have 1: "step (exampleLib undefined) exampleAMFStore (snd (Reconcile (exampleLib undefined) storeClient (''ns'', ''nf'') exampleAMFStore))"
    by (rule step_reconcile)
  have 2: "keyed exampleAMFStore"
    by (simp add: keyed_def ownKeys_def)
  have 3: "agrees (viewOf storeClient exampleAMFStore) k" for k
    by (simp add: agrees_def)
  show ?thesis
    by (rule runs_keep_versions [OF r_into_rtranclp [where r = "step (exampleLib undefined)", OF 1] ownerRefsOnly_exampleLib 2 3])
qed



text \<open>
  C14: the conditions of an NFDeployment are a log: along any run they are only extended at the
  end, and an NFDeployment is never dropped by the operator.
\<close>

theorem runs_extend_conditions:
  assumes "run L s s'" and "ownerRefsOnly L" and "keyed s" and "nfs s k = Some old"
  shows "\<exists>new cs. nfs s' k = Some new \<and> Conditions (nf_Status new) = Conditions (nf_Status old) @ cs"
proof -
  have "keyed s' \<and> (\<exists>new cs. nfs s' k = Some new \<and> Conditions (nf_Status new) = Conditions (nf_Status old) @ cs)"
    using assms(1)
  proof (induction rule: rtranclp_induct)
    case (step t u)
    then obtain mid cs where mid: "nfs t k = Some mid" "Conditions (nf_Status mid) = Conditions (nf_Status old) @ cs"
      by blast
    with step_status [OF step(2) assms(2) _ mid(1)] keyed_step [OF step(2)] step(3) show ?case by auto
  qed (use assms(3,4) in simp)
  then show ?thesis by blast
qed

theorem runs_extend_conditions_witness:
  "\<exists>new cs. nfs (snd (Reconcile (exampleLib undefined) storeClient (''ns'', ''nf'') (runningStore exampleAMF None None))) (''ns'', ''nf'')
     = Some new \<and> Conditions (nf_Status new) = Conditions (nf_Status (running exampleAMF)) @ cs"
proof -
  let ?L = "exampleLib undefined" and ?s = "runningStore exampleAMF None None"
  have "run ?L ?s (snd (Reconcile ?L storeClient (''ns'', ''nf'') ?s))"
    by (rule r_into_rtranclp) (rule step_reconcile)
  moreover have "keyed ?s"
    by (rule keyed_running) simp
  ultimately show ?thesis
    using runs_extend_conditions [of ?L ?s] by simp
qed

end
