(* ===== verification/Flags.thy ===== *)
theory Flags
  imports Main
begin

text \<open>
  What \<open>main.go\<close> uses of the standard library's \<open>flag\<close> package: a flag set, the registration of
  flags, and the parsing of a command line with \<open>ExitOnError\<close>.  A flag's \<open>Value\<close> is an interface
  with \<open>Set\<close> and \<open>IsBoolFlag\<close>, here a record over the state \<open>'v\<close> that the flags write to.
\<close>

section \<open>Flag sets\<close>

record 'v flag =
  IsBoolFlag :: bool
  Set :: "string \<Rightarrow> 'v \<Rightarrow> 'v option"

type_synonym 'v flagSet = "(string \<times> 'v flag) list"

text \<open>\<open>FlagSet.Var\<close>: a second flag of the same name panics.\<close>

fun Var :: "string \<Rightarrow> 'v flag \<Rightarrow> 'v flagSet \<Rightarrow> 'v flagSet option" where
  "Var name f formal = (if name \<in> fst ` set formal then None else Some (formal @ [(name, f)]))"

fun Vars :: "'v flagSet \<Rightarrow> 'v flagSet \<Rightarrow> 'v flagSet option" where
  "Vars [] formal = Some formal"
| "Vars ((name, f) # fs) formal = Option.bind (Var name f formal) (Vars fs)"

text \<open>\<open>strconv.ParseBool\<close>, and the values of string and boolean variables.\<close>

definition ParseBool :: "string \<Rightarrow> bool option" where
  "ParseBool s =
     (if s \<in> set [''1'', ''t'', ''T'', ''true'', ''TRUE'', ''True''] then Some True
      else if s \<in> set [''0'', ''f'', ''F'', ''false'', ''FALSE'', ''False''] then Some False
      else None)"

definition StringVar :: "((string \<Rightarrow> string) \<Rightarrow> 'v \<Rightarrow> 'v) \<Rightarrow> 'v flag" where
  "StringVar update = \<lparr>IsBoolFlag = False, Set = (\<lambda>s v. Some (update (\<lambda>_. s) v))\<rparr>"

definition BoolVar :: "((bool \<Rightarrow> bool) \<Rightarrow> 'v \<Rightarrow> 'v) \<Rightarrow> 'v flag" where
  "BoolVar update = \<lparr>IsBoolFlag = True,
     Set = (\<lambda>s v. map_option (\<lambda>b. update (\<lambda>_. b) v) (ParseBool s))\<rparr>"

section \<open>Parsing\<close>

text \<open>One argument: not a flag, the terminator \<open>--\<close>, a malformed flag, or a flag with its value.\<close>

datatype token = NoFlag | Terminator | BadSyntax | Flag string "string option"

definition splitFlag :: "string \<Rightarrow> token" where
  "splitFlag s =
     (if length s < 2 \<or> hd s \<noteq> CHR ''-'' then NoFlag
      else if s = ''--'' then Terminator
      else (let name = drop (if s ! 1 = CHR ''-'' then 2 else 1) s in
        if name = [] \<or> hd name = CHR ''-'' \<or> hd name = CHR ''='' then BadSyntax
        else if CHR ''='' \<in> set name
        then Flag (takeWhile (\<lambda>c. c \<noteq> CHR ''='') name) (Some (tl (dropWhile (\<lambda>c. c \<noteq> CHR ''='') name)))
        else Flag name None))"

text \<open>
  The end of \<open>FlagSet.Parse\<close>: all flags were set and these arguments remain, \<open>ErrHelp\<close>, or
  another error.
\<close>

datatype 'v parsed = Parsed 'v "string list" | ErrHelp | ParseError

fun orError :: "'v option \<Rightarrow> ('v \<Rightarrow> 'v parsed) \<Rightarrow> 'v parsed" where
  "orError None f = ParseError"
| "orError (Some v) f = f v"

lemma orError_cong [fundef_cong]:
  "x = y \<Longrightarrow> (\<And>v. y = Some v \<Longrightarrow> f v = g v) \<Longrightarrow> orError x f = orError y g"
  by (cases y) auto

fun Parse :: "'v flagSet \<Rightarrow> string list \<Rightarrow> 'v \<Rightarrow> 'v parsed" where
  "Parse formal [] v = Parsed v []"
| "Parse formal (s # args) v =
     (case splitFlag s of
        NoFlag \<Rightarrow> Parsed v (s # args)
      | Terminator \<Rightarrow> Parsed v args
      | BadSyntax \<Rightarrow> ParseError
      | Flag name value \<Rightarrow>
          (case map_of formal name of
             None \<Rightarrow> if name = ''help'' \<or> name = ''h'' then ErrHelp else ParseError
           | Some f \<Rightarrow>
               if IsBoolFlag f
               then orError (Set f (case value of None \<Rightarrow> ''true'' | Some x \<Rightarrow> x) v) (Parse formal args)
               else (case value of
                   Some x \<Rightarrow> orError (Set f x v) (Parse formal args)
                 | None \<Rightarrow>
                     (case args of
                        [] \<Rightarrow> ParseError
                      | x # args' \<Rightarrow> orError (Set f x v) (Parse formal args')))))"

section \<open>Spellings\<close>

text \<open>
  How a command line can set a flag: \<open>-name=value\<close>, \<open>-name value\<close> when the flag is not
  boolean, \<open>-name\<close> for a boolean flag that is to be true, each with one or two dashes.
\<close>

inductive spells :: "'v flagSet \<Rightarrow> string \<times> string \<Rightarrow> string list \<Rightarrow> bool" for formal where
  Joined: "map_of formal name = Some f \<Longrightarrow> d \<in> {''-'', ''--''} \<Longrightarrow> spells formal (name, x) [d @ name @ ''='' @ x]"
| Separate: "map_of formal name = Some f \<Longrightarrow> \<not> IsBoolFlag f \<Longrightarrow> d \<in> {''-'', ''--''} \<Longrightarrow> spells formal (name, x) [d @ name, x]"
| Switch: "map_of formal name = Some f \<Longrightarrow> IsBoolFlag f \<Longrightarrow> d \<in> {''-'', ''--''} \<Longrightarrow> spells formal (name, ''true'') [d @ name]"

inductive_cases spellsE: "spells formal (name, x) args"

definition wellNamed :: "'v flagSet \<Rightarrow> bool" where
  "wellNamed formal \<longleftrightarrow> list_all (\<lambda>(name, f). name \<noteq> [] \<and> hd name \<noteq> CHR ''-'' \<and> CHR ''='' \<notin> set name) formal"

lemma wellNamed_name:
  "wellNamed formal \<Longrightarrow> map_of formal name = Some f \<Longrightarrow> name \<noteq> [] \<and> hd name \<noteq> CHR ''-'' \<and> CHR ''='' \<notin> set name"
  by (drule map_of_SomeD) (auto simp: wellNamed_def list_all_iff)

lemma takeWhile_name: "CHR ''='' \<notin> set name \<Longrightarrow> takeWhile (\<lambda>c. c \<noteq> CHR ''='') (name @ CHR ''='' # x) = name"
  by (induction name) auto

lemma dropWhile_name: "CHR ''='' \<notin> set name \<Longrightarrow> dropWhile (\<lambda>c. c \<noteq> CHR ''='') (name @ CHR ''='' # x) = CHR ''='' # x"
  by (induction name) auto

lemma splitFlag_dashes:
  assumes "name \<noteq> []" "hd name \<noteq> CHR ''-''" "d \<in> {''-'', ''--''}"
  shows "splitFlag (d @ name) = (if hd name = CHR ''='' then BadSyntax else if CHR ''='' \<in> set name
     then Flag (takeWhile (\<lambda>c. c \<noteq> CHR ''='') name) (Some (tl (dropWhile (\<lambda>c. c \<noteq> CHR ''='') name)))
     else Flag name None)"
proof -
  obtain c cs where name: "name = c # cs" using assms(1) by (cases name) auto
  from assms(3) consider "d = ''-''" | "d = ''--''" by blast
  then show ?thesis
    using assms(2) by cases (simp_all only: splitFlag_def name append.simps Let_def, simp_all)
qed

lemma splitFlag_spelled:
  assumes "name \<noteq> []" "hd name \<noteq> CHR ''-''" "CHR ''='' \<notin> set name" "d \<in> {''-'', ''--''}"
  shows "splitFlag (d @ name @ ''='' @ x) = Flag name (Some x)" "splitFlag (d @ name) = Flag name None"
proof -
  have "hd name \<noteq> CHR ''=''"
    using assms(1,3) by (cases name) auto
  then show "splitFlag (d @ name) = Flag name None"
    using splitFlag_dashes [of name d] assms by simp
  from \<open>hd name \<noteq> CHR ''=''\<close> show "splitFlag (d @ name @ ''='' @ x) = Flag name (Some x)"
    using splitFlag_dashes [of "name @ ''='' @ x" d] assms by (simp add: takeWhile_name dropWhile_name)
qed

text \<open>The state after some settings, in order; \<open>None\<close> when one is refused.\<close>

fun settings :: "'v flagSet \<Rightarrow> (string \<times> string) list \<Rightarrow> 'v \<Rightarrow> 'v option" where
  "settings formal [] v = Some v"
| "settings formal ((name, x) # rest) v =
     Option.bind (map_of formal name) (\<lambda>f. Option.bind (Set f x v) (settings formal rest))"

lemma Parse_flag:
  "splitFlag s = Flag name (Some x) \<Longrightarrow> map_of formal name = Some f \<Longrightarrow> Parse formal (s # args) v = orError (Set f x v) (Parse formal args)"
  "splitFlag s = Flag name None \<Longrightarrow> map_of formal name = Some f \<Longrightarrow> IsBoolFlag f \<Longrightarrow>
    Parse formal (s # args) v = orError (Set f ''true'' v) (Parse formal args)"
  "splitFlag s = Flag name None \<Longrightarrow> map_of formal name = Some f \<Longrightarrow> \<not> IsBoolFlag f \<Longrightarrow>
    Parse formal (s # x # args) v = orError (Set f x v) (Parse formal args)"
  by simp_all

lemma Parse_spelled:
  assumes "spells formal (name, x) ws" "wellNamed formal" "map_of formal name = Some f"
  shows "Parse formal (ws @ rest) v = orError (Set f x v) (Parse formal rest)"
proof -
  note split = splitFlag_spelled [of name]
  show ?thesis
    using assms(1)
  proof (cases rule: spellsE [consumes 1])
    case (1 f' d)
    then show ?thesis
      using Parse_flag(1) [OF split(1) assms(3)] wellNamed_name [OF assms(2,3)] by simp
  next
    case (2 f' d)
    then show ?thesis
      using Parse_flag(3) [OF split(2) assms(3)] wellNamed_name [OF assms(2,3)] assms(3) by simp
  next
    case (3 f' d)
    then show ?thesis
      using Parse_flag(2) [OF split(2) assms(3)] wellNamed_name [OF assms(2,3)] assms(3) by simp
  qed
qed

lemma spells_defined: "spells formal (name, x) ws \<Longrightarrow> \<exists>f. map_of formal name = Some f"
  by (auto elim: spellsE)

text \<open>A command line of spelled settings sets them in order and goes on with the rest.\<close>

lemma Parse_settings:
  assumes "list_all2 (spells formal) sets args" "wellNamed formal"
  shows "Parse formal (concat args @ rest) v = orError (settings formal sets v) (\<lambda>v. Parse formal rest v)"
  using assms(1)
proof (induction arbitrary: v rule: list_all2_induct)
  case (Cons setting sets ws args)
  obtain name x where setting: "setting = (name, x)" by (cases setting)
  with Cons(1) obtain f where f: "map_of formal name = Some f"
    using spells_defined by blast
  show ?case
    using Parse_spelled [of formal name x ws f "concat args @ rest" v] Cons setting f assms(2)
    by (cases "Set f x v") simp_all
qed simp

text \<open>Registration.\<close>

lemma Vars_Some:
  "Vars fs formal = Some formal' \<longleftrightarrow> distinct (map fst fs) \<and> fst ` set fs \<inter> fst ` set formal = {} \<and> formal' = formal @ fs"
  by (induction fs formal rule: Vars.induct) (auto split: if_splits)

end
