(* ===== verification/Manager.thy ===== *)
theory Manager
  imports Dispatcher Flags
begin

text \<open>
  \<open>free5gc-operator/main.go\<close>: the start of the operator process, from its command line on.
  The libraries \<open>main\<close> calls are a parameter, a record of the flags they add to the command
  line, with a state \<open>'x\<close> of their own, and of the calls made of the controller manager, a
  state \<open>'m\<close>, and of the cluster configuration \<open>'c\<close>.  Every failing call ends the process.
\<close>

section \<open>The command line\<close>

record flags =
  metricsAddress :: string
  healthProbeAddress :: string
  leaderElect :: bool

definition defaultFlags :: flags where
  "defaultFlags = \<lparr>metricsAddress = '':8080'', healthProbeAddress = '':8081'', leaderElect = False\<rparr>"

text \<open>The operator's flags write to the first half of the state, the libraries' to the second.\<close>

definition operatorFlags :: "(flags \<times> 'x) flagSet" where
  "operatorFlags =
     [(''metrics-bind-address'', StringVar (\<lambda>f. apfst (metricsAddress_update f))),
      (''health-probe-bind-address'', StringVar (\<lambda>f. apfst (healthProbeAddress_update f))),
      (''leader-elect'', BoolVar (\<lambda>f. apfst (leaderElect_update f)))]"

definition libraryFlags :: "'x flagSet \<Rightarrow> (flags \<times> 'x) flagSet" where
  "libraryFlags = map (apsnd (\<lambda>f. \<lparr>IsBoolFlag = IsBoolFlag f,
     Set = (\<lambda>s (flags, x). map_option (Pair flags) (Set f s x))\<rparr>))"

section \<open>The manager\<close>

text \<open>The options of the manager that the source sets, apart from the scheme.\<close>

record options =
  MetricsBindAddress :: string
  HealthProbeBindAddress :: string
  LeaderElection :: bool
  LeaderElectionID :: string

definition managerOptions :: "flags \<Rightarrow> options" where
  "managerOptions flags = \<lparr>MetricsBindAddress = metricsAddress flags,
     HealthProbeBindAddress = healthProbeAddress flags, LeaderElection = leaderElect flags,
     LeaderElectionID = ''5089c67f.nephio.org''\<rparr>"

text \<open>The two API packages whose kinds are registered, and a scheme builder.\<close>

datatype groupVersion = WorkloadV1alpha1 | ReferencesV1alpha1

record schemeBuilder =
  GroupVersion :: groupVersion
  Kinds :: "string list"

definition Register :: "string list \<Rightarrow> schemeBuilder \<Rightarrow> schemeBuilder" where
  "Register kinds b = b\<lparr>Kinds := Kinds b @ kinds\<rparr>"

text \<open>
  \<open>CommandLine\<close> holds the flags that imported packages have registered before \<open>main\<close> runs,
  \<open>ZapFlags\<close> those of \<open>zapOptions.BindFlags\<close>; \<open>LoadConfig\<close> is the configuration of the
  cluster, which \<open>GetConfigOrDie\<close> exits without.
\<close>

record ('x, 'c, 'm) libraries =
  AddClientGoScheme :: "error option"
  CommandLine :: "'x flagSet"
  ZapFlags :: "'x flagSet"
  LibraryDefaults :: 'x
  LoadConfig :: "'x \<Rightarrow> error + 'c"
  NewManager :: "'c \<Rightarrow> options \<Rightarrow> error + 'm"
  AddToScheme :: "schemeBuilder \<Rightarrow> 'm \<Rightarrow> error option \<times> 'm"
  Complete :: "controller \<Rightarrow> 'm \<Rightarrow> error option \<times> 'm"
  AddHealthzCheck :: "string \<Rightarrow> 'm \<Rightarrow> error option \<times> 'm"
  AddReadyzCheck :: "string \<Rightarrow> 'm \<Rightarrow> error option \<times> 'm"
  Start :: "'m \<Rightarrow> error option \<times> 'm"

text \<open>
  How the process ends: with a status after the given message (the empty one where a library
  speaks), in a panic, or because \<open>main\<close> returns.
\<close>

datatype exit = Exit int string | Panicked | Finished

definition fail :: "string \<Rightarrow> exit" where
  "fail msg = Exit 1 msg"

fun orFail :: "error option \<times> 'm \<Rightarrow> exit \<Rightarrow> ('m \<Rightarrow> exit \<times> 'm) \<Rightarrow> exit \<times> 'm" where
  "orFail (Some err, m) e rest = (e, m)"
| "orFail (None, m) e rest = rest m"

text \<open>\<open>init\<close>: \<open>utilruntime.Must\<close> panics on an error.\<close>

definition init :: "('x, 'c, 'm) libraries \<Rightarrow> exit option" where
  "init M = map_option (\<lambda>err. Panicked) (AddClientGoScheme M)"

text \<open>From the declaration of the flags to \<open>flag.Parse\<close>; \<open>None\<close> when a flag is declared twice.\<close>

definition parseCommandLine :: "('x, 'c, 'm) libraries \<Rightarrow> string list \<Rightarrow> (flags \<times> 'x) parsed option" where
  "parseCommandLine M args =
     map_option (\<lambda>formal. Parse formal args (defaultFlags, LibraryDefaults M))
       (Vars (operatorFlags @ libraryFlags (ZapFlags M)) (libraryFlags (CommandLine M)))"

definition runManager :: "('x, 'c, 'm) libraries \<Rightarrow> 'c \<Rightarrow> flags \<Rightarrow> exit \<times> 'm option" where
  "runManager M config flags =
     (case NewManager M config (managerOptions flags) of
        Inl err \<Rightarrow> (fail ''unable to start manager'', None)
      | Inr mgr \<Rightarrow> map_prod id Some (
          let schemeBuilder = Register [''NFDeployment'', ''NFDeploymentList''] \<lparr>GroupVersion = WorkloadV1alpha1, Kinds = []\<rparr> in
          orFail (AddToScheme M schemeBuilder mgr) (fail ''Not able to register NFDeployment kind'') (\<lambda>mgr.
          let schemeBuilder = Register [''Config'', ''ConfigList''] \<lparr>GroupVersion = ReferencesV1alpha1, Kinds = []\<rparr> in
          orFail (AddToScheme M schemeBuilder mgr) (fail ''Not able to register Config.ref kind'') (\<lambda>mgr.
          orFail (Complete M SetupWithManager mgr) (Exit 1 ''unable to create controller'') (\<lambda>mgr.
          orFail (AddHealthzCheck M ''healthz'' mgr) (fail ''unable to set up health check'') (\<lambda>mgr.
          orFail (AddReadyzCheck M ''readyz'' mgr) (fail ''unable to set up ready check'') (\<lambda>mgr.
          orFail (Start M mgr) (fail ''problem running manager'') (\<lambda>mgr. (Finished, mgr)))))))))"

definition main :: "('x, 'c, 'm) libraries \<Rightarrow> string list \<Rightarrow> exit \<times> 'm option" where
  "main M args =
     (case init M of
        Some e \<Rightarrow> (e, None)
      | None \<Rightarrow>
          (case parseCommandLine M args of
             None \<Rightarrow> (Panicked, None)
           | Some ParseError \<Rightarrow> (Exit 2 '''', None)
           | Some ErrHelp \<Rightarrow> (Exit 0 '''', None)
           | Some (Parsed (flags, x) args') \<Rightarrow>
               (case LoadConfig M x of
                  Inl err \<Rightarrow> (Exit 1 '''', None)
                | Inr config \<Rightarrow> runManager M config flags)))"

section \<open>A manager that keeps a log\<close>

text \<open>
  The calls made of the manager; \<open>scripted fails M\<close> is a manager on which a call fails when
  \<open>fails\<close> says so of it and the calls before it, with the command line of \<open>M\<close>.
\<close>

datatype managerCall =
  Created options | Registered groupVersion "string list" | Completed controller | Healthz string | Readyz string | Started

definition attempt :: "(managerCall list \<Rightarrow> managerCall \<Rightarrow> bool) \<Rightarrow> managerCall \<Rightarrow> managerCall list \<Rightarrow> error option \<times> managerCall list" where
  "attempt fails call calls = (if fails calls call then Some (ApiError '''') else None, calls @ [call])"

definition scripted ::
  "(managerCall list \<Rightarrow> managerCall \<Rightarrow> bool) \<Rightarrow> ('x, 'c, managerCall list) libraries \<Rightarrow> ('x, 'c, managerCall list) libraries" where
  "scripted fails M = M\<lparr>
     NewManager := (\<lambda>config opts. if fails [] (Created opts) then Inl (ApiError '''') else Inr [Created opts]),
     AddToScheme := (\<lambda>b. attempt fails (Registered (GroupVersion b) (Kinds b))),
     Complete := (\<lambda>ctl. attempt fails (Completed ctl)),
     AddHealthzCheck := (\<lambda>name. attempt fails (Healthz name)),
     AddReadyzCheck := (\<lambda>name. attempt fails (Readyz name)),
     Start := attempt fails Started\<rparr>"

text \<open>The calls of a complete start, with what the process says when one of them fails.\<close>

definition startup :: "(managerCall \<times> string) list" where
  "startup =
     [(Registered WorkloadV1alpha1 [''NFDeployment'', ''NFDeploymentList''], ''Not able to register NFDeployment kind''),
      (Registered ReferencesV1alpha1 [''Config'', ''ConfigList''], ''Not able to register Config.ref kind''),
      (Completed SetupWithManager, ''unable to create controller''),
      (Healthz ''healthz'', ''unable to set up health check''),
      (Readyz ''readyz'', ''unable to set up ready check''),
      (Started, ''problem running manager'')]"

text \<open>The calls up to and with the first failing one, and how the process ends.\<close>

fun callAll :: "(managerCall list \<Rightarrow> managerCall \<Rightarrow> bool) \<Rightarrow> (managerCall \<times> string) list \<Rightarrow> managerCall list \<Rightarrow> exit \<times> managerCall list" where
  "callAll fails [] calls = (Finished, calls)"
| "callAll fails ((call, msg) # rest) calls =
     (if fails calls call then (Exit 1 msg, calls @ [call]) else callAll fails rest (calls @ [call]))"

lemma orFail_attempt:
  "orFail (attempt fails call calls) e rest = (if fails calls call then (e, calls @ [call]) else rest (calls @ [call]))"
  by (simp add: attempt_def)

lemma runManager_scripted:
  "runManager (scripted fails M) config flags =
     (if fails [] (Created (managerOptions flags)) then (Exit 1 ''unable to start manager'', None)
      else map_prod id Some (callAll fails startup [Created (managerOptions flags)]))"
  by (simp add: runManager_def scripted_def Register_def orFail_attempt fail_def startup_def Let_def)

lemma scripted_sel [simp]:
  "AddClientGoScheme (scripted fails M) = AddClientGoScheme M" "parseCommandLine (scripted fails M) = parseCommandLine M"
  "LoadConfig (scripted fails M) = LoadConfig M"
  by (simp_all add: scripted_def parseCommandLine_def fun_eq_iff)

section \<open>Reading the command line\<close>

text \<open>The last setting of a flag, if any.\<close>

abbreviation lastSetting :: "string \<Rightarrow> (string \<times> string) list \<Rightarrow> string option" where
  "lastSetting name sets \<equiv> map_of (rev sets) name"

definition setTo :: "(string \<times> string) list \<Rightarrow> flags \<Rightarrow> flags" where
  "setTo sets flags = \<lparr>
     metricsAddress = (case lastSetting ''metrics-bind-address'' sets of None \<Rightarrow> metricsAddress flags | Some x \<Rightarrow> x),
     healthProbeAddress = (case lastSetting ''health-probe-bind-address'' sets of None \<Rightarrow> healthProbeAddress flags | Some x \<Rightarrow> x),
     leaderElect = (case lastSetting ''leader-elect'' sets of None \<Rightarrow> leaderElect flags | Some x \<Rightarrow> the (ParseBool x))\<rparr>"

definition ownSetting :: "string \<times> string \<Rightarrow> bool" where
  "ownSetting setting \<longleftrightarrow> fst setting \<in> {''metrics-bind-address'', ''health-probe-bind-address''}
     \<or> fst setting = ''leader-elect'' \<and> ParseBool (snd setting) \<noteq> None"

lemma lastSetting_Cons:
  "lastSetting n ((name, x) # sets) = (case lastSetting n sets of None \<Rightarrow> if n = name then Some x else None | Some y \<Rightarrow> Some y)"
  by (simp add: map_add_def split: option.split)

lemma setTo_Cons:
  assumes "ownSetting (name, x)"
  shows "setTo ((name, x) # sets) flags = setTo sets (setTo [(name, x)] flags)"
proof -
  have at: "(case lastSetting n ((name, x) # sets) of None \<Rightarrow> d | Some y \<Rightarrow> g y)
      = (case lastSetting n sets of None \<Rightarrow> (case lastSetting n [(name, x)] of None \<Rightarrow> d | Some y \<Rightarrow> g y) | Some y \<Rightarrow> g y)"
    for n and d :: 'z and g
    unfolding lastSetting_Cons [where n = n and sets = sets] by (simp split: option.split)
  show ?thesis
    unfolding setTo_def at by (simp cong: option.case_cong)
qed

lemma operatorFlags_of:
  "map_of operatorFlags ''metrics-bind-address'' = Some (StringVar (\<lambda>f. apfst (metricsAddress_update f)))"
  "map_of operatorFlags ''health-probe-bind-address'' = Some (StringVar (\<lambda>f. apfst (healthProbeAddress_update f)))"
  "map_of operatorFlags ''leader-elect'' = Some (BoolVar (\<lambda>f. apfst (leaderElect_update f)))"
  by (simp_all add: operatorFlags_def)

lemma setTo_one:
  "setTo [(''metrics-bind-address'', x)] flags = flags\<lparr>metricsAddress := x\<rparr>"
  "setTo [(''health-probe-bind-address'', x)] flags = flags\<lparr>healthProbeAddress := x\<rparr>"
  "ParseBool x = Some b \<Longrightarrow> setTo [(''leader-elect'', x)] flags = flags\<lparr>leaderElect := b\<rparr>"
  by (simp_all add: setTo_def)

lemma Set_own:
  assumes "map_of operatorFlags \<subseteq>\<^sub>m map_of formal" "ownSetting (name, x)"
  shows "\<exists>f. map_of formal name = Some f \<and> Set f x (flags, y) = Some (setTo [(name, x)] flags, y)"
proof -
  from assms(2) consider "name = ''metrics-bind-address''" | "name = ''health-probe-bind-address''"
    | b where "name = ''leader-elect''" "ParseBool x = Some b"
    unfolding ownSetting_def by auto
  then have "\<exists>f. map_of operatorFlags name = Some f \<and> Set f x (flags, y) = Some (setTo [(name, x)] flags, y)"
    by cases (simp_all add: operatorFlags_of setTo_one StringVar_def BoolVar_def)
  with assms(1) show ?thesis
    by (metis domI map_le_def)
qed

lemma settings_own:
  assumes "map_of operatorFlags \<subseteq>\<^sub>m map_of formal" "\<forall>s \<in> set sets. ownSetting s"
  shows "settings formal sets (flags, y) = Some (setTo sets flags, y)"
  using assms(2)
proof (induction sets arbitrary: flags)
  case Nil
  then show ?case by (simp add: setTo_def)
next
  case (Cons setting sets)
  obtain name x where setting: "setting = (name, x)" by (cases setting)
  with Cons(2) Set_own [OF assms(1), of name x flags y] obtain f where
    "map_of formal name = Some f" "Set f x (flags, y) = Some (setTo [(name, x)] flags, y)" by auto
  with Cons setting show ?case
    using setTo_Cons [of name x sets flags] by simp
qed

text \<open>The flags of the whole command line.\<close>

abbreviation declared :: "('x, 'c, 'm) libraries \<Rightarrow> (flags \<times> 'x) flagSet" where
  "declared M \<equiv> libraryFlags (CommandLine M) @ operatorFlags @ libraryFlags (ZapFlags M)"

lemma parseCommandLine_declared:
  "distinct (map fst (declared M)) \<Longrightarrow>
    parseCommandLine M args = Some (Parse (declared M) args (defaultFlags, LibraryDefaults M))"
  unfolding parseCommandLine_def
  using Vars_Some [of "operatorFlags @ libraryFlags (ZapFlags M)" "libraryFlags (CommandLine M)"] by auto

lemma operatorFlags_declared:
  assumes "distinct (map fst (declared M))"
  shows "map_of operatorFlags \<subseteq>\<^sub>m map_of (declared M)"
proof -
  have "map_of (declared M) name = Some f" if "map_of operatorFlags name = Some f" for name f
  proof -
    from that have "(name, f) \<in> set (declared M)"
      by (auto dest: map_of_SomeD)
    with assms show ?thesis by (rule map_of_is_SomeI)
  qed
  then show ?thesis
    by (auto simp: map_le_def)
qed

section \<open>Properties\<close>


text \<open>
  C40: what the operator makes of its command line: settings of its own flags, each in any of
  the spellings that Go allows, give every flag its last setting and the others their defaults,
  and leave the libraries' flags alone; the manager is made with exactly these options.
\<close>

theorem command_line_settings:
  assumes "distinct (map fst (declared M))" and "wellNamed (declared M)"
    and "list_all2 (spells (declared M)) sets args" and "\<forall>s \<in> set sets. ownSetting s"
  shows "parseCommandLine M (concat args) = Some (Parsed (setTo sets defaultFlags, LibraryDefaults M) [])
    \<and> (AddClientGoScheme M = None \<longrightarrow> LoadConfig M (LibraryDefaults M) = Inr config \<longrightarrow>
        main M (concat args) = runManager M config (setTo sets defaultFlags))"
proof -
  have "settings (declared M) sets (defaultFlags, LibraryDefaults M) = Some (setTo sets defaultFlags, LibraryDefaults M)"
    by (rule settings_own [OF operatorFlags_declared [OF assms(1)] assms(4)])
  then have "parseCommandLine M (concat args) = Some (Parsed (setTo sets defaultFlags, LibraryDefaults M) [])"
    using Parse_settings [OF assms(3,2), of "[]" "(defaultFlags, LibraryDefaults M)"]
    by (simp add: parseCommandLine_declared [OF assms(1)])
  then show ?thesis
    by (simp add: main_def init_def)
qed

definition exampleLibraries :: "(string, unit, managerCall list) libraries" where
  "exampleLibraries = scripted (\<lambda>calls call. False)
     \<lparr>AddClientGoScheme = None, CommandLine = [(''kubeconfig'', StringVar (\<lambda>f. f))],
      ZapFlags = [(''zap-devel'', BoolVar (\<lambda>f x. if f True then x else ''''))], LibraryDefaults = ''info'',
      LoadConfig = (\<lambda>x. Inr ()), NewManager = (\<lambda>config opts. Inr []), AddToScheme = (\<lambda>b m. (None, m)),
      Complete = (\<lambda>ctl m. (None, m)), AddHealthzCheck = (\<lambda>name m. (None, m)), AddReadyzCheck = (\<lambda>name m. (None, m)),
      Start = (\<lambda>m. (None, m))\<rparr>"

lemma exampleLibraries_sel [simp]:
  "AddClientGoScheme exampleLibraries = None" "CommandLine exampleLibraries = [(''kubeconfig'', StringVar (\<lambda>f. f))]"
  "ZapFlags exampleLibraries = [(''zap-devel'', BoolVar (\<lambda>f x. if f True then x else ''''))]"
  "LibraryDefaults exampleLibraries = ''info''" "LoadConfig exampleLibraries x = Inr ()"
  by (simp_all add: exampleLibraries_def scripted_def)

lemma exampleLibraries_names:
  "map fst (declared exampleLibraries) =
     [''kubeconfig'', ''metrics-bind-address'', ''health-probe-bind-address'', ''leader-elect'', ''zap-devel'']"
  by (simp add: libraryFlags_def operatorFlags_def)

lemma exampleLibraries_wellNamed: "wellNamed (declared exampleLibraries)"
  by (simp add: wellNamed_def libraryFlags_def operatorFlags_def)

lemma exampleLibraries_of:
  "map_of (declared exampleLibraries) ''leader-elect'' = Some (BoolVar (\<lambda>f. apfst (leaderElect_update f)))"
  "map_of (declared exampleLibraries) ''metrics-bind-address'' = Some (StringVar (\<lambda>f. apfst (metricsAddress_update f)))"
  by (simp_all add: libraryFlags_def operatorFlags_def)

theorem command_line_settings_witness:
  "parseCommandLine exampleLibraries [''--leader-elect'', ''-metrics-bind-address'', '':9090'', ''--metrics-bind-address=:9091''] =
     Some (Parsed (\<lparr>metricsAddress = '':9091'', healthProbeAddress = '':8081'', leaderElect = True\<rparr>, ''info'') [])"
proof -
  let ?sets = "[(''leader-elect'', ''true''), (''metrics-bind-address'', '':9090''), (''metrics-bind-address'', '':9091'')]"
  let ?args = "[[''--'' @ ''leader-elect''], [''-'' @ ''metrics-bind-address'', '':9090''], [''--'' @ ''metrics-bind-address'' @ ''='' @ '':9091'']]"
  have 1: "distinct (map fst (declared exampleLibraries))"
    unfolding exampleLibraries_names by simp
  have "spells (declared exampleLibraries) (''leader-elect'', ''true'') [''--'' @ ''leader-elect'']"
    by (rule spells.Switch [OF exampleLibraries_of(1)]) (simp_all add: BoolVar_def)
  moreover have "spells (declared exampleLibraries) (''metrics-bind-address'', '':9090'') [''-'' @ ''metrics-bind-address'', '':9090'']"
    by (rule spells.Separate [OF exampleLibraries_of(2)]) (simp_all add: StringVar_def)
  moreover have "spells (declared exampleLibraries) (''metrics-bind-address'', '':9091'') [''--'' @ ''metrics-bind-address'' @ ''='' @ '':9091'']"
    by (rule spells.Joined [OF exampleLibraries_of(2)]) simp
  ultimately have 2: "list_all2 (spells (declared exampleLibraries)) ?sets ?args"
    by simp
  have 3: "\<forall>s \<in> set ?sets. ownSetting s"
    by (auto simp: ownSetting_def ParseBool_def)
  have "setTo ?sets defaultFlags = \<lparr>metricsAddress = '':9091'', healthProbeAddress = '':8081'', leaderElect = True\<rparr>"
    by (simp add: setTo_def defaultFlags_def ParseBool_def)
  then show ?thesis
    using command_line_settings [OF 1 exampleLibraries_wellNamed 2 3, of "()"] by simp
qed

end
