(* ===== verification/Lifecycle.thy ===== *)
theory Lifecycle
  imports Dispatcher
begin

text \<open>
  Network functions over several reconciles, on an API server that nobody else writes to in
  between: waiting for networks, overwriting a settled Deployment again and again, and what is
  left when the NFDeployment is deleted and its dependents are collected.
\<close>

section \<open>Waiting for networks\<close>

context reconciler
begin

lemma waits_then_deploys:
  assumes api: "api_server c" and L: "ownerRefsOnly L"
    and nf: "nfsOf (viewOf c w) req = Some nf" "keyOf (nf_Meta nf) = req"
    and fresh: "cmsOf (viewOf c w) req = None" "depsOf (viewOf c w) req = None"
    and configs: "fst (smf_collectConfigRefs c (fst req) (refs_of p nf) [] w) = Ret refs"
    and cm: "configMap_of p L nf refs = Ret cm"
    and dep: "Capacity (nf_Spec nf) \<noteq> None" "attachable networks nf"
    and plain: "plainNetworks (Name (nf_Meta nf)) (networksOf networks nf)"
    and missing: "n \<in> set (expectedNetworks (Name (nf_Meta nf)) (networksOf networks nf))"
      "\<not> nadsOf (viewOf c w) (Namespace (nf_Meta nf), net_Name n)"
  shows "\<exists>w1 cm'. reconcileWith p L c req w = (Ret \<lparr>Requeue = False, RequeueAfter = 10 * Second\<rparr>, w1)
    \<and> nfsOf (viewOf c w1) = nfsOf (viewOf c w) \<and> depsOf (viewOf c w1) = depsOf (viewOf c w)
    \<and> cmsOf (viewOf c w1) req = Some cm' \<and> Data cm' = Data cm
    \<and> reconcileWith p L c req w1 = (Ret \<lparr>Requeue = False, RequeueAfter = 10 * Second\<rparr>, w1)
    \<and> (\<forall>w2 nads. viewOf c w2 = (viewOf c w1)\<lparr>nadsOf := nads\<rparr> \<longrightarrow>
        (\<forall>n \<in> set (expectedNetworks (Name (nf_Meta nf)) (networksOf networks nf)). nads (Namespace (nf_Meta nf), net_Name n)) \<longrightarrow>
        (\<exists>w3 d. reconcileWith p L c req w2 = (Ret \<lparr>Requeue = False, RequeueAfter = 30 * Second\<rparr>, w3)
          \<and> depsOf (viewOf c w3) req = Some d \<and> cmsOf (viewOf c w3) req = Some cm'
          \<and> mapGet (templateAnnotations d) ConfigMapVersionAnnotation = ResourceVersion (cm_Meta cm')))"
proof -
  obtain v w1 d cm' svcs' where 1: "deployment_of p L v nf = Ret d"
    "reconcileWith p L c req w = ensureDeployment L c nf (Ret d) False (whenFound p c) w1"
    "viewOf c w1 = (viewOf c w)\<lparr>cmsOf := (cmsOf (viewOf c w))(req \<mapsto> cm'), svcsOf := svcs'\<rparr>"
    "ResourceVersion (cm_Meta cm') = v" "Data cm' = Data cm"
    "provided p L nf (svcsOf (viewOf c w) req) (svcs' req)"
    using before_deployment [OF api L nf fresh(2) configs cm dep] fresh(1) by auto
  have wait: "ensureDeployment L c nf (Ret d) False f w1 = (Ret \<lparr>Requeue = False, RequeueAfter = 10 * Second\<rparr>, w1)" for f
    by (rule last_waits [OF api 1(1) plain missing(1)]) (use missing(2) 1(3) in simp)
  have again: "\<exists>d'. reconcileWith p L c req w2 = ensureDeployment L c nf (Ret d') False (whenFound p c) w2
      \<and> deployment_of p L v nf = Ret d'" if view: "viewOf c w2 = (viewOf c w1)\<lparr>nadsOf := nads\<rparr>" for w2 nads
  proof -
    have now: "nfsOf (viewOf c w2) req = Some nf" "depsOf (viewOf c w2) req = None" "cmsOf (viewOf c w2) req = Some cm'"
      "svcsOf (viewOf c w2) req = svcs' req"
      using view 1(3) nf(1) fresh(2) by simp_all
    have refs: "fst (smf_collectConfigRefs c (fst req) (refs_of p nf) [] w2) = Ret refs"
      by (rule api_server.collect_config_Ret [OF api configs]) (simp add: view 1(3))
    from before_deployment [OF api L now(1) nf(2) now(2) refs cm dep] show ?thesis
      using now(3,4) 1(4) provided_some [OF 1(6)] by auto
  qed
  have "viewOf c w1 = (viewOf c w1)\<lparr>nadsOf := nadsOf (viewOf c w1)\<rparr>" by simp
  from again [OF this] wait 1(1) have stays: "reconcileWith p L c req w1 = (Ret \<lparr>Requeue = False, RequeueAfter = 10 * Second\<rparr>, w1)"
    by auto
  have deploys: "\<exists>w3 d. reconcileWith p L c req w2 = (Ret \<lparr>Requeue = False, RequeueAfter = 30 * Second\<rparr>, w3)
      \<and> depsOf (viewOf c w3) req = Some d \<and> cmsOf (viewOf c w3) req = Some cm'
      \<and> mapGet (templateAnnotations d) ConfigMapVersionAnnotation = ResourceVersion (cm_Meta cm')"
    if view: "viewOf c w2 = (viewOf c w1)\<lparr>nadsOf := nads\<rparr>"
      and found: "\<forall>n \<in> set (expectedNetworks (Name (nf_Meta nf)) (networksOf networks nf)). nads (Namespace (nf_Meta nf), net_Name n)"
    for w2 nads
  proof -
    have "depsOf (viewOf c w2) req = None" and "cmsOf (viewOf c w2) req = Some cm'"
      using view 1(3) fresh(2) by simp_all
    with again [OF view] last_creates [OF api L 1(1) nf(2) _ plain, of w2 "whenFound p c"] found view 1(1,4) show ?thesis
      by fastforce
  qed
  show ?thesis
    using 1(2,3,5) wait stays deploys by (intro exI [of _ w1] exI [of _ cm']) simp
qed

section \<open>Overwriting\<close>

text \<open>
  One reconcile of a settled function that overwrites, and any number of them: the Deployment
  is the one made from the specification, without an owner, with the status the server had.
\<close>

lemma overwrites_once:
  assumes api: "api_server c" and creator: "status_creator (create_of p) what" and over: "overwrites p"
    and nf: "nfsOf (viewOf c w) req = Some nf" "keyOf (nf_Meta nf) = req"
    and found: "cmsOf (viewOf c w) req = Some cm" "depsOf (viewOf c w) req = Some d"
      "service_of p = None \<or> svcsOf (viewOf c w) req \<noteq> None"
    and fresh: "mapGet (templateAnnotations d) ConfigMapVersionAnnotation = ResourceVersion (cm_Meta cm)"
    and quiet: "\<not> snd (nextHistory (history nf) (observed d))"
    and configs: "fst (smf_collectConfigRefs c (fst req) (refs_of p nf) [] w) = Ret refs"
    and made: "configMap_of p L nf refs = Ret cm'" "deployment_of p L (ResourceVersion (cm_Meta cm)) nf = Ret d'"
  shows "\<exists>w' rv g. reconcileWith p L c req w = (Ret emptyResult, w')
    \<and> viewOf c w' = (viewOf c w)\<lparr>depsOf := (depsOf (viewOf c w))(req \<mapsto> updatedDeployment rv g d d')\<rparr>"
proof -
  have "\<not> updates (create_of p) nf (Now c w, d)"
    using status_creator.updates_eq [OF creator] quiet by simp
  with api_server.reconcile_settled [OF api nf found fresh _ configs made]
  have "reconcileWith p L c req w = (Ret emptyResult, whenFound p c d' w)" by simp
  from settled_overwrites [OF api this made(2) nf(2) found(2) over] show ?thesis by blast
qed

lemma overwrites_again:
  assumes api: "api_server c" and creator: "status_creator (create_of p) what" and over: "overwrites p"
    and nf: "nfsOf (viewOf c w) req = Some nf" "keyOf (nf_Meta nf) = req"
    and found: "cmsOf (viewOf c w) req = Some cm" "depsOf (viewOf c w) req = Some d"
      "service_of p = None \<or> svcsOf (viewOf c w) req \<noteq> None"
    and fresh: "mapGet (templateAnnotations d) ConfigMapVersionAnnotation = ResourceVersion (cm_Meta cm)"
    and quiet: "\<not> snd (nextHistory (history nf) (observed d))"
    and configs: "fst (smf_collectConfigRefs c (fst req) (refs_of p nf) [] w) = Ret refs"
    and made: "configMap_of p L nf refs = Ret cm'" "deployment_of p L (ResourceVersion (cm_Meta cm)) nf = Ret d'"
  shows "\<exists>old rv g. viewOf c (((\<lambda>w. snd (reconcileWith p L c req w)) ^^ Suc n) w) =
      (viewOf c w)\<lparr>depsOf := (depsOf (viewOf c w))(req \<mapsto> updatedDeployment rv g old d')\<rparr>
    \<and> dep_Conditions old = dep_Conditions d \<and> DeletionTimestamp (dep_Meta old) = DeletionTimestamp (dep_Meta d)"
proof (induction n)
  case 0
  obtain w' rv g where run: "reconcileWith p L c req w = (Ret emptyResult, w')"
    and view: "viewOf c w' = (viewOf c w)\<lparr>depsOf := (depsOf (viewOf c w))(req \<mapsto> updatedDeployment rv g d d')\<rparr>"
    using overwrites_once [OF api creator over nf found fresh quiet configs made] by blast
  from run have "((\<lambda>w. snd (reconcileWith p L c req w)) ^^ Suc 0) w = w'" by simp
  with view show ?case by metis
next
  case (Suc n)
  obtain w1 where w1: "((\<lambda>w. snd (reconcileWith p L c req w)) ^^ Suc n) w = w1" by blast
  from Suc obtain old rv g where
    view: "viewOf c w1 = (viewOf c w)\<lparr>depsOf := (depsOf (viewOf c w))(req \<mapsto> updatedDeployment rv g old d')\<rparr>"
    and old: "dep_Conditions old = dep_Conditions d" "DeletionTimestamp (dep_Meta old) = DeletionTimestamp (dep_Meta d)"
    unfolding w1 by blast
  let ?d = "updatedDeployment rv g old d'"
  have now: "nfsOf (viewOf c w1) req = Some nf" "cmsOf (viewOf c w1) req = Some cm" "depsOf (viewOf c w1) req = Some ?d"
    "service_of p = None \<or> svcsOf (viewOf c w1) req \<noteq> None" "cfgsOf (viewOf c w1) = cfgsOf (viewOf c w)"
    using nf(1) found by (simp_all add: view)
  have "mapGet (templateAnnotations ?d) ConfigMapVersionAnnotation = ResourceVersion (cm_Meta cm)"
    using deployment_version [OF made(2)] by simp
  moreover have "\<not> snd (nextHistory (history nf) (observed ?d))"
    using quiet old(1) by (simp add: observed_def)
  ultimately obtain w' rv' g' where run: "reconcileWith p L c req w1 = (Ret emptyResult, w')"
    and "viewOf c w' = (viewOf c w1)\<lparr>depsOf := (depsOf (viewOf c w1))(req \<mapsto> updatedDeployment rv' g' ?d d')\<rparr>"
    using overwrites_once [OF api creator over now(1) nf(2) now(2-4) _ _ api_server.collect_config_Ret [OF api configs now(5)] made]
    by blast
  then have "viewOf c w' = (viewOf c w)\<lparr>depsOf := (depsOf (viewOf c w))(req \<mapsto> updatedDeployment rv' g' ?d d')\<rparr>"
    by (simp add: view)
  moreover from run have "((\<lambda>w. snd (reconcileWith p L c req w)) ^^ Suc (Suc n)) w = w'"
    using w1 by simp
  ultimately show ?case
    using old by (intro exI [of _ ?d] exI [of _ rv'] exI [of _ g']) (simp only: updatedDeployment_sel simp_thms)
qed

end

section \<open>Deletion\<close>

text \<open>
  What the cluster documents of deleting an NFDeployment in the background: it is removed, and
  with it every object of its namespace that has owners and no other one.
\<close>

definition collected :: "('a \<Rightarrow> ObjectMeta) \<Rightarrow> NamespacedName \<Rightarrow> (NamespacedName \<rightharpoonup> 'a) \<Rightarrow> NamespacedName \<rightharpoonup> 'a" where
  "collected meta k m k' = (case m k' of None \<Rightarrow> None | Some x \<Rightarrow>
     if fst k' = fst k \<and> OwnerReferences (meta x) \<noteq> []
       \<and> list_all (\<lambda>owner. owner = \<lparr>owner_Kind = ''NFDeployment'', owner_Name = snd k\<rparr>) (OwnerReferences (meta x))
     then None else Some x)"

definition afterDeletion :: "NamespacedName \<Rightarrow> cluster \<Rightarrow> cluster" where
  "afterDeletion k v = v\<lparr>nfsOf := (nfsOf v)(k := None), cmsOf := collected cm_Meta k (cmsOf v),
     svcsOf := collected svc_Meta k (svcsOf v), depsOf := collected dep_Meta k (depsOf v)\<rparr>"

text \<open>\<open>SetControllerReference\<close> makes the NFDeployment the owner of an object that has none.\<close>

definition ownsCreated :: "lib \<Rightarrow> bool" where
  "ownsCreated L \<longleftrightarrow> (\<forall>nf m. OwnerReferences m = [] \<longrightarrow> SetControllerReference L nf m =
     Inr (m\<lparr>OwnerReferences := [\<lparr>owner_Kind = ''NFDeployment'', owner_Name = Name (nf_Meta nf)\<rparr>]\<rparr>))"

lemma ownsCreated_exampleLib [simp]: "ownsCreated (exampleLib upf)"
  by (simp add: ownsCreated_def exampleLib_def exampleOwner_def)

lemma controlled_owner:
  "ownsCreated L \<Longrightarrow> OwnerReferences m = [] \<Longrightarrow>
    OwnerReferences (controlled L nf m) = [\<lparr>owner_Kind = ''NFDeployment'', owner_Name = Name (nf_Meta nf)\<rparr>]"
  by (simp add: ownsCreated_def controlled_def)

lemma controlled_named:
  "ownsCreated L \<Longrightarrow> namedLike nf m \<Longrightarrow>
    OwnerReferences (controlled L nf m) = [\<lparr>owner_Kind = ''NFDeployment'', owner_Name = Name (nf_Meta nf)\<rparr>]"
  by (rule controlled_owner) (simp_all add: namedLike_def zeroMeta_def)

lemma collected_owned:
  "m k = Some x \<Longrightarrow> OwnerReferences (meta x) = [\<lparr>owner_Kind = ''NFDeployment'', owner_Name = snd k\<rparr>] \<Longrightarrow> collected meta k m k = None"
  by (simp add: collected_def)

lemma collected_unowned: "m k' = Some x \<Longrightarrow> OwnerReferences (meta x) = [] \<Longrightarrow> collected meta k m k' = Some x"
  by (simp add: collected_def)

context reconciler
begin

lemma deletion_cleans_up:
  assumes api: "api_server c" and L: "ownerRefsOnly L" "ownsCreated L"
    and nf: "nfsOf (viewOf c w) req = Some nf" "keyOf (nf_Meta nf) = req"
    and fresh: "cmsOf (viewOf c w) req = None" "svcsOf (viewOf c w) req = None" "depsOf (viewOf c w) req = None"
    and configs: "fst (smf_collectConfigRefs c (fst req) (refs_of p nf) [] w) = Ret refs"
    and cm: "configMap_of p L nf refs = Ret cm"
    and dep: "Capacity (nf_Spec nf) \<noteq> None" "attachable networks nf"
    and plain: "plainNetworks (Name (nf_Meta nf)) (networksOf networks nf)"
    and nads: "\<forall>n \<in> set (expectedNetworks (Name (nf_Meta nf)) (networksOf networks nf)).
      nadsOf (viewOf c w) (Namespace (nf_Meta nf), net_Name n)"
    and svc: "service_of p = Some mk"
  shows "\<exists>w'. reconcileWith p L c req w = (Ret \<lparr>Requeue = False, RequeueAfter = 30 * Second\<rparr>, w')
    \<and> req \<in> dom (cmsOf (viewOf c w')) \<inter> dom (svcsOf (viewOf c w')) \<inter> dom (depsOf (viewOf c w'))
    \<and> nfsOf (afterDeletion req (viewOf c w')) req = None \<and> cmsOf (afterDeletion req (viewOf c w')) req = None
    \<and> svcsOf (afterDeletion req (viewOf c w')) req = None \<and> depsOf (afterDeletion req (viewOf c w')) req = None"
proof -
  obtain v w1 d cm' svcs' where 1: "deployment_of p L v nf = Ret d"
    "reconcileWith p L c req w = ensureDeployment L c nf (Ret d) False (whenFound p c) w1"
    "viewOf c w1 = (viewOf c w)\<lparr>cmsOf := (cmsOf (viewOf c w))(req \<mapsto> cm'), svcsOf := svcs'\<rparr>"
    "cm' = cm\<lparr>cm_Meta := versioned v (controlled L nf (cm_Meta cm))\<rparr>"
    "provided p L nf (svcsOf (viewOf c w) req) (svcs' req)"
    using before_deployment [OF api L(1) nf fresh(3) configs cm dep] fresh(1) by auto
  obtain w' stored rv g where 2: "ensureDeployment L c nf (Ret d) False (whenFound p c) w1 = (Ret \<lparr>Requeue = False, RequeueAfter = 30 * Second\<rparr>, w')"
    "viewOf c w' = (viewOf c w1)\<lparr>depsOf := (depsOf (viewOf c w1))(req \<mapsto> stored)\<rparr>"
    "stored = createdDeployment rv g (d\<lparr>dep_Meta := controlled L nf (dep_Meta d)\<rparr>)"
    using last_creates [OF api L(1) 1(1) nf(2) _ plain, of w1 "whenFound p c"] fresh(3) nads 1(3) by auto
  obtain s v' where s: "svcs' req = Some s" "s = (mk nf)\<lparr>svc_Meta := versioned v' (controlled L nf (svc_Meta (mk nf)))\<rparr>"
    using 1(5) fresh(2) svc by (auto simp: provided_def)
  let ?owners = "[\<lparr>owner_Kind = ''NFDeployment'', owner_Name = snd req\<rparr>]"
  have name: "Name (nf_Meta nf) = snd req"
    using nf(2) by (auto simp: keyOf_def)
  have "OwnerReferences (cm_Meta cm') = ?owners" "OwnerReferences (svc_Meta s) = ?owners" "OwnerReferences (dep_Meta stored) = ?owners"
    using controlled_named [OF L(2)] configMap_named [of "(L, refs)" nf cm] cm service_named [OF svc] deployment_named [OF 1(1)] name
    by (simp_all add: 1(4) s(2) 2(3))
  with 1(2,3) 2(1,2) s(1) show ?thesis
    by (intro exI [of _ w']) (simp add: afterDeletion_def collected_owned domIff)
qed

end

section \<open>Properties\<close>

lemma Reconcile_upf:
  "api_server c \<Longrightarrow> nfsOf (viewOf c w) req = Some nf \<Longrightarrow> Provider (nf_Spec nf) = ''upf.free5gc.io'' \<Longrightarrow>
    Reconcile L c req w = resultOnly (upf_Reconcile L c req w)"
  using api_server.reads(1) by (fastforce simp: Reconcile_def)

text \<open>
  C3: a UPF waits for its networks: as long as one network definition is missing, a reconcile
  makes the ConfigMap, no Deployment, and asks to be run again after 10 seconds, and further
  reconciles change nothing and ask for the same; once all of them are there, the next one
  creates the Deployment, for the ConfigMap that was made at the start.
\<close>

theorem upf_waits_for_networks:
  assumes api: "api_server c" and L: "ownerRefsOnly L"
    and nf: "nfsOf (viewOf c w) req = Some nf" "keyOf (nf_Meta nf) = req" "Provider (nf_Spec nf) = ''upf.free5gc.io''"
    and fresh: "cmsOf (viewOf c w) req = None" "depsOf (viewOf c w) req = None"
    and cm: "upf_createConfigMap nf = Ret cm"
    and dep: "Capacity (nf_Spec nf) \<noteq> None" "attachable [''n3'', ''n4'', ''n6'', ''n9''] nf"
    and nets: "plainNetworks (Name (nf_Meta nf)) (networksOf [''n3'', ''n4'', ''n6'', ''n9''] nf)"
      "nets = expectedNetworks (Name (nf_Meta nf)) (networksOf [''n3'', ''n4'', ''n6'', ''n9''] nf)"
    and missing: "n \<in> set nets" "\<not> nadsOf (viewOf c w) (Namespace (nf_Meta nf), net_Name n)"
  shows "\<exists>w1 cm'. Reconcile L c req w = (Ret \<lparr>Requeue = False, RequeueAfter = 10 * Second\<rparr>, w1)
    \<and> depsOf (viewOf c w1) req = None \<and> cmsOf (viewOf c w1) req = Some cm' \<and> Data cm' = Data cm
    \<and> Reconcile L c req w1 = (Ret \<lparr>Requeue = False, RequeueAfter = 10 * Second\<rparr>, w1)
    \<and> (\<forall>w2 nads. viewOf c w2 = (viewOf c w1)\<lparr>nadsOf := nads\<rparr> \<longrightarrow>
        (\<forall>n \<in> set nets. nads (Namespace (nf_Meta nf), net_Name n)) \<longrightarrow>
        (\<exists>w3 d. Reconcile L c req w2 = (Ret \<lparr>Requeue = False, RequeueAfter = 30 * Second\<rparr>, w3)
          \<and> depsOf (viewOf c w3) req = Some d \<and> cmsOf (viewOf c w3) req = Some cm'
          \<and> mapGet (templateAnnotations d) ConfigMapVersionAnnotation = ResourceVersion (cm_Meta cm')))"
proof -
  obtain w1 cm' where 1: "upf_Reconcile L c req w = (Ret \<lparr>Requeue = False, RequeueAfter = 10 * Second\<rparr>, w1)"
    "nfsOf (viewOf c w1) = nfsOf (viewOf c w)" "depsOf (viewOf c w1) = depsOf (viewOf c w)"
    "cmsOf (viewOf c w1) req = Some cm'" "Data cm' = Data cm"
    "upf_Reconcile L c req w1 = (Ret \<lparr>Requeue = False, RequeueAfter = 10 * Second\<rparr>, w1)"
    and 2: "\<And>w2 nads. viewOf c w2 = (viewOf c w1)\<lparr>nadsOf := nads\<rparr> \<Longrightarrow>
        \<forall>n \<in> set nets. nads (Namespace (nf_Meta nf), net_Name n) \<Longrightarrow>
        \<exists>w3 d. upf_Reconcile L c req w2 = (Ret \<lparr>Requeue = False, RequeueAfter = 30 * Second\<rparr>, w3)
          \<and> depsOf (viewOf c w3) req = Some d \<and> cmsOf (viewOf c w3) req = Some cm'
          \<and> mapGet (templateAnnotations d) ConfigMapVersionAnnotation = ResourceVersion (cm_Meta cm')"
    using upf_reconciler.waits_then_deploys [OF api L nf(1,2) fresh _ _ dep nets(1) missing [unfolded nets(2)], of "[]" cm] cm
    unfolding nets(2) upf_Reconcile_with by auto
  have upf: "Reconcile L c req w = resultOnly (upf_Reconcile L c req w)"
    if "nfsOf (viewOf c w) req = Some nf" for w
    by (rule Reconcile_upf [OF api that nf(3)])
  show ?thesis
  proof (rule exI [of _ w1], rule exI [of _ cm'], intro conjI allI impI)
    show "Reconcile L c req w = (Ret \<lparr>Requeue = False, RequeueAfter = 10 * Second\<rparr>, w1)"
      by (simp add: upf nf(1) 1(1))
    show "Reconcile L c req w1 = (Ret \<lparr>Requeue = False, RequeueAfter = 10 * Second\<rparr>, w1)"
      by (simp add: upf 1(2,6) nf(1))
    fix w2 nads
    assume w2: "viewOf c w2 = (viewOf c w1)\<lparr>nadsOf := nads\<rparr>" "\<forall>n \<in> set nets. nads (Namespace (nf_Meta nf), net_Name n)"
    have "nfsOf (viewOf c w2) req = Some nf"
      by (simp add: w2(1) 1(2) nf(1))
    with 2 [OF w2] show "\<exists>w3 d. Reconcile L c req w2 = (Ret \<lparr>Requeue = False, RequeueAfter = 30 * Second\<rparr>, w3)
          \<and> depsOf (viewOf c w3) req = Some d \<and> cmsOf (viewOf c w3) req = Some cm'
          \<and> mapGet (templateAnnotations d) ConfigMapVersionAnnotation = ResourceVersion (cm_Meta cm')"
      by (auto simp: upf)
  qed (simp_all add: 1(3-5) fresh)
qed

definition exampleUPFStore :: store where
  "exampleUPFStore = emptyStore\<lparr>nfs := [(''ns'', ''nf'') \<mapsto> exampleUPF (exampleInterface ''n6'') [''10.1.0.0/24'']]\<rparr>"

lemma exampleUPFStore_sel [simp]:
  "nfs exampleUPFStore = [(''ns'', ''nf'') \<mapsto> exampleUPF (exampleInterface ''n6'') [''10.1.0.0/24'']]"
  "cms exampleUPFStore = Map.empty" "deps exampleUPFStore = Map.empty" "nads exampleUPFStore = (\<lambda>_. False)"
  by (simp_all add: exampleUPFStore_def emptyStore_def)

lemma exampleUPF_networks:
  "networksOf [''n3'', ''n4'', ''n6'', ''n9''] (exampleUPF (exampleInterface ''n6'') pools) =
     [(''n3'', [exampleInterface ''n3'']), (''n4'', [exampleInterface ''n4'']), (''n6'', [exampleInterface ''n6'']), (''n9'', [])]"
  by (simp add: networksOf_def)

lemma exampleUPF_plain: "plainNetworks ''nf'' (networksOf [''n3'', ''n4'', ''n6'', ''n9''] (exampleUPF (exampleInterface ''n6'') pools))"
  by (simp add: exampleUPF_networks plainNetworks_def)

lemma exampleUPF_expected:
  "\<lparr>net_Name = ''nf-n3'', net_Interface = ''n3'', net_IP = '''', net_Gateway = ''''\<rparr>
     \<in> set (expectedNetworks ''nf'' (networksOf [''n3'', ''n4'', ''n6'', ''n9''] (exampleUPF (exampleInterface ''n6'') pools)))"
  by (simp add: exampleUPF_networks expectedNetworks_def mapSlice_def CreateNetworkAttachmentDefinitionName_def)

lemma exampleUPF_keys [simp]:
  "keyOf (nf_Meta (exampleUPF n6 pools)) = (''ns'', ''nf'')" "Provider (nf_Spec (exampleUPF n6 pools)) = ''upf.free5gc.io''"
  "\<exists>y. Capacity (nf_Spec (exampleUPF n6 pools)) = Some y"
  by (simp_all add: exampleUPF_def exampleNF_def keyOf_def)

theorem upf_waits_for_networks_witness:
  "\<exists>w1. Reconcile (exampleLib undefined) storeClient (''ns'', ''nf'') exampleUPFStore =
       (Ret \<lparr>Requeue = False, RequeueAfter = 10 * Second\<rparr>, w1)
    \<and> Reconcile (exampleLib undefined) storeClient (''ns'', ''nf'') w1 = (Ret \<lparr>Requeue = False, RequeueAfter = 10 * Second\<rparr>, w1)
    \<and> (\<exists>w3 d. Reconcile (exampleLib undefined) storeClient (''ns'', ''nf'') (w1\<lparr>nads := (\<lambda>_. True)\<rparr>) =
       (Ret \<lparr>Requeue = False, RequeueAfter = 30 * Second\<rparr>, w3) \<and> deps w3 (''ns'', ''nf'') = Some d)"
proof -
  let ?nf = "exampleUPF (exampleInterface ''n6'') [''10.1.0.0/24'']" and ?L = "exampleLib undefined"
  obtain cm where cm: "upf_createConfigMap ?nf = Ret cm"
    using exampleUPF_made(1) by blast
  have att: "attachable [''n3'', ''n4'', ''n6'', ''n9''] ?nf"
    by (simp add: attachable_def)
  have store: "nfsOf (viewOf storeClient exampleUPFStore) (''ns'', ''nf'') = Some ?nf"
    "keyOf (nf_Meta ?nf) = (''ns'', ''nf'')" "Provider (nf_Spec ?nf) = ''upf.free5gc.io''"
    "cmsOf (viewOf storeClient exampleUPFStore) (''ns'', ''nf'') = None" "depsOf (viewOf storeClient exampleUPFStore) (''ns'', ''nf'') = None"
    and cap: "Capacity (nf_Spec ?nf) \<noteq> None"
    and plain: "plainNetworks (Name (nf_Meta ?nf)) (networksOf [''n3'', ''n4'', ''n6'', ''n9''] ?nf)"
    and n3: "\<lparr>net_Name = ''nf-n3'', net_Interface = ''n3'', net_IP = [], net_Gateway = []\<rparr>
      \<in> set (expectedNetworks (Name (nf_Meta ?nf)) (networksOf [''n3'', ''n4'', ''n6'', ''n9''] ?nf))"
    and missing: "\<not> nadsOf (viewOf storeClient exampleUPFStore) (Namespace (nf_Meta ?nf),
      net_Name \<lparr>net_Name = ''nf-n3'', net_Interface = ''n3'', net_IP = [], net_Gateway = []\<rparr>)"
    using exampleUPF_plain exampleUPF_expected by simp_all
  from upf_waits_for_networks [OF store.api_server_axioms ownerRefsOnly_exampleLib [of undefined] store cm cap att plain refl n3 missing]
  obtain w1 cm' where 1: "Reconcile ?L storeClient (''ns'', ''nf'') exampleUPFStore = (Ret \<lparr>Requeue = False, RequeueAfter = 10 * Second\<rparr>, w1)"
    "Reconcile ?L storeClient (''ns'', ''nf'') w1 = (Ret \<lparr>Requeue = False, RequeueAfter = 10 * Second\<rparr>, w1)"
    and 2: "\<forall>w2 nads. viewOf storeClient w2 = (viewOf storeClient w1)\<lparr>nadsOf := nads\<rparr> \<longrightarrow>
       (\<forall>n \<in> set (expectedNetworks (Name (nf_Meta ?nf)) (networksOf [''n3'', ''n4'', ''n6'', ''n9''] ?nf)).
         nads (Namespace (nf_Meta ?nf), net_Name n)) \<longrightarrow>
       (\<exists>w3 d. Reconcile ?L storeClient (''ns'', ''nf'') w2 = (Ret \<lparr>Requeue = False, RequeueAfter = 30 * Second\<rparr>, w3)
         \<and> depsOf (viewOf storeClient w3) (''ns'', ''nf'') = Some d \<and> cmsOf (viewOf storeClient w3) (''ns'', ''nf'') = Some cm'
         \<and> mapGet (templateAnnotations d) ConfigMapVersionAnnotation = ResourceVersion (cm_Meta cm'))"
    by (elim exE conjE)
  have "viewOf storeClient (w1\<lparr>nads := (\<lambda>_. True)\<rparr>) = (viewOf storeClient w1)\<lparr>nadsOf := (\<lambda>_. True)\<rparr>"
    by simp
  with 2 1 show ?thesis by fastforce
qed

text \<open>
  C21: deleting an AMF cleans up: after the first reconcile the ConfigMap, the Service and the
  Deployment exist, and each of them is owned by the NFDeployment and by nothing else, so that
  its deletion takes all of them with it.
\<close>

theorem amf_deletion_cleans_up:
  assumes api: "api_server c" and L: "ownerRefsOnly L" "ownsCreated L"
    and nf: "nfsOf (viewOf c w) req = Some nf" "keyOf (nf_Meta nf) = req"
    and fresh: "cmsOf (viewOf c w) req = None" "svcsOf (viewOf c w) req = None" "depsOf (viewOf c w) req = None"
    and cm: "amf_createConfigMap nf = Ret cm"
    and dep: "Capacity (nf_Spec nf) \<noteq> None" "attachable [''n2''] nf"
    and plain: "plainNetworks (Name (nf_Meta nf)) (networksOf [''n2''] nf)"
    and nads: "\<forall>n \<in> set (expectedNetworks (Name (nf_Meta nf)) (networksOf [''n2''] nf)).
      nadsOf (viewOf c w) (Namespace (nf_Meta nf), net_Name n)"
    and after: "v = viewOf c (snd (amf_Reconcile L c req w))"
  shows "req \<in> dom (cmsOf v) \<inter> dom (svcsOf v) \<inter> dom (depsOf v)
    \<and> nfsOf (afterDeletion req v) req = None \<and> cmsOf (afterDeletion req v) req = None
    \<and> svcsOf (afterDeletion req v) req = None \<and> depsOf (afterDeletion req v) req = None"
  using amf_reconciler.deletion_cleans_up [OF api L nf fresh _ _ dep plain nads, of "[]" cm amf_createService] cm
  unfolding after amf_Reconcile_with by auto

theorem amf_deletion_cleans_up_witness:
  "depsOf (viewOf storeClient (snd (amf_Reconcile (exampleLib undefined) storeClient (''ns'', ''nf'') exampleAMFStore))) (''ns'', ''nf'') \<noteq> None
   \<and> depsOf (afterDeletion (''ns'', ''nf'')
       (viewOf storeClient (snd (amf_Reconcile (exampleLib undefined) storeClient (''ns'', ''nf'') exampleAMFStore)))) (''ns'', ''nf'') = None"
proof -
  obtain cm where cm: "amf_createConfigMap exampleAMF = Ret cm"
    using exampleAMF_configMap by blast
  let ?v = "viewOf storeClient (snd (amf_Reconcile (exampleLib undefined) storeClient (''ns'', ''nf'') exampleAMFStore))"
  have "(''ns'', ''nf'') \<in> dom (cmsOf ?v) \<inter> dom (svcsOf ?v) \<inter> dom (depsOf ?v)
    \<and> nfsOf (afterDeletion (''ns'', ''nf'') ?v) (''ns'', ''nf'') = None \<and> cmsOf (afterDeletion (''ns'', ''nf'') ?v) (''ns'', ''nf'') = None
    \<and> svcsOf (afterDeletion (''ns'', ''nf'') ?v) (''ns'', ''nf'') = None \<and> depsOf (afterDeletion (''ns'', ''nf'') ?v) (''ns'', ''nf'') = None"
    by (rule amf_deletion_cleans_up [OF store.api_server_axioms ownerRefsOnly_exampleLib ownsCreated_exampleLib _ _ _ _ _ cm _ _ _ _ refl])
      (use exampleAMF_attachable exampleAMF_plain in \<open>simp_all add: exampleAMF_expected\<close>)
  then show ?thesis by (auto simp: domIff)
qed

text \<open>
  C9: a UPF outlives its deletion: of a settled UPF, whose ConfigMap and Deployment both belong
  to the NFDeployment, a deletion would remove both; but after any positive number of
  reconciles, each of which writes the Deployment again without its owner, a deletion removes
  the ConfigMap and leaves the Deployment that mounts it.
\<close>

theorem upf_outlives_deletion:
  assumes api: "api_server c"
    and nf: "nfsOf (viewOf c w) req = Some nf" "keyOf (nf_Meta nf) = req"
    and found: "cmsOf (viewOf c w) req = Some cm" "depsOf (viewOf c w) req = Some d"
    and owned: "OwnerReferences (cm_Meta cm) = [\<lparr>owner_Kind = ''NFDeployment'', owner_Name = snd req\<rparr>]"
      "OwnerReferences (dep_Meta d) = [\<lparr>owner_Kind = ''NFDeployment'', owner_Name = snd req\<rparr>]"
    and fresh: "mapGet (templateAnnotations d) ConfigMapVersionAnnotation = ResourceVersion (cm_Meta cm)"
    and quiet: "\<not> updates upf_createNfDeploymentStatus nf (Now c w, d)"
    and made: "upf_createConfigMap nf = Ret cm'" "upf_createDeployment L (ResourceVersion (cm_Meta cm)) nf = Ret d'"
    and after: "v = viewOf c (((\<lambda>w. snd (upf_Reconcile L c req w)) ^^ Suc n) w)"
  shows "cmsOf (afterDeletion req (viewOf c w)) req = None \<and> depsOf (afterDeletion req (viewOf c w)) req = None
    \<and> nfsOf v = nfsOf (viewOf c w)
    \<and> cmsOf (afterDeletion req v) req = None
    \<and> (\<exists>stored. depsOf (afterDeletion req v) req = Some stored \<and> dep_Spec stored = dep_Spec d')"
proof -
  have "\<exists>old rv g. v = (viewOf c w)\<lparr>depsOf := (depsOf (viewOf c w))(req \<mapsto> updatedDeployment rv g old d')\<rparr>
    \<and> dep_Conditions old = dep_Conditions d \<and> DeletionTimestamp (dep_Meta old) = DeletionTimestamp (dep_Meta d)"
    unfolding after upf_Reconcile_with
    by (rule upf_reconciler.overwrites_again [where what = "''NFDeployment''", OF api _ _ nf found _ fresh, where refs = "[]" and cm' = cm'])
      (use quiet made upf_status.status_creator_axioms in \<open>simp_all add: upf_status.updates_eq\<close>)
  then obtain old rv g where v: "v = (viewOf c w)\<lparr>depsOf := (depsOf (viewOf c w))(req \<mapsto> updatedDeployment rv g old d')\<rparr>"
    by blast
  have "OwnerReferences (dep_Meta (updatedDeployment rv g old d')) = []"
    using upf_reconciler.deployment_unowned [of L "ResourceVersion (cm_Meta cm)" nf d'] made(2) by simp
  with found owned show ?thesis
    by (simp add: v afterDeletion_def collected_owned collected_unowned del: updatedDeployment_sel(3))
qed

definition ownedConfigMap :: ConfigMap where
  "ownedConfigMap = runningConfigMap\<lparr>cm_Meta := (cm_Meta runningConfigMap)
     \<lparr>OwnerReferences := [\<lparr>owner_Kind = ''NFDeployment'', owner_Name = ''nf''\<rparr>]\<rparr>\<rparr>"

definition ownedStore :: store where
  "ownedStore = (runningStore (exampleUPF (exampleInterface ''n6'') [''10.1.0.0/24'']) None
     (Some [ConfigMapVersionAnnotation \<mapsto> ''7'']))\<lparr>cms := [(''ns'', ''nf'') \<mapsto> ownedConfigMap]\<rparr>"

lemma ownedStore_sel [simp]:
  "nfs ownedStore = [(''ns'', ''nf'') \<mapsto> running (exampleUPF (exampleInterface ''n6'') [''10.1.0.0/24''])]"
  "cms ownedStore = [(''ns'', ''nf'') \<mapsto> ownedConfigMap]"
  "deps ownedStore = [(''ns'', ''nf'') \<mapsto> runningDeployment (Some [ConfigMapVersionAnnotation \<mapsto> ''7''])]"
  "OwnerReferences (cm_Meta ownedConfigMap) = [\<lparr>owner_Kind = ''NFDeployment'', owner_Name = ''nf''\<rparr>]"
  "ResourceVersion (cm_Meta ownedConfigMap) = ''7''"
  by (simp_all add: ownedStore_def ownedConfigMap_def)

theorem upf_outlives_deletion_witness:
  "depsOf (afterDeletion (''ns'', ''nf'') (viewOf storeClient ownedStore)) (''ns'', ''nf'') = None
   \<and> (let v = viewOf storeClient (snd (upf_Reconcile (exampleLib undefined) storeClient (''ns'', ''nf'')
          (snd (upf_Reconcile (exampleLib undefined) storeClient (''ns'', ''nf'') ownedStore)))) in
      cmsOf (afterDeletion (''ns'', ''nf'') v) (''ns'', ''nf'') = None
      \<and> depsOf (afterDeletion (''ns'', ''nf'') v) (''ns'', ''nf'') \<noteq> None)"
proof -
  let ?nf = "exampleUPF (exampleInterface ''n6'') [''10.1.0.0/24'']"
  obtain cm where cm: "upf_createConfigMap (running ?nf) = Ret cm"
    using exampleUPF_made(1) by (auto simp: upf_createConfigMap_def)
  obtain d where d: "upf_createDeployment (exampleLib undefined) (ResourceVersion (cm_Meta ownedConfigMap)) (running ?nf) = Ret d"
    using exampleUPF_made(2) [of "exampleLib undefined" "''7''"] by (auto simp: upf_createDeployment_def)
  have store: "nfsOf (viewOf storeClient ownedStore) (''ns'', ''nf'') = Some (running ?nf)" "keyOf (nf_Meta (running ?nf)) = (''ns'', ''nf'')"
    "cmsOf (viewOf storeClient ownedStore) (''ns'', ''nf'') = Some ownedConfigMap"
    "depsOf (viewOf storeClient ownedStore) (''ns'', ''nf'') = Some (runningDeployment (Some [ConfigMapVersionAnnotation \<mapsto> ''7'']))"
    by simp_all
  have owned: "OwnerReferences (cm_Meta ownedConfigMap) = [\<lparr>owner_Kind = ''NFDeployment'', owner_Name = snd (''ns'', ''nf'')\<rparr>]"
    "OwnerReferences (dep_Meta (runningDeployment (Some [ConfigMapVersionAnnotation \<mapsto> ''7'']))) =
      [\<lparr>owner_Kind = ''NFDeployment'', owner_Name = snd (''ns'', ''nf'')\<rparr>]"
    by simp_all
  have fresh: "mapGet (templateAnnotations (runningDeployment (Some [ConfigMapVersionAnnotation \<mapsto> ''7'']))) ConfigMapVersionAnnotation
      = ResourceVersion (cm_Meta ownedConfigMap)"
    by (simp add: mapGet_def)
  have quiet: "\<not> updates upf_createNfDeploymentStatus (running ?nf) (Now storeClient ownedStore, runningDeployment (Some [ConfigMapVersionAnnotation \<mapsto> ''7'']))"
    by (simp add: upf_status.updates_eq samePhase_def)
  show ?thesis
    using upf_outlives_deletion [OF store.api_server_axioms store owned fresh quiet cm d refl, of 1] by (auto simp: Let_def)
qed

end
