(* ===== verification/Spec2Isabelle.thy ===== *)
theory Spec2Isabelle
  imports Runs Manager Lifecycle
begin

text \<open>
  A model of the free5gc operator for Nephio: the Go program under \<open>src/controllers\<close> and
  \<open>src/free5gc-operator\<close> that turns a custom resource of kind \<open>NFDeployment\<close> into a ConfigMap, a
  Service and a Deployment that run one network function (AMF, SMF or UPF) of the 5G core.

  \<^bold>\<open>The program.\<close>  \<open>main\<close> reads its flags and starts a controller manager that calls \<open>Reconcile\<close>
  (\<open>nf/reconciler.go\<close>) for every event of an NFDeployment or of an object it owns.  \<open>Reconcile\<close>
  reads the NFDeployment and hands the request to the reconciler its provider names
  (\<open>nf/amf\<close>, \<open>nf/smf\<close>, \<open>nf/upf\<close>).  Each of these looks for the objects it may already have made,
  synchronises the status of the NFDeployment with its Deployment (\<open>status.go\<close>), rolls the pods
  when the ConfigMap has a new version, and creates what is missing (\<open>resources.go\<close>), with the
  configuration files rendered from text templates (\<open>templates.go\<close>) and the interface addresses
  looked up in the specification (\<open>interface_configs.go\<close>).  A Deployment names the networks of
  its pods in an annotation and is created only when their definitions exist
  (\<open>network_attachment_definitions.go\<close>).

  \<^bold>\<open>Foundations.\<close>
  \<^item> \<open>Prelude\<close>: errors, the outcome of a Go function that returns \<open>(T, error)\<close> or panics, loops
    that stop at an error.
  \<^item> \<open>GoStrings\<close>, \<open>GoNet\<close>, \<open>GoJson\<close>, \<open>GoTemplate\<close>: what the source uses of the standard library:
    \<open>%q\<close>, \<open>strings.Join\<close>, \<open>net.ParseCIDR\<close> and \<open>IP.String\<close>, decoding of an array of JSON objects
    (nesting bounded by \<open>encoding/json\<close>'s own limit), and the template language as an abstract
    syntax tree with an evaluator.
  \<^item> \<open>Flags\<close>: the \<open>flag\<close> package as far as \<open>main\<close> uses it: flag sets, the reading of a command
    line, and the spellings of a setting.
  \<^item> \<open>ApiTypes\<close>: the fields of the API objects that the source reads or writes, as records; the
    record \<open>lib\<close> holds the pure library functions whose code is not in the repository
    (quantities, JSON codecs of whole objects, \<open>SetControllerReference\<close>, Unicode tables).
  \<^item> \<open>Client\<close>: the Kubernetes client as a record of calls over an arbitrary world, and a wrapper
    that records the calls made.  \<open>ApiServer\<close>: the laws of a conforming API server as the locale
    \<open>api_server\<close>.  \<open>ApiStore\<close>: an object store with optimistic concurrency that has these laws.

  \<^bold>\<open>Components\<close>, each named after its Go file.
  \<^item> \<open>InterfaceConfigs\<close> (\<open>interface_configs.go\<close>): lookup of interfaces and addresses.  Proved: what
    address is found, when, and with which error or panic.
  \<^item> \<open>NetworkAttachments\<close> (\<open>network_attachment_definitions.go\<close>): the networks annotation, its
    reading and the check of the definitions.  Proved: independence of the map iteration order,
    the round trip through the JSON reader, which definitions the check reads.
  \<^item> \<open>StatusSync\<close> and \<open>AMF_Status\<close>, \<open>SMF_Status\<close>, \<open>UPF_Status\<close> (\<open>status.go\<close>): the next status.
    The locale \<open>status_creator\<close> states it as a refinement of an abstract step on the history of
    condition types; each function's theory interprets it.
  \<^item> \<open>AMF_Templates\<close>, \<open>SMF_Templates\<close>, \<open>UPF_Templates\<close> (\<open>templates.go\<close>): the template texts and
    their syntax trees.  Proved: when rendering succeeds and what text results.
  \<^item> \<open>NetworkFunction\<close> and \<open>AMF_Resources\<close>, \<open>SMF_Resources\<close>, \<open>UPF_Resources\<close> (\<open>resources.go\<close>): the
    objects made from a specification.  The locale \<open>network_function\<close> is their contract (names,
    annotations, volumes, selector, when a Deployment can be made), with an interpretation per
    function.
  \<^item> \<open>ConfigRefs\<close>: \<open>GetAllConfigRefs\<close> of the SMF's reconciler.
  \<^item> \<open>ReconcileSteps\<close> and \<open>AMF_Reconciler\<close>, \<open>SMF_Reconciler\<close>, \<open>UPF_Reconciler\<close>
    (\<open>reconciler.go\<close> of each function): the stretches of \<open>Reconcile\<close> that are the same in all
    three, and the three methods composed of them.
  \<^item> \<open>Dispatcher\<close> (\<open>nf/reconciler.go\<close>): the routing by provider, the watched kinds, and what
    holds of a reconcile of any function: its writes, its footprint, its errors, its status.
  \<^item> \<open>Manager\<close> (\<open>main.go\<close>): the start of the process from its command line on.  Proved: the
    order of the start with every way it can fail, and what each flag ends up as.

  \<^bold>\<open>Reasoning about a reconcile.\<close>
  \<^item> \<open>Traces\<close> follows the calls, whatever the client answers: their order, what may be written,
    when a Deployment is created.  \<open>Replay\<close> shows that the log is adequate: the world after a
    reconcile is the one the logged calls lead to.
  \<^item> \<open>Reconciling\<close> shows the three methods to be one reconcile over a record of \<open>parts\<close>, so that
    each fact is proved once.  \<open>Convergence\<close> and \<open>Creation\<close> follow the objects of an API server
    along the successful branches (the locale \<open>reconciler\<close>, interpreted for each function), and
    \<open>Effects\<close> along all branches.
  \<^item> \<open>Lifecycle\<close> follows a function over several reconciles: waiting for networks, overwriting a
    settled Deployment, and the deletion of the NFDeployment.
  \<^item> \<open>Runs\<close> interleaves reconciles with users, the Deployment controller and the rest of the
    cluster as a step relation, and proves the invariants of its runs.

  \<^bold>\<open>Hypotheses.\<close>  Theorems about convergence assume a client with the laws of \<open>api_server\<close> (no
  other writer between two calls of one reconcile) and, where a controller reference is set, that
  \<open>SetControllerReference\<close> changes nothing else (\<open>ownerRefsOnly\<close>) and, where ownership matters,
  makes the NFDeployment the owner of an object that had none (\<open>ownsCreated\<close>).  Theorems about calls
  (write discipline, order, errors) hold for every client and every world.  No definition uses
  fuel: loops over slices are structural, and the JSON reader recurses on its tokens with
  \<open>encoding/json\<close>'s nesting limit.

  \<^bold>\<open>Not modelled.\<close>  Logging, contexts and the options of the logger.  Fields of the Kubernetes
  objects that the source neither reads nor sets.  The code of the libraries, whose flags,
  manager and client are parameters.  The garbage collector is stated by what it documents
  (\<open>afterDeletion\<close>), for a deletion with no reconcile in between.  The tests, the container
  images and the YAML of \<open>config\<close> and \<open>test\<close>.\<close>

end
